theory Spec2Isabelle
  imports Complex_Main
begin

section \<open>Data model of engine.js\<close>

text \<open>
  A piece is the two-character token of the source (\<open>"wP"\<close>, \<open>"bK"\<close>, ...): a colour
  and a kind. A board cell is \<open>null\<close> or a piece; the board is the 64-cell array of
  the source, index 0 = a8, index 63 = h1. Squares and coordinates are JavaScript
  numbers that only ever hold integers, so they are \<open>int\<close> here.
\<close>

datatype color = White | Black

datatype kind = Pawn | Knight | Bishop | Rook | Queen | King

type_synonym piece = "color \<times> kind"

type_synonym board = "piece option list"

datatype mtype =
  normal | capture | doublePush | enPassant | promotion | promotionCapture
  | castleKing | castleQueen

text \<open>A move object; a field the source leaves out of the literal is \<open>None\<close>.\<close>

record move =
  mfrom :: int
  mto :: int
  mtype :: mtype
  promoteTo :: "piece option"
  capturedSq :: "int option"
  rookFrom :: "int option"
  rookTo :: "int option"

record castling =
  wK :: bool
  wQ :: bool
  bK :: bool
  bQ :: bool

subsection \<open>Coordinate helpers\<close>

definition idx :: "int \<Rightarrow> int \<Rightarrow> int" where
  "idx r f = r * 8 + f"

definition row :: "int \<Rightarrow> int" where
  \<comment> \<open>\<open>Math.floor(i / 8)\<close>\<close>
  "row i = i div 8"

definition jsmod :: "int \<Rightarrow> int \<Rightarrow> int" where
  \<comment> \<open>\<open>a % n\<close> for a positive \<open>n\<close>: the remainder of JavaScript takes the sign of \<open>a\<close>\<close>
  "jsmod a n = (if 0 \<le> a then a mod n else - ((- a) mod n))"

definition col :: "int \<Rightarrow> int" where
  "col i = jsmod i 8"

definition color :: "piece option \<Rightarrow> color option" where
  "color p = map_option fst p"

definition ptype :: "piece option \<Rightarrow> kind option" where
  "ptype p = map_option snd p"

definition opp :: "color option \<Rightarrow> color" where
  \<comment> \<open>\<open>c === "w" ? "b" : "w"\<close>, also called with \<open>null\<close>\<close>
  "opp c = (if c = Some White then Black else White)"

definition isValid :: "int \<Rightarrow> int \<Rightarrow> bool" where
  "isValid r f = (0 \<le> r \<and> r < 8 \<and> 0 \<le> f \<and> f < 8)"

text \<open>
  Reading \<open>board[i]\<close>: outside the array JavaScript gives \<open>undefined\<close>, which every
  test of the engine on a cell that it can reach treats like \<open>null\<close>.
  Writing \<open>board[i] = v\<close>: past the end the array grows (the cells in between are
  holes), and a negative index touches no cell.
\<close>

definition cell :: "board \<Rightarrow> int \<Rightarrow> piece option" where
  "cell b i = (if 0 \<le> i \<and> i < int (length b) then b ! nat i else None)"

definition put :: "board \<Rightarrow> int \<Rightarrow> piece option \<Rightarrow> board" where
  "put b i v =
     (if i < 0 then b
      else if i < int (length b) then b[nat i := v]
      else b @ replicate (nat i - length b) None @ [v])"

definition mk :: "int \<Rightarrow> int \<Rightarrow> mtype \<Rightarrow> move" where
  "mk f t ty = \<lparr>mfrom = f, mto = t, mtype = ty, promoteTo = None, capturedSq = None,
                rookFrom = None, rookTo = None\<rparr>"

definition mkPromo :: "int \<Rightarrow> int \<Rightarrow> mtype \<Rightarrow> piece \<Rightarrow> move" where
  "mkPromo f t ty p = (mk f t ty)\<lparr>promoteTo := Some p\<rparr>"

definition mkEp :: "int \<Rightarrow> int \<Rightarrow> int \<Rightarrow> move" where
  "mkEp f t cs = (mk f t enPassant)\<lparr>capturedSq := Some cs\<rparr>"

definition mkCastle :: "int \<Rightarrow> int \<Rightarrow> mtype \<Rightarrow> int \<Rightarrow> int \<Rightarrow> move" where
  "mkCastle f t ty rf rt = (mk f t ty)\<lparr>rookFrom := Some rf, rookTo := Some rt\<rparr>"

definition startBoard :: board where
  "startBoard =
     map (\<lambda>k. Some (Black, k)) [Rook, Knight, Bishop, Queen, King, Bishop, Knight, Rook]
     @ replicate 8 (Some (Black, Pawn))
     @ replicate 32 None
     @ replicate 8 (Some (White, Pawn))
     @ map (\<lambda>k. Some (White, k)) [Rook, Knight, Bishop, Queen, King, Bishop, Knight, Rook]"

text \<open>\<open>xs.findIndex(P)\<close>: the first index whose element satisfies \<open>P\<close>, or \<open>-1\<close>.\<close>

fun findIndexFrom :: "('a \<Rightarrow> bool) \<Rightarrow> 'a list \<Rightarrow> int \<Rightarrow> int" where
  "findIndexFrom P [] i = - 1"
| "findIndexFrom P (x # xs) i = (if P x then i else findIndexFrom P xs (i + 1))"

definition findIndex :: "('a \<Rightarrow> bool) \<Rightarrow> 'a list \<Rightarrow> int" where
  "findIndex P xs = findIndexFrom P xs 0"

definition findKing :: "board \<Rightarrow> color \<Rightarrow> int" where
  "findKing b c = findIndex (\<lambda>p. p = Some (c, King)) b"

section \<open>Pseudo-legal move generation\<close>

text \<open>
  The two closures of \<open>getPseudoMoves\<close>. The ray march of \<open>addSlide\<close> is a loop on
  \<open>(nr, nf)\<close>; every call of the source passes one of the eight unit directions, and
  the guard on \<open>(dr, df)\<close> only says so.
\<close>

function addSlide ::
  "board \<Rightarrow> int \<Rightarrow> color \<Rightarrow> int \<Rightarrow> int \<Rightarrow> int \<Rightarrow> int \<Rightarrow> move list" where
  "addSlide b f c dr df nr nf =
     (if isValid nr nf \<and> (dr \<noteq> 0 \<or> df \<noteq> 0) then
        (case cell b (idx nr nf) of
           None \<Rightarrow> mk f (idx nr nf) normal # addSlide b f c dr df (nr + dr) (nf + df)
         | Some p \<Rightarrow> (if fst p \<noteq> c then [mk f (idx nr nf) capture] else []))
      else [])"
  by pat_completeness auto
termination
  by (relation "measure (\<lambda>(b, f, c, dr, df, nr, nf).
        nat (if 0 < dr then 8 - nr else if dr < 0 then nr + 1
             else if 0 < df then 8 - nf else nf + 1))")
     (auto simp: isValid_def)

definition addStep :: "board \<Rightarrow> int \<Rightarrow> color \<Rightarrow> int \<Rightarrow> int \<Rightarrow> move list" where
  "addStep b f c nr nf =
     (if \<not> isValid nr nf then []
      else (case cell b (idx nr nf) of
              None \<Rightarrow> [mk f (idx nr nf) normal]
            | Some p \<Rightarrow> (if fst p \<noteq> c then [mk f (idx nr nf) capture] else [])))"

definition knightJumps :: "(int \<times> int) list" where
  "knightJumps = [(-2, -1), (-2, 1), (-1, -2), (-1, 2), (1, -2), (1, 2), (2, -1), (2, 1)]"

definition diagDirs :: "(int \<times> int) list" where
  "diagDirs = [(-1, -1), (-1, 1), (1, -1), (1, 1)]"

definition straightDirs :: "(int \<times> int) list" where
  "straightDirs = [(-1, 0), (1, 0), (0, -1), (0, 1)]"

definition allDirs :: "(int \<times> int) list" where
  "allDirs = [(-1, -1), (-1, 0), (-1, 1), (0, -1), (0, 1), (1, -1), (1, 0), (1, 1)]"

definition promoKinds :: "kind list" where
  "promoKinds = [Queen, Rook, Bishop, Knight]"

text \<open>The pawn case: the block "Forward" and, for each side \<open>df\<close>, the block "Captures".\<close>

definition pawnForward :: "board \<Rightarrow> int \<Rightarrow> color \<Rightarrow> move list" where
  "pawnForward b f c =
     (let r = row f; fl = col f;
          dir = (if c = White then - 1 else 1);
          start = (if c = White then 6 else 1);
          promoRow = (if c = White then 0 else 7);
          fwd = idx (r + dir) fl
      in
        if isValid (r + dir) fl \<and> cell b fwd = None then
          (if r + dir = promoRow
           then map (\<lambda>pp. mkPromo f fwd promotion (c, pp)) promoKinds
           else [mk f fwd normal])
          @ (if r = start \<and> cell b (idx (r + 2 * dir) fl) = None
             then [mk f (idx (r + 2 * dir) fl) doublePush] else [])
        else [])"

definition pawnCapture :: "board \<Rightarrow> int \<Rightarrow> int option \<Rightarrow> color \<Rightarrow> int \<Rightarrow> move list" where
  "pawnCapture b f ep c df =
     (let r = row f; fl = col f;
          dir = (if c = White then - 1 else 1);
          promoRow = (if c = White then 0 else 7)
      in
        if \<not> isValid (r + dir) (fl + df) then []
        else
          (let to = idx (r + dir) (fl + df) in
            (case cell b to of
               None \<Rightarrow> []
             | Some p \<Rightarrow>
                 (if fst p \<noteq> c then
                    (if r + dir = promoRow
                     then map (\<lambda>pp. mkPromo f to promotionCapture (c, pp)) promoKinds
                     else [mk f to capture])
                  else []))
            @ (if ep = Some to then [mkEp f to (idx r (fl + df))] else [])))"

definition pawnMoves :: "board \<Rightarrow> int \<Rightarrow> int option \<Rightarrow> color \<Rightarrow> move list" where
  "pawnMoves b f ep c = pawnForward b f c @ concat (map (pawnCapture b f ep c) [- 1, 1])"

text \<open>
  The castling candidates of the king branch of \<open>getPseudoMoves\<close> (lines 336 to 384),
  with the square numbers as the source has them.
\<close>

definition kingCastling :: "board \<Rightarrow> int \<Rightarrow> castling \<Rightarrow> color \<Rightarrow> move list" where
  "kingCastling b f cr c =
     (if c = White then
        (if wK cr \<and> cell b 57 = None \<and> cell b 58 = None \<and> cell b 56 = Some (White, Rook)
         then [mkCastle f 58 castleKing 56 57] else [])
        @ (if wQ cr \<and> cell b 59 = None \<and> cell b 60 = None \<and> cell b 61 = None
              \<and> cell b 63 = Some (White, Rook)
           then [mkCastle f 60 castleQueen 63 61] else [])
      else
        (if bK cr \<and> cell b 1 = None \<and> cell b 2 = None \<and> cell b 0 = Some (Black, Rook)
         then [mkCastle f 2 castleKing 0 1] else [])
        @ (if bQ cr \<and> cell b 5 = None \<and> cell b 6 = None \<and> cell b 7 = None
              \<and> cell b 7 = None \<and> cell b 3 = Some (Black, Rook)
           then [mkCastle f 4 castleQueen 7 5] else []))"

definition getPseudoMoves ::
  "board \<Rightarrow> int \<Rightarrow> castling \<Rightarrow> int option \<Rightarrow> color \<Rightarrow> move list" where
  "getPseudoMoves b f cr ep c =
     (case cell b f of
        None \<Rightarrow> []
      | Some piece \<Rightarrow>
          if fst piece \<noteq> c then []
          else
            (let r = row f; fl = col f in
              case snd piece of
                Pawn \<Rightarrow> pawnMoves b f ep c
              | Knight \<Rightarrow>
                  concat (map (\<lambda>(dr, df). addStep b f c (r + dr) (fl + df)) knightJumps)
              | Bishop \<Rightarrow>
                  concat (map (\<lambda>(dr, df). addSlide b f c dr df (r + dr) (fl + df)) diagDirs)
              | Rook \<Rightarrow>
                  concat (map (\<lambda>(dr, df). addSlide b f c dr df (r + dr) (fl + df))
                            straightDirs)
              | Queen \<Rightarrow>
                  concat (map (\<lambda>(dr, df). addSlide b f c dr df (r + dr) (fl + df)) allDirs)
              | King \<Rightarrow>
                  concat (map (\<lambda>(dr, df). addStep b f c (r + dr) (fl + df)) allDirs)
                  @ kingCastling b f cr c))"

text \<open>\<open>_getCastlingMoves\<close>: the second, corrected list of castling candidates.\<close>

definition getCastlingMoves :: "board \<Rightarrow> color \<Rightarrow> castling \<Rightarrow> move list" where
  "getCastlingMoves b c cr =
     (if c = White then
        (if wK cr \<and> cell b 61 = None \<and> cell b 62 = None \<and> cell b 63 = Some (White, Rook)
         then [mkCastle 60 62 castleKing 63 61] else [])
        @ (if wQ cr \<and> cell b 57 = None \<and> cell b 58 = None \<and> cell b 59 = None
              \<and> cell b 56 = Some (White, Rook)
           then [mkCastle 60 58 castleQueen 56 59] else [])
      else
        (if bK cr \<and> cell b 5 = None \<and> cell b 6 = None \<and> cell b 7 = Some (Black, Rook)
         then [mkCastle 4 6 castleKing 7 5] else [])
        @ (if bQ cr \<and> cell b 1 = None \<and> cell b 2 = None \<and> cell b 3 = None
              \<and> cell b 0 = Some (Black, Rook)
           then [mkCastle 4 2 castleQueen 0 3] else []))"

definition getAllPseudoMoves ::
  "board \<Rightarrow> color \<Rightarrow> castling \<Rightarrow> int option \<Rightarrow> move list" where
  "getAllPseudoMoves b c cr ep =
     concat (map (\<lambda>i. case cell b i of
                        None \<Rightarrow> []
                      | Some p \<Rightarrow> if fst p = c then getPseudoMoves b i cr ep c else [])
                 [0 .. 63])
     @ getCastlingMoves b c cr"

section \<open>Attack detection\<close>

function rayHits :: "board \<Rightarrow> piece \<Rightarrow> piece \<Rightarrow> int \<Rightarrow> int \<Rightarrow> int \<Rightarrow> int \<Rightarrow> bool" where
  "rayHits b p1 p2 dr df ar af =
     (if isValid ar af \<and> (dr \<noteq> 0 \<or> df \<noteq> 0) then
        (case cell b (idx ar af) of
           None \<Rightarrow> rayHits b p1 p2 dr df (ar + dr) (af + df)
         | Some p \<Rightarrow> p = p1 \<or> p = p2)
      else False)"
  by pat_completeness auto
termination
  by (relation "measure (\<lambda>(b, p1, p2, dr, df, ar, af).
        nat (if 0 < dr then 8 - ar else if dr < 0 then ar + 1
             else if 0 < df then 8 - af else af + 1))")
     (auto simp: isValid_def)

definition stepHits :: "board \<Rightarrow> piece \<Rightarrow> int \<Rightarrow> int \<Rightarrow> bool" where
  "stepHits b p ar af = (isValid ar af \<and> cell b (idx ar af) = Some p)"

definition isAttacked :: "board \<Rightarrow> int \<Rightarrow> color \<Rightarrow> bool" where
  "isAttacked b sq byColor =
     (let r = row sq; f = col sq;
          pawnDir = (if byColor = White then 1 else - 1)
      in
        list_ex (\<lambda>df. stepHits b (byColor, Pawn) (r + pawnDir) (f + df)) [- 1, 1]
        \<or> list_ex (\<lambda>(dr, df). stepHits b (byColor, Knight) (r + dr) (f + df)) knightJumps
        \<or> list_ex (\<lambda>(dr, df). rayHits b (byColor, Bishop) (byColor, Queen) dr df
                                (r + dr) (f + df)) diagDirs
        \<or> list_ex (\<lambda>(dr, df). rayHits b (byColor, Rook) (byColor, Queen) dr df
                                (r + dr) (f + df)) straightDirs
        \<or> list_ex (\<lambda>(dr, df). stepHits b (byColor, King) (r + dr) (f + df)) allDirs)"

definition isInCheck :: "board \<Rightarrow> color \<Rightarrow> bool" where
  "isInCheck b c =
     (let kingSq = findKing b c in
      if kingSq < 0 then False else isAttacked b kingSq (opp (Some c)))"

section \<open>Applying a move to a board\<close>

definition applyMoveToBoard :: "board \<Rightarrow> move \<Rightarrow> board" where
  "applyMoveToBoard board m =
     (let piece = cell board (mfrom m);
          b1 = put board (mto m) (case promoteTo m of Some q \<Rightarrow> Some q | None \<Rightarrow> piece);
          b2 = put b1 (mfrom m) None;
          b3 = (if mtype m = enPassant
                then (case capturedSq m of Some cs \<Rightarrow> put b2 cs None | None \<Rightarrow> b2)
                else b2)
      in
        if mtype m = castleKing \<or> mtype m = castleQueen then
          (case (rookFrom m, rookTo m) of
             (Some rf, Some rt) \<Rightarrow> put (put b3 rt (cell b3 rf)) rf None
           | _ \<Rightarrow> b3)
        else b3)"

section \<open>Engine state\<close>

record moveRecord = move +
  piece :: "piece option"
  captured :: "piece option"
  san :: string
  fen :: string
  rcastlingRights :: castling
  renPassantTarget :: "int option"
  isCheck :: bool
  isMate :: bool
  isStalemate :: bool

record gameResult =
  winner :: "color option"
  reason :: string

text \<open>
  The fields of \<open>ChessEngine\<close>. \<open>positionMap\<close> is a JavaScript object used as a
  dictionary from reduced FEN keys to counts; its keys are kept in insertion order
  (\<open>undoMove\<close> reads the last one), so it is an association list.
\<close>

record engine =
  board :: board
  turn :: color
  moveHistory :: "moveRecord list"
  castlingRights :: castling
  enPassantTarget :: "int option"
  halfMoveClock :: int
  fullMoveNumber :: int
  positionMap :: "(string \<times> int) list"
  gameOver :: bool
  gameResult :: "gameResult option"

section \<open>Legal move generation\<close>

definition isLegal :: "engine \<Rightarrow> move \<Rightarrow> color \<Rightarrow> bool" where
  "isLegal s m c =
     (if (mtype m = castleKing \<or> mtype m = castleQueen)
         \<and> (isInCheck (board s) c
              \<or> list_ex (\<lambda>sq. isAttacked (applyMoveToBoard (board s) (mk (mfrom m) sq normal))
                                sq (opp (Some c)))
                   (if mtype m = castleKing then [mfrom m + 1, mfrom m + 2]
                    else [mfrom m - 1, mfrom m - 2]))
      then False
      else \<not> isInCheck (applyMoveToBoard (board s) m) c)"

definition getLegalMoves :: "engine \<Rightarrow> int \<Rightarrow> move list" where
  "getLegalMoves s fromSq =
     filter (\<lambda>m. isLegal s m (turn s))
       (filter (\<lambda>m. mfrom m = fromSq)
          (getAllPseudoMoves (board s) (turn s) (castlingRights s) (enPassantTarget s)))"

definition getAllLegalMoves :: "engine \<Rightarrow> move list" where
  "getAllLegalMoves s =
     filter (\<lambda>m. isLegal s m (turn s))
       (getAllPseudoMoves (board s) (turn s) (castlingRights s) (enPassantTarget s))"

section \<open>FEN generation and position recording\<close>

definition digitChar :: "nat \<Rightarrow> char" where
  "digitChar d = ''0123456789'' ! (d mod 10)"

text \<open>\<open>String(n)\<close> of an integer: its decimal digits, with a minus sign below zero.\<close>

function showNat :: "nat \<Rightarrow> string" where
  "showNat n = (if n < 10 then [digitChar n] else showNat (n div 10) @ [digitChar (n mod 10)])"
  by pat_completeness auto
termination
  by (relation "measure id") auto

definition showInt :: "int \<Rightarrow> string" where
  "showInt i = (if i < 0 then CHR ''-'' # showNat (nat (- i)) else showNat (nat i))"

definition kindChar :: "kind \<Rightarrow> char" where
  "kindChar k = (case k of Pawn \<Rightarrow> CHR ''P'' | Knight \<Rightarrow> CHR ''N'' | Bishop \<Rightarrow> CHR ''B''
                 | Rook \<Rightarrow> CHR ''R'' | Queen \<Rightarrow> CHR ''Q'' | King \<Rightarrow> CHR ''K'')"

definition kindCharLower :: "kind \<Rightarrow> char" where
  "kindCharLower k = (case k of Pawn \<Rightarrow> CHR ''p'' | Knight \<Rightarrow> CHR ''n'' | Bishop \<Rightarrow> CHR ''b''
                 | Rook \<Rightarrow> CHR ''r'' | Queen \<Rightarrow> CHR ''q'' | King \<Rightarrow> CHR ''k'')"

definition fenLetter :: "piece \<Rightarrow> char" where
  "fenLetter p = (if fst p = White then kindChar (snd p) else kindCharLower (snd p))"

definition colorChar :: "color \<Rightarrow> char" where
  "colorChar c = (if c = White then CHR ''w'' else CHR ''b'')"

fun fenRow :: "piece option list \<Rightarrow> int \<Rightarrow> string" where
  "fenRow [] emp = (if emp \<noteq> 0 then showInt emp else [])"
| "fenRow (None # cs) emp = fenRow cs (emp + 1)"
| "fenRow (Some p # cs) emp =
     (if emp \<noteq> 0 then showInt emp else []) @ fenLetter p # fenRow cs 0"

definition fenBoard :: "board \<Rightarrow> string" where
  "fenBoard b =
     concat (map (\<lambda>r. fenRow (map (\<lambda>f. cell b (idx r f)) [0 .. 7]) 0
                       @ (if r < 7 then ''/'' else [])) [0 .. 7])"

definition fileStr :: "int \<Rightarrow> string" where
  \<comment> \<open>\<open>"abcdefgh"[c]\<close>, which is \<open>undefined\<close> outside the string\<close>
  "fileStr c = (if 0 \<le> c \<and> c < 8 then [''abcdefgh'' ! nat c] else ''undefined'')"

definition sqToAlg :: "int \<Rightarrow> string" where
  "sqToAlg sq = fileStr (col sq) @ showInt (8 - row sq)"

definition fenCastling :: "castling \<Rightarrow> string" where
  "fenCastling cr =
     (let s = (if wK cr then ''K'' else []) @ (if wQ cr then ''Q'' else [])
              @ (if bK cr then ''k'' else []) @ (if bQ cr then ''q'' else [])
      in if s = [] then ''-'' else s)"

definition fenEp :: "int option \<Rightarrow> string" where
  "fenEp ep = (case ep of None \<Rightarrow> ''-'' | Some sq \<Rightarrow> sqToAlg sq)"

definition toFEN :: "engine \<Rightarrow> string" where
  "toFEN s =
     fenBoard (board s) @ '' '' @ [colorChar (turn s)] @ '' '' @ fenCastling (castlingRights s)
     @ '' '' @ fenEp (enPassantTarget s)
     @ '' '' @ showInt (halfMoveClock s) @ '' '' @ showInt (fullMoveNumber s)"

text \<open>\<open>str.split(c)\<close> for a one-character separator, and \<open>parts.join(sep)\<close>.\<close>

fun splitOn :: "char \<Rightarrow> string \<Rightarrow> string list" where
  "splitOn c [] = [[]]"
| "splitOn c (x # xs) =
     (if x = c then [] # splitOn c xs
      else (case splitOn c xs of [] \<Rightarrow> [[x]] | w # ws \<Rightarrow> (x # w) # ws))"

fun joinWith :: "string \<Rightarrow> string list \<Rightarrow> string" where
  "joinWith sep [] = []"
| "joinWith sep [x] = x"
| "joinWith sep (x # y # ys) = x @ sep @ joinWith sep (y # ys)"

definition fenCore :: "engine \<Rightarrow> string" where
  "fenCore s = joinWith '' '' (take 4 (splitOn CHR '' '' (toFEN s)))"

fun bump :: "string \<Rightarrow> (string \<times> int) list \<Rightarrow> (string \<times> int) list" where
  "bump k [] = [(k, 1)]"
| "bump k ((k', c) # m) = (if k = k' then (k', c + 1) # m else (k', c) # bump k m)"

definition recordPosition :: "engine \<Rightarrow> engine" where
  "recordPosition s = s\<lparr>positionMap := bump (fenCore s) (positionMap s)\<rparr>"

definition isThreefoldRepetition :: "engine \<Rightarrow> bool" where
  "isThreefoldRepetition s = list_ex (\<lambda>kc. 3 \<le> snd kc) (positionMap s)"

definition reset :: engine where
  "reset = recordPosition
     \<lparr>board = startBoard, turn = White, moveHistory = [],
      castlingRights = \<lparr>wK = True, wQ = True, bK = True, bQ = True\<rparr>,
      enPassantTarget = None, halfMoveClock = 0, fullMoveNumber = 1,
      positionMap = [], gameOver = False, gameResult = None\<rparr>"

section \<open>Insufficient material\<close>

definition insufficientBoard :: "board \<Rightarrow> bool" where
  "insufficientBoard b =
     (let pieces = List.map_filter id b in
      if length pieces = 2 then True
      else if length pieces = 3
              \<and> find (\<lambda>p. snd p = Knight \<or> snd p = Bishop) pieces \<noteq> None then True
      else if length pieces = 4 then
        (let whites = filter (\<lambda>p. fst p = White) pieces;
             blacks = filter (\<lambda>p. fst p = Black) pieces
         in if length whites = 2 \<and> length blacks = 2 then
              (case (find (\<lambda>p. snd p = Bishop) whites, find (\<lambda>p. snd p = Bishop) blacks) of
                 (Some wb, Some bb) \<Rightarrow>
                   (let wbSq = findIndex (\<lambda>p. p = Some wb) b;
                        bbSq = findIndex (\<lambda>p. p = Some bb) b
                    in jsmod (row wbSq + col wbSq) 2 = jsmod (row bbSq + col bbSq) 2)
               | _ \<Rightarrow> False)
            else False)
      else False)"

definition isInsufficientMaterial :: "engine \<Rightarrow> bool" where
  "isInsufficientMaterial s = insufficientBoard (board s)"

section \<open>Standard algebraic notation\<close>

definition getAmbiguous :: "engine \<Rightarrow> move \<Rightarrow> piece option \<Rightarrow> string" where
  "getAmbiguous s m pc =
     (let allMoves =
            filter (\<lambda>x. mto x = mto m \<and> cell (board s) (mfrom x) = pc \<and> mfrom x \<noteq> mfrom m)
              (case color pc of
                 Some c \<Rightarrow>
                   getAllPseudoMoves (board s) c (castlingRights s) (enPassantTarget s)
               | None \<Rightarrow>
                   \<comment> \<open>no cell has the colour \<open>null\<close>; \<open>_getCastlingMoves\<close> takes its else branch\<close>
                   getCastlingMoves (board s) Black (castlingRights s))
      in if allMoves = [] then []
         else if \<not> list_ex (\<lambda>x. col (mfrom x) = col (mfrom m)) allMoves
           then fileStr (col (mfrom m))
         else if \<not> list_ex (\<lambda>x. row (mfrom x) = row (mfrom m)) allMoves
           then showInt (8 - row (mfrom m))
         else sqToAlg (mfrom m))"

definition kindStr :: "kind option \<Rightarrow> string" where
  \<comment> \<open>\<open>"" + type\<close>, where \<open>type\<close> may be \<open>null\<close>\<close>
  "kindStr k = (case k of None \<Rightarrow> ''null'' | Some x \<Rightarrow> [kindChar x])"

definition toSAN :: "engine \<Rightarrow> move \<Rightarrow> piece option \<Rightarrow> piece option \<Rightarrow> string" where
  "toSAN s m pc cap =
     (if mtype m = castleKing then ''O-O''
      else if mtype m = castleQueen then ''O-O-O''
      else if ptype pc = Some Pawn then
        (if cap \<noteq> None \<or> mtype m = enPassant
         then take 1 (sqToAlg (mfrom m)) @ ''x'' @ sqToAlg (mto m)
         else sqToAlg (mto m))
        @ (case promoteTo m of None \<Rightarrow> [] | Some q \<Rightarrow> ''='' @ [kindChar (snd q)])
      else
        kindStr (ptype pc) @ getAmbiguous s m pc @ (if cap \<noteq> None then ''x'' else [])
        @ sqToAlg (mto m))"

section \<open>Executing a move\<close>

definition setGameOver :: "color option \<Rightarrow> string \<Rightarrow> engine \<Rightarrow> engine" where
  "setGameOver w r s = s\<lparr>gameOver := True, gameResult := Some \<lparr>winner = w, reason = r\<rparr>\<rparr>"

definition checkGameEnd :: "moveRecord \<Rightarrow> engine \<Rightarrow> engine" where
  "checkGameEnd lastMove s =
     (if isMate lastMove then setGameOver (Some (opp (Some (turn s)))) ''checkmate'' s
      else if isStalemate lastMove then setGameOver None ''stalemate'' s
      else if 100 \<le> halfMoveClock s then setGameOver None ''50-move rule'' s
      else if isThreefoldRepetition s then setGameOver None ''threefold repetition'' s
      else if isInsufficientMaterial s then setGameOver None ''insufficient material'' s
      else s)"

text \<open>
  The castling-rights update shared by \<open>makeMove\<close> and \<open>applyMoveFull\<close>: a king move
  clears both rights of its colour, a rook move from a corner clears that corner's right.
\<close>

definition updateRights :: "piece option \<Rightarrow> int \<Rightarrow> castling \<Rightarrow> castling" where
  "updateRights pc f cr =
     (let cr1 = (if ptype pc = Some King then
                   (if color pc = Some White then cr\<lparr>wK := False, wQ := False\<rparr>
                    else cr\<lparr>bK := False, bQ := False\<rparr>)
                 else cr)
      in if ptype pc = Some Rook then
           (let cr2 = (if f = 56 then cr1\<lparr>wQ := False\<rparr> else cr1);
                cr3 = (if f = 63 then cr2\<lparr>wK := False\<rparr> else cr2);
                cr4 = (if f = 0 then cr3\<lparr>bQ := False\<rparr> else cr3)
            in if f = 7 then cr4\<lparr>bK := False\<rparr> else cr4)
         else cr1)"

definition newEnPassant :: "piece option \<Rightarrow> move \<Rightarrow> int option" where
  "newEnPassant pc m =
     (if mtype m = doublePush
      then Some (mto m + (if color pc = Some White then 1 else - 1) * 8)
      else None)"

text \<open>
  The part of \<open>makeMove\<close> from "Apply board" to "Update clocks": the position after
  the move, with the turn not yet switched.
\<close>

definition movedState :: "engine \<Rightarrow> move \<Rightarrow> move \<Rightarrow> engine" where
  "movedState s mv found =
     (let pc = cell (board s) (mfrom mv);
          cap = cell (board s) (mto mv)
      in s\<lparr>board := applyMoveToBoard (board s) found,
           enPassantTarget := newEnPassant pc found,
           castlingRights := updateRights pc (mfrom found) (castlingRights s),
           halfMoveClock :=
             (if ptype pc = Some Pawn \<or> cap \<noteq> None \<or> mtype found = enPassant
              then 0 else halfMoveClock s + 1),
           fullMoveNumber :=
             (if color pc = Some Black then fullMoveNumber s + 1 else fullMoveNumber s)\<rparr>)"

text \<open>
  The rest of \<open>makeMove\<close> once the legal move \<open>found\<close> is known: the move record,
  the turn switch, the post-move flags, the history, the position count and the
  game-end test.
\<close>

definition commitMove :: "engine \<Rightarrow> move \<Rightarrow> move \<Rightarrow> moveRecord \<times> engine" where
  "commitMove s mv found =
     (let pc = cell (board s) (mfrom mv);
          cap = cell (board s) (mto mv);
          s1 = movedState s mv found;
          san0 = toSAN s1 found pc cap;
          fen0 = toFEN s1;
          s2 = s1\<lparr>turn := opp (color pc)\<rparr>;
          chk = isInCheck (board s2) (turn s2);
          mate = (chk \<and> getAllLegalMoves s2 = []);
          stale = (\<not> chk \<and> getAllLegalMoves s2 = []);
          rec = move.extend found
                  (moveRecord.fields pc cap
                     (if chk then san0 @ (if mate then ''#'' else ''+'') else san0)
                     fen0 (castlingRights s1) (enPassantTarget s1) chk mate stale);
          s3 = recordPosition (s2\<lparr>moveHistory := moveHistory s2 @ [rec]\<rparr>)
      in (rec, checkGameEnd rec s3))"

text \<open>
  \<open>makeMove\<close> returns \<open>false\<close> (here \<open>None\<close>) or the move record, and leaves the
  engine changed in the second case.
\<close>

definition makeMove :: "engine \<Rightarrow> move \<Rightarrow> (moveRecord \<times> engine) option" where
  "makeMove s mv =
     (if gameOver s then None
      else
        (case find (\<lambda>m. mfrom m = mfrom mv \<and> mto m = mto mv
                          \<and> (promoteTo mv = None \<or> promoteTo m = promoteTo mv))
                (getLegalMoves s (mfrom mv)) of
           None \<Rightarrow> None
         | Some found \<Rightarrow> Some (commitMove s mv found)))"

text \<open>\<open>applyMoveFull\<close>: the move applied without any check, as the search does.\<close>

definition applyMoveFull :: "engine \<Rightarrow> move \<Rightarrow> engine" where
  "applyMoveFull s m =
     (let pc = cell (board s) (mfrom m) in
      s\<lparr>board := applyMoveToBoard (board s) m,
        enPassantTarget := newEnPassant pc m,
        castlingRights := updateRights pc (mfrom m) (castlingRights s),
        turn := opp (color pc)\<rparr>)"

section \<open>FEN loading\<close>

text \<open>
  \<open>loadFEN\<close> throws in two places, both before it changes the engine. The model
  has a third outcome, \<open>Unmodelled\<close>, for input on which the source goes on with a
  value that the types here do not hold: a piece token of an unknown letter, or
  \<open>NaN\<close> from \<open>parseInt\<close> or \<open>algToSq\<close>. Strings are over ASCII.
\<close>

datatype fenError = TooFewParts | BadBoard | Unmodelled

definition isSpace :: "char \<Rightarrow> bool" where
  "isSpace c = (c \<in> set [CHR '' '', CHR 0x09, CHR 0x0A, CHR 0x0B, CHR 0x0C, CHR 0x0D])"

definition isDigit :: "char \<Rightarrow> bool" where
  "isDigit c = (c \<in> set ''0123456789'')"

definition digitVal :: "char \<Rightarrow> int" where
  "digitVal c = findIndex (\<lambda>d. d = c) ''0123456789''"

text \<open>\<open>fen.trim().split(/\s+/)\<close>: the maximal runs of characters that are not white space.\<close>

function splitWs :: "string \<Rightarrow> string list" where
  "splitWs [] = []"
| "splitWs (c # cs) =
     (if isSpace c then splitWs cs
      else takeWhile (\<lambda>x. \<not> isSpace x) (c # cs) # splitWs (dropWhile (\<lambda>x. \<not> isSpace x) cs))"
  by pat_completeness auto
termination
  by (relation "measure length") (auto simp: length_dropWhile_le less_Suc_eq_le)

definition pieceOfChar :: "char \<Rightarrow> piece option" where
  "pieceOfChar ch =
     (case find (\<lambda>p. fenLetter p = ch)
             (concat (map (\<lambda>c. map (\<lambda>k. (c, k)) [Pawn, Knight, Bishop, Rook, Queen, King])
                        [White, Black])) of
        None \<Rightarrow> None | Some p \<Rightarrow> Some p)"

fun loadRow :: "board \<Rightarrow> int \<Rightarrow> int \<Rightarrow> string \<Rightarrow> fenError + board" where
  "loadRow b r f [] = Inr b"
| "loadRow b r f (ch # cs) =
     (if isDigit ch then loadRow b r (f + digitVal ch) cs
      else (case pieceOfChar ch of
              None \<Rightarrow> Inl Unmodelled
            | Some p \<Rightarrow> loadRow (put b (idx r f) (Some p)) r (f + 1) cs))"

fun loadRows :: "board \<Rightarrow> int \<Rightarrow> string list \<Rightarrow> fenError + board" where
  "loadRows b r [] = Inr b"
| "loadRows b r (x # xs) =
     (case loadRow b r 0 x of Inl e \<Rightarrow> Inl e | Inr b' \<Rightarrow> loadRows b' (r + 1) xs)"

text \<open>
  \<open>parseInt\<close> on a token without white space: an optional sign and the longest prefix
  of decimal digits; \<open>None\<close> stands for \<open>NaN\<close> (no digit) and for the hexadecimal
  prefix \<open>0x\<close>, which the model does not read.
\<close>

definition parseInt :: "string \<Rightarrow> int option" where
  "parseInt str =
     (let neg = (take 1 str = ''-'');
          t = (if take 1 str = ''-'' \<or> take 1 str = ''+'' then drop 1 str else str);
          ds = takeWhile isDigit t
      in if ds = [] \<or> take 2 t = ''0x'' \<or> take 2 t = ''0X'' then None
         else Some ((if neg then - 1 else 1) * foldl (\<lambda>a d. 10 * a + digitVal d) 0 ds))"

definition algToSq :: "string \<Rightarrow> int option" where
  "algToSq alg =
     (case alg of
        c0 # c1 # _ \<Rightarrow>
          (if isDigit c1 then Some (idx (8 - digitVal c1) (int (of_char c0) - 97)) else None)
      | _ \<Rightarrow> None)"

definition parseEp :: "string \<Rightarrow> int option option" where
  \<comment> \<open>\<open>parts[3] === "-" ? null : this.algToSq(parts[3])\<close>; the outer \<open>None\<close> is \<open>NaN\<close>\<close>
  "parseEp str = (if str = ''-'' then Some None else map_option Some (algToSq str))"

definition loadFEN :: "engine \<Rightarrow> string \<Rightarrow> fenError + engine" where
  "loadFEN s str =
     (let parts = splitWs str in
      if length parts < 4 then Inl TooFewParts
      else
        (let rows = splitOn CHR ''/'' (parts ! 0) in
         if length rows \<noteq> 8 then Inl BadBoard
         else
           (case loadRows (replicate 64 None) 0 rows of
              Inl e \<Rightarrow> Inl e
            | Inr b \<Rightarrow>
                (case (parseEp (parts ! 3),
                       parseInt (if 4 < length parts then parts ! 4 else ''0''),
                       parseInt (if 5 < length parts then parts ! 5 else ''1'')) of
                   (Some ep, Some hm, Some fm) \<Rightarrow>
                     Inr (recordPosition
                       (s\<lparr>board := b,
                          turn := (if parts ! 1 = ''b'' then Black else White),
                          castlingRights :=
                            \<lparr>wK = CHR ''K'' \<in> set (parts ! 2), wQ = CHR ''Q'' \<in> set (parts ! 2),
                             bK = CHR ''k'' \<in> set (parts ! 2), bQ = CHR ''q'' \<in> set (parts ! 2)\<rparr>,
                          enPassantTarget := ep,
                          halfMoveClock := hm,
                          fullMoveNumber := fm,
                          positionMap := [],
                          moveHistory := [],
                          gameOver := False,
                          gameResult := None\<rparr>))
                 | _ \<Rightarrow> Inl Unmodelled))))"

section \<open>Undo\<close>

text \<open>
  \<open>Object.keys(positionMap).pop()\<close> is the key inserted last; its count goes down by
  one and the entry is deleted at zero.
\<close>

definition dropLastKey :: "(string \<times> int) list \<Rightarrow> (string \<times> int) list" where
  "dropLastKey pm =
     (if pm = [] \<or> fst (last pm) = [] then pm
      else if snd (last pm) - 1 \<le> 0 then butlast pm
      else butlast pm @ [(fst (last pm), snd (last pm) - 1)])"

definition undoMove :: "engine \<Rightarrow> fenError + (moveRecord option \<times> engine)" where
  "undoMove s =
     (if moveHistory s = [] then Inr (None, s)
      else
        (let lastRec = last (moveHistory s);
             s1 = s\<lparr>moveHistory := butlast (moveHistory s),
                    positionMap := dropLastKey (positionMap s)\<rparr>
         in
           (case (if moveHistory s1 \<noteq> []
                  then (case loadFEN s1 (fen (last (moveHistory s1))) of
                          Inl e \<Rightarrow> Inl e
                        | Inr s2 \<Rightarrow> Inr (s2\<lparr>turn := opp (color (piece lastRec))\<rparr>))
                  else Inr (reset\<lparr>moveHistory := []\<rparr>)) of
              Inl e \<Rightarrow> Inl e
            | Inr s3 \<Rightarrow> Inr (Some lastRec, s3\<lparr>gameOver := False, gameResult := None\<rparr>))))"

section \<open>Evaluation\<close>

definition pieceValue :: "kind \<Rightarrow> int" where
  "pieceValue k = (case k of Pawn \<Rightarrow> 100 | Knight \<Rightarrow> 320 | Bishop \<Rightarrow> 330 | Rook \<Rightarrow> 500
                   | Queen \<Rightarrow> 900 | King \<Rightarrow> 20000)"

datatype tableKey = Table kind | K_END

definition PST :: "tableKey \<Rightarrow> int list" where
  "PST t = (case t of
     Table Pawn \<Rightarrow>
       [0, 0, 0, 0, 0, 0, 0, 0, 50, 50, 50, 50, 50, 50, 50, 50, 10, 10, 20, 30, 30,
        20, 10, 10, 5, 5, 10, 25, 25, 10, 5, 5, 0, 0, 0, 20, 20, 0, 0, 0, 5, -5,
        -10, 0, 0, -10, -5, 5, 5, 10, 10, -20, -20, 10, 10, 5, 0, 0, 0, 0, 0, 0, 0,
        0]
   | Table Knight \<Rightarrow>
       [-50, -40, -30, -30, -30, -30, -40, -50, -40, -20, 0, 0, 0, 0, -20, -40, -30,
        0, 10, 15, 15, 10, 0, -30, -30, 5, 15, 20, 20, 15, 5, -30, -30, 0, 15, 20,
        20, 15, 0, -30, -30, 5, 10, 15, 15, 10, 5, -30, -40, -20, 0, 5, 5, 0, -20,
        -40, -50, -40, -30, -30, -30, -30, -40, -50]
   | Table Bishop \<Rightarrow>
       [-20, -10, -10, -10, -10, -10, -10, -20, -10, 0, 0, 0, 0, 0, 0, -10, -10, 0,
        5, 10, 10, 5, 0, -10, -10, 5, 5, 10, 10, 5, 5, -10, -10, 0, 10, 10, 10, 10,
        0, -10, -10, 10, 10, 10, 10, 10, 10, -10, -10, 5, 0, 0, 0, 0, 5, -10, -20,
        -10, -10, -10, -10, -10, -10, -20]
   | Table Rook \<Rightarrow>
       [0, 0, 0, 0, 0, 0, 0, 0, 5, 10, 10, 10, 10, 10, 10, 5, -5, 0, 0, 0, 0, 0, 0,
        -5, -5, 0, 0, 0, 0, 0, 0, -5, -5, 0, 0, 0, 0, 0, 0, -5, -5, 0, 0, 0, 0, 0,
        0, -5, -5, 0, 0, 0, 0, 0, 0, -5, 0, 0, 0, 5, 5, 0, 0, 0]
   | Table Queen \<Rightarrow>
       [-20, -10, -10, -5, -5, -10, -10, -20, -10, 0, 0, 0, 0, 0, 0, -10, -10, 0, 5,
        5, 5, 5, 0, -10, -5, 0, 5, 5, 5, 5, 0, -5, 0, 0, 5, 5, 5, 5, 0, -5, -10, 5,
        5, 5, 5, 5, 0, -10, -10, 0, 5, 0, 0, 0, 0, -10, -20, -10, -10, -5, -5, -10,
        -10, -20]
   | Table King \<Rightarrow>
       [-30, -40, -40, -50, -50, -40, -40, -30, -30, -40, -40, -50, -50, -40, -40,
        -30, -30, -40, -40, -50, -50, -40, -40, -30, -30, -40, -40, -50, -50, -40,
        -40, -30, -20, -30, -30, -40, -40, -30, -30, -20, -10, -20, -20, -20, -20,
        -20, -20, -10, 20, 20, 0, 0, 0, 0, 20, 20, 20, 30, 10, 0, 0, 10, 30, 20]
   | K_END \<Rightarrow>
       [-50, -40, -30, -20, -20, -30, -40, -50, -30, -20, -10, 0, 0, -10, -20, -30,
        -30, -10, 20, 30, 30, 20, -10, -30, -30, -10, 30, 40, 40, 30, -10, -30, -30,
        -10, 30, 40, 40, 30, -10, -30, -30, -10, 20, 30, 30, 20, -10, -30, -30, -30,
        0, 0, 0, 0, -30, -30, -50, -30, -30, -30, -30, -30, -30, -50])"

definition totalMat :: "board \<Rightarrow> int" where
  "totalMat b = sum_list (map (\<lambda>c. case c of None \<Rightarrow> 0 | Some p \<Rightarrow> pieceValue (snd p)) b)"

definition isEndgame :: "board \<Rightarrow> bool" where
  "isEndgame b = (totalMat b < 1500)"

definition tableKeyOf :: "kind \<Rightarrow> bool \<Rightarrow> tableKey" where
  "tableKeyOf k endgame = (if k = King \<and> endgame then K_END else Table k)"

definition tableAt :: "int list \<Rightarrow> int \<Rightarrow> int" where
  \<comment> \<open>\<open>table[i] || 0\<close>\<close>
  "tableAt t i = (if 0 \<le> i \<and> i < int (length t) then t ! nat i else 0)"

definition pieceScore :: "board \<Rightarrow> int \<Rightarrow> int" where
  "pieceScore b i =
     (case cell b i of
        None \<Rightarrow> 0
      | Some p \<Rightarrow>
          (let pidx = (if fst p = White then i else 56 - row i * 8 + col i);
               pst = tableAt (PST (tableKeyOf (snd p) (isEndgame b))) (min pidx 63)
           in (if fst p = White then 1 else - 1) * (pieceValue (snd p) + pst)))"

text \<open>
  The result of \<open>evaluate\<close> is a double: an integer sum plus \<open>(wMoves - bMoves) * 0.1\<close>.
  The model computes the same expression over the rationals.
\<close>

definition evaluate :: "engine \<Rightarrow> rat" where
  "evaluate s =
     (case gameResult s of
        Some gr \<Rightarrow>
          (case winner gr of None \<Rightarrow> 0 | Some w \<Rightarrow> if w = White then 99999 else - 99999)
      | None \<Rightarrow>
          of_int (sum_list (map (pieceScore (board s)) [0 .. 63]))
          + of_int (int (length (getAllPseudoMoves (board s) White (castlingRights s)
                                   (enPassantTarget s)))
                    - int (length (getAllPseudoMoves (board s) Black (castlingRights s)
                                     (enPassantTarget s)))) / 10)"

section \<open>The search of ai.js\<close>

text \<open>
  Scores are doubles; the search starts its windows and running bests at
  \<open>-Infinity\<close> and \<open>Infinity\<close>.
\<close>

datatype score = NegInf | Fin rat | PosInf

instantiation score :: linorder
begin

fun less_eq_score :: "score \<Rightarrow> score \<Rightarrow> bool" where
  "less_eq_score NegInf y = True"
| "less_eq_score (Fin a) NegInf = False"
| "less_eq_score (Fin a) (Fin b) = (a \<le> b)"
| "less_eq_score (Fin a) PosInf = True"
| "less_eq_score PosInf PosInf = True"
| "less_eq_score PosInf y = False"

definition less_score :: "score \<Rightarrow> score \<Rightarrow> bool" where
  "less_score x y = (x \<le> y \<and> \<not> y \<le> x)"

instance
proof
  fix x y z :: score
  show "(x < y) = (x \<le> y \<and> \<not> y \<le> x)"
    by (simp add: less_score_def)
  show "x \<le> x"
    by (cases x) simp_all
  show "x \<le> y \<Longrightarrow> y \<le> z \<Longrightarrow> x \<le> z"
    by (cases x; cases y; cases z) simp_all
  show "x \<le> y \<Longrightarrow> y \<le> x \<Longrightarrow> x = y"
    by (cases x; cases y) simp_all
  show "x \<le> y \<or> y \<le> x"
    by (cases x; cases y) auto
qed

end

text \<open>\<open>_saveState\<close> and \<open>_restoreState\<close>: a snapshot of eight fields of the engine.\<close>

record snapshot =
  sboard :: board
  sturn :: color
  scastlingRights :: castling
  senPassantTarget :: "int option"
  shalfMoveClock :: int
  sfullMoveNumber :: int
  sgameOver :: bool
  sgameResult :: "gameResult option"

definition saveState :: "engine \<Rightarrow> snapshot" where
  "saveState e =
     \<lparr>sboard = board e, sturn = turn e, scastlingRights = castlingRights e,
      senPassantTarget = enPassantTarget e, shalfMoveClock = halfMoveClock e,
      sfullMoveNumber = fullMoveNumber e, sgameOver = gameOver e,
      sgameResult = gameResult e\<rparr>"

definition restoreState :: "engine \<Rightarrow> snapshot \<Rightarrow> engine" where
  "restoreState e st =
     e\<lparr>board := sboard st, turn := sturn st, castlingRights := scastlingRights st,
       enPassantTarget := senPassantTarget st, halfMoveClock := shalfMoveClock st,
       fullMoveNumber := sfullMoveNumber st, gameOver := sgameOver st,
       gameResult := sgameResult st\<rparr>"

text \<open>
  \<open>_moveOrderScore\<close> reads \<open>engine.board[move.from][1]\<close> when the destination is
  occupied; on the moves of \<open>getAllLegalMoves\<close>, the only ones it is called with, an
  occupied destination comes with an occupied origin (lemma \<open>legal_capture_has_origin\<close>).
\<close>

definition moveOrderScore :: "engine \<Rightarrow> move \<Rightarrow> int" where
  "moveOrderScore e m =
     (case cell (board e) (mto m) of
        None \<Rightarrow> 0
      | Some cap \<Rightarrow>
          10 * pieceValue (snd cap)
          - (case cell (board e) (mfrom m) of None \<Rightarrow> 0 | Some a \<Rightarrow> pieceValue (snd a)))
     + (case promoteTo m of None \<Rightarrow> 0 | Some q \<Rightarrow> pieceValue (snd q))
     + (if mtype m = enPassant then 100 else 0)"

text \<open>\<open>moves.sort((a, b) => key(b) - key(a))\<close>: a stable sort, largest key first.\<close>

definition sortDesc :: "(move \<Rightarrow> int) \<Rightarrow> move list \<Rightarrow> move list" where
  "sortDesc key ms = sort_key (\<lambda>m. - key m) ms"

text \<open>
  The two loops of \<open>_minimax\<close> over the ordered moves. \<open>rec\<close> is the recursive call
  one ply down; the engine is saved before each move and restored after it.
\<close>

fun loopMax ::
  "(engine \<Rightarrow> score \<Rightarrow> score \<Rightarrow> score \<times> engine) \<Rightarrow> move list \<Rightarrow> engine
     \<Rightarrow> score \<Rightarrow> score \<Rightarrow> score \<Rightarrow> score \<times> engine" where
  "loopMax rec [] e alpha beta best = (best, e)"
| "loopMax rec (m # ms) e alpha beta best =
     (let saved = saveState e;
          r = rec (applyMoveFull e m) alpha beta;
          e' = restoreState (snd r) saved;
          best' = max best (fst r);
          alpha' = max alpha best'
      in if beta \<le> alpha' then (best', e') else loopMax rec ms e' alpha' beta best')"

fun loopMin ::
  "(engine \<Rightarrow> score \<Rightarrow> score \<Rightarrow> score \<times> engine) \<Rightarrow> move list \<Rightarrow> engine
     \<Rightarrow> score \<Rightarrow> score \<Rightarrow> score \<Rightarrow> score \<times> engine" where
  "loopMin rec [] e alpha beta best = (best, e)"
| "loopMin rec (m # ms) e alpha beta best =
     (let saved = saveState e;
          r = rec (applyMoveFull e m) alpha beta;
          e' = restoreState (snd r) saved;
          best' = min best (fst r);
          beta' = min beta best'
      in if beta' \<le> alpha then (best', e') else loopMin rec ms e' alpha beta' best')"

text \<open>
  \<open>_minimax(engine, depth, alpha, beta, isMaximizing)\<close>. It returns the score and
  leaves the engine as the second component. The node counter of the object is
  written and never read, and is left out.
\<close>

fun minimax :: "engine \<Rightarrow> nat \<Rightarrow> score \<Rightarrow> score \<Rightarrow> bool \<Rightarrow> score \<times> engine" where
  "minimax e 0 alpha beta isMax = (Fin (evaluate e), e)"
| "minimax e (Suc d) alpha beta isMax =
     (if gameOver e then (Fin (evaluate e), e)
      else
        (let moves = getAllLegalMoves e in
         if moves = [] then
           (if isInCheck (board e) (turn e)
            then (Fin (if isMax then - 99999 - of_nat (Suc d) else 99999 + of_nat (Suc d)), e)
            else (Fin 0, e))
         else if isMax then
           loopMax (\<lambda>e' a b. minimax e' d a b False) (sortDesc (moveOrderScore e) moves)
             e alpha beta NegInf
         else
           loopMin (\<lambda>e' a b. minimax e' d a b True) (sortDesc (moveOrderScore e) moves)
             e alpha beta PosInf))"

text \<open>
  \<open>_shuffleArray\<close>: \<open>rnd i\<close> stands for the draw \<open>Math.random()\<close> makes at index \<open>i\<close>,
  reduced to \<open>0..i\<close> as the source does with \<open>Math.floor(Math.random() * (i + 1))\<close>.
\<close>

fun shuffleFrom :: "(nat \<Rightarrow> nat) \<Rightarrow> nat \<Rightarrow> 'a list \<Rightarrow> 'a list" where
  "shuffleFrom rnd 0 xs = xs"
| "shuffleFrom rnd (Suc i) xs =
     (let j = rnd (Suc i) mod (Suc i + 1)
      in shuffleFrom rnd i (xs[Suc i := xs ! j, j := xs ! Suc i]))"

definition shuffleArray :: "(nat \<Rightarrow> nat) \<Rightarrow> 'a list \<Rightarrow> 'a list" where
  "shuffleArray rnd xs = shuffleFrom rnd (length xs - 1) xs"

fun rootLoop ::
  "nat \<Rightarrow> bool \<Rightarrow> move list \<Rightarrow> engine \<Rightarrow> move option \<Rightarrow> score \<Rightarrow> move option \<times> engine" where
  "rootLoop maxDepth isMax [] e bestMove bestScore = (bestMove, e)"
| "rootLoop maxDepth isMax (m # ms) e bestMove bestScore =
     (let savedState = saveState e;
          r = minimax (applyMoveFull e m) (maxDepth - 1) NegInf PosInf (\<not> isMax);
          e' = restoreState (snd r) savedState
      in if (if isMax then bestScore < fst r else fst r < bestScore)
         then rootLoop maxDepth isMax ms e' (Some m) (fst r)
         else rootLoop maxDepth isMax ms e' bestMove bestScore)"

text \<open>
  \<open>getBestMove\<close> with the search depth of the object (\<open>this.depth\<close>, which the
  constructor and \<open>setDifficulty\<close> keep between 1 and 5) as \<open>maxDepth\<close>. The flag
  \<open>running\<close> is set at entry and nothing clears it while the loop runs.
\<close>

definition getBestMove :: "(nat \<Rightarrow> nat) \<Rightarrow> nat \<Rightarrow> engine \<Rightarrow> move option \<times> engine" where
  "getBestMove rnd maxDepth e =
     (if gameOver e then (None, e)
      else
        (let isMax = (turn e = White);
             moves = getAllLegalMoves e
         in if moves = [] then (None, e)
            else rootLoop maxDepth isMax
                   (sortDesc (\<lambda>m. if cell (board e) (mto m) \<noteq> None then 1 else 0)
                      (shuffleArray rnd moves))
                   e None (if isMax then NegInf else PosInf)))"

text \<open>
  The unpruned traversal the search is compared with: the same tree (the legal moves
  of each position, applied with \<open>applyMoveFull\<close>), the same evaluator and terminal
  scores, the maximum or minimum over all children, no window.
\<close>

fun fullMinimax :: "engine \<Rightarrow> nat \<Rightarrow> bool \<Rightarrow> score" where
  "fullMinimax e 0 isMax = Fin (evaluate e)"
| "fullMinimax e (Suc d) isMax =
     (if gameOver e then Fin (evaluate e)
      else
        (let moves = getAllLegalMoves e in
         if moves = [] then
           (if isInCheck (board e) (turn e)
            then Fin (if isMax then - 99999 - of_nat (Suc d) else 99999 + of_nat (Suc d))
            else Fin 0)
         else if isMax then
           foldl max NegInf (map (\<lambda>m. fullMinimax (applyMoveFull e m) d False)
                               (sortDesc (moveOrderScore e) moves))
         else
           foldl min PosInf (map (\<lambda>m. fullMinimax (applyMoveFull e m) d True)
                               (sortDesc (moveOrderScore e) moves))))"

section \<open>Auxiliary functions for evaluation\<close>

text \<open>
  The squares a ray or a set of jumps visits, as lists, and the attack test and the
  legality test phrased on lists of cells. They are proved equal to the functions
  above and serve to evaluate them on concrete boards.
\<close>

fun firstHit :: "piece option list \<Rightarrow> piece \<Rightarrow> piece \<Rightarrow> bool" where
  "firstHit [] p1 p2 = False"
| "firstHit (None # cs) p1 p2 = firstHit cs p1 p2"
| "firstHit (Some p # cs) p1 p2 = (p = p1 \<or> p = p2)"

function raySquares :: "int \<Rightarrow> int \<Rightarrow> int \<Rightarrow> int \<Rightarrow> int list" where
  "raySquares dr df ar af =
     (if isValid ar af \<and> (dr \<noteq> 0 \<or> df \<noteq> 0)
      then idx ar af # raySquares dr df (ar + dr) (af + df) else [])"
  by pat_completeness auto
termination
  by (relation "measure (\<lambda>(dr, df, ar, af).
        nat (if 0 < dr then 8 - ar else if dr < 0 then ar + 1
             else if 0 < df then 8 - af else af + 1))")
     (auto simp: isValid_def)

definition stepSquares :: "(int \<times> int) list \<Rightarrow> int \<Rightarrow> int \<Rightarrow> int list" where
  "stepSquares jumps r f =
     map (\<lambda>(dr, df). idx (r + dr) (f + df))
       (filter (\<lambda>(dr, df). isValid (r + dr) (f + df)) jumps)"

definition attackedL ::
  "color \<Rightarrow> piece option list \<Rightarrow> piece option list \<Rightarrow> piece option list list
     \<Rightarrow> piece option list list \<Rightarrow> piece option list \<Rightarrow> bool" where
  "attackedL c pawns knights diags straights kings =
     (list_ex (\<lambda>x. x = Some (c, Pawn)) pawns
      \<or> list_ex (\<lambda>x. x = Some (c, Knight)) knights
      \<or> list_ex (\<lambda>r. firstHit r (c, Bishop) (c, Queen)) diags
      \<or> list_ex (\<lambda>r. firstHit r (c, Rook) (c, Queen)) straights
      \<or> list_ex (\<lambda>x. x = Some (c, King)) kings)"

definition kingAttacked :: "board \<Rightarrow> color \<Rightarrow> int \<Rightarrow> bool" where
  "kingAttacked b byColor kingSq = (if kingSq < 0 then False else isAttacked b kingSq byColor)"

definition isLegalB :: "board \<Rightarrow> move \<Rightarrow> color \<Rightarrow> bool" where
  "isLegalB b m c =
     (if (mtype m = castleKing \<or> mtype m = castleQueen)
         \<and> (isInCheck b c
              \<or> list_ex (\<lambda>sq. isAttacked (applyMoveToBoard b (mk (mfrom m) sq normal))
                                sq (opp (Some c)))
                   (if mtype m = castleKing then [mfrom m + 1, mfrom m + 2]
                    else [mfrom m - 1, mfrom m - 2]))
      then False
      else \<not> isInCheck (applyMoveToBoard b m) c)"

definition legalMovesB :: "board \<Rightarrow> color \<Rightarrow> castling \<Rightarrow> int option \<Rightarrow> move list" where
  "legalMovesB b c cr ep = filter (\<lambda>m. isLegalB b m c) (getAllPseudoMoves b c cr ep)"

definition moveRook :: "board \<Rightarrow> int \<Rightarrow> int \<Rightarrow> board" where
  "moveRook b rf rt = put (put b rt (cell b rf)) rf None"

section \<open>Statements about makeMove, and positions used as test inputs\<close>

text \<open>The test \<open>makeMove\<close> applies to each legal move: the predicate of its \<open>find\<close>.\<close>

definition candidateMatches :: "move \<Rightarrow> move \<Rightarrow> bool" where
  "candidateMatches mv m =
     (mfrom m = mfrom mv \<and> mto m = mto mv \<and> (promoteTo mv = None \<or> promoteTo m = promoteTo mv))"

text \<open>
  The match as the specification words it: the square pair, and a matching promotion
  piece when the legal move is a pawn promotion.
\<close>

definition specMatches :: "move \<Rightarrow> move \<Rightarrow> bool" where
  "specMatches mv m =
     (mfrom m = mfrom mv \<and> mto m = mto mv
      \<and> (if mtype m = promotion \<or> mtype m = promotionCapture
          then promoteTo m = promoteTo mv else True))"

definition specAccepts :: "engine \<Rightarrow> move \<Rightarrow> bool" where
  "specAccepts s mv = (\<not> gameOver s \<and> list_ex (specMatches mv) (getAllLegalMoves s))"

text \<open>The engine as \<open>loadFEN\<close> leaves it for a position given by its six fields.\<close>

definition position ::
  "board \<Rightarrow> color \<Rightarrow> castling \<Rightarrow> int option \<Rightarrow> int \<Rightarrow> int \<Rightarrow> engine" where
  "position b t cr ep hm fm =
     recordPosition
       \<lparr>board = b, turn = t, moveHistory = [], castlingRights = cr, enPassantTarget = ep,
        halfMoveClock = hm, fullMoveNumber = fm, positionMap = [], gameOver = False,
        gameResult = None\<rparr>"

definition noRights :: castling where
  "noRights = \<lparr>wK = False, wQ = False, bK = False, bQ = False\<rparr>"

definition allRights :: castling where
  "allRights = \<lparr>wK = True, wQ = True, bK = True, bQ = True\<rparr>"

text \<open>\<open>8/P7/8/8/8/8/8/k6K w - - 0 1\<close>: a white pawn on a7 about to promote.\<close>

definition promoBoard :: board where
  "promoBoard =
     [None, None, None, None, None, None, None, None,
      Some (White, Pawn), None, None, None, None, None, None, None,
      None, None, None, None, None, None, None, None,
      None, None, None, None, None, None, None, None,
      None, None, None, None, None, None, None, None,
      None, None, None, None, None, None, None, None,
      None, None, None, None, None, None, None, None,
      Some (Black, King), None, None, None, None, None, None, Some (White, King)]"

definition promoState :: engine where
  "promoState = position promoBoard White noRights None 0 1"

text \<open>
  \<open>3rk3/8/8/8/8/8/8/R3K2R w KQ - 0 1\<close>: the black rook on d8 attacks d1, the square
  between the white king and c1.
\<close>

definition castleBoard :: board where
  "castleBoard =
     [None, None, None, Some (Black, Rook), Some (Black, King), None, None, None,
      None, None, None, None, None, None, None, None,
      None, None, None, None, None, None, None, None,
      None, None, None, None, None, None, None, None,
      None, None, None, None, None, None, None, None,
      None, None, None, None, None, None, None, None,
      None, None, None, None, None, None, None, None,
      Some (White, Rook), None, None, None, Some (White, King), None, None,
      Some (White, Rook)]"

definition castleState :: engine where
  "castleState =
     position castleBoard White \<lparr>wK = True, wQ = True, bK = False, bQ = False\<rparr> None 0 1"

text \<open>
  \<open>rnbqkbnr/1ppppppp/8/p7/8/3P1N2/PPP1PPPP/RNBQKB1R w KQkq - 0 3\<close>, the position
  after 1. Nf3 a6 2. d3 a5: both white knights can go to d2.
\<close>

definition knightBoard :: board where
  "knightBoard =
     [Some (Black, Rook), Some (Black, Knight), Some (Black, Bishop), Some (Black, Queen),
      Some (Black, King), Some (Black, Bishop), Some (Black, Knight), Some (Black, Rook),
      None, Some (Black, Pawn), Some (Black, Pawn), Some (Black, Pawn),
      Some (Black, Pawn), Some (Black, Pawn), Some (Black, Pawn), Some (Black, Pawn),
      None, None, None, None, None, None, None, None,
      Some (Black, Pawn), None, None, None, None, None, None, None,
      None, None, None, None, None, None, None, None,
      None, None, None, Some (White, Pawn), None, Some (White, Knight), None, None,
      Some (White, Pawn), Some (White, Pawn), Some (White, Pawn), None,
      Some (White, Pawn), Some (White, Pawn), Some (White, Pawn), Some (White, Pawn),
      Some (White, Rook), Some (White, Knight), Some (White, Bishop), Some (White, Queen),
      Some (White, King), Some (White, Bishop), None, Some (White, Rook)]"

definition knightState :: engine where
  "knightState = position knightBoard White allRights None 0 3"

text \<open>The object \<open>{from, to}\<close> a caller hands to \<open>makeMove\<close>.\<close>

definition candidate :: "int \<Rightarrow> int \<Rightarrow> move" where
  "candidate f t = mk f t normal"

text \<open>
  The start of a game, 1. e4 e5: what \<open>makeMove\<close> returns for e2-e4 on the start
  position and for e7-e5 after it (record and engine).
\<close>

definition e2e4 :: "moveRecord \<times> engine" where
  "e2e4 = commitMove reset (candidate 52 36) (mk 52 36 doublePush)"

definition e7e5 :: "moveRecord \<times> engine" where
  "e7e5 = commitMove (snd e2e4) (candidate 12 28) (mk 12 28 doublePush)"

section \<open>Predicates and auxiliary functions of the proofs\<close>

text \<open>The characters a FEN field is made of.\<close>

definition fenChar :: "char \<Rightarrow> bool" where
  "fenChar c = (c \<noteq> CHR '' '' \<and> c \<noteq> CHR ''/'' \<and> \<not> isSpace c)"

text \<open>
  \<open>place b off cs\<close> writes the pieces of \<open>cs\<close> into consecutive cells from \<open>off\<close> on:
  what \<open>loadFEN\<close> does with the text of one rank.
\<close>

fun place :: "board \<Rightarrow> int \<Rightarrow> piece option list \<Rightarrow> board" where
  "place b off [] = b"
| "place b off (None # cs) = place b (off + 1) cs"
| "place b off (Some p # cs) = place (put b off (Some p)) (off + 1) cs"

definition rowCells :: "board \<Rightarrow> int \<Rightarrow> piece option list" where
  "rowCells b r = map (\<lambda>f. cell b (idx r f)) [0 .. 7]"

definition wfPosition :: "engine \<Rightarrow> bool" where
  "wfPosition s =
     (length (board s) = 64
      \<and> (case enPassantTarget s of None \<Rightarrow> True | Some q \<Rightarrow> 0 \<le> q \<and> q < 64))"

definition inBoard :: "int \<Rightarrow> bool" where
  "inBoard i = (0 \<le> i \<and> i < 64)"

definition optInBoard :: "int option \<Rightarrow> bool" where
  "optInBoard x = (case x of None \<Rightarrow> True | Some i \<Rightarrow> inBoard i)"

text \<open>
  What every generated move of colour \<open>c\<close> satisfies: its squares lie on the board, its
  origin holds a piece of colour \<open>c\<close> unless it is one of the castling candidates of
  \<open>_getCastlingMoves\<close>, and a double push ends on the fourth rank of its side.
\<close>

definition moveOK :: "board \<Rightarrow> color \<Rightarrow> move \<Rightarrow> bool" where
  "moveOK b c m =
     (inBoard (mfrom m) \<and> inBoard (mto m) \<and> optInBoard (capturedSq m)
      \<and> optInBoard (rookFrom m) \<and> optInBoard (rookTo m)
      \<and> (if mtype m = doublePush
          then color (cell b (mfrom m)) = Some c
               \<and> (if c = White then 32 \<le> mto m \<and> mto m < 40 else 24 \<le> mto m \<and> mto m < 32)
          else True))"

text \<open>
  The engine states a game can reach: the start position, and what \<open>makeMove\<close> and
  \<open>undoMove\<close> lead to from a reachable state.
\<close>

inductive reachable :: "engine \<Rightarrow> bool" where
  start: "reachable reset"
| move: "reachable s \<Longrightarrow> makeMove s mv = Some (r, s') \<Longrightarrow> reachable s'"
| undo: "reachable s \<Longrightarrow> undoMove s = Inr (x, s') \<Longrightarrow> reachable s'"

text \<open>
  The invariant of the reachable states: a board of 64 cells, an en-passant target on
  the board, stored FEN strings that are exports of such positions, a result only when
  the game is over, and no position counted three times while the game goes on.
\<close>

definition fenOK :: "moveRecord \<Rightarrow> bool" where
  "fenOK r = (\<exists>t. wfPosition t \<and> fen r = toFEN t)"

definition engineInv :: "engine \<Rightarrow> bool" where
  "engineInv s =
     (wfPosition s \<and> list_all fenOK (moveHistory s)
      \<and> (gameResult s \<noteq> None \<longrightarrow> gameOver s)
      \<and> (\<not> gameOver s \<longrightarrow> list_all (\<lambda>kc. snd kc < 3) (positionMap s)))"

text \<open>The state \<open>commitMove\<close> hands to \<open>_checkGameEnd\<close>.\<close>

definition committed :: "engine \<Rightarrow> move \<Rightarrow> move \<Rightarrow> moveRecord \<Rightarrow> engine" where
  "committed s mv found r =
     recordPosition
       ((movedState s mv found)
          \<lparr>turn := opp (color (cell (board s) (mfrom mv))),
           moveHistory := moveHistory s @ [r]\<rparr>)"

text \<open>The count \<open>positionMap[key] || 0\<close>.\<close>

definition lookupCount :: "(string \<times> int) list \<Rightarrow> string \<Rightarrow> int" where
  "lookupCount pm k = (case map_of pm k of None \<Rightarrow> 0 | Some c \<Rightarrow> c)"

section \<open>A game with a repetition and an undo\<close>

text \<open>
  A caller that plays a move by its squares, as the board of the user interface does
  with \<open>engine.makeMove({from, to})\<close>, and one that undoes a move; a rejected call
  leaves the engine as it is.
\<close>

definition playMove :: "engine \<Rightarrow> int \<times> int \<Rightarrow> engine" where
  "playMove s ft =
     (case makeMove s (candidate (fst ft) (snd ft)) of None \<Rightarrow> s | Some (r, s') \<Rightarrow> s')"

definition undone :: "engine \<Rightarrow> engine" where
  "undone s = (case undoMove s of Inl e \<Rightarrow> s | Inr (r, s') \<Rightarrow> s')"

text \<open>A position of a game that goes on, field by field.\<close>

definition stands ::
  "engine \<Rightarrow> board \<Rightarrow> color \<Rightarrow> castling \<Rightarrow> int option \<Rightarrow> int \<Rightarrow> (string \<times> int) list \<Rightarrow> bool"
  where
  "stands s b t cr ep hm pm =
     (board s = b \<and> turn s = t \<and> castlingRights s = cr \<and> enPassantTarget s = ep
      \<and> halfMoveClock s = hm \<and> positionMap s = pm \<and> \<not> gameOver s \<and> gameResult s = None)"

text \<open>
  The boards and the engine states of the game 1. e3 Nf6 2. Nf3 Ng8 3. Ng1 Nf6, an undo,
  and then Bd3 Nf6 Be2 Ng8 Bf1.
\<close>

definition repBoard0 :: board where
  "repBoard0 =
     [Some (Black, Rook), Some (Black, Knight), Some (Black, Bishop), Some (Black, Queen), Some
        (Black, King), Some (Black, Bishop), Some (Black, Knight), Some (Black, Rook),
      Some (Black, Pawn), Some (Black, Pawn), Some (Black, Pawn), Some (Black, Pawn), Some
        (Black, Pawn), Some (Black, Pawn), Some (Black, Pawn), Some (Black, Pawn),
      None, None, None, None, None, None, None, None,
      None, None, None, None, None, None, None, None,
      None, None, None, None, None, None, None, None,
      None, None, None, None, None, None, None, None,
      Some (White, Pawn), Some (White, Pawn), Some (White, Pawn), Some (White, Pawn), Some
        (White, Pawn), Some (White, Pawn), Some (White, Pawn), Some (White, Pawn),
      Some (White, Rook), Some (White, Knight), Some (White, Bishop), Some (White, Queen), Some
        (White, King), Some (White, Bishop), Some (White, Knight), Some (White, Rook)]"

definition shuffle1 :: engine where
  "shuffle1 = playMove reset (52, 44)"

definition repBoard1 :: board where
  "repBoard1 =
     [Some (Black, Rook), Some (Black, Knight), Some (Black, Bishop), Some (Black, Queen), Some
        (Black, King), Some (Black, Bishop), Some (Black, Knight), Some (Black, Rook),
      Some (Black, Pawn), Some (Black, Pawn), Some (Black, Pawn), Some (Black, Pawn), Some
        (Black, Pawn), Some (Black, Pawn), Some (Black, Pawn), Some (Black, Pawn),
      None, None, None, None, None, None, None, None,
      None, None, None, None, None, None, None, None,
      None, None, None, None, None, None, None, None,
      None, None, None, None, Some (White, Pawn), None, None, None,
      Some (White, Pawn), Some (White, Pawn), Some (White, Pawn), Some (White, Pawn), None,
        Some (White, Pawn), Some (White, Pawn), Some (White, Pawn),
      Some (White, Rook), Some (White, Knight), Some (White, Bishop), Some (White, Queen), Some
        (White, King), Some (White, Bishop), Some (White, Knight), Some (White, Rook)]"

definition shuffle2 :: engine where
  "shuffle2 = playMove shuffle1 (6, 21)"

definition repBoard2 :: board where
  "repBoard2 =
     [Some (Black, Rook), Some (Black, Knight), Some (Black, Bishop), Some (Black, Queen), Some
        (Black, King), Some (Black, Bishop), None, Some (Black, Rook),
      Some (Black, Pawn), Some (Black, Pawn), Some (Black, Pawn), Some (Black, Pawn), Some
        (Black, Pawn), Some (Black, Pawn), Some (Black, Pawn), Some (Black, Pawn),
      None, None, None, None, None, Some (Black, Knight), None, None,
      None, None, None, None, None, None, None, None,
      None, None, None, None, None, None, None, None,
      None, None, None, None, Some (White, Pawn), None, None, None,
      Some (White, Pawn), Some (White, Pawn), Some (White, Pawn), Some (White, Pawn), None,
        Some (White, Pawn), Some (White, Pawn), Some (White, Pawn),
      Some (White, Rook), Some (White, Knight), Some (White, Bishop), Some (White, Queen), Some
        (White, King), Some (White, Bishop), Some (White, Knight), Some (White, Rook)]"

definition shuffle3 :: engine where
  "shuffle3 = playMove shuffle2 (62, 45)"

definition repBoard3 :: board where
  "repBoard3 =
     [Some (Black, Rook), Some (Black, Knight), Some (Black, Bishop), Some (Black, Queen), Some
        (Black, King), Some (Black, Bishop), None, Some (Black, Rook),
      Some (Black, Pawn), Some (Black, Pawn), Some (Black, Pawn), Some (Black, Pawn), Some
        (Black, Pawn), Some (Black, Pawn), Some (Black, Pawn), Some (Black, Pawn),
      None, None, None, None, None, Some (Black, Knight), None, None,
      None, None, None, None, None, None, None, None,
      None, None, None, None, None, None, None, None,
      None, None, None, None, Some (White, Pawn), Some (White, Knight), None, None,
      Some (White, Pawn), Some (White, Pawn), Some (White, Pawn), Some (White, Pawn), None,
        Some (White, Pawn), Some (White, Pawn), Some (White, Pawn),
      Some (White, Rook), Some (White, Knight), Some (White, Bishop), Some (White, Queen), Some
        (White, King), Some (White, Bishop), None, Some (White, Rook)]"

definition shuffle4 :: engine where
  "shuffle4 = playMove shuffle3 (21, 6)"

definition repBoard4 :: board where
  "repBoard4 =
     [Some (Black, Rook), Some (Black, Knight), Some (Black, Bishop), Some (Black, Queen), Some
        (Black, King), Some (Black, Bishop), Some (Black, Knight), Some (Black, Rook),
      Some (Black, Pawn), Some (Black, Pawn), Some (Black, Pawn), Some (Black, Pawn), Some
        (Black, Pawn), Some (Black, Pawn), Some (Black, Pawn), Some (Black, Pawn),
      None, None, None, None, None, None, None, None,
      None, None, None, None, None, None, None, None,
      None, None, None, None, None, None, None, None,
      None, None, None, None, Some (White, Pawn), Some (White, Knight), None, None,
      Some (White, Pawn), Some (White, Pawn), Some (White, Pawn), Some (White, Pawn), None,
        Some (White, Pawn), Some (White, Pawn), Some (White, Pawn),
      Some (White, Rook), Some (White, Knight), Some (White, Bishop), Some (White, Queen), Some
        (White, King), Some (White, Bishop), None, Some (White, Rook)]"

definition shuffle5 :: engine where
  "shuffle5 = playMove shuffle4 (45, 62)"

definition shuffle6 :: engine where
  "shuffle6 = playMove shuffle5 (6, 21)"

definition shuffleU :: engine where
  "shuffleU = undone shuffle6"

definition replay1 :: engine where
  "replay1 = playMove shuffleU (61, 43)"

definition repBoard5 :: board where
  "repBoard5 =
     [Some (Black, Rook), Some (Black, Knight), Some (Black, Bishop), Some (Black, Queen), Some
        (Black, King), Some (Black, Bishop), Some (Black, Knight), Some (Black, Rook),
      Some (Black, Pawn), Some (Black, Pawn), Some (Black, Pawn), Some (Black, Pawn), Some
        (Black, Pawn), Some (Black, Pawn), Some (Black, Pawn), Some (Black, Pawn),
      None, None, None, None, None, None, None, None,
      None, None, None, None, None, None, None, None,
      None, None, None, None, None, None, None, None,
      None, None, None, Some (White, Bishop), Some (White, Pawn), None, None, None,
      Some (White, Pawn), Some (White, Pawn), Some (White, Pawn), Some (White, Pawn), None,
        Some (White, Pawn), Some (White, Pawn), Some (White, Pawn),
      Some (White, Rook), Some (White, Knight), Some (White, Bishop), Some (White, Queen), Some
        (White, King), None, Some (White, Knight), Some (White, Rook)]"

definition replay2 :: engine where
  "replay2 = playMove replay1 (6, 21)"

definition repBoard6 :: board where
  "repBoard6 =
     [Some (Black, Rook), Some (Black, Knight), Some (Black, Bishop), Some (Black, Queen), Some
        (Black, King), Some (Black, Bishop), None, Some (Black, Rook),
      Some (Black, Pawn), Some (Black, Pawn), Some (Black, Pawn), Some (Black, Pawn), Some
        (Black, Pawn), Some (Black, Pawn), Some (Black, Pawn), Some (Black, Pawn),
      None, None, None, None, None, Some (Black, Knight), None, None,
      None, None, None, None, None, None, None, None,
      None, None, None, None, None, None, None, None,
      None, None, None, Some (White, Bishop), Some (White, Pawn), None, None, None,
      Some (White, Pawn), Some (White, Pawn), Some (White, Pawn), Some (White, Pawn), None,
        Some (White, Pawn), Some (White, Pawn), Some (White, Pawn),
      Some (White, Rook), Some (White, Knight), Some (White, Bishop), Some (White, Queen), Some
        (White, King), None, Some (White, Knight), Some (White, Rook)]"

definition replay3 :: engine where
  "replay3 = playMove replay2 (43, 52)"

definition repBoard7 :: board where
  "repBoard7 =
     [Some (Black, Rook), Some (Black, Knight), Some (Black, Bishop), Some (Black, Queen), Some
        (Black, King), Some (Black, Bishop), None, Some (Black, Rook),
      Some (Black, Pawn), Some (Black, Pawn), Some (Black, Pawn), Some (Black, Pawn), Some
        (Black, Pawn), Some (Black, Pawn), Some (Black, Pawn), Some (Black, Pawn),
      None, None, None, None, None, Some (Black, Knight), None, None,
      None, None, None, None, None, None, None, None,
      None, None, None, None, None, None, None, None,
      None, None, None, None, Some (White, Pawn), None, None, None,
      Some (White, Pawn), Some (White, Pawn), Some (White, Pawn), Some (White, Pawn), Some
        (White, Bishop), Some (White, Pawn), Some (White, Pawn), Some (White, Pawn),
      Some (White, Rook), Some (White, Knight), Some (White, Bishop), Some (White, Queen), Some
        (White, King), None, Some (White, Knight), Some (White, Rook)]"

definition replay4 :: engine where
  "replay4 = playMove replay3 (21, 6)"

definition repBoard8 :: board where
  "repBoard8 =
     [Some (Black, Rook), Some (Black, Knight), Some (Black, Bishop), Some (Black, Queen), Some
        (Black, King), Some (Black, Bishop), Some (Black, Knight), Some (Black, Rook),
      Some (Black, Pawn), Some (Black, Pawn), Some (Black, Pawn), Some (Black, Pawn), Some
        (Black, Pawn), Some (Black, Pawn), Some (Black, Pawn), Some (Black, Pawn),
      None, None, None, None, None, None, None, None,
      None, None, None, None, None, None, None, None,
      None, None, None, None, None, None, None, None,
      None, None, None, None, Some (White, Pawn), None, None, None,
      Some (White, Pawn), Some (White, Pawn), Some (White, Pawn), Some (White, Pawn), Some
        (White, Bishop), Some (White, Pawn), Some (White, Pawn), Some (White, Pawn),
      Some (White, Rook), Some (White, Knight), Some (White, Bishop), Some (White, Queen), Some
        (White, King), None, Some (White, Knight), Some (White, Rook)]"

definition replay5 :: engine where
  "replay5 = playMove replay4 (52, 61)"

section \<open>Counting move sequences\<close>

text \<open>
  \<open>perft n s\<close> is the number of sequences of \<open>n\<close> moves from the position \<open>s\<close>: every
  move of \<open>getAllLegalMoves\<close> is applied with \<open>applyMoveFull\<close>, as the engine's own replay
  and the search do, and the count goes on from the position reached. Engine states are
  values here, so each move is applied to the position it was generated from.
\<close>

fun perft :: "nat \<Rightarrow> engine \<Rightarrow> nat" where
  "perft 0 s = 1"
| "perft (Suc n) s = sum_list (map (\<lambda>m. perft n (applyMoveFull s m)) (getAllLegalMoves s))"

section \<open>A table-driven move generator\<close>

text \<open>
  A second generator of the legal moves, written for evaluation by rewriting: it reads
  the geometry from tables and knows where the kings stand. It is proved equal to
  \<open>getAllLegalMoves\<close> on every board of 64 cells with one king of each colour (lemmas
  \<open>legalF_legal\<close> and \<open>perft_fast\<close>).
\<close>

text \<open>
  The squares a knight or a king reaches from a square, and the rays of a sliding piece,
  as lists; for the squares of the board they are tables (lemmas \<open>knightT_tab\<close>,
  \<open>kingT_tab\<close>, \<open>raysT_diagDirs\<close> and the like).
\<close>

definition knightT :: "int \<Rightarrow> int list" where
  "knightT i = stepSquares knightJumps (row i) (col i)"

definition kingT :: "int \<Rightarrow> int list" where
  "kingT i = stepSquares allDirs (row i) (col i)"

definition raysT :: "(int \<times> int) list \<Rightarrow> int \<Rightarrow> int list list" where
  "raysT dirs i = map (\<lambda>(dr, df). raySquares dr df (row i + dr) (col i + df)) dirs"

definition oppc :: "color \<Rightarrow> color" where
  "oppc c = opp (Some c)"

text \<open>
  The moves of \<open>addStep\<close> and \<open>addSlide\<close> along a list of target squares, and the
  pawn moves from the forward square, the double-push square and the capture squares.
\<close>

fun stepC :: "color \<Rightarrow> int \<Rightarrow> int \<Rightarrow> piece option \<Rightarrow> move list" where
  "stepC c f t None = [mk f t normal]"
| "stepC c f t (Some (c', k)) = (if c' = c then [] else [mk f t capture])"

fun stepsL :: "board \<Rightarrow> color \<Rightarrow> int \<Rightarrow> int list \<Rightarrow> move list" where
  "stepsL b c f [] = []"
| "stepsL b c f (t # ts) = stepC c f t (cell b t) @ stepsL b c f ts"

fun slideL :: "board \<Rightarrow> color \<Rightarrow> int \<Rightarrow> int list \<Rightarrow> move list" where
  "slideL b c f [] = []"
| "slideL b c f (t # ts) =
     (case cell b t of
        None \<Rightarrow> mk f t normal # slideL b c f ts
      | Some p \<Rightarrow> if fst p = c then [] else [mk f t capture])"

definition slideC ::
  "color \<Rightarrow> int \<Rightarrow> int \<Rightarrow> piece option \<Rightarrow> board \<Rightarrow> int list \<Rightarrow> move list" where
  "slideC c f t x b ts =
     (case x of
        None \<Rightarrow> mk f t normal # slideL b c f ts
      | Some p \<Rightarrow> if fst p = c then [] else [mk f t capture])"

fun raysL :: "board \<Rightarrow> color \<Rightarrow> int \<Rightarrow> int list list \<Rightarrow> move list" where
  "raysL b c f [] = []"
| "raysL b c f (r # rs) = slideL b c f r @ raysL b c f rs"

fun dblC :: "int \<Rightarrow> int \<Rightarrow> piece option \<Rightarrow> move list" where
  "dblC f d None = [mk f d doublePush]"
| "dblC f d (Some p) = []"

fun pawnDbl :: "int \<Rightarrow> int option \<Rightarrow> board \<Rightarrow> move list" where
  "pawnDbl f None b = []"
| "pawnDbl f (Some d) b = dblC f d (cell b d)"

fun pawnFwd ::
  "color \<Rightarrow> int \<Rightarrow> int \<Rightarrow> bool \<Rightarrow> int option \<Rightarrow> board \<Rightarrow> piece option \<Rightarrow> move list" where
  "pawnFwd c f fwd promo dbl b (Some p) = []"
| "pawnFwd c f fwd promo dbl b None =
     (if promo then map (\<lambda>pp. mkPromo f fwd promotion (c, pp)) promoKinds
      else [mk f fwd normal]) @ pawnDbl f dbl b"

fun capC :: "color \<Rightarrow> int \<Rightarrow> int \<Rightarrow> bool \<Rightarrow> piece option \<Rightarrow> move list" where
  "capC c f t promo None = []"
| "capC c f t promo (Some (c', k)) =
     (if c' = c then []
      else if promo then map (\<lambda>pp. mkPromo f t promotionCapture (c, pp)) promoKinds
      else [mk f t capture])"

fun epC :: "int \<Rightarrow> int \<Rightarrow> int \<Rightarrow> int option \<Rightarrow> move list" where
  "epC f t cs None = []"
| "epC f t cs (Some e) = (if e = t then [mkEp f t cs] else [])"

fun pawnCaps ::
  "board \<Rightarrow> color \<Rightarrow> int \<Rightarrow> int option \<Rightarrow> bool \<Rightarrow> (int \<times> int) list \<Rightarrow> move list" where
  "pawnCaps b c f ep promo [] = []"
| "pawnCaps b c f ep promo ((t, cs) # r) =
     capC c f t promo (cell b t) @ epC f t cs ep @ pawnCaps b c f ep promo r"

definition pawnE ::
  "board \<Rightarrow> color \<Rightarrow> int \<Rightarrow> int option \<Rightarrow> int \<Rightarrow> bool \<Rightarrow> int option \<Rightarrow> (int \<times> int) list
     \<Rightarrow> move list" where
  "pawnE b c f ep fwd promo dbl caps =
     pawnFwd c f fwd promo dbl b (cell b fwd) @ pawnCaps b c f ep promo caps"

text \<open>
  Legality tests that take the king's square as known instead of searching for it: for a
  move of another piece the king stays where it is, a king's move takes it to the
  destination. En-passant captures and castling go through \<open>isLegalB\<close> itself.
\<close>

definition special :: "move \<Rightarrow> bool" where
  "special m = (mtype m = enPassant \<or> mtype m = castleKing \<or> mtype m = castleQueen)"

definition pieceOK :: "board \<Rightarrow> color \<Rightarrow> int \<Rightarrow> move \<Rightarrow> bool" where
  "pieceOK b c k m =
     (if special m then isLegalB b m c
      else \<not> isAttacked (applyMoveToBoard b m) k (oppc c))"

definition kingOK :: "board \<Rightarrow> color \<Rightarrow> move \<Rightarrow> bool" where
  "kingOK b c m =
     (if special m then isLegalB b m c
      else \<not> isAttacked (applyMoveToBoard b m) (mto m) (oppc c))"

definition epOK :: "board \<Rightarrow> color \<Rightarrow> move \<Rightarrow> bool" where
  "epOK b c m = (if mtype m = enPassant then isLegalB b m c else True)"

definition castleOK :: "board \<Rightarrow> color \<Rightarrow> move \<Rightarrow> bool" where
  "castleOK b c m = isLegalB b m c"

text \<open>
  The squares whose piece shields the king at \<open>k\<close> from a sliding piece of colour \<open>oc\<close>:
  on each ray from the king, the first occupied square, when the next piece behind it is
  such an attacker. A piece that stands elsewhere can leave its square without exposing
  a king that is not in check.
\<close>

fun hitL :: "board \<Rightarrow> piece \<Rightarrow> piece \<Rightarrow> int list \<Rightarrow> bool" where
  "hitL b p1 p2 [] = False"
| "hitL b p1 p2 (s # ss) =
     (case cell b s of None \<Rightarrow> hitL b p1 p2 ss | Some p \<Rightarrow> p = p1 \<or> p = p2)"

definition hitC :: "piece option \<Rightarrow> board \<Rightarrow> piece \<Rightarrow> piece \<Rightarrow> int list \<Rightarrow> bool" where
  "hitC x b p1 p2 ss = (case x of None \<Rightarrow> hitL b p1 p2 ss | Some p \<Rightarrow> p = p1 \<or> p = p2)"

fun pinScan :: "board \<Rightarrow> piece \<Rightarrow> piece \<Rightarrow> int list \<Rightarrow> int list" where
  "pinScan b p1 p2 [] = []"
| "pinScan b p1 p2 (s # ss) =
     (case cell b s of
        None \<Rightarrow> pinScan b p1 p2 ss
      | Some p \<Rightarrow> if hitL (put b s None) p1 p2 ss then [s] else [])"

definition pinC ::
  "int \<Rightarrow> piece option \<Rightarrow> board \<Rightarrow> piece \<Rightarrow> piece \<Rightarrow> int list \<Rightarrow> int list" where
  "pinC s x b p1 p2 ss =
     (case x of
        None \<Rightarrow> pinScan b p1 p2 ss
      | Some p \<Rightarrow> if hitL (put b s None) p1 p2 ss then [s] else [])"

fun pinsL :: "board \<Rightarrow> piece \<Rightarrow> piece \<Rightarrow> int list list \<Rightarrow> int list" where
  "pinsL b p1 p2 [] = []"
| "pinsL b p1 p2 (r # rs) = pinScan b p1 p2 r @ pinsL b p1 p2 rs"

definition pins :: "board \<Rightarrow> color \<Rightarrow> int \<Rightarrow> int list" where
  "pins b oc k =
     pinsL b (oc, Bishop) (oc, Queen) (raysT diagDirs k)
     @ pinsL b (oc, Rook) (oc, Queen) (raysT straightDirs k)"

fun isFree :: "bool \<Rightarrow> int list \<Rightarrow> int \<Rightarrow> bool" where
  "isFree True ps i = False"
| "isFree False [] i = True"
| "isFree False (p # ps) i = (if i = p then False else isFree False ps i)"

text \<open>
  The legal moves square by square. \<open>chk\<close> says whether the king of the side to move is
  attacked and \<open>ps\<close> lists the shielding squares; the moves of a piece on another
  square, with the king not in check, are all legal and are not tested one by one.
\<close>

fun pseudoK :: "kind \<Rightarrow> board \<Rightarrow> color \<Rightarrow> castling \<Rightarrow> int option \<Rightarrow> int \<Rightarrow> move list" where
  "pseudoK Pawn b c cr ep i = pawnMoves b i ep c"
| "pseudoK Knight b c cr ep i = stepsL b c i (knightT i)"
| "pseudoK Bishop b c cr ep i = raysL b c i (raysT diagDirs i)"
| "pseudoK Rook b c cr ep i = raysL b c i (raysT straightDirs i)"
| "pseudoK Queen b c cr ep i = raysL b c i (raysT allDirs i)"
| "pseudoK King b c cr ep i = stepsL b c i (kingT i) @ kingCastling b i cr c"

fun freeK :: "kind \<Rightarrow> board \<Rightarrow> color \<Rightarrow> move list \<Rightarrow> move list" where
  "freeK Pawn b c ms = filter (epOK b c) ms"
| "freeK Knight b c ms = ms"
| "freeK Bishop b c ms = ms"
| "freeK Rook b c ms = ms"
| "freeK Queen b c ms = ms"
| "freeK King b c ms = filter (kingOK b c) ms"

fun ownMoves ::
  "kind \<Rightarrow> board \<Rightarrow> color \<Rightarrow> castling \<Rightarrow> int option \<Rightarrow> int \<Rightarrow> bool \<Rightarrow> int \<Rightarrow> move list" where
  "ownMoves King b c cr ep k free i = filter (kingOK b c) (pseudoK King b c cr ep i)"
| "ownMoves kd b c cr ep k free i =
     (if free then freeK kd b c (pseudoK kd b c cr ep i)
      else filter (pieceOK b c k) (pseudoK kd b c cr ep i))"

fun sqMoves ::
  "board \<Rightarrow> color \<Rightarrow> castling \<Rightarrow> int option \<Rightarrow> int \<Rightarrow> bool \<Rightarrow> int list \<Rightarrow> int \<Rightarrow> piece option
     \<Rightarrow> move list" where
  "sqMoves b c cr ep k chk ps i None = []"
| "sqMoves b c cr ep k chk ps i (Some (c', kd)) =
     (if c' = c then ownMoves kd b c cr ep k (isFree chk ps i) i else [])"

fun goSq ::
  "board \<Rightarrow> color \<Rightarrow> castling \<Rightarrow> int option \<Rightarrow> int \<Rightarrow> bool \<Rightarrow> int list \<Rightarrow> int list
     \<Rightarrow> piece option list \<Rightarrow> move list" where
  "goSq b c cr ep k chk ps (i # is) (x # xs) =
     sqMoves b c cr ep k chk ps i x @ goSq b c cr ep k chk ps is xs"
| "goSq b c cr ep k chk ps [] xs = []"
| "goSq b c cr ep k chk ps (i # is) [] = []"

definition legalF2 ::
  "board \<Rightarrow> color \<Rightarrow> castling \<Rightarrow> int option \<Rightarrow> int \<Rightarrow> bool \<Rightarrow> int list \<Rightarrow> move list" where
  "legalF2 b c cr ep k chk ps =
     goSq b c cr ep k chk ps [0 .. 63] b @ filter (castleOK b c) (getCastlingMoves b c cr)"

definition legalF :: "board \<Rightarrow> color \<Rightarrow> castling \<Rightarrow> int option \<Rightarrow> int \<Rightarrow> move list" where
  "legalF b c cr ep k = legalF2 b c cr ep k (isAttacked b k (oppc c)) (pins b (oppc c) k)"

text \<open>
  What the proofs below use about a generated move that is neither an en-passant capture
  nor castling, and about the squares of the two kings.
\<close>

definition moveFine :: "board \<Rightarrow> color \<Rightarrow> int \<Rightarrow> move \<Rightarrow> bool" where
  "moveFine b c i m =
     (mfrom m = i \<and> inBoard (mto m) \<and> color (cell b (mto m)) \<noteq> Some c \<and> \<not> special m
      \<and> (case promoteTo m of None \<Rightarrow> True | Some q \<Rightarrow> fst q = c \<and> snd q \<noteq> King))"

definition kingAt :: "board \<Rightarrow> color \<Rightarrow> int \<Rightarrow> bool" where
  "kingAt b c k = (\<forall>i. (cell b i = Some (c, King)) = (i = k))"

definition kingsAt :: "board \<Rightarrow> int \<Rightarrow> int \<Rightarrow> bool" where
  "kingsAt b wk bk = (length b = 64 \<and> kingAt b White wk \<and> kingAt b Black bk)"

fun ownKing :: "color \<Rightarrow> int \<Rightarrow> int \<Rightarrow> int" where
  "ownKing White wk bk = wk"
| "ownKing Black wk bk = bk"

text \<open>
  The count on positions given by board, turn, rights and en-passant target, with the
  squares of the two kings carried along. A move that is not plain (a capture of a king,
  a promotion, an en-passant capture, castling) is counted by \<open>perft\<close> itself.
\<close>

definition plain :: "int \<Rightarrow> int \<Rightarrow> move \<Rightarrow> bool" where
  "plain wk bk m =
     (\<not> special m \<and> promoteTo m = None \<and> mto m \<noteq> wk \<and> mto m \<noteq> bk \<and> mfrom m \<noteq> mto m)"

definition kingTo :: "int \<Rightarrow> move \<Rightarrow> int" where
  "kingTo k m = (if mfrom m = k then mto m else k)"

fun perftF :: "nat \<Rightarrow> board \<Rightarrow> color \<Rightarrow> castling \<Rightarrow> int option \<Rightarrow> int \<Rightarrow> int \<Rightarrow> nat" where
  "perftF 0 b c cr ep wk bk = 1"
| "perftF (Suc n) b c cr ep wk bk =
     sum_list (map (\<lambda>m.
        if plain wk bk m
        then perftF n (applyMoveToBoard b m) (opp (color (cell b (mfrom m))))
               (updateRights (cell b (mfrom m)) (mfrom m) cr)
               (newEnPassant (cell b (mfrom m)) m) (kingTo wk m) (kingTo bk m)
        else perft n (applyMoveFull (position b c cr ep 0 1) m))
       (legalF b c cr ep (ownKing c wk bk)))"

definition childF ::
  "nat \<Rightarrow> board \<Rightarrow> color \<Rightarrow> castling \<Rightarrow> int option \<Rightarrow> int \<Rightarrow> int \<Rightarrow> move \<Rightarrow> nat" where
  "childF n b c cr ep wk bk m =
     (if plain wk bk m
      then perftF n (applyMoveToBoard b m) (opp (color (cell b (mfrom m))))
             (updateRights (cell b (mfrom m)) (mfrom m) cr)
             (newEnPassant (cell b (mfrom m)) m) (kingTo wk m) (kingTo bk m)
      else perft n (applyMoveFull (position b c cr ep 0 1) m))"

fun sumF ::
  "nat \<Rightarrow> board \<Rightarrow> color \<Rightarrow> castling \<Rightarrow> int option \<Rightarrow> int \<Rightarrow> int \<Rightarrow> move list \<Rightarrow> nat" where
  "sumF n b c cr ep wk bk [] = 0"
| "sumF n b c cr ep wk bk (m # ms) = childF n b c cr ep wk bk m + sumF n b c cr ep wk bk ms"

fun count :: "'a list \<Rightarrow> nat \<Rightarrow> nat" where
  "count [] n = n"
| "count (x # xs) n = count xs (n + 1)"

fun child2 ::
  "nat \<Rightarrow> board \<Rightarrow> castling \<Rightarrow> int \<Rightarrow> int \<Rightarrow> int \<Rightarrow> int \<Rightarrow> mtype \<Rightarrow> piece option \<Rightarrow> nat" where
  "child2 n b cr wk bk f t ty None =
     perftF n (put (put b t None) f None) White cr
       (if ty = doublePush then Some (t - 8) else None)
       (if f = wk then t else wk) (if f = bk then t else bk)"
| "child2 n b cr wk bk f t ty (Some (c, kd)) =
     perftF n (put (put b t (Some (c, kd))) f None) (oppc c) (updateRights (Some (c, kd)) f cr)
       (if ty = doublePush then Some (if c = White then t + 8 else t - 8) else None)
       (if f = wk then t else wk) (if f = bk then t else bk)"

section \<open>Evaluation on board literals\<close>

text \<open>
  Reading and writing a cell of a board written out as a list of 64 cells, one
  rewrite step per access; used to evaluate the engine on concrete positions.
\<close>

named_theorems board_eval \<open>evaluation of the engine on a literal board\<close>

lemma cell_lit [board_eval]:
  "cell [x0, x1, x2, x3, x4, x5, x6, x7, x8, x9, x10, x11, x12, x13, x14, x15, x16, x17,
  x18, x19, x20, x21, x22, x23, x24, x25, x26, x27, x28, x29, x30, x31, x32, x33, x34, x35,
  x36, x37, x38, x39, x40, x41, x42, x43, x44, x45, x46, x47, x48, x49, x50, x51, x52, x53,
  x54, x55, x56, x57, x58, x59, x60, x61, x62, x63] 0 = x0"
  "cell [x0, x1, x2, x3, x4, x5, x6, x7, x8, x9, x10, x11, x12, x13, x14, x15, x16, x17,
  x18, x19, x20, x21, x22, x23, x24, x25, x26, x27, x28, x29, x30, x31, x32, x33, x34, x35,
  x36, x37, x38, x39, x40, x41, x42, x43, x44, x45, x46, x47, x48, x49, x50, x51, x52, x53,
  x54, x55, x56, x57, x58, x59, x60, x61, x62, x63] 1 = x1"
  "cell [x0, x1, x2, x3, x4, x5, x6, x7, x8, x9, x10, x11, x12, x13, x14, x15, x16, x17,
  x18, x19, x20, x21, x22, x23, x24, x25, x26, x27, x28, x29, x30, x31, x32, x33, x34, x35,
  x36, x37, x38, x39, x40, x41, x42, x43, x44, x45, x46, x47, x48, x49, x50, x51, x52, x53,
  x54, x55, x56, x57, x58, x59, x60, x61, x62, x63] 2 = x2"
  "cell [x0, x1, x2, x3, x4, x5, x6, x7, x8, x9, x10, x11, x12, x13, x14, x15, x16, x17,
  x18, x19, x20, x21, x22, x23, x24, x25, x26, x27, x28, x29, x30, x31, x32, x33, x34, x35,
  x36, x37, x38, x39, x40, x41, x42, x43, x44, x45, x46, x47, x48, x49, x50, x51, x52, x53,
  x54, x55, x56, x57, x58, x59, x60, x61, x62, x63] 3 = x3"
  "cell [x0, x1, x2, x3, x4, x5, x6, x7, x8, x9, x10, x11, x12, x13, x14, x15, x16, x17,
  x18, x19, x20, x21, x22, x23, x24, x25, x26, x27, x28, x29, x30, x31, x32, x33, x34, x35,
  x36, x37, x38, x39, x40, x41, x42, x43, x44, x45, x46, x47, x48, x49, x50, x51, x52, x53,
  x54, x55, x56, x57, x58, x59, x60, x61, x62, x63] 4 = x4"
  "cell [x0, x1, x2, x3, x4, x5, x6, x7, x8, x9, x10, x11, x12, x13, x14, x15, x16, x17,
  x18, x19, x20, x21, x22, x23, x24, x25, x26, x27, x28, x29, x30, x31, x32, x33, x34, x35,
  x36, x37, x38, x39, x40, x41, x42, x43, x44, x45, x46, x47, x48, x49, x50, x51, x52, x53,
  x54, x55, x56, x57, x58, x59, x60, x61, x62, x63] 5 = x5"
  "cell [x0, x1, x2, x3, x4, x5, x6, x7, x8, x9, x10, x11, x12, x13, x14, x15, x16, x17,
  x18, x19, x20, x21, x22, x23, x24, x25, x26, x27, x28, x29, x30, x31, x32, x33, x34, x35,
  x36, x37, x38, x39, x40, x41, x42, x43, x44, x45, x46, x47, x48, x49, x50, x51, x52, x53,
  x54, x55, x56, x57, x58, x59, x60, x61, x62, x63] 6 = x6"
  "cell [x0, x1, x2, x3, x4, x5, x6, x7, x8, x9, x10, x11, x12, x13, x14, x15, x16, x17,
  x18, x19, x20, x21, x22, x23, x24, x25, x26, x27, x28, x29, x30, x31, x32, x33, x34, x35,
  x36, x37, x38, x39, x40, x41, x42, x43, x44, x45, x46, x47, x48, x49, x50, x51, x52, x53,
  x54, x55, x56, x57, x58, x59, x60, x61, x62, x63] 7 = x7"
  "cell [x0, x1, x2, x3, x4, x5, x6, x7, x8, x9, x10, x11, x12, x13, x14, x15, x16, x17,
  x18, x19, x20, x21, x22, x23, x24, x25, x26, x27, x28, x29, x30, x31, x32, x33, x34, x35,
  x36, x37, x38, x39, x40, x41, x42, x43, x44, x45, x46, x47, x48, x49, x50, x51, x52, x53,
  x54, x55, x56, x57, x58, x59, x60, x61, x62, x63] 8 = x8"
  "cell [x0, x1, x2, x3, x4, x5, x6, x7, x8, x9, x10, x11, x12, x13, x14, x15, x16, x17,
  x18, x19, x20, x21, x22, x23, x24, x25, x26, x27, x28, x29, x30, x31, x32, x33, x34, x35,
  x36, x37, x38, x39, x40, x41, x42, x43, x44, x45, x46, x47, x48, x49, x50, x51, x52, x53,
  x54, x55, x56, x57, x58, x59, x60, x61, x62, x63] 9 = x9"
  "cell [x0, x1, x2, x3, x4, x5, x6, x7, x8, x9, x10, x11, x12, x13, x14, x15, x16, x17,
  x18, x19, x20, x21, x22, x23, x24, x25, x26, x27, x28, x29, x30, x31, x32, x33, x34, x35,
  x36, x37, x38, x39, x40, x41, x42, x43, x44, x45, x46, x47, x48, x49, x50, x51, x52, x53,
  x54, x55, x56, x57, x58, x59, x60, x61, x62, x63] 10 = x10"
  "cell [x0, x1, x2, x3, x4, x5, x6, x7, x8, x9, x10, x11, x12, x13, x14, x15, x16, x17,
  x18, x19, x20, x21, x22, x23, x24, x25, x26, x27, x28, x29, x30, x31, x32, x33, x34, x35,
  x36, x37, x38, x39, x40, x41, x42, x43, x44, x45, x46, x47, x48, x49, x50, x51, x52, x53,
  x54, x55, x56, x57, x58, x59, x60, x61, x62, x63] 11 = x11"
  "cell [x0, x1, x2, x3, x4, x5, x6, x7, x8, x9, x10, x11, x12, x13, x14, x15, x16, x17,
  x18, x19, x20, x21, x22, x23, x24, x25, x26, x27, x28, x29, x30, x31, x32, x33, x34, x35,
  x36, x37, x38, x39, x40, x41, x42, x43, x44, x45, x46, x47, x48, x49, x50, x51, x52, x53,
  x54, x55, x56, x57, x58, x59, x60, x61, x62, x63] 12 = x12"
  "cell [x0, x1, x2, x3, x4, x5, x6, x7, x8, x9, x10, x11, x12, x13, x14, x15, x16, x17,
  x18, x19, x20, x21, x22, x23, x24, x25, x26, x27, x28, x29, x30, x31, x32, x33, x34, x35,
  x36, x37, x38, x39, x40, x41, x42, x43, x44, x45, x46, x47, x48, x49, x50, x51, x52, x53,
  x54, x55, x56, x57, x58, x59, x60, x61, x62, x63] 13 = x13"
  "cell [x0, x1, x2, x3, x4, x5, x6, x7, x8, x9, x10, x11, x12, x13, x14, x15, x16, x17,
  x18, x19, x20, x21, x22, x23, x24, x25, x26, x27, x28, x29, x30, x31, x32, x33, x34, x35,
  x36, x37, x38, x39, x40, x41, x42, x43, x44, x45, x46, x47, x48, x49, x50, x51, x52, x53,
  x54, x55, x56, x57, x58, x59, x60, x61, x62, x63] 14 = x14"
  "cell [x0, x1, x2, x3, x4, x5, x6, x7, x8, x9, x10, x11, x12, x13, x14, x15, x16, x17,
  x18, x19, x20, x21, x22, x23, x24, x25, x26, x27, x28, x29, x30, x31, x32, x33, x34, x35,
  x36, x37, x38, x39, x40, x41, x42, x43, x44, x45, x46, x47, x48, x49, x50, x51, x52, x53,
  x54, x55, x56, x57, x58, x59, x60, x61, x62, x63] 15 = x15"
  "cell [x0, x1, x2, x3, x4, x5, x6, x7, x8, x9, x10, x11, x12, x13, x14, x15, x16, x17,
  x18, x19, x20, x21, x22, x23, x24, x25, x26, x27, x28, x29, x30, x31, x32, x33, x34, x35,
  x36, x37, x38, x39, x40, x41, x42, x43, x44, x45, x46, x47, x48, x49, x50, x51, x52, x53,
  x54, x55, x56, x57, x58, x59, x60, x61, x62, x63] 16 = x16"
  "cell [x0, x1, x2, x3, x4, x5, x6, x7, x8, x9, x10, x11, x12, x13, x14, x15, x16, x17,
  x18, x19, x20, x21, x22, x23, x24, x25, x26, x27, x28, x29, x30, x31, x32, x33, x34, x35,
  x36, x37, x38, x39, x40, x41, x42, x43, x44, x45, x46, x47, x48, x49, x50, x51, x52, x53,
  x54, x55, x56, x57, x58, x59, x60, x61, x62, x63] 17 = x17"
  "cell [x0, x1, x2, x3, x4, x5, x6, x7, x8, x9, x10, x11, x12, x13, x14, x15, x16, x17,
  x18, x19, x20, x21, x22, x23, x24, x25, x26, x27, x28, x29, x30, x31, x32, x33, x34, x35,
  x36, x37, x38, x39, x40, x41, x42, x43, x44, x45, x46, x47, x48, x49, x50, x51, x52, x53,
  x54, x55, x56, x57, x58, x59, x60, x61, x62, x63] 18 = x18"
  "cell [x0, x1, x2, x3, x4, x5, x6, x7, x8, x9, x10, x11, x12, x13, x14, x15, x16, x17,
  x18, x19, x20, x21, x22, x23, x24, x25, x26, x27, x28, x29, x30, x31, x32, x33, x34, x35,
  x36, x37, x38, x39, x40, x41, x42, x43, x44, x45, x46, x47, x48, x49, x50, x51, x52, x53,
  x54, x55, x56, x57, x58, x59, x60, x61, x62, x63] 19 = x19"
  "cell [x0, x1, x2, x3, x4, x5, x6, x7, x8, x9, x10, x11, x12, x13, x14, x15, x16, x17,
  x18, x19, x20, x21, x22, x23, x24, x25, x26, x27, x28, x29, x30, x31, x32, x33, x34, x35,
  x36, x37, x38, x39, x40, x41, x42, x43, x44, x45, x46, x47, x48, x49, x50, x51, x52, x53,
  x54, x55, x56, x57, x58, x59, x60, x61, x62, x63] 20 = x20"
  "cell [x0, x1, x2, x3, x4, x5, x6, x7, x8, x9, x10, x11, x12, x13, x14, x15, x16, x17,
  x18, x19, x20, x21, x22, x23, x24, x25, x26, x27, x28, x29, x30, x31, x32, x33, x34, x35,
  x36, x37, x38, x39, x40, x41, x42, x43, x44, x45, x46, x47, x48, x49, x50, x51, x52, x53,
  x54, x55, x56, x57, x58, x59, x60, x61, x62, x63] 21 = x21"
  "cell [x0, x1, x2, x3, x4, x5, x6, x7, x8, x9, x10, x11, x12, x13, x14, x15, x16, x17,
  x18, x19, x20, x21, x22, x23, x24, x25, x26, x27, x28, x29, x30, x31, x32, x33, x34, x35,
  x36, x37, x38, x39, x40, x41, x42, x43, x44, x45, x46, x47, x48, x49, x50, x51, x52, x53,
  x54, x55, x56, x57, x58, x59, x60, x61, x62, x63] 22 = x22"
  "cell [x0, x1, x2, x3, x4, x5, x6, x7, x8, x9, x10, x11, x12, x13, x14, x15, x16, x17,
  x18, x19, x20, x21, x22, x23, x24, x25, x26, x27, x28, x29, x30, x31, x32, x33, x34, x35,
  x36, x37, x38, x39, x40, x41, x42, x43, x44, x45, x46, x47, x48, x49, x50, x51, x52, x53,
  x54, x55, x56, x57, x58, x59, x60, x61, x62, x63] 23 = x23"
  "cell [x0, x1, x2, x3, x4, x5, x6, x7, x8, x9, x10, x11, x12, x13, x14, x15, x16, x17,
  x18, x19, x20, x21, x22, x23, x24, x25, x26, x27, x28, x29, x30, x31, x32, x33, x34, x35,
  x36, x37, x38, x39, x40, x41, x42, x43, x44, x45, x46, x47, x48, x49, x50, x51, x52, x53,
  x54, x55, x56, x57, x58, x59, x60, x61, x62, x63] 24 = x24"
  "cell [x0, x1, x2, x3, x4, x5, x6, x7, x8, x9, x10, x11, x12, x13, x14, x15, x16, x17,
  x18, x19, x20, x21, x22, x23, x24, x25, x26, x27, x28, x29, x30, x31, x32, x33, x34, x35,
  x36, x37, x38, x39, x40, x41, x42, x43, x44, x45, x46, x47, x48, x49, x50, x51, x52, x53,
  x54, x55, x56, x57, x58, x59, x60, x61, x62, x63] 25 = x25"
  "cell [x0, x1, x2, x3, x4, x5, x6, x7, x8, x9, x10, x11, x12, x13, x14, x15, x16, x17,
  x18, x19, x20, x21, x22, x23, x24, x25, x26, x27, x28, x29, x30, x31, x32, x33, x34, x35,
  x36, x37, x38, x39, x40, x41, x42, x43, x44, x45, x46, x47, x48, x49, x50, x51, x52, x53,
  x54, x55, x56, x57, x58, x59, x60, x61, x62, x63] 26 = x26"
  "cell [x0, x1, x2, x3, x4, x5, x6, x7, x8, x9, x10, x11, x12, x13, x14, x15, x16, x17,
  x18, x19, x20, x21, x22, x23, x24, x25, x26, x27, x28, x29, x30, x31, x32, x33, x34, x35,
  x36, x37, x38, x39, x40, x41, x42, x43, x44, x45, x46, x47, x48, x49, x50, x51, x52, x53,
  x54, x55, x56, x57, x58, x59, x60, x61, x62, x63] 27 = x27"
  "cell [x0, x1, x2, x3, x4, x5, x6, x7, x8, x9, x10, x11, x12, x13, x14, x15, x16, x17,
  x18, x19, x20, x21, x22, x23, x24, x25, x26, x27, x28, x29, x30, x31, x32, x33, x34, x35,
  x36, x37, x38, x39, x40, x41, x42, x43, x44, x45, x46, x47, x48, x49, x50, x51, x52, x53,
  x54, x55, x56, x57, x58, x59, x60, x61, x62, x63] 28 = x28"
  "cell [x0, x1, x2, x3, x4, x5, x6, x7, x8, x9, x10, x11, x12, x13, x14, x15, x16, x17,
  x18, x19, x20, x21, x22, x23, x24, x25, x26, x27, x28, x29, x30, x31, x32, x33, x34, x35,
  x36, x37, x38, x39, x40, x41, x42, x43, x44, x45, x46, x47, x48, x49, x50, x51, x52, x53,
  x54, x55, x56, x57, x58, x59, x60, x61, x62, x63] 29 = x29"
  "cell [x0, x1, x2, x3, x4, x5, x6, x7, x8, x9, x10, x11, x12, x13, x14, x15, x16, x17,
  x18, x19, x20, x21, x22, x23, x24, x25, x26, x27, x28, x29, x30, x31, x32, x33, x34, x35,
  x36, x37, x38, x39, x40, x41, x42, x43, x44, x45, x46, x47, x48, x49, x50, x51, x52, x53,
  x54, x55, x56, x57, x58, x59, x60, x61, x62, x63] 30 = x30"
  "cell [x0, x1, x2, x3, x4, x5, x6, x7, x8, x9, x10, x11, x12, x13, x14, x15, x16, x17,
  x18, x19, x20, x21, x22, x23, x24, x25, x26, x27, x28, x29, x30, x31, x32, x33, x34, x35,
  x36, x37, x38, x39, x40, x41, x42, x43, x44, x45, x46, x47, x48, x49, x50, x51, x52, x53,
  x54, x55, x56, x57, x58, x59, x60, x61, x62, x63] 31 = x31"
  "cell [x0, x1, x2, x3, x4, x5, x6, x7, x8, x9, x10, x11, x12, x13, x14, x15, x16, x17,
  x18, x19, x20, x21, x22, x23, x24, x25, x26, x27, x28, x29, x30, x31, x32, x33, x34, x35,
  x36, x37, x38, x39, x40, x41, x42, x43, x44, x45, x46, x47, x48, x49, x50, x51, x52, x53,
  x54, x55, x56, x57, x58, x59, x60, x61, x62, x63] 32 = x32"
  "cell [x0, x1, x2, x3, x4, x5, x6, x7, x8, x9, x10, x11, x12, x13, x14, x15, x16, x17,
  x18, x19, x20, x21, x22, x23, x24, x25, x26, x27, x28, x29, x30, x31, x32, x33, x34, x35,
  x36, x37, x38, x39, x40, x41, x42, x43, x44, x45, x46, x47, x48, x49, x50, x51, x52, x53,
  x54, x55, x56, x57, x58, x59, x60, x61, x62, x63] 33 = x33"
  "cell [x0, x1, x2, x3, x4, x5, x6, x7, x8, x9, x10, x11, x12, x13, x14, x15, x16, x17,
  x18, x19, x20, x21, x22, x23, x24, x25, x26, x27, x28, x29, x30, x31, x32, x33, x34, x35,
  x36, x37, x38, x39, x40, x41, x42, x43, x44, x45, x46, x47, x48, x49, x50, x51, x52, x53,
  x54, x55, x56, x57, x58, x59, x60, x61, x62, x63] 34 = x34"
  "cell [x0, x1, x2, x3, x4, x5, x6, x7, x8, x9, x10, x11, x12, x13, x14, x15, x16, x17,
  x18, x19, x20, x21, x22, x23, x24, x25, x26, x27, x28, x29, x30, x31, x32, x33, x34, x35,
  x36, x37, x38, x39, x40, x41, x42, x43, x44, x45, x46, x47, x48, x49, x50, x51, x52, x53,
  x54, x55, x56, x57, x58, x59, x60, x61, x62, x63] 35 = x35"
  "cell [x0, x1, x2, x3, x4, x5, x6, x7, x8, x9, x10, x11, x12, x13, x14, x15, x16, x17,
  x18, x19, x20, x21, x22, x23, x24, x25, x26, x27, x28, x29, x30, x31, x32, x33, x34, x35,
  x36, x37, x38, x39, x40, x41, x42, x43, x44, x45, x46, x47, x48, x49, x50, x51, x52, x53,
  x54, x55, x56, x57, x58, x59, x60, x61, x62, x63] 36 = x36"
  "cell [x0, x1, x2, x3, x4, x5, x6, x7, x8, x9, x10, x11, x12, x13, x14, x15, x16, x17,
  x18, x19, x20, x21, x22, x23, x24, x25, x26, x27, x28, x29, x30, x31, x32, x33, x34, x35,
  x36, x37, x38, x39, x40, x41, x42, x43, x44, x45, x46, x47, x48, x49, x50, x51, x52, x53,
  x54, x55, x56, x57, x58, x59, x60, x61, x62, x63] 37 = x37"
  "cell [x0, x1, x2, x3, x4, x5, x6, x7, x8, x9, x10, x11, x12, x13, x14, x15, x16, x17,
  x18, x19, x20, x21, x22, x23, x24, x25, x26, x27, x28, x29, x30, x31, x32, x33, x34, x35,
  x36, x37, x38, x39, x40, x41, x42, x43, x44, x45, x46, x47, x48, x49, x50, x51, x52, x53,
  x54, x55, x56, x57, x58, x59, x60, x61, x62, x63] 38 = x38"
  "cell [x0, x1, x2, x3, x4, x5, x6, x7, x8, x9, x10, x11, x12, x13, x14, x15, x16, x17,
  x18, x19, x20, x21, x22, x23, x24, x25, x26, x27, x28, x29, x30, x31, x32, x33, x34, x35,
  x36, x37, x38, x39, x40, x41, x42, x43, x44, x45, x46, x47, x48, x49, x50, x51, x52, x53,
  x54, x55, x56, x57, x58, x59, x60, x61, x62, x63] 39 = x39"
  "cell [x0, x1, x2, x3, x4, x5, x6, x7, x8, x9, x10, x11, x12, x13, x14, x15, x16, x17,
  x18, x19, x20, x21, x22, x23, x24, x25, x26, x27, x28, x29, x30, x31, x32, x33, x34, x35,
  x36, x37, x38, x39, x40, x41, x42, x43, x44, x45, x46, x47, x48, x49, x50, x51, x52, x53,
  x54, x55, x56, x57, x58, x59, x60, x61, x62, x63] 40 = x40"
  "cell [x0, x1, x2, x3, x4, x5, x6, x7, x8, x9, x10, x11, x12, x13, x14, x15, x16, x17,
  x18, x19, x20, x21, x22, x23, x24, x25, x26, x27, x28, x29, x30, x31, x32, x33, x34, x35,
  x36, x37, x38, x39, x40, x41, x42, x43, x44, x45, x46, x47, x48, x49, x50, x51, x52, x53,
  x54, x55, x56, x57, x58, x59, x60, x61, x62, x63] 41 = x41"
  "cell [x0, x1, x2, x3, x4, x5, x6, x7, x8, x9, x10, x11, x12, x13, x14, x15, x16, x17,
  x18, x19, x20, x21, x22, x23, x24, x25, x26, x27, x28, x29, x30, x31, x32, x33, x34, x35,
  x36, x37, x38, x39, x40, x41, x42, x43, x44, x45, x46, x47, x48, x49, x50, x51, x52, x53,
  x54, x55, x56, x57, x58, x59, x60, x61, x62, x63] 42 = x42"
  "cell [x0, x1, x2, x3, x4, x5, x6, x7, x8, x9, x10, x11, x12, x13, x14, x15, x16, x17,
  x18, x19, x20, x21, x22, x23, x24, x25, x26, x27, x28, x29, x30, x31, x32, x33, x34, x35,
  x36, x37, x38, x39, x40, x41, x42, x43, x44, x45, x46, x47, x48, x49, x50, x51, x52, x53,
  x54, x55, x56, x57, x58, x59, x60, x61, x62, x63] 43 = x43"
  "cell [x0, x1, x2, x3, x4, x5, x6, x7, x8, x9, x10, x11, x12, x13, x14, x15, x16, x17,
  x18, x19, x20, x21, x22, x23, x24, x25, x26, x27, x28, x29, x30, x31, x32, x33, x34, x35,
  x36, x37, x38, x39, x40, x41, x42, x43, x44, x45, x46, x47, x48, x49, x50, x51, x52, x53,
  x54, x55, x56, x57, x58, x59, x60, x61, x62, x63] 44 = x44"
  "cell [x0, x1, x2, x3, x4, x5, x6, x7, x8, x9, x10, x11, x12, x13, x14, x15, x16, x17,
  x18, x19, x20, x21, x22, x23, x24, x25, x26, x27, x28, x29, x30, x31, x32, x33, x34, x35,
  x36, x37, x38, x39, x40, x41, x42, x43, x44, x45, x46, x47, x48, x49, x50, x51, x52, x53,
  x54, x55, x56, x57, x58, x59, x60, x61, x62, x63] 45 = x45"
  "cell [x0, x1, x2, x3, x4, x5, x6, x7, x8, x9, x10, x11, x12, x13, x14, x15, x16, x17,
  x18, x19, x20, x21, x22, x23, x24, x25, x26, x27, x28, x29, x30, x31, x32, x33, x34, x35,
  x36, x37, x38, x39, x40, x41, x42, x43, x44, x45, x46, x47, x48, x49, x50, x51, x52, x53,
  x54, x55, x56, x57, x58, x59, x60, x61, x62, x63] 46 = x46"
  "cell [x0, x1, x2, x3, x4, x5, x6, x7, x8, x9, x10, x11, x12, x13, x14, x15, x16, x17,
  x18, x19, x20, x21, x22, x23, x24, x25, x26, x27, x28, x29, x30, x31, x32, x33, x34, x35,
  x36, x37, x38, x39, x40, x41, x42, x43, x44, x45, x46, x47, x48, x49, x50, x51, x52, x53,
  x54, x55, x56, x57, x58, x59, x60, x61, x62, x63] 47 = x47"
  "cell [x0, x1, x2, x3, x4, x5, x6, x7, x8, x9, x10, x11, x12, x13, x14, x15, x16, x17,
  x18, x19, x20, x21, x22, x23, x24, x25, x26, x27, x28, x29, x30, x31, x32, x33, x34, x35,
  x36, x37, x38, x39, x40, x41, x42, x43, x44, x45, x46, x47, x48, x49, x50, x51, x52, x53,
  x54, x55, x56, x57, x58, x59, x60, x61, x62, x63] 48 = x48"
  "cell [x0, x1, x2, x3, x4, x5, x6, x7, x8, x9, x10, x11, x12, x13, x14, x15, x16, x17,
  x18, x19, x20, x21, x22, x23, x24, x25, x26, x27, x28, x29, x30, x31, x32, x33, x34, x35,
  x36, x37, x38, x39, x40, x41, x42, x43, x44, x45, x46, x47, x48, x49, x50, x51, x52, x53,
  x54, x55, x56, x57, x58, x59, x60, x61, x62, x63] 49 = x49"
  "cell [x0, x1, x2, x3, x4, x5, x6, x7, x8, x9, x10, x11, x12, x13, x14, x15, x16, x17,
  x18, x19, x20, x21, x22, x23, x24, x25, x26, x27, x28, x29, x30, x31, x32, x33, x34, x35,
  x36, x37, x38, x39, x40, x41, x42, x43, x44, x45, x46, x47, x48, x49, x50, x51, x52, x53,
  x54, x55, x56, x57, x58, x59, x60, x61, x62, x63] 50 = x50"
  "cell [x0, x1, x2, x3, x4, x5, x6, x7, x8, x9, x10, x11, x12, x13, x14, x15, x16, x17,
  x18, x19, x20, x21, x22, x23, x24, x25, x26, x27, x28, x29, x30, x31, x32, x33, x34, x35,
  x36, x37, x38, x39, x40, x41, x42, x43, x44, x45, x46, x47, x48, x49, x50, x51, x52, x53,
  x54, x55, x56, x57, x58, x59, x60, x61, x62, x63] 51 = x51"
  "cell [x0, x1, x2, x3, x4, x5, x6, x7, x8, x9, x10, x11, x12, x13, x14, x15, x16, x17,
  x18, x19, x20, x21, x22, x23, x24, x25, x26, x27, x28, x29, x30, x31, x32, x33, x34, x35,
  x36, x37, x38, x39, x40, x41, x42, x43, x44, x45, x46, x47, x48, x49, x50, x51, x52, x53,
  x54, x55, x56, x57, x58, x59, x60, x61, x62, x63] 52 = x52"
  "cell [x0, x1, x2, x3, x4, x5, x6, x7, x8, x9, x10, x11, x12, x13, x14, x15, x16, x17,
  x18, x19, x20, x21, x22, x23, x24, x25, x26, x27, x28, x29, x30, x31, x32, x33, x34, x35,
  x36, x37, x38, x39, x40, x41, x42, x43, x44, x45, x46, x47, x48, x49, x50, x51, x52, x53,
  x54, x55, x56, x57, x58, x59, x60, x61, x62, x63] 53 = x53"
  "cell [x0, x1, x2, x3, x4, x5, x6, x7, x8, x9, x10, x11, x12, x13, x14, x15, x16, x17,
  x18, x19, x20, x21, x22, x23, x24, x25, x26, x27, x28, x29, x30, x31, x32, x33, x34, x35,
  x36, x37, x38, x39, x40, x41, x42, x43, x44, x45, x46, x47, x48, x49, x50, x51, x52, x53,
  x54, x55, x56, x57, x58, x59, x60, x61, x62, x63] 54 = x54"
  "cell [x0, x1, x2, x3, x4, x5, x6, x7, x8, x9, x10, x11, x12, x13, x14, x15, x16, x17,
  x18, x19, x20, x21, x22, x23, x24, x25, x26, x27, x28, x29, x30, x31, x32, x33, x34, x35,
  x36, x37, x38, x39, x40, x41, x42, x43, x44, x45, x46, x47, x48, x49, x50, x51, x52, x53,
  x54, x55, x56, x57, x58, x59, x60, x61, x62, x63] 55 = x55"
  "cell [x0, x1, x2, x3, x4, x5, x6, x7, x8, x9, x10, x11, x12, x13, x14, x15, x16, x17,
  x18, x19, x20, x21, x22, x23, x24, x25, x26, x27, x28, x29, x30, x31, x32, x33, x34, x35,
  x36, x37, x38, x39, x40, x41, x42, x43, x44, x45, x46, x47, x48, x49, x50, x51, x52, x53,
  x54, x55, x56, x57, x58, x59, x60, x61, x62, x63] 56 = x56"
  "cell [x0, x1, x2, x3, x4, x5, x6, x7, x8, x9, x10, x11, x12, x13, x14, x15, x16, x17,
  x18, x19, x20, x21, x22, x23, x24, x25, x26, x27, x28, x29, x30, x31, x32, x33, x34, x35,
  x36, x37, x38, x39, x40, x41, x42, x43, x44, x45, x46, x47, x48, x49, x50, x51, x52, x53,
  x54, x55, x56, x57, x58, x59, x60, x61, x62, x63] 57 = x57"
  "cell [x0, x1, x2, x3, x4, x5, x6, x7, x8, x9, x10, x11, x12, x13, x14, x15, x16, x17,
  x18, x19, x20, x21, x22, x23, x24, x25, x26, x27, x28, x29, x30, x31, x32, x33, x34, x35,
  x36, x37, x38, x39, x40, x41, x42, x43, x44, x45, x46, x47, x48, x49, x50, x51, x52, x53,
  x54, x55, x56, x57, x58, x59, x60, x61, x62, x63] 58 = x58"
  "cell [x0, x1, x2, x3, x4, x5, x6, x7, x8, x9, x10, x11, x12, x13, x14, x15, x16, x17,
  x18, x19, x20, x21, x22, x23, x24, x25, x26, x27, x28, x29, x30, x31, x32, x33, x34, x35,
  x36, x37, x38, x39, x40, x41, x42, x43, x44, x45, x46, x47, x48, x49, x50, x51, x52, x53,
  x54, x55, x56, x57, x58, x59, x60, x61, x62, x63] 59 = x59"
  "cell [x0, x1, x2, x3, x4, x5, x6, x7, x8, x9, x10, x11, x12, x13, x14, x15, x16, x17,
  x18, x19, x20, x21, x22, x23, x24, x25, x26, x27, x28, x29, x30, x31, x32, x33, x34, x35,
  x36, x37, x38, x39, x40, x41, x42, x43, x44, x45, x46, x47, x48, x49, x50, x51, x52, x53,
  x54, x55, x56, x57, x58, x59, x60, x61, x62, x63] 60 = x60"
  "cell [x0, x1, x2, x3, x4, x5, x6, x7, x8, x9, x10, x11, x12, x13, x14, x15, x16, x17,
  x18, x19, x20, x21, x22, x23, x24, x25, x26, x27, x28, x29, x30, x31, x32, x33, x34, x35,
  x36, x37, x38, x39, x40, x41, x42, x43, x44, x45, x46, x47, x48, x49, x50, x51, x52, x53,
  x54, x55, x56, x57, x58, x59, x60, x61, x62, x63] 61 = x61"
  "cell [x0, x1, x2, x3, x4, x5, x6, x7, x8, x9, x10, x11, x12, x13, x14, x15, x16, x17,
  x18, x19, x20, x21, x22, x23, x24, x25, x26, x27, x28, x29, x30, x31, x32, x33, x34, x35,
  x36, x37, x38, x39, x40, x41, x42, x43, x44, x45, x46, x47, x48, x49, x50, x51, x52, x53,
  x54, x55, x56, x57, x58, x59, x60, x61, x62, x63] 62 = x62"
  "cell [x0, x1, x2, x3, x4, x5, x6, x7, x8, x9, x10, x11, x12, x13, x14, x15, x16, x17,
  x18, x19, x20, x21, x22, x23, x24, x25, x26, x27, x28, x29, x30, x31, x32, x33, x34, x35,
  x36, x37, x38, x39, x40, x41, x42, x43, x44, x45, x46, x47, x48, x49, x50, x51, x52, x53,
  x54, x55, x56, x57, x58, x59, x60, x61, x62, x63] 63 = x63"
  by (simp_all add: cell_def)

lemma put_lit [board_eval]:
  "put [x0, x1, x2, x3, x4, x5, x6, x7, x8, x9, x10, x11, x12, x13, x14, x15, x16, x17,
  x18, x19, x20, x21, x22, x23, x24, x25, x26, x27, x28, x29, x30, x31, x32, x33, x34, x35,
  x36, x37, x38, x39, x40, x41, x42, x43, x44, x45, x46, x47, x48, x49, x50, x51, x52, x53,
  x54, x55, x56, x57, x58, x59, x60, x61, x62, x63] 0 v = [v, x1, x2, x3, x4, x5, x6, x7,
  x8, x9, x10, x11, x12, x13, x14, x15, x16, x17, x18, x19, x20, x21, x22, x23, x24, x25,
  x26, x27, x28, x29, x30, x31, x32, x33, x34, x35, x36, x37, x38, x39, x40, x41, x42, x43,
  x44, x45, x46, x47, x48, x49, x50, x51, x52, x53, x54, x55, x56, x57, x58, x59, x60, x61,
  x62, x63]"
  "put [x0, x1, x2, x3, x4, x5, x6, x7, x8, x9, x10, x11, x12, x13, x14, x15, x16, x17,
  x18, x19, x20, x21, x22, x23, x24, x25, x26, x27, x28, x29, x30, x31, x32, x33, x34, x35,
  x36, x37, x38, x39, x40, x41, x42, x43, x44, x45, x46, x47, x48, x49, x50, x51, x52, x53,
  x54, x55, x56, x57, x58, x59, x60, x61, x62, x63] 1 v = [x0, v, x2, x3, x4, x5, x6, x7,
  x8, x9, x10, x11, x12, x13, x14, x15, x16, x17, x18, x19, x20, x21, x22, x23, x24, x25,
  x26, x27, x28, x29, x30, x31, x32, x33, x34, x35, x36, x37, x38, x39, x40, x41, x42, x43,
  x44, x45, x46, x47, x48, x49, x50, x51, x52, x53, x54, x55, x56, x57, x58, x59, x60, x61,
  x62, x63]"
  "put [x0, x1, x2, x3, x4, x5, x6, x7, x8, x9, x10, x11, x12, x13, x14, x15, x16, x17,
  x18, x19, x20, x21, x22, x23, x24, x25, x26, x27, x28, x29, x30, x31, x32, x33, x34, x35,
  x36, x37, x38, x39, x40, x41, x42, x43, x44, x45, x46, x47, x48, x49, x50, x51, x52, x53,
  x54, x55, x56, x57, x58, x59, x60, x61, x62, x63] 2 v = [x0, x1, v, x3, x4, x5, x6, x7,
  x8, x9, x10, x11, x12, x13, x14, x15, x16, x17, x18, x19, x20, x21, x22, x23, x24, x25,
  x26, x27, x28, x29, x30, x31, x32, x33, x34, x35, x36, x37, x38, x39, x40, x41, x42, x43,
  x44, x45, x46, x47, x48, x49, x50, x51, x52, x53, x54, x55, x56, x57, x58, x59, x60, x61,
  x62, x63]"
  "put [x0, x1, x2, x3, x4, x5, x6, x7, x8, x9, x10, x11, x12, x13, x14, x15, x16, x17,
  x18, x19, x20, x21, x22, x23, x24, x25, x26, x27, x28, x29, x30, x31, x32, x33, x34, x35,
  x36, x37, x38, x39, x40, x41, x42, x43, x44, x45, x46, x47, x48, x49, x50, x51, x52, x53,
  x54, x55, x56, x57, x58, x59, x60, x61, x62, x63] 3 v = [x0, x1, x2, v, x4, x5, x6, x7,
  x8, x9, x10, x11, x12, x13, x14, x15, x16, x17, x18, x19, x20, x21, x22, x23, x24, x25,
  x26, x27, x28, x29, x30, x31, x32, x33, x34, x35, x36, x37, x38, x39, x40, x41, x42, x43,
  x44, x45, x46, x47, x48, x49, x50, x51, x52, x53, x54, x55, x56, x57, x58, x59, x60, x61,
  x62, x63]"
  "put [x0, x1, x2, x3, x4, x5, x6, x7, x8, x9, x10, x11, x12, x13, x14, x15, x16, x17,
  x18, x19, x20, x21, x22, x23, x24, x25, x26, x27, x28, x29, x30, x31, x32, x33, x34, x35,
  x36, x37, x38, x39, x40, x41, x42, x43, x44, x45, x46, x47, x48, x49, x50, x51, x52, x53,
  x54, x55, x56, x57, x58, x59, x60, x61, x62, x63] 4 v = [x0, x1, x2, x3, v, x5, x6, x7,
  x8, x9, x10, x11, x12, x13, x14, x15, x16, x17, x18, x19, x20, x21, x22, x23, x24, x25,
  x26, x27, x28, x29, x30, x31, x32, x33, x34, x35, x36, x37, x38, x39, x40, x41, x42, x43,
  x44, x45, x46, x47, x48, x49, x50, x51, x52, x53, x54, x55, x56, x57, x58, x59, x60, x61,
  x62, x63]"
  "put [x0, x1, x2, x3, x4, x5, x6, x7, x8, x9, x10, x11, x12, x13, x14, x15, x16, x17,
  x18, x19, x20, x21, x22, x23, x24, x25, x26, x27, x28, x29, x30, x31, x32, x33, x34, x35,
  x36, x37, x38, x39, x40, x41, x42, x43, x44, x45, x46, x47, x48, x49, x50, x51, x52, x53,
  x54, x55, x56, x57, x58, x59, x60, x61, x62, x63] 5 v = [x0, x1, x2, x3, x4, v, x6, x7,
  x8, x9, x10, x11, x12, x13, x14, x15, x16, x17, x18, x19, x20, x21, x22, x23, x24, x25,
  x26, x27, x28, x29, x30, x31, x32, x33, x34, x35, x36, x37, x38, x39, x40, x41, x42, x43,
  x44, x45, x46, x47, x48, x49, x50, x51, x52, x53, x54, x55, x56, x57, x58, x59, x60, x61,
  x62, x63]"
  "put [x0, x1, x2, x3, x4, x5, x6, x7, x8, x9, x10, x11, x12, x13, x14, x15, x16, x17,
  x18, x19, x20, x21, x22, x23, x24, x25, x26, x27, x28, x29, x30, x31, x32, x33, x34, x35,
  x36, x37, x38, x39, x40, x41, x42, x43, x44, x45, x46, x47, x48, x49, x50, x51, x52, x53,
  x54, x55, x56, x57, x58, x59, x60, x61, x62, x63] 6 v = [x0, x1, x2, x3, x4, x5, v, x7,
  x8, x9, x10, x11, x12, x13, x14, x15, x16, x17, x18, x19, x20, x21, x22, x23, x24, x25,
  x26, x27, x28, x29, x30, x31, x32, x33, x34, x35, x36, x37, x38, x39, x40, x41, x42, x43,
  x44, x45, x46, x47, x48, x49, x50, x51, x52, x53, x54, x55, x56, x57, x58, x59, x60, x61,
  x62, x63]"
  "put [x0, x1, x2, x3, x4, x5, x6, x7, x8, x9, x10, x11, x12, x13, x14, x15, x16, x17,
  x18, x19, x20, x21, x22, x23, x24, x25, x26, x27, x28, x29, x30, x31, x32, x33, x34, x35,
  x36, x37, x38, x39, x40, x41, x42, x43, x44, x45, x46, x47, x48, x49, x50, x51, x52, x53,
  x54, x55, x56, x57, x58, x59, x60, x61, x62, x63] 7 v = [x0, x1, x2, x3, x4, x5, x6, v,
  x8, x9, x10, x11, x12, x13, x14, x15, x16, x17, x18, x19, x20, x21, x22, x23, x24, x25,
  x26, x27, x28, x29, x30, x31, x32, x33, x34, x35, x36, x37, x38, x39, x40, x41, x42, x43,
  x44, x45, x46, x47, x48, x49, x50, x51, x52, x53, x54, x55, x56, x57, x58, x59, x60, x61,
  x62, x63]"
  "put [x0, x1, x2, x3, x4, x5, x6, x7, x8, x9, x10, x11, x12, x13, x14, x15, x16, x17,
  x18, x19, x20, x21, x22, x23, x24, x25, x26, x27, x28, x29, x30, x31, x32, x33, x34, x35,
  x36, x37, x38, x39, x40, x41, x42, x43, x44, x45, x46, x47, x48, x49, x50, x51, x52, x53,
  x54, x55, x56, x57, x58, x59, x60, x61, x62, x63] 8 v = [x0, x1, x2, x3, x4, x5, x6, x7,
  v, x9, x10, x11, x12, x13, x14, x15, x16, x17, x18, x19, x20, x21, x22, x23, x24, x25,
  x26, x27, x28, x29, x30, x31, x32, x33, x34, x35, x36, x37, x38, x39, x40, x41, x42, x43,
  x44, x45, x46, x47, x48, x49, x50, x51, x52, x53, x54, x55, x56, x57, x58, x59, x60, x61,
  x62, x63]"
  "put [x0, x1, x2, x3, x4, x5, x6, x7, x8, x9, x10, x11, x12, x13, x14, x15, x16, x17,
  x18, x19, x20, x21, x22, x23, x24, x25, x26, x27, x28, x29, x30, x31, x32, x33, x34, x35,
  x36, x37, x38, x39, x40, x41, x42, x43, x44, x45, x46, x47, x48, x49, x50, x51, x52, x53,
  x54, x55, x56, x57, x58, x59, x60, x61, x62, x63] 9 v = [x0, x1, x2, x3, x4, x5, x6, x7,
  x8, v, x10, x11, x12, x13, x14, x15, x16, x17, x18, x19, x20, x21, x22, x23, x24, x25,
  x26, x27, x28, x29, x30, x31, x32, x33, x34, x35, x36, x37, x38, x39, x40, x41, x42, x43,
  x44, x45, x46, x47, x48, x49, x50, x51, x52, x53, x54, x55, x56, x57, x58, x59, x60, x61,
  x62, x63]"
  "put [x0, x1, x2, x3, x4, x5, x6, x7, x8, x9, x10, x11, x12, x13, x14, x15, x16, x17,
  x18, x19, x20, x21, x22, x23, x24, x25, x26, x27, x28, x29, x30, x31, x32, x33, x34, x35,
  x36, x37, x38, x39, x40, x41, x42, x43, x44, x45, x46, x47, x48, x49, x50, x51, x52, x53,
  x54, x55, x56, x57, x58, x59, x60, x61, x62, x63] 10 v = [x0, x1, x2, x3, x4, x5, x6, x7,
  x8, x9, v, x11, x12, x13, x14, x15, x16, x17, x18, x19, x20, x21, x22, x23, x24, x25,
  x26, x27, x28, x29, x30, x31, x32, x33, x34, x35, x36, x37, x38, x39, x40, x41, x42, x43,
  x44, x45, x46, x47, x48, x49, x50, x51, x52, x53, x54, x55, x56, x57, x58, x59, x60, x61,
  x62, x63]"
  "put [x0, x1, x2, x3, x4, x5, x6, x7, x8, x9, x10, x11, x12, x13, x14, x15, x16, x17,
  x18, x19, x20, x21, x22, x23, x24, x25, x26, x27, x28, x29, x30, x31, x32, x33, x34, x35,
  x36, x37, x38, x39, x40, x41, x42, x43, x44, x45, x46, x47, x48, x49, x50, x51, x52, x53,
  x54, x55, x56, x57, x58, x59, x60, x61, x62, x63] 11 v = [x0, x1, x2, x3, x4, x5, x6, x7,
  x8, x9, x10, v, x12, x13, x14, x15, x16, x17, x18, x19, x20, x21, x22, x23, x24, x25,
  x26, x27, x28, x29, x30, x31, x32, x33, x34, x35, x36, x37, x38, x39, x40, x41, x42, x43,
  x44, x45, x46, x47, x48, x49, x50, x51, x52, x53, x54, x55, x56, x57, x58, x59, x60, x61,
  x62, x63]"
  "put [x0, x1, x2, x3, x4, x5, x6, x7, x8, x9, x10, x11, x12, x13, x14, x15, x16, x17,
  x18, x19, x20, x21, x22, x23, x24, x25, x26, x27, x28, x29, x30, x31, x32, x33, x34, x35,
  x36, x37, x38, x39, x40, x41, x42, x43, x44, x45, x46, x47, x48, x49, x50, x51, x52, x53,
  x54, x55, x56, x57, x58, x59, x60, x61, x62, x63] 12 v = [x0, x1, x2, x3, x4, x5, x6, x7,
  x8, x9, x10, x11, v, x13, x14, x15, x16, x17, x18, x19, x20, x21, x22, x23, x24, x25,
  x26, x27, x28, x29, x30, x31, x32, x33, x34, x35, x36, x37, x38, x39, x40, x41, x42, x43,
  x44, x45, x46, x47, x48, x49, x50, x51, x52, x53, x54, x55, x56, x57, x58, x59, x60, x61,
  x62, x63]"
  "put [x0, x1, x2, x3, x4, x5, x6, x7, x8, x9, x10, x11, x12, x13, x14, x15, x16, x17,
  x18, x19, x20, x21, x22, x23, x24, x25, x26, x27, x28, x29, x30, x31, x32, x33, x34, x35,
  x36, x37, x38, x39, x40, x41, x42, x43, x44, x45, x46, x47, x48, x49, x50, x51, x52, x53,
  x54, x55, x56, x57, x58, x59, x60, x61, x62, x63] 13 v = [x0, x1, x2, x3, x4, x5, x6, x7,
  x8, x9, x10, x11, x12, v, x14, x15, x16, x17, x18, x19, x20, x21, x22, x23, x24, x25,
  x26, x27, x28, x29, x30, x31, x32, x33, x34, x35, x36, x37, x38, x39, x40, x41, x42, x43,
  x44, x45, x46, x47, x48, x49, x50, x51, x52, x53, x54, x55, x56, x57, x58, x59, x60, x61,
  x62, x63]"
  "put [x0, x1, x2, x3, x4, x5, x6, x7, x8, x9, x10, x11, x12, x13, x14, x15, x16, x17,
  x18, x19, x20, x21, x22, x23, x24, x25, x26, x27, x28, x29, x30, x31, x32, x33, x34, x35,
  x36, x37, x38, x39, x40, x41, x42, x43, x44, x45, x46, x47, x48, x49, x50, x51, x52, x53,
  x54, x55, x56, x57, x58, x59, x60, x61, x62, x63] 14 v = [x0, x1, x2, x3, x4, x5, x6, x7,
  x8, x9, x10, x11, x12, x13, v, x15, x16, x17, x18, x19, x20, x21, x22, x23, x24, x25,
  x26, x27, x28, x29, x30, x31, x32, x33, x34, x35, x36, x37, x38, x39, x40, x41, x42, x43,
  x44, x45, x46, x47, x48, x49, x50, x51, x52, x53, x54, x55, x56, x57, x58, x59, x60, x61,
  x62, x63]"
  "put [x0, x1, x2, x3, x4, x5, x6, x7, x8, x9, x10, x11, x12, x13, x14, x15, x16, x17,
  x18, x19, x20, x21, x22, x23, x24, x25, x26, x27, x28, x29, x30, x31, x32, x33, x34, x35,
  x36, x37, x38, x39, x40, x41, x42, x43, x44, x45, x46, x47, x48, x49, x50, x51, x52, x53,
  x54, x55, x56, x57, x58, x59, x60, x61, x62, x63] 15 v = [x0, x1, x2, x3, x4, x5, x6, x7,
  x8, x9, x10, x11, x12, x13, x14, v, x16, x17, x18, x19, x20, x21, x22, x23, x24, x25,
  x26, x27, x28, x29, x30, x31, x32, x33, x34, x35, x36, x37, x38, x39, x40, x41, x42, x43,
  x44, x45, x46, x47, x48, x49, x50, x51, x52, x53, x54, x55, x56, x57, x58, x59, x60, x61,
  x62, x63]"
  "put [x0, x1, x2, x3, x4, x5, x6, x7, x8, x9, x10, x11, x12, x13, x14, x15, x16, x17,
  x18, x19, x20, x21, x22, x23, x24, x25, x26, x27, x28, x29, x30, x31, x32, x33, x34, x35,
  x36, x37, x38, x39, x40, x41, x42, x43, x44, x45, x46, x47, x48, x49, x50, x51, x52, x53,
  x54, x55, x56, x57, x58, x59, x60, x61, x62, x63] 16 v = [x0, x1, x2, x3, x4, x5, x6, x7,
  x8, x9, x10, x11, x12, x13, x14, x15, v, x17, x18, x19, x20, x21, x22, x23, x24, x25,
  x26, x27, x28, x29, x30, x31, x32, x33, x34, x35, x36, x37, x38, x39, x40, x41, x42, x43,
  x44, x45, x46, x47, x48, x49, x50, x51, x52, x53, x54, x55, x56, x57, x58, x59, x60, x61,
  x62, x63]"
  "put [x0, x1, x2, x3, x4, x5, x6, x7, x8, x9, x10, x11, x12, x13, x14, x15, x16, x17,
  x18, x19, x20, x21, x22, x23, x24, x25, x26, x27, x28, x29, x30, x31, x32, x33, x34, x35,
  x36, x37, x38, x39, x40, x41, x42, x43, x44, x45, x46, x47, x48, x49, x50, x51, x52, x53,
  x54, x55, x56, x57, x58, x59, x60, x61, x62, x63] 17 v = [x0, x1, x2, x3, x4, x5, x6, x7,
  x8, x9, x10, x11, x12, x13, x14, x15, x16, v, x18, x19, x20, x21, x22, x23, x24, x25,
  x26, x27, x28, x29, x30, x31, x32, x33, x34, x35, x36, x37, x38, x39, x40, x41, x42, x43,
  x44, x45, x46, x47, x48, x49, x50, x51, x52, x53, x54, x55, x56, x57, x58, x59, x60, x61,
  x62, x63]"
  "put [x0, x1, x2, x3, x4, x5, x6, x7, x8, x9, x10, x11, x12, x13, x14, x15, x16, x17,
  x18, x19, x20, x21, x22, x23, x24, x25, x26, x27, x28, x29, x30, x31, x32, x33, x34, x35,
  x36, x37, x38, x39, x40, x41, x42, x43, x44, x45, x46, x47, x48, x49, x50, x51, x52, x53,
  x54, x55, x56, x57, x58, x59, x60, x61, x62, x63] 18 v = [x0, x1, x2, x3, x4, x5, x6, x7,
  x8, x9, x10, x11, x12, x13, x14, x15, x16, x17, v, x19, x20, x21, x22, x23, x24, x25,
  x26, x27, x28, x29, x30, x31, x32, x33, x34, x35, x36, x37, x38, x39, x40, x41, x42, x43,
  x44, x45, x46, x47, x48, x49, x50, x51, x52, x53, x54, x55, x56, x57, x58, x59, x60, x61,
  x62, x63]"
  "put [x0, x1, x2, x3, x4, x5, x6, x7, x8, x9, x10, x11, x12, x13, x14, x15, x16, x17,
  x18, x19, x20, x21, x22, x23, x24, x25, x26, x27, x28, x29, x30, x31, x32, x33, x34, x35,
  x36, x37, x38, x39, x40, x41, x42, x43, x44, x45, x46, x47, x48, x49, x50, x51, x52, x53,
  x54, x55, x56, x57, x58, x59, x60, x61, x62, x63] 19 v = [x0, x1, x2, x3, x4, x5, x6, x7,
  x8, x9, x10, x11, x12, x13, x14, x15, x16, x17, x18, v, x20, x21, x22, x23, x24, x25,
  x26, x27, x28, x29, x30, x31, x32, x33, x34, x35, x36, x37, x38, x39, x40, x41, x42, x43,
  x44, x45, x46, x47, x48, x49, x50, x51, x52, x53, x54, x55, x56, x57, x58, x59, x60, x61,
  x62, x63]"
  "put [x0, x1, x2, x3, x4, x5, x6, x7, x8, x9, x10, x11, x12, x13, x14, x15, x16, x17,
  x18, x19, x20, x21, x22, x23, x24, x25, x26, x27, x28, x29, x30, x31, x32, x33, x34, x35,
  x36, x37, x38, x39, x40, x41, x42, x43, x44, x45, x46, x47, x48, x49, x50, x51, x52, x53,
  x54, x55, x56, x57, x58, x59, x60, x61, x62, x63] 20 v = [x0, x1, x2, x3, x4, x5, x6, x7,
  x8, x9, x10, x11, x12, x13, x14, x15, x16, x17, x18, x19, v, x21, x22, x23, x24, x25,
  x26, x27, x28, x29, x30, x31, x32, x33, x34, x35, x36, x37, x38, x39, x40, x41, x42, x43,
  x44, x45, x46, x47, x48, x49, x50, x51, x52, x53, x54, x55, x56, x57, x58, x59, x60, x61,
  x62, x63]"
  "put [x0, x1, x2, x3, x4, x5, x6, x7, x8, x9, x10, x11, x12, x13, x14, x15, x16, x17,
  x18, x19, x20, x21, x22, x23, x24, x25, x26, x27, x28, x29, x30, x31, x32, x33, x34, x35,
  x36, x37, x38, x39, x40, x41, x42, x43, x44, x45, x46, x47, x48, x49, x50, x51, x52, x53,
  x54, x55, x56, x57, x58, x59, x60, x61, x62, x63] 21 v = [x0, x1, x2, x3, x4, x5, x6, x7,
  x8, x9, x10, x11, x12, x13, x14, x15, x16, x17, x18, x19, x20, v, x22, x23, x24, x25,
  x26, x27, x28, x29, x30, x31, x32, x33, x34, x35, x36, x37, x38, x39, x40, x41, x42, x43,
  x44, x45, x46, x47, x48, x49, x50, x51, x52, x53, x54, x55, x56, x57, x58, x59, x60, x61,
  x62, x63]"
  "put [x0, x1, x2, x3, x4, x5, x6, x7, x8, x9, x10, x11, x12, x13, x14, x15, x16, x17,
  x18, x19, x20, x21, x22, x23, x24, x25, x26, x27, x28, x29, x30, x31, x32, x33, x34, x35,
  x36, x37, x38, x39, x40, x41, x42, x43, x44, x45, x46, x47, x48, x49, x50, x51, x52, x53,
  x54, x55, x56, x57, x58, x59, x60, x61, x62, x63] 22 v = [x0, x1, x2, x3, x4, x5, x6, x7,
  x8, x9, x10, x11, x12, x13, x14, x15, x16, x17, x18, x19, x20, x21, v, x23, x24, x25,
  x26, x27, x28, x29, x30, x31, x32, x33, x34, x35, x36, x37, x38, x39, x40, x41, x42, x43,
  x44, x45, x46, x47, x48, x49, x50, x51, x52, x53, x54, x55, x56, x57, x58, x59, x60, x61,
  x62, x63]"
  "put [x0, x1, x2, x3, x4, x5, x6, x7, x8, x9, x10, x11, x12, x13, x14, x15, x16, x17,
  x18, x19, x20, x21, x22, x23, x24, x25, x26, x27, x28, x29, x30, x31, x32, x33, x34, x35,
  x36, x37, x38, x39, x40, x41, x42, x43, x44, x45, x46, x47, x48, x49, x50, x51, x52, x53,
  x54, x55, x56, x57, x58, x59, x60, x61, x62, x63] 23 v = [x0, x1, x2, x3, x4, x5, x6, x7,
  x8, x9, x10, x11, x12, x13, x14, x15, x16, x17, x18, x19, x20, x21, x22, v, x24, x25,
  x26, x27, x28, x29, x30, x31, x32, x33, x34, x35, x36, x37, x38, x39, x40, x41, x42, x43,
  x44, x45, x46, x47, x48, x49, x50, x51, x52, x53, x54, x55, x56, x57, x58, x59, x60, x61,
  x62, x63]"
  "put [x0, x1, x2, x3, x4, x5, x6, x7, x8, x9, x10, x11, x12, x13, x14, x15, x16, x17,
  x18, x19, x20, x21, x22, x23, x24, x25, x26, x27, x28, x29, x30, x31, x32, x33, x34, x35,
  x36, x37, x38, x39, x40, x41, x42, x43, x44, x45, x46, x47, x48, x49, x50, x51, x52, x53,
  x54, x55, x56, x57, x58, x59, x60, x61, x62, x63] 24 v = [x0, x1, x2, x3, x4, x5, x6, x7,
  x8, x9, x10, x11, x12, x13, x14, x15, x16, x17, x18, x19, x20, x21, x22, x23, v, x25,
  x26, x27, x28, x29, x30, x31, x32, x33, x34, x35, x36, x37, x38, x39, x40, x41, x42, x43,
  x44, x45, x46, x47, x48, x49, x50, x51, x52, x53, x54, x55, x56, x57, x58, x59, x60, x61,
  x62, x63]"
  "put [x0, x1, x2, x3, x4, x5, x6, x7, x8, x9, x10, x11, x12, x13, x14, x15, x16, x17,
  x18, x19, x20, x21, x22, x23, x24, x25, x26, x27, x28, x29, x30, x31, x32, x33, x34, x35,
  x36, x37, x38, x39, x40, x41, x42, x43, x44, x45, x46, x47, x48, x49, x50, x51, x52, x53,
  x54, x55, x56, x57, x58, x59, x60, x61, x62, x63] 25 v = [x0, x1, x2, x3, x4, x5, x6, x7,
  x8, x9, x10, x11, x12, x13, x14, x15, x16, x17, x18, x19, x20, x21, x22, x23, x24, v,
  x26, x27, x28, x29, x30, x31, x32, x33, x34, x35, x36, x37, x38, x39, x40, x41, x42, x43,
  x44, x45, x46, x47, x48, x49, x50, x51, x52, x53, x54, x55, x56, x57, x58, x59, x60, x61,
  x62, x63]"
  "put [x0, x1, x2, x3, x4, x5, x6, x7, x8, x9, x10, x11, x12, x13, x14, x15, x16, x17,
  x18, x19, x20, x21, x22, x23, x24, x25, x26, x27, x28, x29, x30, x31, x32, x33, x34, x35,
  x36, x37, x38, x39, x40, x41, x42, x43, x44, x45, x46, x47, x48, x49, x50, x51, x52, x53,
  x54, x55, x56, x57, x58, x59, x60, x61, x62, x63] 26 v = [x0, x1, x2, x3, x4, x5, x6, x7,
  x8, x9, x10, x11, x12, x13, x14, x15, x16, x17, x18, x19, x20, x21, x22, x23, x24, x25,
  v, x27, x28, x29, x30, x31, x32, x33, x34, x35, x36, x37, x38, x39, x40, x41, x42, x43,
  x44, x45, x46, x47, x48, x49, x50, x51, x52, x53, x54, x55, x56, x57, x58, x59, x60, x61,
  x62, x63]"
  "put [x0, x1, x2, x3, x4, x5, x6, x7, x8, x9, x10, x11, x12, x13, x14, x15, x16, x17,
  x18, x19, x20, x21, x22, x23, x24, x25, x26, x27, x28, x29, x30, x31, x32, x33, x34, x35,
  x36, x37, x38, x39, x40, x41, x42, x43, x44, x45, x46, x47, x48, x49, x50, x51, x52, x53,
  x54, x55, x56, x57, x58, x59, x60, x61, x62, x63] 27 v = [x0, x1, x2, x3, x4, x5, x6, x7,
  x8, x9, x10, x11, x12, x13, x14, x15, x16, x17, x18, x19, x20, x21, x22, x23, x24, x25,
  x26, v, x28, x29, x30, x31, x32, x33, x34, x35, x36, x37, x38, x39, x40, x41, x42, x43,
  x44, x45, x46, x47, x48, x49, x50, x51, x52, x53, x54, x55, x56, x57, x58, x59, x60, x61,
  x62, x63]"
  "put [x0, x1, x2, x3, x4, x5, x6, x7, x8, x9, x10, x11, x12, x13, x14, x15, x16, x17,
  x18, x19, x20, x21, x22, x23, x24, x25, x26, x27, x28, x29, x30, x31, x32, x33, x34, x35,
  x36, x37, x38, x39, x40, x41, x42, x43, x44, x45, x46, x47, x48, x49, x50, x51, x52, x53,
  x54, x55, x56, x57, x58, x59, x60, x61, x62, x63] 28 v = [x0, x1, x2, x3, x4, x5, x6, x7,
  x8, x9, x10, x11, x12, x13, x14, x15, x16, x17, x18, x19, x20, x21, x22, x23, x24, x25,
  x26, x27, v, x29, x30, x31, x32, x33, x34, x35, x36, x37, x38, x39, x40, x41, x42, x43,
  x44, x45, x46, x47, x48, x49, x50, x51, x52, x53, x54, x55, x56, x57, x58, x59, x60, x61,
  x62, x63]"
  "put [x0, x1, x2, x3, x4, x5, x6, x7, x8, x9, x10, x11, x12, x13, x14, x15, x16, x17,
  x18, x19, x20, x21, x22, x23, x24, x25, x26, x27, x28, x29, x30, x31, x32, x33, x34, x35,
  x36, x37, x38, x39, x40, x41, x42, x43, x44, x45, x46, x47, x48, x49, x50, x51, x52, x53,
  x54, x55, x56, x57, x58, x59, x60, x61, x62, x63] 29 v = [x0, x1, x2, x3, x4, x5, x6, x7,
  x8, x9, x10, x11, x12, x13, x14, x15, x16, x17, x18, x19, x20, x21, x22, x23, x24, x25,
  x26, x27, x28, v, x30, x31, x32, x33, x34, x35, x36, x37, x38, x39, x40, x41, x42, x43,
  x44, x45, x46, x47, x48, x49, x50, x51, x52, x53, x54, x55, x56, x57, x58, x59, x60, x61,
  x62, x63]"
  "put [x0, x1, x2, x3, x4, x5, x6, x7, x8, x9, x10, x11, x12, x13, x14, x15, x16, x17,
  x18, x19, x20, x21, x22, x23, x24, x25, x26, x27, x28, x29, x30, x31, x32, x33, x34, x35,
  x36, x37, x38, x39, x40, x41, x42, x43, x44, x45, x46, x47, x48, x49, x50, x51, x52, x53,
  x54, x55, x56, x57, x58, x59, x60, x61, x62, x63] 30 v = [x0, x1, x2, x3, x4, x5, x6, x7,
  x8, x9, x10, x11, x12, x13, x14, x15, x16, x17, x18, x19, x20, x21, x22, x23, x24, x25,
  x26, x27, x28, x29, v, x31, x32, x33, x34, x35, x36, x37, x38, x39, x40, x41, x42, x43,
  x44, x45, x46, x47, x48, x49, x50, x51, x52, x53, x54, x55, x56, x57, x58, x59, x60, x61,
  x62, x63]"
  "put [x0, x1, x2, x3, x4, x5, x6, x7, x8, x9, x10, x11, x12, x13, x14, x15, x16, x17,
  x18, x19, x20, x21, x22, x23, x24, x25, x26, x27, x28, x29, x30, x31, x32, x33, x34, x35,
  x36, x37, x38, x39, x40, x41, x42, x43, x44, x45, x46, x47, x48, x49, x50, x51, x52, x53,
  x54, x55, x56, x57, x58, x59, x60, x61, x62, x63] 31 v = [x0, x1, x2, x3, x4, x5, x6, x7,
  x8, x9, x10, x11, x12, x13, x14, x15, x16, x17, x18, x19, x20, x21, x22, x23, x24, x25,
  x26, x27, x28, x29, x30, v, x32, x33, x34, x35, x36, x37, x38, x39, x40, x41, x42, x43,
  x44, x45, x46, x47, x48, x49, x50, x51, x52, x53, x54, x55, x56, x57, x58, x59, x60, x61,
  x62, x63]"
  "put [x0, x1, x2, x3, x4, x5, x6, x7, x8, x9, x10, x11, x12, x13, x14, x15, x16, x17,
  x18, x19, x20, x21, x22, x23, x24, x25, x26, x27, x28, x29, x30, x31, x32, x33, x34, x35,
  x36, x37, x38, x39, x40, x41, x42, x43, x44, x45, x46, x47, x48, x49, x50, x51, x52, x53,
  x54, x55, x56, x57, x58, x59, x60, x61, x62, x63] 32 v = [x0, x1, x2, x3, x4, x5, x6, x7,
  x8, x9, x10, x11, x12, x13, x14, x15, x16, x17, x18, x19, x20, x21, x22, x23, x24, x25,
  x26, x27, x28, x29, x30, x31, v, x33, x34, x35, x36, x37, x38, x39, x40, x41, x42, x43,
  x44, x45, x46, x47, x48, x49, x50, x51, x52, x53, x54, x55, x56, x57, x58, x59, x60, x61,
  x62, x63]"
  "put [x0, x1, x2, x3, x4, x5, x6, x7, x8, x9, x10, x11, x12, x13, x14, x15, x16, x17,
  x18, x19, x20, x21, x22, x23, x24, x25, x26, x27, x28, x29, x30, x31, x32, x33, x34, x35,
  x36, x37, x38, x39, x40, x41, x42, x43, x44, x45, x46, x47, x48, x49, x50, x51, x52, x53,
  x54, x55, x56, x57, x58, x59, x60, x61, x62, x63] 33 v = [x0, x1, x2, x3, x4, x5, x6, x7,
  x8, x9, x10, x11, x12, x13, x14, x15, x16, x17, x18, x19, x20, x21, x22, x23, x24, x25,
  x26, x27, x28, x29, x30, x31, x32, v, x34, x35, x36, x37, x38, x39, x40, x41, x42, x43,
  x44, x45, x46, x47, x48, x49, x50, x51, x52, x53, x54, x55, x56, x57, x58, x59, x60, x61,
  x62, x63]"
  "put [x0, x1, x2, x3, x4, x5, x6, x7, x8, x9, x10, x11, x12, x13, x14, x15, x16, x17,
  x18, x19, x20, x21, x22, x23, x24, x25, x26, x27, x28, x29, x30, x31, x32, x33, x34, x35,
  x36, x37, x38, x39, x40, x41, x42, x43, x44, x45, x46, x47, x48, x49, x50, x51, x52, x53,
  x54, x55, x56, x57, x58, x59, x60, x61, x62, x63] 34 v = [x0, x1, x2, x3, x4, x5, x6, x7,
  x8, x9, x10, x11, x12, x13, x14, x15, x16, x17, x18, x19, x20, x21, x22, x23, x24, x25,
  x26, x27, x28, x29, x30, x31, x32, x33, v, x35, x36, x37, x38, x39, x40, x41, x42, x43,
  x44, x45, x46, x47, x48, x49, x50, x51, x52, x53, x54, x55, x56, x57, x58, x59, x60, x61,
  x62, x63]"
  "put [x0, x1, x2, x3, x4, x5, x6, x7, x8, x9, x10, x11, x12, x13, x14, x15, x16, x17,
  x18, x19, x20, x21, x22, x23, x24, x25, x26, x27, x28, x29, x30, x31, x32, x33, x34, x35,
  x36, x37, x38, x39, x40, x41, x42, x43, x44, x45, x46, x47, x48, x49, x50, x51, x52, x53,
  x54, x55, x56, x57, x58, x59, x60, x61, x62, x63] 35 v = [x0, x1, x2, x3, x4, x5, x6, x7,
  x8, x9, x10, x11, x12, x13, x14, x15, x16, x17, x18, x19, x20, x21, x22, x23, x24, x25,
  x26, x27, x28, x29, x30, x31, x32, x33, x34, v, x36, x37, x38, x39, x40, x41, x42, x43,
  x44, x45, x46, x47, x48, x49, x50, x51, x52, x53, x54, x55, x56, x57, x58, x59, x60, x61,
  x62, x63]"
  "put [x0, x1, x2, x3, x4, x5, x6, x7, x8, x9, x10, x11, x12, x13, x14, x15, x16, x17,
  x18, x19, x20, x21, x22, x23, x24, x25, x26, x27, x28, x29, x30, x31, x32, x33, x34, x35,
  x36, x37, x38, x39, x40, x41, x42, x43, x44, x45, x46, x47, x48, x49, x50, x51, x52, x53,
  x54, x55, x56, x57, x58, x59, x60, x61, x62, x63] 36 v = [x0, x1, x2, x3, x4, x5, x6, x7,
  x8, x9, x10, x11, x12, x13, x14, x15, x16, x17, x18, x19, x20, x21, x22, x23, x24, x25,
  x26, x27, x28, x29, x30, x31, x32, x33, x34, x35, v, x37, x38, x39, x40, x41, x42, x43,
  x44, x45, x46, x47, x48, x49, x50, x51, x52, x53, x54, x55, x56, x57, x58, x59, x60, x61,
  x62, x63]"
  "put [x0, x1, x2, x3, x4, x5, x6, x7, x8, x9, x10, x11, x12, x13, x14, x15, x16, x17,
  x18, x19, x20, x21, x22, x23, x24, x25, x26, x27, x28, x29, x30, x31, x32, x33, x34, x35,
  x36, x37, x38, x39, x40, x41, x42, x43, x44, x45, x46, x47, x48, x49, x50, x51, x52, x53,
  x54, x55, x56, x57, x58, x59, x60, x61, x62, x63] 37 v = [x0, x1, x2, x3, x4, x5, x6, x7,
  x8, x9, x10, x11, x12, x13, x14, x15, x16, x17, x18, x19, x20, x21, x22, x23, x24, x25,
  x26, x27, x28, x29, x30, x31, x32, x33, x34, x35, x36, v, x38, x39, x40, x41, x42, x43,
  x44, x45, x46, x47, x48, x49, x50, x51, x52, x53, x54, x55, x56, x57, x58, x59, x60, x61,
  x62, x63]"
  "put [x0, x1, x2, x3, x4, x5, x6, x7, x8, x9, x10, x11, x12, x13, x14, x15, x16, x17,
  x18, x19, x20, x21, x22, x23, x24, x25, x26, x27, x28, x29, x30, x31, x32, x33, x34, x35,
  x36, x37, x38, x39, x40, x41, x42, x43, x44, x45, x46, x47, x48, x49, x50, x51, x52, x53,
  x54, x55, x56, x57, x58, x59, x60, x61, x62, x63] 38 v = [x0, x1, x2, x3, x4, x5, x6, x7,
  x8, x9, x10, x11, x12, x13, x14, x15, x16, x17, x18, x19, x20, x21, x22, x23, x24, x25,
  x26, x27, x28, x29, x30, x31, x32, x33, x34, x35, x36, x37, v, x39, x40, x41, x42, x43,
  x44, x45, x46, x47, x48, x49, x50, x51, x52, x53, x54, x55, x56, x57, x58, x59, x60, x61,
  x62, x63]"
  "put [x0, x1, x2, x3, x4, x5, x6, x7, x8, x9, x10, x11, x12, x13, x14, x15, x16, x17,
  x18, x19, x20, x21, x22, x23, x24, x25, x26, x27, x28, x29, x30, x31, x32, x33, x34, x35,
  x36, x37, x38, x39, x40, x41, x42, x43, x44, x45, x46, x47, x48, x49, x50, x51, x52, x53,
  x54, x55, x56, x57, x58, x59, x60, x61, x62, x63] 39 v = [x0, x1, x2, x3, x4, x5, x6, x7,
  x8, x9, x10, x11, x12, x13, x14, x15, x16, x17, x18, x19, x20, x21, x22, x23, x24, x25,
  x26, x27, x28, x29, x30, x31, x32, x33, x34, x35, x36, x37, x38, v, x40, x41, x42, x43,
  x44, x45, x46, x47, x48, x49, x50, x51, x52, x53, x54, x55, x56, x57, x58, x59, x60, x61,
  x62, x63]"
  "put [x0, x1, x2, x3, x4, x5, x6, x7, x8, x9, x10, x11, x12, x13, x14, x15, x16, x17,
  x18, x19, x20, x21, x22, x23, x24, x25, x26, x27, x28, x29, x30, x31, x32, x33, x34, x35,
  x36, x37, x38, x39, x40, x41, x42, x43, x44, x45, x46, x47, x48, x49, x50, x51, x52, x53,
  x54, x55, x56, x57, x58, x59, x60, x61, x62, x63] 40 v = [x0, x1, x2, x3, x4, x5, x6, x7,
  x8, x9, x10, x11, x12, x13, x14, x15, x16, x17, x18, x19, x20, x21, x22, x23, x24, x25,
  x26, x27, x28, x29, x30, x31, x32, x33, x34, x35, x36, x37, x38, x39, v, x41, x42, x43,
  x44, x45, x46, x47, x48, x49, x50, x51, x52, x53, x54, x55, x56, x57, x58, x59, x60, x61,
  x62, x63]"
  "put [x0, x1, x2, x3, x4, x5, x6, x7, x8, x9, x10, x11, x12, x13, x14, x15, x16, x17,
  x18, x19, x20, x21, x22, x23, x24, x25, x26, x27, x28, x29, x30, x31, x32, x33, x34, x35,
  x36, x37, x38, x39, x40, x41, x42, x43, x44, x45, x46, x47, x48, x49, x50, x51, x52, x53,
  x54, x55, x56, x57, x58, x59, x60, x61, x62, x63] 41 v = [x0, x1, x2, x3, x4, x5, x6, x7,
  x8, x9, x10, x11, x12, x13, x14, x15, x16, x17, x18, x19, x20, x21, x22, x23, x24, x25,
  x26, x27, x28, x29, x30, x31, x32, x33, x34, x35, x36, x37, x38, x39, x40, v, x42, x43,
  x44, x45, x46, x47, x48, x49, x50, x51, x52, x53, x54, x55, x56, x57, x58, x59, x60, x61,
  x62, x63]"
  "put [x0, x1, x2, x3, x4, x5, x6, x7, x8, x9, x10, x11, x12, x13, x14, x15, x16, x17,
  x18, x19, x20, x21, x22, x23, x24, x25, x26, x27, x28, x29, x30, x31, x32, x33, x34, x35,
  x36, x37, x38, x39, x40, x41, x42, x43, x44, x45, x46, x47, x48, x49, x50, x51, x52, x53,
  x54, x55, x56, x57, x58, x59, x60, x61, x62, x63] 42 v = [x0, x1, x2, x3, x4, x5, x6, x7,
  x8, x9, x10, x11, x12, x13, x14, x15, x16, x17, x18, x19, x20, x21, x22, x23, x24, x25,
  x26, x27, x28, x29, x30, x31, x32, x33, x34, x35, x36, x37, x38, x39, x40, x41, v, x43,
  x44, x45, x46, x47, x48, x49, x50, x51, x52, x53, x54, x55, x56, x57, x58, x59, x60, x61,
  x62, x63]"
  "put [x0, x1, x2, x3, x4, x5, x6, x7, x8, x9, x10, x11, x12, x13, x14, x15, x16, x17,
  x18, x19, x20, x21, x22, x23, x24, x25, x26, x27, x28, x29, x30, x31, x32, x33, x34, x35,
  x36, x37, x38, x39, x40, x41, x42, x43, x44, x45, x46, x47, x48, x49, x50, x51, x52, x53,
  x54, x55, x56, x57, x58, x59, x60, x61, x62, x63] 43 v = [x0, x1, x2, x3, x4, x5, x6, x7,
  x8, x9, x10, x11, x12, x13, x14, x15, x16, x17, x18, x19, x20, x21, x22, x23, x24, x25,
  x26, x27, x28, x29, x30, x31, x32, x33, x34, x35, x36, x37, x38, x39, x40, x41, x42, v,
  x44, x45, x46, x47, x48, x49, x50, x51, x52, x53, x54, x55, x56, x57, x58, x59, x60, x61,
  x62, x63]"
  "put [x0, x1, x2, x3, x4, x5, x6, x7, x8, x9, x10, x11, x12, x13, x14, x15, x16, x17,
  x18, x19, x20, x21, x22, x23, x24, x25, x26, x27, x28, x29, x30, x31, x32, x33, x34, x35,
  x36, x37, x38, x39, x40, x41, x42, x43, x44, x45, x46, x47, x48, x49, x50, x51, x52, x53,
  x54, x55, x56, x57, x58, x59, x60, x61, x62, x63] 44 v = [x0, x1, x2, x3, x4, x5, x6, x7,
  x8, x9, x10, x11, x12, x13, x14, x15, x16, x17, x18, x19, x20, x21, x22, x23, x24, x25,
  x26, x27, x28, x29, x30, x31, x32, x33, x34, x35, x36, x37, x38, x39, x40, x41, x42, x43,
  v, x45, x46, x47, x48, x49, x50, x51, x52, x53, x54, x55, x56, x57, x58, x59, x60, x61,
  x62, x63]"
  "put [x0, x1, x2, x3, x4, x5, x6, x7, x8, x9, x10, x11, x12, x13, x14, x15, x16, x17,
  x18, x19, x20, x21, x22, x23, x24, x25, x26, x27, x28, x29, x30, x31, x32, x33, x34, x35,
  x36, x37, x38, x39, x40, x41, x42, x43, x44, x45, x46, x47, x48, x49, x50, x51, x52, x53,
  x54, x55, x56, x57, x58, x59, x60, x61, x62, x63] 45 v = [x0, x1, x2, x3, x4, x5, x6, x7,
  x8, x9, x10, x11, x12, x13, x14, x15, x16, x17, x18, x19, x20, x21, x22, x23, x24, x25,
  x26, x27, x28, x29, x30, x31, x32, x33, x34, x35, x36, x37, x38, x39, x40, x41, x42, x43,
  x44, v, x46, x47, x48, x49, x50, x51, x52, x53, x54, x55, x56, x57, x58, x59, x60, x61,
  x62, x63]"
  "put [x0, x1, x2, x3, x4, x5, x6, x7, x8, x9, x10, x11, x12, x13, x14, x15, x16, x17,
  x18, x19, x20, x21, x22, x23, x24, x25, x26, x27, x28, x29, x30, x31, x32, x33, x34, x35,
  x36, x37, x38, x39, x40, x41, x42, x43, x44, x45, x46, x47, x48, x49, x50, x51, x52, x53,
  x54, x55, x56, x57, x58, x59, x60, x61, x62, x63] 46 v = [x0, x1, x2, x3, x4, x5, x6, x7,
  x8, x9, x10, x11, x12, x13, x14, x15, x16, x17, x18, x19, x20, x21, x22, x23, x24, x25,
  x26, x27, x28, x29, x30, x31, x32, x33, x34, x35, x36, x37, x38, x39, x40, x41, x42, x43,
  x44, x45, v, x47, x48, x49, x50, x51, x52, x53, x54, x55, x56, x57, x58, x59, x60, x61,
  x62, x63]"
  "put [x0, x1, x2, x3, x4, x5, x6, x7, x8, x9, x10, x11, x12, x13, x14, x15, x16, x17,
  x18, x19, x20, x21, x22, x23, x24, x25, x26, x27, x28, x29, x30, x31, x32, x33, x34, x35,
  x36, x37, x38, x39, x40, x41, x42, x43, x44, x45, x46, x47, x48, x49, x50, x51, x52, x53,
  x54, x55, x56, x57, x58, x59, x60, x61, x62, x63] 47 v = [x0, x1, x2, x3, x4, x5, x6, x7,
  x8, x9, x10, x11, x12, x13, x14, x15, x16, x17, x18, x19, x20, x21, x22, x23, x24, x25,
  x26, x27, x28, x29, x30, x31, x32, x33, x34, x35, x36, x37, x38, x39, x40, x41, x42, x43,
  x44, x45, x46, v, x48, x49, x50, x51, x52, x53, x54, x55, x56, x57, x58, x59, x60, x61,
  x62, x63]"
  "put [x0, x1, x2, x3, x4, x5, x6, x7, x8, x9, x10, x11, x12, x13, x14, x15, x16, x17,
  x18, x19, x20, x21, x22, x23, x24, x25, x26, x27, x28, x29, x30, x31, x32, x33, x34, x35,
  x36, x37, x38, x39, x40, x41, x42, x43, x44, x45, x46, x47, x48, x49, x50, x51, x52, x53,
  x54, x55, x56, x57, x58, x59, x60, x61, x62, x63] 48 v = [x0, x1, x2, x3, x4, x5, x6, x7,
  x8, x9, x10, x11, x12, x13, x14, x15, x16, x17, x18, x19, x20, x21, x22, x23, x24, x25,
  x26, x27, x28, x29, x30, x31, x32, x33, x34, x35, x36, x37, x38, x39, x40, x41, x42, x43,
  x44, x45, x46, x47, v, x49, x50, x51, x52, x53, x54, x55, x56, x57, x58, x59, x60, x61,
  x62, x63]"
  "put [x0, x1, x2, x3, x4, x5, x6, x7, x8, x9, x10, x11, x12, x13, x14, x15, x16, x17,
  x18, x19, x20, x21, x22, x23, x24, x25, x26, x27, x28, x29, x30, x31, x32, x33, x34, x35,
  x36, x37, x38, x39, x40, x41, x42, x43, x44, x45, x46, x47, x48, x49, x50, x51, x52, x53,
  x54, x55, x56, x57, x58, x59, x60, x61, x62, x63] 49 v = [x0, x1, x2, x3, x4, x5, x6, x7,
  x8, x9, x10, x11, x12, x13, x14, x15, x16, x17, x18, x19, x20, x21, x22, x23, x24, x25,
  x26, x27, x28, x29, x30, x31, x32, x33, x34, x35, x36, x37, x38, x39, x40, x41, x42, x43,
  x44, x45, x46, x47, x48, v, x50, x51, x52, x53, x54, x55, x56, x57, x58, x59, x60, x61,
  x62, x63]"
  "put [x0, x1, x2, x3, x4, x5, x6, x7, x8, x9, x10, x11, x12, x13, x14, x15, x16, x17,
  x18, x19, x20, x21, x22, x23, x24, x25, x26, x27, x28, x29, x30, x31, x32, x33, x34, x35,
  x36, x37, x38, x39, x40, x41, x42, x43, x44, x45, x46, x47, x48, x49, x50, x51, x52, x53,
  x54, x55, x56, x57, x58, x59, x60, x61, x62, x63] 50 v = [x0, x1, x2, x3, x4, x5, x6, x7,
  x8, x9, x10, x11, x12, x13, x14, x15, x16, x17, x18, x19, x20, x21, x22, x23, x24, x25,
  x26, x27, x28, x29, x30, x31, x32, x33, x34, x35, x36, x37, x38, x39, x40, x41, x42, x43,
  x44, x45, x46, x47, x48, x49, v, x51, x52, x53, x54, x55, x56, x57, x58, x59, x60, x61,
  x62, x63]"
  "put [x0, x1, x2, x3, x4, x5, x6, x7, x8, x9, x10, x11, x12, x13, x14, x15, x16, x17,
  x18, x19, x20, x21, x22, x23, x24, x25, x26, x27, x28, x29, x30, x31, x32, x33, x34, x35,
  x36, x37, x38, x39, x40, x41, x42, x43, x44, x45, x46, x47, x48, x49, x50, x51, x52, x53,
  x54, x55, x56, x57, x58, x59, x60, x61, x62, x63] 51 v = [x0, x1, x2, x3, x4, x5, x6, x7,
  x8, x9, x10, x11, x12, x13, x14, x15, x16, x17, x18, x19, x20, x21, x22, x23, x24, x25,
  x26, x27, x28, x29, x30, x31, x32, x33, x34, x35, x36, x37, x38, x39, x40, x41, x42, x43,
  x44, x45, x46, x47, x48, x49, x50, v, x52, x53, x54, x55, x56, x57, x58, x59, x60, x61,
  x62, x63]"
  "put [x0, x1, x2, x3, x4, x5, x6, x7, x8, x9, x10, x11, x12, x13, x14, x15, x16, x17,
  x18, x19, x20, x21, x22, x23, x24, x25, x26, x27, x28, x29, x30, x31, x32, x33, x34, x35,
  x36, x37, x38, x39, x40, x41, x42, x43, x44, x45, x46, x47, x48, x49, x50, x51, x52, x53,
  x54, x55, x56, x57, x58, x59, x60, x61, x62, x63] 52 v = [x0, x1, x2, x3, x4, x5, x6, x7,
  x8, x9, x10, x11, x12, x13, x14, x15, x16, x17, x18, x19, x20, x21, x22, x23, x24, x25,
  x26, x27, x28, x29, x30, x31, x32, x33, x34, x35, x36, x37, x38, x39, x40, x41, x42, x43,
  x44, x45, x46, x47, x48, x49, x50, x51, v, x53, x54, x55, x56, x57, x58, x59, x60, x61,
  x62, x63]"
  "put [x0, x1, x2, x3, x4, x5, x6, x7, x8, x9, x10, x11, x12, x13, x14, x15, x16, x17,
  x18, x19, x20, x21, x22, x23, x24, x25, x26, x27, x28, x29, x30, x31, x32, x33, x34, x35,
  x36, x37, x38, x39, x40, x41, x42, x43, x44, x45, x46, x47, x48, x49, x50, x51, x52, x53,
  x54, x55, x56, x57, x58, x59, x60, x61, x62, x63] 53 v = [x0, x1, x2, x3, x4, x5, x6, x7,
  x8, x9, x10, x11, x12, x13, x14, x15, x16, x17, x18, x19, x20, x21, x22, x23, x24, x25,
  x26, x27, x28, x29, x30, x31, x32, x33, x34, x35, x36, x37, x38, x39, x40, x41, x42, x43,
  x44, x45, x46, x47, x48, x49, x50, x51, x52, v, x54, x55, x56, x57, x58, x59, x60, x61,
  x62, x63]"
  "put [x0, x1, x2, x3, x4, x5, x6, x7, x8, x9, x10, x11, x12, x13, x14, x15, x16, x17,
  x18, x19, x20, x21, x22, x23, x24, x25, x26, x27, x28, x29, x30, x31, x32, x33, x34, x35,
  x36, x37, x38, x39, x40, x41, x42, x43, x44, x45, x46, x47, x48, x49, x50, x51, x52, x53,
  x54, x55, x56, x57, x58, x59, x60, x61, x62, x63] 54 v = [x0, x1, x2, x3, x4, x5, x6, x7,
  x8, x9, x10, x11, x12, x13, x14, x15, x16, x17, x18, x19, x20, x21, x22, x23, x24, x25,
  x26, x27, x28, x29, x30, x31, x32, x33, x34, x35, x36, x37, x38, x39, x40, x41, x42, x43,
  x44, x45, x46, x47, x48, x49, x50, x51, x52, x53, v, x55, x56, x57, x58, x59, x60, x61,
  x62, x63]"
  "put [x0, x1, x2, x3, x4, x5, x6, x7, x8, x9, x10, x11, x12, x13, x14, x15, x16, x17,
  x18, x19, x20, x21, x22, x23, x24, x25, x26, x27, x28, x29, x30, x31, x32, x33, x34, x35,
  x36, x37, x38, x39, x40, x41, x42, x43, x44, x45, x46, x47, x48, x49, x50, x51, x52, x53,
  x54, x55, x56, x57, x58, x59, x60, x61, x62, x63] 55 v = [x0, x1, x2, x3, x4, x5, x6, x7,
  x8, x9, x10, x11, x12, x13, x14, x15, x16, x17, x18, x19, x20, x21, x22, x23, x24, x25,
  x26, x27, x28, x29, x30, x31, x32, x33, x34, x35, x36, x37, x38, x39, x40, x41, x42, x43,
  x44, x45, x46, x47, x48, x49, x50, x51, x52, x53, x54, v, x56, x57, x58, x59, x60, x61,
  x62, x63]"
  "put [x0, x1, x2, x3, x4, x5, x6, x7, x8, x9, x10, x11, x12, x13, x14, x15, x16, x17,
  x18, x19, x20, x21, x22, x23, x24, x25, x26, x27, x28, x29, x30, x31, x32, x33, x34, x35,
  x36, x37, x38, x39, x40, x41, x42, x43, x44, x45, x46, x47, x48, x49, x50, x51, x52, x53,
  x54, x55, x56, x57, x58, x59, x60, x61, x62, x63] 56 v = [x0, x1, x2, x3, x4, x5, x6, x7,
  x8, x9, x10, x11, x12, x13, x14, x15, x16, x17, x18, x19, x20, x21, x22, x23, x24, x25,
  x26, x27, x28, x29, x30, x31, x32, x33, x34, x35, x36, x37, x38, x39, x40, x41, x42, x43,
  x44, x45, x46, x47, x48, x49, x50, x51, x52, x53, x54, x55, v, x57, x58, x59, x60, x61,
  x62, x63]"
  "put [x0, x1, x2, x3, x4, x5, x6, x7, x8, x9, x10, x11, x12, x13, x14, x15, x16, x17,
  x18, x19, x20, x21, x22, x23, x24, x25, x26, x27, x28, x29, x30, x31, x32, x33, x34, x35,
  x36, x37, x38, x39, x40, x41, x42, x43, x44, x45, x46, x47, x48, x49, x50, x51, x52, x53,
  x54, x55, x56, x57, x58, x59, x60, x61, x62, x63] 57 v = [x0, x1, x2, x3, x4, x5, x6, x7,
  x8, x9, x10, x11, x12, x13, x14, x15, x16, x17, x18, x19, x20, x21, x22, x23, x24, x25,
  x26, x27, x28, x29, x30, x31, x32, x33, x34, x35, x36, x37, x38, x39, x40, x41, x42, x43,
  x44, x45, x46, x47, x48, x49, x50, x51, x52, x53, x54, x55, x56, v, x58, x59, x60, x61,
  x62, x63]"
  "put [x0, x1, x2, x3, x4, x5, x6, x7, x8, x9, x10, x11, x12, x13, x14, x15, x16, x17,
  x18, x19, x20, x21, x22, x23, x24, x25, x26, x27, x28, x29, x30, x31, x32, x33, x34, x35,
  x36, x37, x38, x39, x40, x41, x42, x43, x44, x45, x46, x47, x48, x49, x50, x51, x52, x53,
  x54, x55, x56, x57, x58, x59, x60, x61, x62, x63] 58 v = [x0, x1, x2, x3, x4, x5, x6, x7,
  x8, x9, x10, x11, x12, x13, x14, x15, x16, x17, x18, x19, x20, x21, x22, x23, x24, x25,
  x26, x27, x28, x29, x30, x31, x32, x33, x34, x35, x36, x37, x38, x39, x40, x41, x42, x43,
  x44, x45, x46, x47, x48, x49, x50, x51, x52, x53, x54, x55, x56, x57, v, x59, x60, x61,
  x62, x63]"
  "put [x0, x1, x2, x3, x4, x5, x6, x7, x8, x9, x10, x11, x12, x13, x14, x15, x16, x17,
  x18, x19, x20, x21, x22, x23, x24, x25, x26, x27, x28, x29, x30, x31, x32, x33, x34, x35,
  x36, x37, x38, x39, x40, x41, x42, x43, x44, x45, x46, x47, x48, x49, x50, x51, x52, x53,
  x54, x55, x56, x57, x58, x59, x60, x61, x62, x63] 59 v = [x0, x1, x2, x3, x4, x5, x6, x7,
  x8, x9, x10, x11, x12, x13, x14, x15, x16, x17, x18, x19, x20, x21, x22, x23, x24, x25,
  x26, x27, x28, x29, x30, x31, x32, x33, x34, x35, x36, x37, x38, x39, x40, x41, x42, x43,
  x44, x45, x46, x47, x48, x49, x50, x51, x52, x53, x54, x55, x56, x57, x58, v, x60, x61,
  x62, x63]"
  "put [x0, x1, x2, x3, x4, x5, x6, x7, x8, x9, x10, x11, x12, x13, x14, x15, x16, x17,
  x18, x19, x20, x21, x22, x23, x24, x25, x26, x27, x28, x29, x30, x31, x32, x33, x34, x35,
  x36, x37, x38, x39, x40, x41, x42, x43, x44, x45, x46, x47, x48, x49, x50, x51, x52, x53,
  x54, x55, x56, x57, x58, x59, x60, x61, x62, x63] 60 v = [x0, x1, x2, x3, x4, x5, x6, x7,
  x8, x9, x10, x11, x12, x13, x14, x15, x16, x17, x18, x19, x20, x21, x22, x23, x24, x25,
  x26, x27, x28, x29, x30, x31, x32, x33, x34, x35, x36, x37, x38, x39, x40, x41, x42, x43,
  x44, x45, x46, x47, x48, x49, x50, x51, x52, x53, x54, x55, x56, x57, x58, x59, v, x61,
  x62, x63]"
  "put [x0, x1, x2, x3, x4, x5, x6, x7, x8, x9, x10, x11, x12, x13, x14, x15, x16, x17,
  x18, x19, x20, x21, x22, x23, x24, x25, x26, x27, x28, x29, x30, x31, x32, x33, x34, x35,
  x36, x37, x38, x39, x40, x41, x42, x43, x44, x45, x46, x47, x48, x49, x50, x51, x52, x53,
  x54, x55, x56, x57, x58, x59, x60, x61, x62, x63] 61 v = [x0, x1, x2, x3, x4, x5, x6, x7,
  x8, x9, x10, x11, x12, x13, x14, x15, x16, x17, x18, x19, x20, x21, x22, x23, x24, x25,
  x26, x27, x28, x29, x30, x31, x32, x33, x34, x35, x36, x37, x38, x39, x40, x41, x42, x43,
  x44, x45, x46, x47, x48, x49, x50, x51, x52, x53, x54, x55, x56, x57, x58, x59, x60, v,
  x62, x63]"
  "put [x0, x1, x2, x3, x4, x5, x6, x7, x8, x9, x10, x11, x12, x13, x14, x15, x16, x17,
  x18, x19, x20, x21, x22, x23, x24, x25, x26, x27, x28, x29, x30, x31, x32, x33, x34, x35,
  x36, x37, x38, x39, x40, x41, x42, x43, x44, x45, x46, x47, x48, x49, x50, x51, x52, x53,
  x54, x55, x56, x57, x58, x59, x60, x61, x62, x63] 62 v = [x0, x1, x2, x3, x4, x5, x6, x7,
  x8, x9, x10, x11, x12, x13, x14, x15, x16, x17, x18, x19, x20, x21, x22, x23, x24, x25,
  x26, x27, x28, x29, x30, x31, x32, x33, x34, x35, x36, x37, x38, x39, x40, x41, x42, x43,
  x44, x45, x46, x47, x48, x49, x50, x51, x52, x53, x54, x55, x56, x57, x58, x59, x60, x61,
  v, x63]"
  "put [x0, x1, x2, x3, x4, x5, x6, x7, x8, x9, x10, x11, x12, x13, x14, x15, x16, x17,
  x18, x19, x20, x21, x22, x23, x24, x25, x26, x27, x28, x29, x30, x31, x32, x33, x34, x35,
  x36, x37, x38, x39, x40, x41, x42, x43, x44, x45, x46, x47, x48, x49, x50, x51, x52, x53,
  x54, x55, x56, x57, x58, x59, x60, x61, x62, x63] 63 v = [x0, x1, x2, x3, x4, x5, x6, x7,
  x8, x9, x10, x11, x12, x13, x14, x15, x16, x17, x18, x19, x20, x21, x22, x23, x24, x25,
  x26, x27, x28, x29, x30, x31, x32, x33, x34, x35, x36, x37, x38, x39, x40, x41, x42, x43,
  x44, x45, x46, x47, x48, x49, x50, x51, x52, x53, x54, x55, x56, x57, x58, x59, x60, x61,
  x62, v]"
  by (simp_all add: put_def)

lemma cell_outside [board_eval]:
  "i < 0 \<Longrightarrow> cell b i = None"
  "length b = 64 \<Longrightarrow> 64 \<le> i \<Longrightarrow> cell b i = None"
  by (simp_all add: cell_def)

lemma upto_0_63 [board_eval]:
  "[0 .. 63] = ([0, 1, 2, 3, 4, 5, 6, 7] @ [8, 9, 10, 11, 12, 13, 14, 15] @ [16, 17, 18, 19, 20, 21, 22, 23] @ [24, 25, 26, 27, 28, 29, 30, 31]
      @ [32, 33, 34, 35, 36, 37, 38, 39] @ [40, 41, 42, 43, 44, 45, 46, 47] @ [48, 49, 50, 51, 52, 53, 54, 55] @ [56, 57, 58, 59, 60, 61, 62, 63] :: int list)"
  by (simp add: upto_rec1)

lemma upto_0_7 [board_eval]: "[0 .. 7] = [0, 1, 2, 3, 4, 5, 6, 7 :: int]"
  by (simp add: upto_rec1)

lemma row_tab [board_eval]:
  "row 0 = 0" "row 1 = 0" "row 2 = 0" "row 3 = 0" "row 4 = 0" "row 5 = 0" "row 6 = 0" "row
  7 = 0" "row 8 = 1" "row 9 = 1" "row 10 = 1" "row 11 = 1" "row 12 = 1" "row 13 = 1" "row
  14 = 1" "row 15 = 1" "row 16 = 2" "row 17 = 2" "row 18 = 2" "row 19 = 2" "row 20 = 2"
  "row 21 = 2" "row 22 = 2" "row 23 = 2" "row 24 = 3" "row 25 = 3" "row 26 = 3" "row 27 =
  3" "row 28 = 3" "row 29 = 3" "row 30 = 3" "row 31 = 3" "row 32 = 4" "row 33 = 4" "row 34
  = 4" "row 35 = 4" "row 36 = 4" "row 37 = 4" "row 38 = 4" "row 39 = 4" "row 40 = 5" "row
  41 = 5" "row 42 = 5" "row 43 = 5" "row 44 = 5" "row 45 = 5" "row 46 = 5" "row 47 = 5"
  "row 48 = 6" "row 49 = 6" "row 50 = 6" "row 51 = 6" "row 52 = 6" "row 53 = 6" "row 54 =
  6" "row 55 = 6" "row 56 = 7" "row 57 = 7" "row 58 = 7" "row 59 = 7" "row 60 = 7" "row 61
  = 7" "row 62 = 7" "row 63 = 7"
  by (simp_all add: row_def)

lemma col_tab [board_eval]:
  "col 0 = 0" "col 1 = 1" "col 2 = 2" "col 3 = 3" "col 4 = 4" "col 5 = 5" "col 6 = 6" "col
  7 = 7" "col 8 = 0" "col 9 = 1" "col 10 = 2" "col 11 = 3" "col 12 = 4" "col 13 = 5" "col
  14 = 6" "col 15 = 7" "col 16 = 0" "col 17 = 1" "col 18 = 2" "col 19 = 3" "col 20 = 4"
  "col 21 = 5" "col 22 = 6" "col 23 = 7" "col 24 = 0" "col 25 = 1" "col 26 = 2" "col 27 =
  3" "col 28 = 4" "col 29 = 5" "col 30 = 6" "col 31 = 7" "col 32 = 0" "col 33 = 1" "col 34
  = 2" "col 35 = 3" "col 36 = 4" "col 37 = 5" "col 38 = 6" "col 39 = 7" "col 40 = 0" "col
  41 = 1" "col 42 = 2" "col 43 = 3" "col 44 = 4" "col 45 = 5" "col 46 = 6" "col 47 = 7"
  "col 48 = 0" "col 49 = 1" "col 50 = 2" "col 51 = 3" "col 52 = 4" "col 53 = 5" "col 54 =
  6" "col 55 = 7" "col 56 = 0" "col 57 = 1" "col 58 = 2" "col 59 = 3" "col 60 = 4" "col 61
  = 5" "col 62 = 6" "col 63 = 7"
  by (simp_all add: col_def jsmod_def)

section \<open>Evaluation lemmas\<close>

declare raySquares.simps [simp del] rayHits.simps [simp del] addSlide.simps [simp del]

lemma rayHits_firstHit:
  "rayHits b p1 p2 dr df ar af = firstHit (map (cell b) (raySquares dr df ar af)) p1 p2"
proof (induction dr df ar af rule: raySquares.induct)
  case (1 dr df ar af)
  show ?case
  proof (cases "isValid ar af \<and> (dr \<noteq> 0 \<or> df \<noteq> 0)")
    case True
    then show ?thesis
      using 1
      by (subst rayHits.simps, subst raySquares.simps) (auto split: option.splits)
  next
    case False
    then show ?thesis
      by (subst rayHits.simps, subst raySquares.simps) auto
  qed
qed

lemma stepHits_squares:
  "list_ex (\<lambda>(dr, df). stepHits b p (r + dr) (f + df)) jumps
   = list_ex (\<lambda>x. x = Some p) (map (cell b) (stepSquares jumps r f))"
  by (induction jumps) (auto simp: stepSquares_def stepHits_def)

lemma stepHits_squares1:
  "list_ex (\<lambda>df. stepHits b p r (f + df)) dfs
   = list_ex (\<lambda>x. x = Some p) (map (cell b) (stepSquares (map (\<lambda>df. (0, df)) dfs) r f))"
  by (induction dfs) (auto simp: stepSquares_def stepHits_def)

lemma isAttacked_cells:
  "isAttacked b sq c =
     attackedL c
       (map (cell b) (stepSquares [(0, - 1), (0, 1)] (row sq + (if c = White then 1 else - 1)) (col sq)))
       (map (cell b) (stepSquares knightJumps (row sq) (col sq)))
       (map (\<lambda>(dr, df). map (cell b) (raySquares dr df (row sq + dr) (col sq + df))) diagDirs)
       (map (\<lambda>(dr, df). map (cell b) (raySquares dr df (row sq + dr) (col sq + df))) straightDirs)
       (map (cell b) (stepSquares allDirs (row sq) (col sq)))"
  unfolding isAttacked_def attackedL_def Let_def stepHits_squares
  using stepHits_squares1[of b _ _ _ "[- 1, 1]"]
  by (simp add: rayHits_firstHit list_ex_iff split_beta)

lemmas geom_eval = stepSquares_def knightJumps_def diagDirs_def straightDirs_def allDirs_def
  raySquares.simps isValid_def idx_def

lemma isAttacked_lit_0 [board_eval]:
  "isAttacked [x0, x1, x2, x3, x4, x5, x6, x7, x8, x9, x10, x11, x12, x13, x14, x15, x16, x17,
    x18, x19, x20, x21, x22, x23, x24, x25, x26, x27, x28, x29, x30, x31, x32, x33, x34, x35,
    x36, x37, x38, x39, x40, x41, x42, x43, x44, x45, x46, x47, x48, x49, x50, x51, x52, x53,
    x54, x55, x56, x57, x58, x59, x60, x61, x62, x63] 0 c = attackedL c (if c = White then [x9]
    else []) [x10, x17] [[], [], [], [x9, x18, x27, x36, x45, x54, x63]] [[], [x8, x16, x24,
    x32, x40, x48, x56], [], [x1, x2, x3, x4, x5, x6, x7]] [x1, x8, x9]"
  by (cases c) (simp_all add: isAttacked_cells geom_eval board_eval)

lemma isAttacked_lit_1 [board_eval]:
  "isAttacked [x0, x1, x2, x3, x4, x5, x6, x7, x8, x9, x10, x11, x12, x13, x14, x15, x16, x17,
    x18, x19, x20, x21, x22, x23, x24, x25, x26, x27, x28, x29, x30, x31, x32, x33, x34, x35,
    x36, x37, x38, x39, x40, x41, x42, x43, x44, x45, x46, x47, x48, x49, x50, x51, x52, x53,
    x54, x55, x56, x57, x58, x59, x60, x61, x62, x63] 1 c = attackedL c (if c = White then [x8,
    x10] else []) [x11, x16, x18] [[], [], [x8], [x10, x19, x28, x37, x46, x55]] [[], [x9, x17,
    x25, x33, x41, x49, x57], [x0], [x2, x3, x4, x5, x6, x7]] [x0, x2, x8, x9, x10]"
  by (cases c) (simp_all add: isAttacked_cells geom_eval board_eval)

lemma isAttacked_lit_2 [board_eval]:
  "isAttacked [x0, x1, x2, x3, x4, x5, x6, x7, x8, x9, x10, x11, x12, x13, x14, x15, x16, x17,
    x18, x19, x20, x21, x22, x23, x24, x25, x26, x27, x28, x29, x30, x31, x32, x33, x34, x35,
    x36, x37, x38, x39, x40, x41, x42, x43, x44, x45, x46, x47, x48, x49, x50, x51, x52, x53,
    x54, x55, x56, x57, x58, x59, x60, x61, x62, x63] 2 c = attackedL c (if c = White then [x9,
    x11] else []) [x8, x12, x17, x19] [[], [], [x9, x16], [x11, x20, x29, x38, x47]] [[], [x10,
    x18, x26, x34, x42, x50, x58], [x1, x0], [x3, x4, x5, x6, x7]] [x1, x3, x9, x10, x11]"
  by (cases c) (simp_all add: isAttacked_cells geom_eval board_eval)

lemma isAttacked_lit_3 [board_eval]:
  "isAttacked [x0, x1, x2, x3, x4, x5, x6, x7, x8, x9, x10, x11, x12, x13, x14, x15, x16, x17,
    x18, x19, x20, x21, x22, x23, x24, x25, x26, x27, x28, x29, x30, x31, x32, x33, x34, x35,
    x36, x37, x38, x39, x40, x41, x42, x43, x44, x45, x46, x47, x48, x49, x50, x51, x52, x53,
    x54, x55, x56, x57, x58, x59, x60, x61, x62, x63] 3 c = attackedL c (if c = White then
    [x10, x12] else []) [x9, x13, x18, x20] [[], [], [x10, x17, x24], [x12, x21, x30, x39]]
    [[], [x11, x19, x27, x35, x43, x51, x59], [x2, x1, x0], [x4, x5, x6, x7]] [x2, x4, x10,
    x11, x12]"
  by (cases c) (simp_all add: isAttacked_cells geom_eval board_eval)

lemma isAttacked_lit_4 [board_eval]:
  "isAttacked [x0, x1, x2, x3, x4, x5, x6, x7, x8, x9, x10, x11, x12, x13, x14, x15, x16, x17,
    x18, x19, x20, x21, x22, x23, x24, x25, x26, x27, x28, x29, x30, x31, x32, x33, x34, x35,
    x36, x37, x38, x39, x40, x41, x42, x43, x44, x45, x46, x47, x48, x49, x50, x51, x52, x53,
    x54, x55, x56, x57, x58, x59, x60, x61, x62, x63] 4 c = attackedL c (if c = White then
    [x11, x13] else []) [x10, x14, x19, x21] [[], [], [x11, x18, x25, x32], [x13, x22, x31]]
    [[], [x12, x20, x28, x36, x44, x52, x60], [x3, x2, x1, x0], [x5, x6, x7]] [x3, x5, x11,
    x12, x13]"
  by (cases c) (simp_all add: isAttacked_cells geom_eval board_eval)

lemma isAttacked_lit_5 [board_eval]:
  "isAttacked [x0, x1, x2, x3, x4, x5, x6, x7, x8, x9, x10, x11, x12, x13, x14, x15, x16, x17,
    x18, x19, x20, x21, x22, x23, x24, x25, x26, x27, x28, x29, x30, x31, x32, x33, x34, x35,
    x36, x37, x38, x39, x40, x41, x42, x43, x44, x45, x46, x47, x48, x49, x50, x51, x52, x53,
    x54, x55, x56, x57, x58, x59, x60, x61, x62, x63] 5 c = attackedL c (if c = White then
    [x12, x14] else []) [x11, x15, x20, x22] [[], [], [x12, x19, x26, x33, x40], [x14, x23]]
    [[], [x13, x21, x29, x37, x45, x53, x61], [x4, x3, x2, x1, x0], [x6, x7]] [x4, x6, x12,
    x13, x14]"
  by (cases c) (simp_all add: isAttacked_cells geom_eval board_eval)

lemma isAttacked_lit_6 [board_eval]:
  "isAttacked [x0, x1, x2, x3, x4, x5, x6, x7, x8, x9, x10, x11, x12, x13, x14, x15, x16, x17,
    x18, x19, x20, x21, x22, x23, x24, x25, x26, x27, x28, x29, x30, x31, x32, x33, x34, x35,
    x36, x37, x38, x39, x40, x41, x42, x43, x44, x45, x46, x47, x48, x49, x50, x51, x52, x53,
    x54, x55, x56, x57, x58, x59, x60, x61, x62, x63] 6 c = attackedL c (if c = White then
    [x13, x15] else []) [x12, x21, x23] [[], [], [x13, x20, x27, x34, x41, x48], [x15]] [[],
    [x14, x22, x30, x38, x46, x54, x62], [x5, x4, x3, x2, x1, x0], [x7]] [x5, x7, x13, x14,
    x15]"
  by (cases c) (simp_all add: isAttacked_cells geom_eval board_eval)

lemma isAttacked_lit_7 [board_eval]:
  "isAttacked [x0, x1, x2, x3, x4, x5, x6, x7, x8, x9, x10, x11, x12, x13, x14, x15, x16, x17,
    x18, x19, x20, x21, x22, x23, x24, x25, x26, x27, x28, x29, x30, x31, x32, x33, x34, x35,
    x36, x37, x38, x39, x40, x41, x42, x43, x44, x45, x46, x47, x48, x49, x50, x51, x52, x53,
    x54, x55, x56, x57, x58, x59, x60, x61, x62, x63] 7 c = attackedL c (if c = White then
    [x14] else []) [x13, x22] [[], [], [x14, x21, x28, x35, x42, x49, x56], []] [[], [x15, x23,
    x31, x39, x47, x55, x63], [x6, x5, x4, x3, x2, x1, x0], []] [x6, x14, x15]"
  by (cases c) (simp_all add: isAttacked_cells geom_eval board_eval)

lemma isAttacked_lit_8 [board_eval]:
  "isAttacked [x0, x1, x2, x3, x4, x5, x6, x7, x8, x9, x10, x11, x12, x13, x14, x15, x16, x17,
    x18, x19, x20, x21, x22, x23, x24, x25, x26, x27, x28, x29, x30, x31, x32, x33, x34, x35,
    x36, x37, x38, x39, x40, x41, x42, x43, x44, x45, x46, x47, x48, x49, x50, x51, x52, x53,
    x54, x55, x56, x57, x58, x59, x60, x61, x62, x63] 8 c = attackedL c (if c = White then
    [x17] else [x1]) [x2, x18, x25] [[], [x1], [], [x17, x26, x35, x44, x53, x62]] [[x0], [x16,
    x24, x32, x40, x48, x56], [], [x9, x10, x11, x12, x13, x14, x15]] [x0, x1, x9, x16, x17]"
  by (cases c) (simp_all add: isAttacked_cells geom_eval board_eval)

lemma isAttacked_lit_9 [board_eval]:
  "isAttacked [x0, x1, x2, x3, x4, x5, x6, x7, x8, x9, x10, x11, x12, x13, x14, x15, x16, x17,
    x18, x19, x20, x21, x22, x23, x24, x25, x26, x27, x28, x29, x30, x31, x32, x33, x34, x35,
    x36, x37, x38, x39, x40, x41, x42, x43, x44, x45, x46, x47, x48, x49, x50, x51, x52, x53,
    x54, x55, x56, x57, x58, x59, x60, x61, x62, x63] 9 c = attackedL c (if c = White then
    [x16, x18] else [x0, x2]) [x3, x19, x24, x26] [[x0], [x2], [x16], [x18, x27, x36, x45, x54,
    x63]] [[x1], [x17, x25, x33, x41, x49, x57], [x8], [x10, x11, x12, x13, x14, x15]] [x0, x1,
    x2, x8, x10, x16, x17, x18]"
  by (cases c) (simp_all add: isAttacked_cells geom_eval board_eval)

lemma isAttacked_lit_10 [board_eval]:
  "isAttacked [x0, x1, x2, x3, x4, x5, x6, x7, x8, x9, x10, x11, x12, x13, x14, x15, x16, x17,
    x18, x19, x20, x21, x22, x23, x24, x25, x26, x27, x28, x29, x30, x31, x32, x33, x34, x35,
    x36, x37, x38, x39, x40, x41, x42, x43, x44, x45, x46, x47, x48, x49, x50, x51, x52, x53,
    x54, x55, x56, x57, x58, x59, x60, x61, x62, x63] 10 c = attackedL c (if c = White then
    [x17, x19] else [x1, x3]) [x0, x4, x16, x20, x25, x27] [[x1], [x3], [x17, x24], [x19, x28,
    x37, x46, x55]] [[x2], [x18, x26, x34, x42, x50, x58], [x9, x8], [x11, x12, x13, x14, x15]]
    [x1, x2, x3, x9, x11, x17, x18, x19]"
  by (cases c) (simp_all add: isAttacked_cells geom_eval board_eval)

lemma isAttacked_lit_11 [board_eval]:
  "isAttacked [x0, x1, x2, x3, x4, x5, x6, x7, x8, x9, x10, x11, x12, x13, x14, x15, x16, x17,
    x18, x19, x20, x21, x22, x23, x24, x25, x26, x27, x28, x29, x30, x31, x32, x33, x34, x35,
    x36, x37, x38, x39, x40, x41, x42, x43, x44, x45, x46, x47, x48, x49, x50, x51, x52, x53,
    x54, x55, x56, x57, x58, x59, x60, x61, x62, x63] 11 c = attackedL c (if c = White then
    [x18, x20] else [x2, x4]) [x1, x5, x17, x21, x26, x28] [[x2], [x4], [x18, x25, x32], [x20,
    x29, x38, x47]] [[x3], [x19, x27, x35, x43, x51, x59], [x10, x9, x8], [x12, x13, x14, x15]]
    [x2, x3, x4, x10, x12, x18, x19, x20]"
  by (cases c) (simp_all add: isAttacked_cells geom_eval board_eval)

lemma isAttacked_lit_12 [board_eval]:
  "isAttacked [x0, x1, x2, x3, x4, x5, x6, x7, x8, x9, x10, x11, x12, x13, x14, x15, x16, x17,
    x18, x19, x20, x21, x22, x23, x24, x25, x26, x27, x28, x29, x30, x31, x32, x33, x34, x35,
    x36, x37, x38, x39, x40, x41, x42, x43, x44, x45, x46, x47, x48, x49, x50, x51, x52, x53,
    x54, x55, x56, x57, x58, x59, x60, x61, x62, x63] 12 c = attackedL c (if c = White then
    [x19, x21] else [x3, x5]) [x2, x6, x18, x22, x27, x29] [[x3], [x5], [x19, x26, x33, x40],
    [x21, x30, x39]] [[x4], [x20, x28, x36, x44, x52, x60], [x11, x10, x9, x8], [x13, x14,
    x15]] [x3, x4, x5, x11, x13, x19, x20, x21]"
  by (cases c) (simp_all add: isAttacked_cells geom_eval board_eval)

lemma isAttacked_lit_13 [board_eval]:
  "isAttacked [x0, x1, x2, x3, x4, x5, x6, x7, x8, x9, x10, x11, x12, x13, x14, x15, x16, x17,
    x18, x19, x20, x21, x22, x23, x24, x25, x26, x27, x28, x29, x30, x31, x32, x33, x34, x35,
    x36, x37, x38, x39, x40, x41, x42, x43, x44, x45, x46, x47, x48, x49, x50, x51, x52, x53,
    x54, x55, x56, x57, x58, x59, x60, x61, x62, x63] 13 c = attackedL c (if c = White then
    [x20, x22] else [x4, x6]) [x3, x7, x19, x23, x28, x30] [[x4], [x6], [x20, x27, x34, x41,
    x48], [x22, x31]] [[x5], [x21, x29, x37, x45, x53, x61], [x12, x11, x10, x9, x8], [x14,
    x15]] [x4, x5, x6, x12, x14, x20, x21, x22]"
  by (cases c) (simp_all add: isAttacked_cells geom_eval board_eval)

lemma isAttacked_lit_14 [board_eval]:
  "isAttacked [x0, x1, x2, x3, x4, x5, x6, x7, x8, x9, x10, x11, x12, x13, x14, x15, x16, x17,
    x18, x19, x20, x21, x22, x23, x24, x25, x26, x27, x28, x29, x30, x31, x32, x33, x34, x35,
    x36, x37, x38, x39, x40, x41, x42, x43, x44, x45, x46, x47, x48, x49, x50, x51, x52, x53,
    x54, x55, x56, x57, x58, x59, x60, x61, x62, x63] 14 c = attackedL c (if c = White then
    [x21, x23] else [x5, x7]) [x4, x20, x29, x31] [[x5], [x7], [x21, x28, x35, x42, x49, x56],
    [x23]] [[x6], [x22, x30, x38, x46, x54, x62], [x13, x12, x11, x10, x9, x8], [x15]] [x5, x6,
    x7, x13, x15, x21, x22, x23]"
  by (cases c) (simp_all add: isAttacked_cells geom_eval board_eval)

lemma isAttacked_lit_15 [board_eval]:
  "isAttacked [x0, x1, x2, x3, x4, x5, x6, x7, x8, x9, x10, x11, x12, x13, x14, x15, x16, x17,
    x18, x19, x20, x21, x22, x23, x24, x25, x26, x27, x28, x29, x30, x31, x32, x33, x34, x35,
    x36, x37, x38, x39, x40, x41, x42, x43, x44, x45, x46, x47, x48, x49, x50, x51, x52, x53,
    x54, x55, x56, x57, x58, x59, x60, x61, x62, x63] 15 c = attackedL c (if c = White then
    [x22] else [x6]) [x5, x21, x30] [[x6], [], [x22, x29, x36, x43, x50, x57], []] [[x7], [x23,
    x31, x39, x47, x55, x63], [x14, x13, x12, x11, x10, x9, x8], []] [x6, x7, x14, x22, x23]"
  by (cases c) (simp_all add: isAttacked_cells geom_eval board_eval)

lemma isAttacked_lit_16 [board_eval]:
  "isAttacked [x0, x1, x2, x3, x4, x5, x6, x7, x8, x9, x10, x11, x12, x13, x14, x15, x16, x17,
    x18, x19, x20, x21, x22, x23, x24, x25, x26, x27, x28, x29, x30, x31, x32, x33, x34, x35,
    x36, x37, x38, x39, x40, x41, x42, x43, x44, x45, x46, x47, x48, x49, x50, x51, x52, x53,
    x54, x55, x56, x57, x58, x59, x60, x61, x62, x63] 16 c = attackedL c (if c = White then
    [x25] else [x9]) [x1, x10, x26, x33] [[], [x9, x2], [], [x25, x34, x43, x52, x61]] [[x8,
    x0], [x24, x32, x40, x48, x56], [], [x17, x18, x19, x20, x21, x22, x23]] [x8, x9, x17, x24,
    x25]"
  by (cases c) (simp_all add: isAttacked_cells geom_eval board_eval)

lemma isAttacked_lit_17 [board_eval]:
  "isAttacked [x0, x1, x2, x3, x4, x5, x6, x7, x8, x9, x10, x11, x12, x13, x14, x15, x16, x17,
    x18, x19, x20, x21, x22, x23, x24, x25, x26, x27, x28, x29, x30, x31, x32, x33, x34, x35,
    x36, x37, x38, x39, x40, x41, x42, x43, x44, x45, x46, x47, x48, x49, x50, x51, x52, x53,
    x54, x55, x56, x57, x58, x59, x60, x61, x62, x63] 17 c = attackedL c (if c = White then
    [x24, x26] else [x8, x10]) [x0, x2, x11, x27, x32, x34] [[x8], [x10, x3], [x24], [x26, x35,
    x44, x53, x62]] [[x9, x1], [x25, x33, x41, x49, x57], [x16], [x18, x19, x20, x21, x22,
    x23]] [x8, x9, x10, x16, x18, x24, x25, x26]"
  by (cases c) (simp_all add: isAttacked_cells geom_eval board_eval)

lemma isAttacked_lit_18 [board_eval]:
  "isAttacked [x0, x1, x2, x3, x4, x5, x6, x7, x8, x9, x10, x11, x12, x13, x14, x15, x16, x17,
    x18, x19, x20, x21, x22, x23, x24, x25, x26, x27, x28, x29, x30, x31, x32, x33, x34, x35,
    x36, x37, x38, x39, x40, x41, x42, x43, x44, x45, x46, x47, x48, x49, x50, x51, x52, x53,
    x54, x55, x56, x57, x58, x59, x60, x61, x62, x63] 18 c = attackedL c (if c = White then
    [x25, x27] else [x9, x11]) [x1, x3, x8, x12, x24, x28, x33, x35] [[x9, x0], [x11, x4],
    [x25, x32], [x27, x36, x45, x54, x63]] [[x10, x2], [x26, x34, x42, x50, x58], [x17, x16],
    [x19, x20, x21, x22, x23]] [x9, x10, x11, x17, x19, x25, x26, x27]"
  by (cases c) (simp_all add: isAttacked_cells geom_eval board_eval)

lemma isAttacked_lit_19 [board_eval]:
  "isAttacked [x0, x1, x2, x3, x4, x5, x6, x7, x8, x9, x10, x11, x12, x13, x14, x15, x16, x17,
    x18, x19, x20, x21, x22, x23, x24, x25, x26, x27, x28, x29, x30, x31, x32, x33, x34, x35,
    x36, x37, x38, x39, x40, x41, x42, x43, x44, x45, x46, x47, x48, x49, x50, x51, x52, x53,
    x54, x55, x56, x57, x58, x59, x60, x61, x62, x63] 19 c = attackedL c (if c = White then
    [x26, x28] else [x10, x12]) [x2, x4, x9, x13, x25, x29, x34, x36] [[x10, x1], [x12, x5],
    [x26, x33, x40], [x28, x37, x46, x55]] [[x11, x3], [x27, x35, x43, x51, x59], [x18, x17,
    x16], [x20, x21, x22, x23]] [x10, x11, x12, x18, x20, x26, x27, x28]"
  by (cases c) (simp_all add: isAttacked_cells geom_eval board_eval)

lemma isAttacked_lit_20 [board_eval]:
  "isAttacked [x0, x1, x2, x3, x4, x5, x6, x7, x8, x9, x10, x11, x12, x13, x14, x15, x16, x17,
    x18, x19, x20, x21, x22, x23, x24, x25, x26, x27, x28, x29, x30, x31, x32, x33, x34, x35,
    x36, x37, x38, x39, x40, x41, x42, x43, x44, x45, x46, x47, x48, x49, x50, x51, x52, x53,
    x54, x55, x56, x57, x58, x59, x60, x61, x62, x63] 20 c = attackedL c (if c = White then
    [x27, x29] else [x11, x13]) [x3, x5, x10, x14, x26, x30, x35, x37] [[x11, x2], [x13, x6],
    [x27, x34, x41, x48], [x29, x38, x47]] [[x12, x4], [x28, x36, x44, x52, x60], [x19, x18,
    x17, x16], [x21, x22, x23]] [x11, x12, x13, x19, x21, x27, x28, x29]"
  by (cases c) (simp_all add: isAttacked_cells geom_eval board_eval)

lemma isAttacked_lit_21 [board_eval]:
  "isAttacked [x0, x1, x2, x3, x4, x5, x6, x7, x8, x9, x10, x11, x12, x13, x14, x15, x16, x17,
    x18, x19, x20, x21, x22, x23, x24, x25, x26, x27, x28, x29, x30, x31, x32, x33, x34, x35,
    x36, x37, x38, x39, x40, x41, x42, x43, x44, x45, x46, x47, x48, x49, x50, x51, x52, x53,
    x54, x55, x56, x57, x58, x59, x60, x61, x62, x63] 21 c = attackedL c (if c = White then
    [x28, x30] else [x12, x14]) [x4, x6, x11, x15, x27, x31, x36, x38] [[x12, x3], [x14, x7],
    [x28, x35, x42, x49, x56], [x30, x39]] [[x13, x5], [x29, x37, x45, x53, x61], [x20, x19,
    x18, x17, x16], [x22, x23]] [x12, x13, x14, x20, x22, x28, x29, x30]"
  by (cases c) (simp_all add: isAttacked_cells geom_eval board_eval)

lemma isAttacked_lit_22 [board_eval]:
  "isAttacked [x0, x1, x2, x3, x4, x5, x6, x7, x8, x9, x10, x11, x12, x13, x14, x15, x16, x17,
    x18, x19, x20, x21, x22, x23, x24, x25, x26, x27, x28, x29, x30, x31, x32, x33, x34, x35,
    x36, x37, x38, x39, x40, x41, x42, x43, x44, x45, x46, x47, x48, x49, x50, x51, x52, x53,
    x54, x55, x56, x57, x58, x59, x60, x61, x62, x63] 22 c = attackedL c (if c = White then
    [x29, x31] else [x13, x15]) [x5, x7, x12, x28, x37, x39] [[x13, x4], [x15], [x29, x36, x43,
    x50, x57], [x31]] [[x14, x6], [x30, x38, x46, x54, x62], [x21, x20, x19, x18, x17, x16],
    [x23]] [x13, x14, x15, x21, x23, x29, x30, x31]"
  by (cases c) (simp_all add: isAttacked_cells geom_eval board_eval)

lemma isAttacked_lit_23 [board_eval]:
  "isAttacked [x0, x1, x2, x3, x4, x5, x6, x7, x8, x9, x10, x11, x12, x13, x14, x15, x16, x17,
    x18, x19, x20, x21, x22, x23, x24, x25, x26, x27, x28, x29, x30, x31, x32, x33, x34, x35,
    x36, x37, x38, x39, x40, x41, x42, x43, x44, x45, x46, x47, x48, x49, x50, x51, x52, x53,
    x54, x55, x56, x57, x58, x59, x60, x61, x62, x63] 23 c = attackedL c (if c = White then
    [x30] else [x14]) [x6, x13, x29, x38] [[x14, x5], [], [x30, x37, x44, x51, x58], []] [[x15,
    x7], [x31, x39, x47, x55, x63], [x22, x21, x20, x19, x18, x17, x16], []] [x14, x15, x22,
    x30, x31]"
  by (cases c) (simp_all add: isAttacked_cells geom_eval board_eval)

lemma isAttacked_lit_24 [board_eval]:
  "isAttacked [x0, x1, x2, x3, x4, x5, x6, x7, x8, x9, x10, x11, x12, x13, x14, x15, x16, x17,
    x18, x19, x20, x21, x22, x23, x24, x25, x26, x27, x28, x29, x30, x31, x32, x33, x34, x35,
    x36, x37, x38, x39, x40, x41, x42, x43, x44, x45, x46, x47, x48, x49, x50, x51, x52, x53,
    x54, x55, x56, x57, x58, x59, x60, x61, x62, x63] 24 c = attackedL c (if c = White then
    [x33] else [x17]) [x9, x18, x34, x41] [[], [x17, x10, x3], [], [x33, x42, x51, x60]] [[x16,
    x8, x0], [x32, x40, x48, x56], [], [x25, x26, x27, x28, x29, x30, x31]] [x16, x17, x25,
    x32, x33]"
  by (cases c) (simp_all add: isAttacked_cells geom_eval board_eval)

lemma isAttacked_lit_25 [board_eval]:
  "isAttacked [x0, x1, x2, x3, x4, x5, x6, x7, x8, x9, x10, x11, x12, x13, x14, x15, x16, x17,
    x18, x19, x20, x21, x22, x23, x24, x25, x26, x27, x28, x29, x30, x31, x32, x33, x34, x35,
    x36, x37, x38, x39, x40, x41, x42, x43, x44, x45, x46, x47, x48, x49, x50, x51, x52, x53,
    x54, x55, x56, x57, x58, x59, x60, x61, x62, x63] 25 c = attackedL c (if c = White then
    [x32, x34] else [x16, x18]) [x8, x10, x19, x35, x40, x42] [[x16], [x18, x11, x4], [x32],
    [x34, x43, x52, x61]] [[x17, x9, x1], [x33, x41, x49, x57], [x24], [x26, x27, x28, x29,
    x30, x31]] [x16, x17, x18, x24, x26, x32, x33, x34]"
  by (cases c) (simp_all add: isAttacked_cells geom_eval board_eval)

lemma isAttacked_lit_26 [board_eval]:
  "isAttacked [x0, x1, x2, x3, x4, x5, x6, x7, x8, x9, x10, x11, x12, x13, x14, x15, x16, x17,
    x18, x19, x20, x21, x22, x23, x24, x25, x26, x27, x28, x29, x30, x31, x32, x33, x34, x35,
    x36, x37, x38, x39, x40, x41, x42, x43, x44, x45, x46, x47, x48, x49, x50, x51, x52, x53,
    x54, x55, x56, x57, x58, x59, x60, x61, x62, x63] 26 c = attackedL c (if c = White then
    [x33, x35] else [x17, x19]) [x9, x11, x16, x20, x32, x36, x41, x43] [[x17, x8], [x19, x12,
    x5], [x33, x40], [x35, x44, x53, x62]] [[x18, x10, x2], [x34, x42, x50, x58], [x25, x24],
    [x27, x28, x29, x30, x31]] [x17, x18, x19, x25, x27, x33, x34, x35]"
  by (cases c) (simp_all add: isAttacked_cells geom_eval board_eval)

lemma isAttacked_lit_27 [board_eval]:
  "isAttacked [x0, x1, x2, x3, x4, x5, x6, x7, x8, x9, x10, x11, x12, x13, x14, x15, x16, x17,
    x18, x19, x20, x21, x22, x23, x24, x25, x26, x27, x28, x29, x30, x31, x32, x33, x34, x35,
    x36, x37, x38, x39, x40, x41, x42, x43, x44, x45, x46, x47, x48, x49, x50, x51, x52, x53,
    x54, x55, x56, x57, x58, x59, x60, x61, x62, x63] 27 c = attackedL c (if c = White then
    [x34, x36] else [x18, x20]) [x10, x12, x17, x21, x33, x37, x42, x44] [[x18, x9, x0], [x20,
    x13, x6], [x34, x41, x48], [x36, x45, x54, x63]] [[x19, x11, x3], [x35, x43, x51, x59],
    [x26, x25, x24], [x28, x29, x30, x31]] [x18, x19, x20, x26, x28, x34, x35, x36]"
  by (cases c) (simp_all add: isAttacked_cells geom_eval board_eval)

lemma isAttacked_lit_28 [board_eval]:
  "isAttacked [x0, x1, x2, x3, x4, x5, x6, x7, x8, x9, x10, x11, x12, x13, x14, x15, x16, x17,
    x18, x19, x20, x21, x22, x23, x24, x25, x26, x27, x28, x29, x30, x31, x32, x33, x34, x35,
    x36, x37, x38, x39, x40, x41, x42, x43, x44, x45, x46, x47, x48, x49, x50, x51, x52, x53,
    x54, x55, x56, x57, x58, x59, x60, x61, x62, x63] 28 c = attackedL c (if c = White then
    [x35, x37] else [x19, x21]) [x11, x13, x18, x22, x34, x38, x43, x45] [[x19, x10, x1], [x21,
    x14, x7], [x35, x42, x49, x56], [x37, x46, x55]] [[x20, x12, x4], [x36, x44, x52, x60],
    [x27, x26, x25, x24], [x29, x30, x31]] [x19, x20, x21, x27, x29, x35, x36, x37]"
  by (cases c) (simp_all add: isAttacked_cells geom_eval board_eval)

lemma isAttacked_lit_29 [board_eval]:
  "isAttacked [x0, x1, x2, x3, x4, x5, x6, x7, x8, x9, x10, x11, x12, x13, x14, x15, x16, x17,
    x18, x19, x20, x21, x22, x23, x24, x25, x26, x27, x28, x29, x30, x31, x32, x33, x34, x35,
    x36, x37, x38, x39, x40, x41, x42, x43, x44, x45, x46, x47, x48, x49, x50, x51, x52, x53,
    x54, x55, x56, x57, x58, x59, x60, x61, x62, x63] 29 c = attackedL c (if c = White then
    [x36, x38] else [x20, x22]) [x12, x14, x19, x23, x35, x39, x44, x46] [[x20, x11, x2], [x22,
    x15], [x36, x43, x50, x57], [x38, x47]] [[x21, x13, x5], [x37, x45, x53, x61], [x28, x27,
    x26, x25, x24], [x30, x31]] [x20, x21, x22, x28, x30, x36, x37, x38]"
  by (cases c) (simp_all add: isAttacked_cells geom_eval board_eval)

lemma isAttacked_lit_30 [board_eval]:
  "isAttacked [x0, x1, x2, x3, x4, x5, x6, x7, x8, x9, x10, x11, x12, x13, x14, x15, x16, x17,
    x18, x19, x20, x21, x22, x23, x24, x25, x26, x27, x28, x29, x30, x31, x32, x33, x34, x35,
    x36, x37, x38, x39, x40, x41, x42, x43, x44, x45, x46, x47, x48, x49, x50, x51, x52, x53,
    x54, x55, x56, x57, x58, x59, x60, x61, x62, x63] 30 c = attackedL c (if c = White then
    [x37, x39] else [x21, x23]) [x13, x15, x20, x36, x45, x47] [[x21, x12, x3], [x23], [x37,
    x44, x51, x58], [x39]] [[x22, x14, x6], [x38, x46, x54, x62], [x29, x28, x27, x26, x25,
    x24], [x31]] [x21, x22, x23, x29, x31, x37, x38, x39]"
  by (cases c) (simp_all add: isAttacked_cells geom_eval board_eval)

lemma isAttacked_lit_31 [board_eval]:
  "isAttacked [x0, x1, x2, x3, x4, x5, x6, x7, x8, x9, x10, x11, x12, x13, x14, x15, x16, x17,
    x18, x19, x20, x21, x22, x23, x24, x25, x26, x27, x28, x29, x30, x31, x32, x33, x34, x35,
    x36, x37, x38, x39, x40, x41, x42, x43, x44, x45, x46, x47, x48, x49, x50, x51, x52, x53,
    x54, x55, x56, x57, x58, x59, x60, x61, x62, x63] 31 c = attackedL c (if c = White then
    [x38] else [x22]) [x14, x21, x37, x46] [[x22, x13, x4], [], [x38, x45, x52, x59], []]
    [[x23, x15, x7], [x39, x47, x55, x63], [x30, x29, x28, x27, x26, x25, x24], []] [x22, x23,
    x30, x38, x39]"
  by (cases c) (simp_all add: isAttacked_cells geom_eval board_eval)

lemma isAttacked_lit_32 [board_eval]:
  "isAttacked [x0, x1, x2, x3, x4, x5, x6, x7, x8, x9, x10, x11, x12, x13, x14, x15, x16, x17,
    x18, x19, x20, x21, x22, x23, x24, x25, x26, x27, x28, x29, x30, x31, x32, x33, x34, x35,
    x36, x37, x38, x39, x40, x41, x42, x43, x44, x45, x46, x47, x48, x49, x50, x51, x52, x53,
    x54, x55, x56, x57, x58, x59, x60, x61, x62, x63] 32 c = attackedL c (if c = White then
    [x41] else [x25]) [x17, x26, x42, x49] [[], [x25, x18, x11, x4], [], [x41, x50, x59]]
    [[x24, x16, x8, x0], [x40, x48, x56], [], [x33, x34, x35, x36, x37, x38, x39]] [x24, x25,
    x33, x40, x41]"
  by (cases c) (simp_all add: isAttacked_cells geom_eval board_eval)

lemma isAttacked_lit_33 [board_eval]:
  "isAttacked [x0, x1, x2, x3, x4, x5, x6, x7, x8, x9, x10, x11, x12, x13, x14, x15, x16, x17,
    x18, x19, x20, x21, x22, x23, x24, x25, x26, x27, x28, x29, x30, x31, x32, x33, x34, x35,
    x36, x37, x38, x39, x40, x41, x42, x43, x44, x45, x46, x47, x48, x49, x50, x51, x52, x53,
    x54, x55, x56, x57, x58, x59, x60, x61, x62, x63] 33 c = attackedL c (if c = White then
    [x40, x42] else [x24, x26]) [x16, x18, x27, x43, x48, x50] [[x24], [x26, x19, x12, x5],
    [x40], [x42, x51, x60]] [[x25, x17, x9, x1], [x41, x49, x57], [x32], [x34, x35, x36, x37,
    x38, x39]] [x24, x25, x26, x32, x34, x40, x41, x42]"
  by (cases c) (simp_all add: isAttacked_cells geom_eval board_eval)

lemma isAttacked_lit_34 [board_eval]:
  "isAttacked [x0, x1, x2, x3, x4, x5, x6, x7, x8, x9, x10, x11, x12, x13, x14, x15, x16, x17,
    x18, x19, x20, x21, x22, x23, x24, x25, x26, x27, x28, x29, x30, x31, x32, x33, x34, x35,
    x36, x37, x38, x39, x40, x41, x42, x43, x44, x45, x46, x47, x48, x49, x50, x51, x52, x53,
    x54, x55, x56, x57, x58, x59, x60, x61, x62, x63] 34 c = attackedL c (if c = White then
    [x41, x43] else [x25, x27]) [x17, x19, x24, x28, x40, x44, x49, x51] [[x25, x16], [x27,
    x20, x13, x6], [x41, x48], [x43, x52, x61]] [[x26, x18, x10, x2], [x42, x50, x58], [x33,
    x32], [x35, x36, x37, x38, x39]] [x25, x26, x27, x33, x35, x41, x42, x43]"
  by (cases c) (simp_all add: isAttacked_cells geom_eval board_eval)

lemma isAttacked_lit_35 [board_eval]:
  "isAttacked [x0, x1, x2, x3, x4, x5, x6, x7, x8, x9, x10, x11, x12, x13, x14, x15, x16, x17,
    x18, x19, x20, x21, x22, x23, x24, x25, x26, x27, x28, x29, x30, x31, x32, x33, x34, x35,
    x36, x37, x38, x39, x40, x41, x42, x43, x44, x45, x46, x47, x48, x49, x50, x51, x52, x53,
    x54, x55, x56, x57, x58, x59, x60, x61, x62, x63] 35 c = attackedL c (if c = White then
    [x42, x44] else [x26, x28]) [x18, x20, x25, x29, x41, x45, x50, x52] [[x26, x17, x8], [x28,
    x21, x14, x7], [x42, x49, x56], [x44, x53, x62]] [[x27, x19, x11, x3], [x43, x51, x59],
    [x34, x33, x32], [x36, x37, x38, x39]] [x26, x27, x28, x34, x36, x42, x43, x44]"
  by (cases c) (simp_all add: isAttacked_cells geom_eval board_eval)

lemma isAttacked_lit_36 [board_eval]:
  "isAttacked [x0, x1, x2, x3, x4, x5, x6, x7, x8, x9, x10, x11, x12, x13, x14, x15, x16, x17,
    x18, x19, x20, x21, x22, x23, x24, x25, x26, x27, x28, x29, x30, x31, x32, x33, x34, x35,
    x36, x37, x38, x39, x40, x41, x42, x43, x44, x45, x46, x47, x48, x49, x50, x51, x52, x53,
    x54, x55, x56, x57, x58, x59, x60, x61, x62, x63] 36 c = attackedL c (if c = White then
    [x43, x45] else [x27, x29]) [x19, x21, x26, x30, x42, x46, x51, x53] [[x27, x18, x9, x0],
    [x29, x22, x15], [x43, x50, x57], [x45, x54, x63]] [[x28, x20, x12, x4], [x44, x52, x60],
    [x35, x34, x33, x32], [x37, x38, x39]] [x27, x28, x29, x35, x37, x43, x44, x45]"
  by (cases c) (simp_all add: isAttacked_cells geom_eval board_eval)

lemma isAttacked_lit_37 [board_eval]:
  "isAttacked [x0, x1, x2, x3, x4, x5, x6, x7, x8, x9, x10, x11, x12, x13, x14, x15, x16, x17,
    x18, x19, x20, x21, x22, x23, x24, x25, x26, x27, x28, x29, x30, x31, x32, x33, x34, x35,
    x36, x37, x38, x39, x40, x41, x42, x43, x44, x45, x46, x47, x48, x49, x50, x51, x52, x53,
    x54, x55, x56, x57, x58, x59, x60, x61, x62, x63] 37 c = attackedL c (if c = White then
    [x44, x46] else [x28, x30]) [x20, x22, x27, x31, x43, x47, x52, x54] [[x28, x19, x10, x1],
    [x30, x23], [x44, x51, x58], [x46, x55]] [[x29, x21, x13, x5], [x45, x53, x61], [x36, x35,
    x34, x33, x32], [x38, x39]] [x28, x29, x30, x36, x38, x44, x45, x46]"
  by (cases c) (simp_all add: isAttacked_cells geom_eval board_eval)

lemma isAttacked_lit_38 [board_eval]:
  "isAttacked [x0, x1, x2, x3, x4, x5, x6, x7, x8, x9, x10, x11, x12, x13, x14, x15, x16, x17,
    x18, x19, x20, x21, x22, x23, x24, x25, x26, x27, x28, x29, x30, x31, x32, x33, x34, x35,
    x36, x37, x38, x39, x40, x41, x42, x43, x44, x45, x46, x47, x48, x49, x50, x51, x52, x53,
    x54, x55, x56, x57, x58, x59, x60, x61, x62, x63] 38 c = attackedL c (if c = White then
    [x45, x47] else [x29, x31]) [x21, x23, x28, x44, x53, x55] [[x29, x20, x11, x2], [x31],
    [x45, x52, x59], [x47]] [[x30, x22, x14, x6], [x46, x54, x62], [x37, x36, x35, x34, x33,
    x32], [x39]] [x29, x30, x31, x37, x39, x45, x46, x47]"
  by (cases c) (simp_all add: isAttacked_cells geom_eval board_eval)

lemma isAttacked_lit_39 [board_eval]:
  "isAttacked [x0, x1, x2, x3, x4, x5, x6, x7, x8, x9, x10, x11, x12, x13, x14, x15, x16, x17,
    x18, x19, x20, x21, x22, x23, x24, x25, x26, x27, x28, x29, x30, x31, x32, x33, x34, x35,
    x36, x37, x38, x39, x40, x41, x42, x43, x44, x45, x46, x47, x48, x49, x50, x51, x52, x53,
    x54, x55, x56, x57, x58, x59, x60, x61, x62, x63] 39 c = attackedL c (if c = White then
    [x46] else [x30]) [x22, x29, x45, x54] [[x30, x21, x12, x3], [], [x46, x53, x60], []]
    [[x31, x23, x15, x7], [x47, x55, x63], [x38, x37, x36, x35, x34, x33, x32], []] [x30, x31,
    x38, x46, x47]"
  by (cases c) (simp_all add: isAttacked_cells geom_eval board_eval)

lemma isAttacked_lit_40 [board_eval]:
  "isAttacked [x0, x1, x2, x3, x4, x5, x6, x7, x8, x9, x10, x11, x12, x13, x14, x15, x16, x17,
    x18, x19, x20, x21, x22, x23, x24, x25, x26, x27, x28, x29, x30, x31, x32, x33, x34, x35,
    x36, x37, x38, x39, x40, x41, x42, x43, x44, x45, x46, x47, x48, x49, x50, x51, x52, x53,
    x54, x55, x56, x57, x58, x59, x60, x61, x62, x63] 40 c = attackedL c (if c = White then
    [x49] else [x33]) [x25, x34, x50, x57] [[], [x33, x26, x19, x12, x5], [], [x49, x58]]
    [[x32, x24, x16, x8, x0], [x48, x56], [], [x41, x42, x43, x44, x45, x46, x47]] [x32, x33,
    x41, x48, x49]"
  by (cases c) (simp_all add: isAttacked_cells geom_eval board_eval)

lemma isAttacked_lit_41 [board_eval]:
  "isAttacked [x0, x1, x2, x3, x4, x5, x6, x7, x8, x9, x10, x11, x12, x13, x14, x15, x16, x17,
    x18, x19, x20, x21, x22, x23, x24, x25, x26, x27, x28, x29, x30, x31, x32, x33, x34, x35,
    x36, x37, x38, x39, x40, x41, x42, x43, x44, x45, x46, x47, x48, x49, x50, x51, x52, x53,
    x54, x55, x56, x57, x58, x59, x60, x61, x62, x63] 41 c = attackedL c (if c = White then
    [x48, x50] else [x32, x34]) [x24, x26, x35, x51, x56, x58] [[x32], [x34, x27, x20, x13,
    x6], [x48], [x50, x59]] [[x33, x25, x17, x9, x1], [x49, x57], [x40], [x42, x43, x44, x45,
    x46, x47]] [x32, x33, x34, x40, x42, x48, x49, x50]"
  by (cases c) (simp_all add: isAttacked_cells geom_eval board_eval)

lemma isAttacked_lit_42 [board_eval]:
  "isAttacked [x0, x1, x2, x3, x4, x5, x6, x7, x8, x9, x10, x11, x12, x13, x14, x15, x16, x17,
    x18, x19, x20, x21, x22, x23, x24, x25, x26, x27, x28, x29, x30, x31, x32, x33, x34, x35,
    x36, x37, x38, x39, x40, x41, x42, x43, x44, x45, x46, x47, x48, x49, x50, x51, x52, x53,
    x54, x55, x56, x57, x58, x59, x60, x61, x62, x63] 42 c = attackedL c (if c = White then
    [x49, x51] else [x33, x35]) [x25, x27, x32, x36, x48, x52, x57, x59] [[x33, x24], [x35,
    x28, x21, x14, x7], [x49, x56], [x51, x60]] [[x34, x26, x18, x10, x2], [x50, x58], [x41,
    x40], [x43, x44, x45, x46, x47]] [x33, x34, x35, x41, x43, x49, x50, x51]"
  by (cases c) (simp_all add: isAttacked_cells geom_eval board_eval)

lemma isAttacked_lit_43 [board_eval]:
  "isAttacked [x0, x1, x2, x3, x4, x5, x6, x7, x8, x9, x10, x11, x12, x13, x14, x15, x16, x17,
    x18, x19, x20, x21, x22, x23, x24, x25, x26, x27, x28, x29, x30, x31, x32, x33, x34, x35,
    x36, x37, x38, x39, x40, x41, x42, x43, x44, x45, x46, x47, x48, x49, x50, x51, x52, x53,
    x54, x55, x56, x57, x58, x59, x60, x61, x62, x63] 43 c = attackedL c (if c = White then
    [x50, x52] else [x34, x36]) [x26, x28, x33, x37, x49, x53, x58, x60] [[x34, x25, x16],
    [x36, x29, x22, x15], [x50, x57], [x52, x61]] [[x35, x27, x19, x11, x3], [x51, x59], [x42,
    x41, x40], [x44, x45, x46, x47]] [x34, x35, x36, x42, x44, x50, x51, x52]"
  by (cases c) (simp_all add: isAttacked_cells geom_eval board_eval)

lemma isAttacked_lit_44 [board_eval]:
  "isAttacked [x0, x1, x2, x3, x4, x5, x6, x7, x8, x9, x10, x11, x12, x13, x14, x15, x16, x17,
    x18, x19, x20, x21, x22, x23, x24, x25, x26, x27, x28, x29, x30, x31, x32, x33, x34, x35,
    x36, x37, x38, x39, x40, x41, x42, x43, x44, x45, x46, x47, x48, x49, x50, x51, x52, x53,
    x54, x55, x56, x57, x58, x59, x60, x61, x62, x63] 44 c = attackedL c (if c = White then
    [x51, x53] else [x35, x37]) [x27, x29, x34, x38, x50, x54, x59, x61] [[x35, x26, x17, x8],
    [x37, x30, x23], [x51, x58], [x53, x62]] [[x36, x28, x20, x12, x4], [x52, x60], [x43, x42,
    x41, x40], [x45, x46, x47]] [x35, x36, x37, x43, x45, x51, x52, x53]"
  by (cases c) (simp_all add: isAttacked_cells geom_eval board_eval)

lemma isAttacked_lit_45 [board_eval]:
  "isAttacked [x0, x1, x2, x3, x4, x5, x6, x7, x8, x9, x10, x11, x12, x13, x14, x15, x16, x17,
    x18, x19, x20, x21, x22, x23, x24, x25, x26, x27, x28, x29, x30, x31, x32, x33, x34, x35,
    x36, x37, x38, x39, x40, x41, x42, x43, x44, x45, x46, x47, x48, x49, x50, x51, x52, x53,
    x54, x55, x56, x57, x58, x59, x60, x61, x62, x63] 45 c = attackedL c (if c = White then
    [x52, x54] else [x36, x38]) [x28, x30, x35, x39, x51, x55, x60, x62] [[x36, x27, x18, x9,
    x0], [x38, x31], [x52, x59], [x54, x63]] [[x37, x29, x21, x13, x5], [x53, x61], [x44, x43,
    x42, x41, x40], [x46, x47]] [x36, x37, x38, x44, x46, x52, x53, x54]"
  by (cases c) (simp_all add: isAttacked_cells geom_eval board_eval)

lemma isAttacked_lit_46 [board_eval]:
  "isAttacked [x0, x1, x2, x3, x4, x5, x6, x7, x8, x9, x10, x11, x12, x13, x14, x15, x16, x17,
    x18, x19, x20, x21, x22, x23, x24, x25, x26, x27, x28, x29, x30, x31, x32, x33, x34, x35,
    x36, x37, x38, x39, x40, x41, x42, x43, x44, x45, x46, x47, x48, x49, x50, x51, x52, x53,
    x54, x55, x56, x57, x58, x59, x60, x61, x62, x63] 46 c = attackedL c (if c = White then
    [x53, x55] else [x37, x39]) [x29, x31, x36, x52, x61, x63] [[x37, x28, x19, x10, x1],
    [x39], [x53, x60], [x55]] [[x38, x30, x22, x14, x6], [x54, x62], [x45, x44, x43, x42, x41,
    x40], [x47]] [x37, x38, x39, x45, x47, x53, x54, x55]"
  by (cases c) (simp_all add: isAttacked_cells geom_eval board_eval)

lemma isAttacked_lit_47 [board_eval]:
  "isAttacked [x0, x1, x2, x3, x4, x5, x6, x7, x8, x9, x10, x11, x12, x13, x14, x15, x16, x17,
    x18, x19, x20, x21, x22, x23, x24, x25, x26, x27, x28, x29, x30, x31, x32, x33, x34, x35,
    x36, x37, x38, x39, x40, x41, x42, x43, x44, x45, x46, x47, x48, x49, x50, x51, x52, x53,
    x54, x55, x56, x57, x58, x59, x60, x61, x62, x63] 47 c = attackedL c (if c = White then
    [x54] else [x38]) [x30, x37, x53, x62] [[x38, x29, x20, x11, x2], [], [x54, x61], []]
    [[x39, x31, x23, x15, x7], [x55, x63], [x46, x45, x44, x43, x42, x41, x40], []] [x38, x39,
    x46, x54, x55]"
  by (cases c) (simp_all add: isAttacked_cells geom_eval board_eval)

lemma isAttacked_lit_48 [board_eval]:
  "isAttacked [x0, x1, x2, x3, x4, x5, x6, x7, x8, x9, x10, x11, x12, x13, x14, x15, x16, x17,
    x18, x19, x20, x21, x22, x23, x24, x25, x26, x27, x28, x29, x30, x31, x32, x33, x34, x35,
    x36, x37, x38, x39, x40, x41, x42, x43, x44, x45, x46, x47, x48, x49, x50, x51, x52, x53,
    x54, x55, x56, x57, x58, x59, x60, x61, x62, x63] 48 c = attackedL c (if c = White then
    [x57] else [x41]) [x33, x42, x58] [[], [x41, x34, x27, x20, x13, x6], [], [x57]] [[x40,
    x32, x24, x16, x8, x0], [x56], [], [x49, x50, x51, x52, x53, x54, x55]] [x40, x41, x49,
    x56, x57]"
  by (cases c) (simp_all add: isAttacked_cells geom_eval board_eval)

lemma isAttacked_lit_49 [board_eval]:
  "isAttacked [x0, x1, x2, x3, x4, x5, x6, x7, x8, x9, x10, x11, x12, x13, x14, x15, x16, x17,
    x18, x19, x20, x21, x22, x23, x24, x25, x26, x27, x28, x29, x30, x31, x32, x33, x34, x35,
    x36, x37, x38, x39, x40, x41, x42, x43, x44, x45, x46, x47, x48, x49, x50, x51, x52, x53,
    x54, x55, x56, x57, x58, x59, x60, x61, x62, x63] 49 c = attackedL c (if c = White then
    [x56, x58] else [x40, x42]) [x32, x34, x43, x59] [[x40], [x42, x35, x28, x21, x14, x7],
    [x56], [x58]] [[x41, x33, x25, x17, x9, x1], [x57], [x48], [x50, x51, x52, x53, x54, x55]]
    [x40, x41, x42, x48, x50, x56, x57, x58]"
  by (cases c) (simp_all add: isAttacked_cells geom_eval board_eval)

lemma isAttacked_lit_50 [board_eval]:
  "isAttacked [x0, x1, x2, x3, x4, x5, x6, x7, x8, x9, x10, x11, x12, x13, x14, x15, x16, x17,
    x18, x19, x20, x21, x22, x23, x24, x25, x26, x27, x28, x29, x30, x31, x32, x33, x34, x35,
    x36, x37, x38, x39, x40, x41, x42, x43, x44, x45, x46, x47, x48, x49, x50, x51, x52, x53,
    x54, x55, x56, x57, x58, x59, x60, x61, x62, x63] 50 c = attackedL c (if c = White then
    [x57, x59] else [x41, x43]) [x33, x35, x40, x44, x56, x60] [[x41, x32], [x43, x36, x29,
    x22, x15], [x57], [x59]] [[x42, x34, x26, x18, x10, x2], [x58], [x49, x48], [x51, x52, x53,
    x54, x55]] [x41, x42, x43, x49, x51, x57, x58, x59]"
  by (cases c) (simp_all add: isAttacked_cells geom_eval board_eval)

lemma isAttacked_lit_51 [board_eval]:
  "isAttacked [x0, x1, x2, x3, x4, x5, x6, x7, x8, x9, x10, x11, x12, x13, x14, x15, x16, x17,
    x18, x19, x20, x21, x22, x23, x24, x25, x26, x27, x28, x29, x30, x31, x32, x33, x34, x35,
    x36, x37, x38, x39, x40, x41, x42, x43, x44, x45, x46, x47, x48, x49, x50, x51, x52, x53,
    x54, x55, x56, x57, x58, x59, x60, x61, x62, x63] 51 c = attackedL c (if c = White then
    [x58, x60] else [x42, x44]) [x34, x36, x41, x45, x57, x61] [[x42, x33, x24], [x44, x37,
    x30, x23], [x58], [x60]] [[x43, x35, x27, x19, x11, x3], [x59], [x50, x49, x48], [x52, x53,
    x54, x55]] [x42, x43, x44, x50, x52, x58, x59, x60]"
  by (cases c) (simp_all add: isAttacked_cells geom_eval board_eval)

lemma isAttacked_lit_52 [board_eval]:
  "isAttacked [x0, x1, x2, x3, x4, x5, x6, x7, x8, x9, x10, x11, x12, x13, x14, x15, x16, x17,
    x18, x19, x20, x21, x22, x23, x24, x25, x26, x27, x28, x29, x30, x31, x32, x33, x34, x35,
    x36, x37, x38, x39, x40, x41, x42, x43, x44, x45, x46, x47, x48, x49, x50, x51, x52, x53,
    x54, x55, x56, x57, x58, x59, x60, x61, x62, x63] 52 c = attackedL c (if c = White then
    [x59, x61] else [x43, x45]) [x35, x37, x42, x46, x58, x62] [[x43, x34, x25, x16], [x45,
    x38, x31], [x59], [x61]] [[x44, x36, x28, x20, x12, x4], [x60], [x51, x50, x49, x48], [x53,
    x54, x55]] [x43, x44, x45, x51, x53, x59, x60, x61]"
  by (cases c) (simp_all add: isAttacked_cells geom_eval board_eval)

lemma isAttacked_lit_53 [board_eval]:
  "isAttacked [x0, x1, x2, x3, x4, x5, x6, x7, x8, x9, x10, x11, x12, x13, x14, x15, x16, x17,
    x18, x19, x20, x21, x22, x23, x24, x25, x26, x27, x28, x29, x30, x31, x32, x33, x34, x35,
    x36, x37, x38, x39, x40, x41, x42, x43, x44, x45, x46, x47, x48, x49, x50, x51, x52, x53,
    x54, x55, x56, x57, x58, x59, x60, x61, x62, x63] 53 c = attackedL c (if c = White then
    [x60, x62] else [x44, x46]) [x36, x38, x43, x47, x59, x63] [[x44, x35, x26, x17, x8], [x46,
    x39], [x60], [x62]] [[x45, x37, x29, x21, x13, x5], [x61], [x52, x51, x50, x49, x48], [x54,
    x55]] [x44, x45, x46, x52, x54, x60, x61, x62]"
  by (cases c) (simp_all add: isAttacked_cells geom_eval board_eval)

lemma isAttacked_lit_54 [board_eval]:
  "isAttacked [x0, x1, x2, x3, x4, x5, x6, x7, x8, x9, x10, x11, x12, x13, x14, x15, x16, x17,
    x18, x19, x20, x21, x22, x23, x24, x25, x26, x27, x28, x29, x30, x31, x32, x33, x34, x35,
    x36, x37, x38, x39, x40, x41, x42, x43, x44, x45, x46, x47, x48, x49, x50, x51, x52, x53,
    x54, x55, x56, x57, x58, x59, x60, x61, x62, x63] 54 c = attackedL c (if c = White then
    [x61, x63] else [x45, x47]) [x37, x39, x44, x60] [[x45, x36, x27, x18, x9, x0], [x47],
    [x61], [x63]] [[x46, x38, x30, x22, x14, x6], [x62], [x53, x52, x51, x50, x49, x48], [x55]]
    [x45, x46, x47, x53, x55, x61, x62, x63]"
  by (cases c) (simp_all add: isAttacked_cells geom_eval board_eval)

lemma isAttacked_lit_55 [board_eval]:
  "isAttacked [x0, x1, x2, x3, x4, x5, x6, x7, x8, x9, x10, x11, x12, x13, x14, x15, x16, x17,
    x18, x19, x20, x21, x22, x23, x24, x25, x26, x27, x28, x29, x30, x31, x32, x33, x34, x35,
    x36, x37, x38, x39, x40, x41, x42, x43, x44, x45, x46, x47, x48, x49, x50, x51, x52, x53,
    x54, x55, x56, x57, x58, x59, x60, x61, x62, x63] 55 c = attackedL c (if c = White then
    [x62] else [x46]) [x38, x45, x61] [[x46, x37, x28, x19, x10, x1], [], [x62], []] [[x47,
    x39, x31, x23, x15, x7], [x63], [x54, x53, x52, x51, x50, x49, x48], []] [x46, x47, x54,
    x62, x63]"
  by (cases c) (simp_all add: isAttacked_cells geom_eval board_eval)

lemma isAttacked_lit_56 [board_eval]:
  "isAttacked [x0, x1, x2, x3, x4, x5, x6, x7, x8, x9, x10, x11, x12, x13, x14, x15, x16, x17,
    x18, x19, x20, x21, x22, x23, x24, x25, x26, x27, x28, x29, x30, x31, x32, x33, x34, x35,
    x36, x37, x38, x39, x40, x41, x42, x43, x44, x45, x46, x47, x48, x49, x50, x51, x52, x53,
    x54, x55, x56, x57, x58, x59, x60, x61, x62, x63] 56 c = attackedL c (if c = White then []
    else [x49]) [x41, x50] [[], [x49, x42, x35, x28, x21, x14, x7], [], []] [[x48, x40, x32,
    x24, x16, x8, x0], [], [], [x57, x58, x59, x60, x61, x62, x63]] [x48, x49, x57]"
  by (cases c) (simp_all add: isAttacked_cells geom_eval board_eval)

lemma isAttacked_lit_57 [board_eval]:
  "isAttacked [x0, x1, x2, x3, x4, x5, x6, x7, x8, x9, x10, x11, x12, x13, x14, x15, x16, x17,
    x18, x19, x20, x21, x22, x23, x24, x25, x26, x27, x28, x29, x30, x31, x32, x33, x34, x35,
    x36, x37, x38, x39, x40, x41, x42, x43, x44, x45, x46, x47, x48, x49, x50, x51, x52, x53,
    x54, x55, x56, x57, x58, x59, x60, x61, x62, x63] 57 c = attackedL c (if c = White then []
    else [x48, x50]) [x40, x42, x51] [[x48], [x50, x43, x36, x29, x22, x15], [], []] [[x49,
    x41, x33, x25, x17, x9, x1], [], [x56], [x58, x59, x60, x61, x62, x63]] [x48, x49, x50,
    x56, x58]"
  by (cases c) (simp_all add: isAttacked_cells geom_eval board_eval)

lemma isAttacked_lit_58 [board_eval]:
  "isAttacked [x0, x1, x2, x3, x4, x5, x6, x7, x8, x9, x10, x11, x12, x13, x14, x15, x16, x17,
    x18, x19, x20, x21, x22, x23, x24, x25, x26, x27, x28, x29, x30, x31, x32, x33, x34, x35,
    x36, x37, x38, x39, x40, x41, x42, x43, x44, x45, x46, x47, x48, x49, x50, x51, x52, x53,
    x54, x55, x56, x57, x58, x59, x60, x61, x62, x63] 58 c = attackedL c (if c = White then []
    else [x49, x51]) [x41, x43, x48, x52] [[x49, x40], [x51, x44, x37, x30, x23], [], []]
    [[x50, x42, x34, x26, x18, x10, x2], [], [x57, x56], [x59, x60, x61, x62, x63]] [x49, x50,
    x51, x57, x59]"
  by (cases c) (simp_all add: isAttacked_cells geom_eval board_eval)

lemma isAttacked_lit_59 [board_eval]:
  "isAttacked [x0, x1, x2, x3, x4, x5, x6, x7, x8, x9, x10, x11, x12, x13, x14, x15, x16, x17,
    x18, x19, x20, x21, x22, x23, x24, x25, x26, x27, x28, x29, x30, x31, x32, x33, x34, x35,
    x36, x37, x38, x39, x40, x41, x42, x43, x44, x45, x46, x47, x48, x49, x50, x51, x52, x53,
    x54, x55, x56, x57, x58, x59, x60, x61, x62, x63] 59 c = attackedL c (if c = White then []
    else [x50, x52]) [x42, x44, x49, x53] [[x50, x41, x32], [x52, x45, x38, x31], [], []]
    [[x51, x43, x35, x27, x19, x11, x3], [], [x58, x57, x56], [x60, x61, x62, x63]] [x50, x51,
    x52, x58, x60]"
  by (cases c) (simp_all add: isAttacked_cells geom_eval board_eval)

lemma isAttacked_lit_60 [board_eval]:
  "isAttacked [x0, x1, x2, x3, x4, x5, x6, x7, x8, x9, x10, x11, x12, x13, x14, x15, x16, x17,
    x18, x19, x20, x21, x22, x23, x24, x25, x26, x27, x28, x29, x30, x31, x32, x33, x34, x35,
    x36, x37, x38, x39, x40, x41, x42, x43, x44, x45, x46, x47, x48, x49, x50, x51, x52, x53,
    x54, x55, x56, x57, x58, x59, x60, x61, x62, x63] 60 c = attackedL c (if c = White then []
    else [x51, x53]) [x43, x45, x50, x54] [[x51, x42, x33, x24], [x53, x46, x39], [], []]
    [[x52, x44, x36, x28, x20, x12, x4], [], [x59, x58, x57, x56], [x61, x62, x63]] [x51, x52,
    x53, x59, x61]"
  by (cases c) (simp_all add: isAttacked_cells geom_eval board_eval)

lemma isAttacked_lit_61 [board_eval]:
  "isAttacked [x0, x1, x2, x3, x4, x5, x6, x7, x8, x9, x10, x11, x12, x13, x14, x15, x16, x17,
    x18, x19, x20, x21, x22, x23, x24, x25, x26, x27, x28, x29, x30, x31, x32, x33, x34, x35,
    x36, x37, x38, x39, x40, x41, x42, x43, x44, x45, x46, x47, x48, x49, x50, x51, x52, x53,
    x54, x55, x56, x57, x58, x59, x60, x61, x62, x63] 61 c = attackedL c (if c = White then []
    else [x52, x54]) [x44, x46, x51, x55] [[x52, x43, x34, x25, x16], [x54, x47], [], []]
    [[x53, x45, x37, x29, x21, x13, x5], [], [x60, x59, x58, x57, x56], [x62, x63]] [x52, x53,
    x54, x60, x62]"
  by (cases c) (simp_all add: isAttacked_cells geom_eval board_eval)

lemma isAttacked_lit_62 [board_eval]:
  "isAttacked [x0, x1, x2, x3, x4, x5, x6, x7, x8, x9, x10, x11, x12, x13, x14, x15, x16, x17,
    x18, x19, x20, x21, x22, x23, x24, x25, x26, x27, x28, x29, x30, x31, x32, x33, x34, x35,
    x36, x37, x38, x39, x40, x41, x42, x43, x44, x45, x46, x47, x48, x49, x50, x51, x52, x53,
    x54, x55, x56, x57, x58, x59, x60, x61, x62, x63] 62 c = attackedL c (if c = White then []
    else [x53, x55]) [x45, x47, x52] [[x53, x44, x35, x26, x17, x8], [x55], [], []] [[x54, x46,
    x38, x30, x22, x14, x6], [], [x61, x60, x59, x58, x57, x56], [x63]] [x53, x54, x55, x61,
    x63]"
  by (cases c) (simp_all add: isAttacked_cells geom_eval board_eval)

lemma isAttacked_lit_63 [board_eval]:
  "isAttacked [x0, x1, x2, x3, x4, x5, x6, x7, x8, x9, x10, x11, x12, x13, x14, x15, x16, x17,
    x18, x19, x20, x21, x22, x23, x24, x25, x26, x27, x28, x29, x30, x31, x32, x33, x34, x35,
    x36, x37, x38, x39, x40, x41, x42, x43, x44, x45, x46, x47, x48, x49, x50, x51, x52, x53,
    x54, x55, x56, x57, x58, x59, x60, x61, x62, x63] 63 c = attackedL c (if c = White then []
    else [x54]) [x46, x53] [[x54, x45, x36, x27, x18, x9, x0], [], [], []] [[x55, x47, x39,
    x31, x23, x15, x7], [], [x62, x61, x60, x59, x58, x57, x56], []] [x54, x55, x62]"
  by (cases c) (simp_all add: isAttacked_cells geom_eval board_eval)

lemma move_sel [board_eval]:
  "mfrom (mk f t ty) = f" "mto (mk f t ty) = t" "mtype (mk f t ty) = ty"
  "promoteTo (mk f t ty) = None" "capturedSq (mk f t ty) = None"
  "rookFrom (mk f t ty) = None" "rookTo (mk f t ty) = None"
  "mfrom (mkPromo f t ty p) = f" "mto (mkPromo f t ty p) = t" "mtype (mkPromo f t ty p) = ty"
  "promoteTo (mkPromo f t ty p) = Some p" "capturedSq (mkPromo f t ty p) = None"
  "rookFrom (mkPromo f t ty p) = None" "rookTo (mkPromo f t ty p) = None"
  "mfrom (mkEp f t cs) = f" "mto (mkEp f t cs) = t" "mtype (mkEp f t cs) = enPassant"
  "promoteTo (mkEp f t cs) = None" "capturedSq (mkEp f t cs) = Some cs"
  "rookFrom (mkEp f t cs) = None" "rookTo (mkEp f t cs) = None"
  "mfrom (mkCastle f t ty rf rt) = f" "mto (mkCastle f t ty rf rt) = t"
  "mtype (mkCastle f t ty rf rt) = ty" "promoteTo (mkCastle f t ty rf rt) = None"
  "capturedSq (mkCastle f t ty rf rt) = None" "rookFrom (mkCastle f t ty rf rt) = Some rf"
  "rookTo (mkCastle f t ty rf rt) = Some rt"
  by (simp_all add: mk_def mkPromo_def mkEp_def mkCastle_def)

lemma apply_mk [board_eval]:
  "applyMoveToBoard b (mk f t ty) = put (put b t (cell b f)) f None"
  "applyMoveToBoard b (mkPromo f t ty p) = put (put b t (Some p)) f None"
  "applyMoveToBoard b (mkEp f t cs) = put (put (put b t (cell b f)) f None) cs None"
  by (simp_all add: applyMoveToBoard_def move_sel Let_def)

lemma apply_mkCastle [board_eval]:
  "ty = castleKing \<or> ty = castleQueen \<Longrightarrow>
   applyMoveToBoard b (mkCastle f t ty rf rt) = moveRook (put (put b t (cell b f)) f None) rf rt"
  by (simp add: applyMoveToBoard_def move_sel Let_def moveRook_def)

lemma isInCheck_eval [board_eval]:
  "isInCheck b c = kingAttacked b (opp (Some c)) (findKing b c)"
  by (simp add: isInCheck_def kingAttacked_def Let_def)

lemma isLegal_board: "isLegal s m c = isLegalB (board s) m c"
  by (simp add: isLegal_def isLegalB_def)

lemma getAllLegalMoves_eval:
  "getAllLegalMoves s = legalMovesB (board s) (turn s) (castlingRights s) (enPassantTarget s)"
  by (simp add: getAllLegalMoves_def legalMovesB_def isLegal_board)

lemma position_fields [board_eval]:
  "board (position b t cr ep hm fm) = b" "turn (position b t cr ep hm fm) = t"
  "castlingRights (position b t cr ep hm fm) = cr"
  "enPassantTarget (position b t cr ep hm fm) = ep"
  "halfMoveClock (position b t cr ep hm fm) = hm"
  "fullMoveNumber (position b t cr ep hm fm) = fm"
  "moveHistory (position b t cr ep hm fm) = []"
  "gameOver (position b t cr ep hm fm) = False"
  "gameResult (position b t cr ep hm fm) = None"
  by (simp_all add: position_def recordPosition_def)

lemmas eval_defs = legalMovesB_def getAllPseudoMoves_def getPseudoMoves_def getCastlingMoves_def
  kingCastling_def pawnMoves_def pawnForward_def pawnCapture_def addStep_def isLegalB_def kingAttacked_def attackedL_def
  moveRook_def opp_def idx_def isValid_def knightJumps_def diagDirs_def straightDirs_def
  allDirs_def promoKinds_def Let_def addSlide.simps noRights_def allRights_def

lemma findKing_lit [board_eval]:
  "findKing [x0, x1, x2, x3, x4, x5, x6, x7, x8, x9, x10, x11, x12, x13, x14, x15, x16, x17,
    x18, x19, x20, x21, x22, x23, x24, x25, x26, x27, x28, x29, x30, x31, x32, x33, x34, x35,
    x36, x37, x38, x39, x40, x41, x42, x43, x44, x45, x46, x47, x48, x49, x50, x51, x52, x53,
    x54, x55, x56, x57, x58, x59, x60, x61, x62, x63] c = (if x0 = Some (c, King) then 0 else
    if x1 = Some (c, King) then 1 else if x2 = Some (c, King) then 2 else if x3 = Some (c,
    King) then 3 else if x4 = Some (c, King) then 4 else if x5 = Some (c, King) then 5 else if
    x6 = Some (c, King) then 6 else if x7 = Some (c, King) then 7 else if x8 = Some (c, King)
    then 8 else if x9 = Some (c, King) then 9 else if x10 = Some (c, King) then 10 else if x11
    = Some (c, King) then 11 else if x12 = Some (c, King) then 12 else if x13 = Some (c, King)
    then 13 else if x14 = Some (c, King) then 14 else if x15 = Some (c, King) then 15 else if
    x16 = Some (c, King) then 16 else if x17 = Some (c, King) then 17 else if x18 = Some (c,
    King) then 18 else if x19 = Some (c, King) then 19 else if x20 = Some (c, King) then 20
    else if x21 = Some (c, King) then 21 else if x22 = Some (c, King) then 22 else if x23 =
    Some (c, King) then 23 else if x24 = Some (c, King) then 24 else if x25 = Some (c, King)
    then 25 else if x26 = Some (c, King) then 26 else if x27 = Some (c, King) then 27 else if
    x28 = Some (c, King) then 28 else if x29 = Some (c, King) then 29 else if x30 = Some (c,
    King) then 30 else if x31 = Some (c, King) then 31 else if x32 = Some (c, King) then 32
    else if x33 = Some (c, King) then 33 else if x34 = Some (c, King) then 34 else if x35 =
    Some (c, King) then 35 else if x36 = Some (c, King) then 36 else if x37 = Some (c, King)
    then 37 else if x38 = Some (c, King) then 38 else if x39 = Some (c, King) then 39 else if
    x40 = Some (c, King) then 40 else if x41 = Some (c, King) then 41 else if x42 = Some (c,
    King) then 42 else if x43 = Some (c, King) then 43 else if x44 = Some (c, King) then 44
    else if x45 = Some (c, King) then 45 else if x46 = Some (c, King) then 46 else if x47 =
    Some (c, King) then 47 else if x48 = Some (c, King) then 48 else if x49 = Some (c, King)
    then 49 else if x50 = Some (c, King) then 50 else if x51 = Some (c, King) then 51 else if
    x52 = Some (c, King) then 52 else if x53 = Some (c, King) then 53 else if x54 = Some (c,
    King) then 54 else if x55 = Some (c, King) then 55 else if x56 = Some (c, King) then 56
    else if x57 = Some (c, King) then 57 else if x58 = Some (c, King) then 58 else if x59 =
    Some (c, King) then 59 else if x60 = Some (c, King) then 60 else if x61 = Some (c, King)
    then 61 else if x62 = Some (c, King) then 62 else if x63 = Some (c, King) then 63 else -
    1)"
  by (simp add: findKing_def findIndex_def)

section \<open>makeMove: acceptance and rejection\<close>

lemma getLegalMoves_filter:
  "getLegalMoves s f = filter (\<lambda>m. mfrom m = f) (getAllLegalMoves s)"
  by (simp add: getLegalMoves_def getAllLegalMoves_def conj_commute)

lemma makeMove_None_iff:
  "(makeMove s mv = None) = (gameOver s \<or> \<not> list_ex (candidateMatches mv) (getAllLegalMoves s))"
proof -
  have "(find (\<lambda>m. mfrom m = mfrom mv \<and> mto m = mto mv
                   \<and> (promoteTo mv = None \<or> promoteTo m = promoteTo mv))
           (getLegalMoves s (mfrom mv)) = None)
        = (\<not> list_ex (candidateMatches mv) (getAllLegalMoves s))"
    by (auto simp: find_None_iff getLegalMoves_filter list_ex_iff candidateMatches_def)
  then show ?thesis
    by (auto simp: makeMove_def split: option.splits)
qed

lemma checkGameEnd_frame:
  "moveHistory (checkGameEnd x y) = moveHistory y" "board (checkGameEnd x y) = board y"
  "turn (checkGameEnd x y) = turn y" "castlingRights (checkGameEnd x y) = castlingRights y"
  "enPassantTarget (checkGameEnd x y) = enPassantTarget y"
  "halfMoveClock (checkGameEnd x y) = halfMoveClock y"
  "fullMoveNumber (checkGameEnd x y) = fullMoveNumber y"
  "positionMap (checkGameEnd x y) = positionMap y"
  by (simp_all add: checkGameEnd_def setGameOver_def)

lemma recordPosition_frame:
  "moveHistory (recordPosition y) = moveHistory y" "board (recordPosition y) = board y"
  "turn (recordPosition y) = turn y" "castlingRights (recordPosition y) = castlingRights y"
  "enPassantTarget (recordPosition y) = enPassantTarget y"
  "halfMoveClock (recordPosition y) = halfMoveClock y"
  "fullMoveNumber (recordPosition y) = fullMoveNumber y"
  "gameOver (recordPosition y) = gameOver y" "gameResult (recordPosition y) = gameResult y"
  by (simp_all add: recordPosition_def)

lemma makeMove_SomeD:
  assumes "makeMove s mv = Some (r, s')"
  obtains found where "\<not> gameOver s"
    "find (\<lambda>m. mfrom m = mfrom mv \<and> mto m = mto mv
                   \<and> (promoteTo mv = None \<or> promoteTo m = promoteTo mv))
           (getLegalMoves s (mfrom mv)) = Some found"
    "commitMove s mv found = (r, s')"
    "mfrom found = mfrom mv" "mto found = mto mv" "found \<in> set (getAllLegalMoves s)"
proof -
  from assms obtain found where
    f: "find (\<lambda>m. mfrom m = mfrom mv \<and> mto m = mto mv
                   \<and> (promoteTo mv = None \<or> promoteTo m = promoteTo mv))
           (getLegalMoves s (mfrom mv)) = Some found"
    and g: "\<not> gameOver s" and c: "commitMove s mv found = (r, s')"
    by (auto simp: makeMove_def split: option.splits if_splits)
  have "mfrom found = mfrom mv \<and> mto found = mto mv \<and> found \<in> set (getAllLegalMoves s)"
    using f by (auto simp: find_Some_iff getLegalMoves_filter dest: nth_mem)
  with f g c that show thesis by blast
qed

lemma commitMove_record:
  assumes "commitMove s mv found = (r, s')"
  shows "move.truncate r = found" "moveHistory s' = moveHistory s @ [r]"
  using assms
  by (auto simp: commitMove_def movedState_def Let_def move.truncate_def move.extend_def
      checkGameEnd_frame recordPosition_frame)

lemma makeMove_Some:
  assumes "makeMove s mv = Some (r, s')"
  shows "moveHistory s' = moveHistory s @ [r]" "mfrom r = mfrom mv" "mto r = mto mv"
    "list_ex (\<lambda>m. m = move.truncate r) (getAllLegalMoves s)"
proof -
  from assms obtain found where c: "commitMove s mv found = (r, s')"
    and fm: "mfrom found = mfrom mv" "mto found = mto mv" "found \<in> set (getAllLegalMoves s)"
    by (rule makeMove_SomeD)
  note t = commitMove_record[OF c]
  show "moveHistory s' = moveHistory s @ [r]" by (rule t(2))
  from t(1) fm show "mfrom r = mfrom mv" "mto r = mto mv"
    by (auto simp: move.truncate_def)
  from t(1) fm show "list_ex (\<lambda>m. m = move.truncate r) (getAllLegalMoves s)"
    by (auto simp: list_ex_iff)
qed

lemma makeMove_first:
  assumes "makeMove s mv = Some (r, s')"
  shows "find (candidateMatches mv) (getLegalMoves s (mfrom mv)) = Some (move.truncate r)"
    and "candidateMatches mv (move.truncate r)"
proof -
  from assms obtain found where
    f: "find (\<lambda>m. mfrom m = mfrom mv \<and> mto m = mto mv
                   \<and> (promoteTo mv = None \<or> promoteTo m = promoteTo mv))
           (getLegalMoves s (mfrom mv)) = Some found"
    and c: "commitMove s mv found = (r, s')"
    by (rule makeMove_SomeD)
  have p: "candidateMatches mv
           = (\<lambda>m. mfrom m = mfrom mv \<and> mto m = mto mv
                   \<and> (promoteTo mv = None \<or> promoteTo m = promoteTo mv))"
    by (rule ext) (simp add: candidateMatches_def)
  show 1: "find (candidateMatches mv) (getLegalMoves s (mfrom mv)) = Some (move.truncate r)"
    unfolding p commitMove_record(1)[OF c] by (rule f)
  from 1 show "candidateMatches mv (move.truncate r)"
    by (auto simp: find_Some_iff)
qed

lemma truncate_fields:
  "mfrom (move.truncate r) = mfrom r" "mto (move.truncate r) = mto r"
  "mtype (move.truncate r) = mtype r" "promoteTo (move.truncate r) = promoteTo r"
  by (simp_all add: move.truncate_def)

text \<open>
  Claim C3, as the code has it. For a candidate move object, \<open>makeMove\<close> commits and
  returns the move record if and only if the game is not over and some legal move has
  the squares of the candidate and, when the candidate names a promotion piece, that
  same piece; a candidate that names none matches on the squares alone. In every other
  case the result is \<open>false\<close>. The committed record is the first move, in the order
  of generation, among the legal moves from the candidate's origin that matches in this
  sense: so a promotion piece the candidate names is the piece of the record, and a
  candidate without one that stands on a promotion commits the first promotion
  generated, the queen. The record is appended to the history.
\<close>

theorem makeMove_commits_iff:
  "(makeMove s mv \<noteq> None)
     = (\<not> gameOver s \<and> list_ex (candidateMatches mv) (getAllLegalMoves s))
   \<and> (case makeMove s mv of
         None \<Rightarrow> True
       | Some (r, s') \<Rightarrow>
           find (candidateMatches mv) (getLegalMoves s (mfrom mv)) = Some (move.truncate r)
           \<and> mfrom r = mfrom mv \<and> mto r = mto mv
           \<and> (promoteTo mv = None \<or> promoteTo r = promoteTo mv)
           \<and> list_ex (\<lambda>m. m = move.truncate r) (getAllLegalMoves s)
           \<and> moveHistory s' = moveHistory s @ [r])"
proof (cases "makeMove s mv")
  case None
  then show ?thesis using makeMove_None_iff[of s mv] by auto
next
  case (Some a)
  obtain r s' where a: "a = (r, s')" by (cases a)
  have m: "makeMove s mv = Some (r, s')" using Some a by simp
  have "promoteTo mv = None \<or> promoteTo r = promoteTo mv"
    using makeMove_first(2)[OF m] by (simp add: candidateMatches_def truncate_fields)
  then show ?thesis
    using m makeMove_None_iff[of s mv] makeMove_Some[OF m] makeMove_first(1)[OF m]
    by auto
qed

lemma promoState_legal:
  "getAllLegalMoves promoState =
     [mkPromo 8 0 promotion (White, Queen), mkPromo 8 0 promotion (White, Rook),
      mkPromo 8 0 promotion (White, Bishop), mkPromo 8 0 promotion (White, Knight),
      mk 63 54 normal, mk 63 55 normal, mk 63 62 normal]"
  by (simp add: promoState_def promoBoard_def getAllLegalMoves_eval eval_defs board_eval)

text \<open>
  Claim C3 as stated fails: on \<open>8/P7/8/8/8/8/8/k6K w - - 0 1\<close> the candidate a7-a8
  without a promotion piece matches no legal move in the sense of the claim (all four
  legal moves on these squares are promotions, each with a piece), and \<open>makeMove\<close>
  commits it all the same.
\<close>

theorem makeMove_spec_counterexample:
  "makeMove promoState (mk 8 0 normal) \<noteq> None \<and> \<not> specAccepts promoState (mk 8 0 normal)"
proof -
  have g: "\<not> gameOver promoState"
    by (simp add: promoState_def board_eval)
  have a: "list_ex (candidateMatches (mk 8 0 normal)) (getAllLegalMoves promoState)"
    unfolding promoState_legal by (simp add: candidateMatches_def board_eval)
  have b: "\<not> list_ex (specMatches (mk 8 0 normal)) (getAllLegalMoves promoState)"
    unfolding promoState_legal by (simp add: specMatches_def board_eval)
  from g a have "makeMove promoState (mk 8 0 normal) \<noteq> None"
    by (simp add: makeMove_None_iff)
  with b show ?thesis by (simp add: specAccepts_def)
qed

text \<open>
  The amended claim on the same position: the candidate a7-a8 without a piece commits
  the queen promotion, the candidate that names the knight commits the knight
  promotion, and the candidate a7-b8, which no legal move matches, is rejected.
\<close>

theorem makeMove_commits_iff_witness:
  "map_option (\<lambda>x. promoteTo (fst x)) (makeMove promoState (mk 8 0 normal))
     = Some (Some (White, Queen))
   \<and> map_option (\<lambda>x. promoteTo (fst x))
        (makeMove promoState (mkPromo 8 0 normal (White, Knight)))
     = Some (Some (White, Knight))
   \<and> makeMove promoState (mk 8 1 normal) = None"
proof -
  have g: "\<not> gameOver promoState"
    by (simp add: promoState_def board_eval)
  have l: "getLegalMoves promoState 8 =
     [mkPromo 8 0 promotion (White, Queen), mkPromo 8 0 promotion (White, Rook),
      mkPromo 8 0 promotion (White, Bishop), mkPromo 8 0 promotion (White, Knight)]"
    unfolding getLegalMoves_filter promoState_legal by (simp add: board_eval)
  have q: "find (candidateMatches (mk 8 0 normal)) (getLegalMoves promoState 8)
           = Some (mkPromo 8 0 promotion (White, Queen))"
    unfolding l by (simp add: candidateMatches_def board_eval)
  have n: "find (candidateMatches (mkPromo 8 0 normal (White, Knight)))
             (getLegalMoves promoState 8)
           = Some (mkPromo 8 0 promotion (White, Knight))"
    unfolding l by (simp add: candidateMatches_def board_eval)
  have a: "list_ex (candidateMatches (mk 8 0 normal)) (getAllLegalMoves promoState)"
    unfolding promoState_legal by (simp add: candidateMatches_def board_eval)
  have b: "list_ex (candidateMatches (mkPromo 8 0 normal (White, Knight)))
             (getAllLegalMoves promoState)"
    unfolding promoState_legal by (simp add: candidateMatches_def board_eval)
  have c: "\<not> list_ex (candidateMatches (mk 8 1 normal)) (getAllLegalMoves promoState)"
    unfolding promoState_legal by (simp add: candidateMatches_def board_eval)
  have t: "promoteTo r = promoteTo (move.truncate r)" for r :: moveRecord
    by (simp add: move.truncate_def)
  have p: "map_option (\<lambda>x. promoteTo (fst x)) (makeMove promoState mv) = Some (Some pc)"
    if e: "list_ex (candidateMatches mv) (getAllLegalMoves promoState)"
      and f: "find (candidateMatches mv) (getLegalMoves promoState (mfrom mv))
              = Some (mkPromo 8 0 promotion pc)"
      and th: "(makeMove promoState mv \<noteq> None)
          = (\<not> gameOver promoState \<and> list_ex (candidateMatches mv) (getAllLegalMoves promoState))
        \<and> (case makeMove promoState mv of
              None \<Rightarrow> True
            | Some (r, s') \<Rightarrow>
                find (candidateMatches mv) (getLegalMoves promoState (mfrom mv))
                  = Some (move.truncate r)
                \<and> mfrom r = mfrom mv \<and> mto r = mto mv
                \<and> (promoteTo mv = None \<or> promoteTo r = promoteTo mv)
                \<and> list_ex (\<lambda>m. m = move.truncate r) (getAllLegalMoves promoState)
                \<and> moveHistory s' = moveHistory promoState @ [r])"
    for mv pc
  proof -
    from th g e obtain r s' where m: "makeMove promoState mv = Some (r, s')" by auto
    with th have "find (candidateMatches mv) (getLegalMoves promoState (mfrom mv))
                  = Some (move.truncate r)" by simp
    with f have "move.truncate r = mkPromo 8 0 promotion pc" by simp
    then have "promoteTo r = Some pc" by (simp add: t board_eval)
    with m show ?thesis by simp
  qed
  have 1: "map_option (\<lambda>x. promoteTo (fst x)) (makeMove promoState (mk 8 0 normal))
             = Some (Some (White, Queen))"
    using makeMove_commits_iff[of promoState "mk 8 0 normal"] a q
    by (intro p) (simp_all add: board_eval)
  have 2: "map_option (\<lambda>x. promoteTo (fst x))
             (makeMove promoState (mkPromo 8 0 normal (White, Knight)))
           = Some (Some (White, Knight))"
    using makeMove_commits_iff[of promoState "mkPromo 8 0 normal (White, Knight)"] b n
    by (intro p) (simp_all add: board_eval)
  have 3: "makeMove promoState (mk 8 1 normal) = None"
    using makeMove_commits_iff[of promoState "mk 8 1 normal", THEN conjunct1] c
    by (cases "makeMove promoState (mk 8 1 normal)") auto
  from 1 2 3 show ?thesis by simp
qed

section \<open>Decimal numerals and the fields of a FEN string\<close>

declare showNat.simps [simp del] splitWs.simps [simp del]

lemma below_ten: "k < 10 \<Longrightarrow> k \<in> {0, 1, 2, 3, 4, 5, 6, 7, 8, 9 :: nat}"
  by auto

lemma digitVal_digitChar: "k < 10 \<Longrightarrow> digitVal (digitChar k) = int k"
  by (drule below_ten) (auto simp: digitVal_def digitChar_def findIndex_def)

lemma isDigit_digitChar: "isDigit (digitChar k)"
  unfolding isDigit_def digitChar_def by (rule nth_mem) simp

lemma showNat_digits: "list_all isDigit (showNat n)"
proof (induction n rule: showNat.induct)
  case (1 n)
  then show ?case
    by (subst showNat.simps) (simp add: isDigit_digitChar)
qed

lemma showNat_nonempty: "showNat n \<noteq> []"
  by (subst showNat.simps) simp

lemma decimal_step: "10 * int (n div 10) + int (n mod 10) = int n"
  by presburger

lemma showNat_value: "foldl (\<lambda>a d. 10 * a + digitVal d) 0 (showNat n) = int n"
proof (induction n rule: showNat.induct)
  case (1 n)
  show ?case
  proof (cases "n < 10")
    case True
    then show ?thesis by (subst showNat.simps) (simp add: digitVal_digitChar)
  next
    case False
    then have "foldl (\<lambda>a d. 10 * a + digitVal d) 0 (showNat (n div 10)) = int (n div 10)"
      using 1 by simp
    with False show ?thesis
      by (subst showNat.simps) (simp add: digitVal_digitChar decimal_step)
  qed
qed

lemma isDigit_chars: "isDigit c \<Longrightarrow> c \<noteq> CHR ''-'' \<and> c \<noteq> CHR ''+'' \<and> c \<noteq> CHR ''x'' \<and> c \<noteq> CHR ''X''
   \<and> c \<noteq> CHR ''/'' \<and> \<not> isSpace c"
  by (auto simp: isDigit_def isSpace_def)

lemma parseInt_digits:
  assumes d: "list_all isDigit t" and ne: "t \<noteq> []"
  shows "parseInt t = Some (foldl (\<lambda>a d. 10 * a + digitVal d) 0 t)"
    and "parseInt (CHR ''-'' # t) = Some (- foldl (\<lambda>a d. 10 * a + digitVal d) 0 t)"
proof -
  obtain c cs where s: "t = c # cs" using ne by (cases t) auto
  have c: "isDigit c" using d s by simp
  have cs: "cs \<noteq> [] \<Longrightarrow> isDigit (hd cs)" using d s by (cases cs) auto
  have tw: "takeWhile isDigit t = t"
    using d by (simp add: takeWhile_eq_all_conv list_all_iff)
  have hex: "take 2 t \<noteq> ''0x''" "take 2 t \<noteq> ''0X''"
    using cs isDigit_chars[of "hd cs"] unfolding s by (cases cs; auto)+
  have sign: "take 1 t \<noteq> ''-''" "take 1 t \<noteq> ''+''"
    using isDigit_chars[OF c] unfolding s by auto
  show "parseInt t = Some (foldl (\<lambda>a d. 10 * a + digitVal d) 0 t)"
    unfolding parseInt_def Let_def by (simp only: tw hex sign ne if_False simp_thms mult_1)
  have m: "take 1 (CHR ''-'' # t) = ''-''" "drop 1 (CHR ''-'' # t) = t" by simp_all
  show "parseInt (CHR ''-'' # t) = Some (- foldl (\<lambda>a d. 10 * a + digitVal d) 0 t)"
    unfolding parseInt_def Let_def m
    by (simp only: tw hex ne if_False if_True simp_thms) simp
qed

lemma parseInt_showInt: "parseInt (showInt i) = Some i"
proof (cases "i < 0")
  case False
  then show ?thesis
    by (simp add: showInt_def parseInt_digits(1)[OF showNat_digits showNat_nonempty]
        showNat_value)
next
  case True
  then show ?thesis
    by (simp add: showInt_def parseInt_digits(2)[OF showNat_digits showNat_nonempty]
        showNat_value)
qed

lemma splitWs_field:
  assumes "w \<noteq> []" and "list_all (\<lambda>x. \<not> isSpace x) w"
  shows "splitWs (w @ CHR '' '' # rest) = w # splitWs rest"
    and "splitWs w = [w]"
proof -
  obtain c cs where s: "w = c # cs" using assms(1) by (cases w) auto
  have c: "\<not> isSpace c" and cs: "\<forall>x\<in>set cs. \<not> isSpace x"
    using assms(2) s by (auto simp: list_all_iff)
  have sp: "isSpace CHR '' ''" by (simp add: isSpace_def)
  have t1: "takeWhile (\<lambda>x. \<not> isSpace x) (c # cs @ CHR '' '' # rest) = c # cs"
    using c cs sp by (simp add: takeWhile_append1)
  have d1: "dropWhile (\<lambda>x. \<not> isSpace x) (cs @ CHR '' '' # rest) = CHR '' '' # rest"
    using cs sp by (simp add: dropWhile_append2)
  have "splitWs (CHR '' '' # rest) = splitWs rest"
    using sp by (subst splitWs.simps) simp
  then show "splitWs (w @ CHR '' '' # rest) = w # splitWs rest"
    unfolding s append_Cons using c
    by (subst splitWs.simps) (simp del: takeWhile.simps dropWhile.simps add: t1 d1)
  have t2: "takeWhile (\<lambda>x. \<not> isSpace x) (c # cs) = c # cs"
    using c cs by simp
  have d2: "dropWhile (\<lambda>x. \<not> isSpace x) cs = []"
    using cs by simp
  have "splitWs [] = []" by (subst splitWs.simps) simp
  then show "splitWs w = [w]"
    unfolding s using c
    by (subst splitWs.simps) (simp del: takeWhile.simps dropWhile.simps add: t2 d2)
qed

lemma splitOn_field:
  assumes "c \<notin> set w"
  shows "splitOn c (w @ c # rest) = w # splitOn c rest"
    and "splitOn c w = [w]"
  using assms by (induction w) (auto split: list.splits)

lemma fenChar_digit: "isDigit c \<Longrightarrow> fenChar c"
  by (auto simp: fenChar_def dest: isDigit_chars) (simp add: isDigit_def)

lemma showNat_fenChar: "list_all fenChar (showNat n)"
  using showNat_digits[of n] by (auto simp: list_all_iff fenChar_digit)

lemma showInt_fenChar: "list_all fenChar (showInt i)"
  using showNat_fenChar by (simp add: showInt_def fenChar_def isSpace_def)

lemma showInt_nonempty: "showInt i \<noteq> []"
  by (simp add: showInt_def showNat_nonempty)

lemma fenLetter_fenChar: "fenChar (fenLetter p)"
  by (cases p; cases "fst p"; cases "snd p")
     (simp_all add: fenLetter_def kindChar_def kindCharLower_def fenChar_def isSpace_def)

lemma fenRow_fenChar: "list_all fenChar (fenRow cs emp)"
proof (induction cs emp rule: fenRow.induct)
  case (1 emp)
  then show ?case by (simp add: showInt_fenChar)
next
  case (2 cs emp)
  then show ?case by simp
next
  case (3 p cs emp)
  then show ?case by (simp add: showInt_fenChar fenLetter_fenChar)
qed

lemma fenChar_D: "list_all fenChar w \<Longrightarrow>
    CHR ''/'' \<notin> set w \<and> CHR '' '' \<notin> set w \<and> list_all (\<lambda>x. \<not> isSpace x) w"
  by (auto simp: list_all_iff fenChar_def)

lemma fenCastling_fenChar: "list_all fenChar (fenCastling cr) \<and> fenCastling cr \<noteq> []"
  by (simp add: fenCastling_def Let_def fenChar_def isSpace_def)

lemma fileStr_fenChar: "list_all fenChar (fileStr c) \<and> fileStr c \<noteq> []"
proof (cases "0 \<le> c \<and> c < 8")
  case True
  then have "nat c < 8" by arith
  then have "nat c \<in> {0, 1, 2, 3, 4, 5, 6, 7}" by auto
  then show ?thesis using True
    by (auto simp: fileStr_def fenChar_def isSpace_def)
next
  case False
  then show ?thesis by (auto simp: fileStr_def fenChar_def isSpace_def)
qed

lemma fenEp_fenChar: "list_all fenChar (fenEp ep) \<and> fenEp ep \<noteq> []"
  using fileStr_fenChar showInt_fenChar
  by (cases ep) (simp_all add: fenEp_def sqToAlg_def fenChar_def isSpace_def)

section \<open>The board field read back\<close>

lemma pieceOfChar_fenLetter: "pieceOfChar (fenLetter p) = Some p"
  by (cases p; cases "fst p"; cases "snd p")
     (simp_all add: pieceOfChar_def fenLetter_def kindChar_def kindCharLower_def)

lemma fenLetter_not_digit: "\<not> isDigit (fenLetter p)"
  by (cases p; cases "fst p"; cases "snd p")
     (simp_all add: isDigit_def fenLetter_def kindChar_def kindCharLower_def)

lemma showNat_digit: "n < 10 \<Longrightarrow> showNat n = [digitChar n]"
  by (subst showNat.simps) simp

lemma showInt_digit: "0 \<le> e \<Longrightarrow> e < 10 \<Longrightarrow> showInt e = [digitChar (nat e)]"
  by (simp add: showInt_def showNat_digit)

lemma loadRow_fenRow:
  "0 \<le> emp \<Longrightarrow> emp + int (length cs) \<le> 8 \<Longrightarrow>
   loadRow b r f (fenRow cs emp) = Inr (place b (idx r (f + emp)) cs)"
proof (induction cs arbitrary: b f emp)
  case Nil
  then show ?case
    by (cases "emp = 0")
       (simp_all add: showInt_digit isDigit_digitChar)
next
  case (Cons x cs)
  show ?case
  proof (cases x)
    case None
    have "idx r (f + (emp + 1)) = idx r (f + emp) + 1" by (simp add: idx_def)
    then show ?thesis using Cons.IH[of "emp + 1" b f] Cons.prems None by simp
  next
    case (Some p)
    have i: "idx r (f + emp + 1 + 0) = idx r (f + emp) + 1" by (simp add: idx_def)
    have ih: "loadRow b' r (f + emp + 1) (fenRow cs 0)
                = Inr (place b' (idx r (f + emp + 1 + 0)) cs)" for b'
      using Cons.IH[of 0 b' "f + emp + 1"] Cons.prems by simp
    show ?thesis
    proof (cases "emp = 0")
      case True
      then show ?thesis
        using ih i Some
        by (simp add: fenLetter_not_digit pieceOfChar_fenLetter)
    next
      case False
      then have e: "showInt emp = [digitChar (nat emp)]"
        using Cons.prems by (simp add: showInt_digit)
      have v: "digitVal (digitChar (nat emp)) = emp"
        using Cons.prems False by (simp add: digitVal_digitChar)
      show ?thesis
        using ih i Some False
        by (simp add: e v isDigit_digitChar fenLetter_not_digit pieceOfChar_fenLetter)
    qed
  qed
qed

lemma length_put: "0 \<le> i \<Longrightarrow> i < int (length b) \<Longrightarrow> length (put b i v) = length b"
  by (simp add: put_def)

lemma cell_put: "0 \<le> i \<Longrightarrow> i < int (length b) \<Longrightarrow>
    cell (put b i v) j = (if j = i then v else cell b j)"
  by (auto simp: put_def cell_def nth_list_update)

lemma place_cell:
  "0 \<le> off \<Longrightarrow> off + int (length cs) \<le> int (length b) \<Longrightarrow>
   length (place b off cs) = length b
   \<and> cell (place b off cs) i =
       (if off \<le> i \<and> i < off + int (length cs) \<and> cs ! nat (i - off) \<noteq> None
        then cs ! nat (i - off) else cell b i)"
proof (induction cs arbitrary: b off)
  case Nil
  then show ?case by auto
next
  case (Cons x cs)
  have n: "(x # cs) ! nat (i - off) = cs ! nat (i - (off + 1))" if "off < i"
  proof -
    have "nat (i - off) = Suc (nat (i - (off + 1)))" using that by arith
    then show ?thesis by simp
  qed
  show ?case
  proof (cases x)
    case None
    show ?thesis
      using Cons.IH[of "off + 1" b] Cons.prems None n
      by (cases "i = off") auto
  next
    case (Some p)
    have l: "length (put b off (Some p)) = length b"
      using Cons.prems by (simp add: length_put)
    have c: "cell (put b off (Some p)) j = (if j = off then Some p else cell b j)" for j
      using Cons.prems by (simp add: cell_put)
    show ?thesis
      using Cons.IH[of "off + 1" "put b off (Some p)"] Cons.prems Some n l c
      by (cases "i = off") auto
  qed
qed

lemma upto_step: "r \<le> 7 \<Longrightarrow> [r .. 7] = r # [r + 1 .. 7]"
  by (simp add: upto_rec1)

lemma rowCells_length: "length (rowCells B r) = 8"
  by (simp add: rowCells_def)

lemma rowCells_nth: "0 \<le> j \<Longrightarrow> j < 8 \<Longrightarrow> rowCells B r ! nat j = cell B (8 * r + j)"
  using nth_upto[of 0 "nat j" 7] by (simp add: rowCells_def idx_def mult.commute)

lemma loadRows_rows:
  assumes B: "length B = 64"
  shows "length b = 64 \<Longrightarrow> 0 \<le> r \<Longrightarrow> r \<le> 8 \<Longrightarrow>
         (\<And>i. cell b i = (if i < 8 * r then cell B i else None)) \<Longrightarrow>
         loadRows b r (map (\<lambda>k. fenRow (rowCells B k) 0) [r .. 7]) = Inr B"
proof (induction "nat (8 - r)" arbitrary: b r)
  case 0
  then have r: "r = 8" by simp
  have "b = B"
  proof (rule nth_equalityI)
    show "length b = length B" using 0 B by simp
    fix i assume "i < length b"
    then have "cell b (int i) = b ! i" "cell B (int i) = B ! i" "int i < 8 * r"
      using 0 B r by (simp_all add: cell_def)
    then show "b ! i = B ! i" using "0.prems"(4)[of "int i"] by simp
  qed
  then show ?case using r by simp
next
  case (Suc n)
  then have r: "r \<le> 7" by simp
  let ?b = "place b (idx r 0) (rowCells B r)"
  have off: "0 \<le> idx r 0" "idx r 0 + int (length (rowCells B r)) \<le> int (length b)"
    using Suc.prems r by (simp_all add: idx_def rowCells_length)
  note pc = place_cell[OF off]
  have l: "length ?b = 64" using pc Suc.prems by simp
  have c: "cell ?b i = (if i < 8 * (r + 1) then cell B i else None)" for i
  proof -
    have "cell ?b i =
       (if idx r 0 \<le> i \<and> i < idx r 0 + 8 \<and> rowCells B r ! nat (i - idx r 0) \<noteq> None
        then rowCells B r ! nat (i - idx r 0) else cell b i)"
      using pc[of i] by (simp add: rowCells_length)
    then show ?thesis
      using Suc.prems(4)[of i] rowCells_nth[of "i - idx r 0" B r]
      by (cases "cell B i") (auto simp: idx_def)
  qed
  have step: "loadRow b r 0 (fenRow (rowCells B r) 0) = Inr ?b"
    using loadRow_fenRow[of 0 "rowCells B r" b r 0] by (simp add: rowCells_length)
  have ih: "loadRows ?b (r + 1) (map (\<lambda>k. fenRow (rowCells B k) 0) [r + 1 .. 7]) = Inr B"
    using Suc.hyps(1)[of "r + 1" ?b] Suc.hyps(2) l c Suc.prems r by simp
  show ?case
    by (simp add: upto_step[OF r] step ih)
qed

lemma cell_replicate_None: "cell (replicate n None) i = None"
  by (auto simp: cell_def)

lemma loadRows_board:
  "length B = 64 \<Longrightarrow>
   loadRows (replicate 64 None) 0 (map (\<lambda>k. fenRow (rowCells B k) 0) [0 .. 7]) = Inr B"
  by (rule loadRows_rows) (auto simp: cell_replicate_None cell_def)

lemma splitOn_rows:
  assumes g: "\<And>k. CHR ''/'' \<notin> set (g k)"
  shows "r \<le> 7 \<Longrightarrow>
     splitOn CHR ''/'' (concat (map (\<lambda>k. g k @ (if k < 7 then ''/'' else [])) [r .. 7]))
     = map g [r .. 7]"
proof (induction "nat (7 - r)" arbitrary: r)
  case 0
  then have "r = 7" by simp
  then show ?case using splitOn_field(2)[OF g] by (simp add: upto_rec1)
next
  case (Suc n)
  then have r: "r < 7" by simp
  then have ih: "splitOn CHR ''/'' (concat (map (\<lambda>k. g k @ (if k < 7 then ''/'' else []))
                   [r + 1 .. 7])) = map g [r + 1 .. 7]"
    using Suc.hyps(1)[of "r + 1"] Suc.hyps(2) by simp
  have u: "[r .. 7] = r # [r + 1 .. 7]" using r by (simp add: upto_rec1)
  show ?case
    unfolding u using r ih splitOn_field(1)[OF g, of r]
    by simp
qed

lemma fenBoard_rows: "fenBoard B = concat (map (\<lambda>k. fenRow (rowCells B k) 0
                                     @ (if k < 7 then ''/'' else [])) [0 .. 7])"
  by (simp add: fenBoard_def rowCells_def)

lemma splitOn_fenBoard:
  "splitOn CHR ''/'' (fenBoard B) = map (\<lambda>k. fenRow (rowCells B k) 0) [0 .. 7]"
  unfolding fenBoard_rows
  by (rule splitOn_rows) (use fenRow_fenChar fenChar_D in blast, simp)

lemma fenBoard_fenField: "list_all (\<lambda>x. \<not> isSpace x) (fenBoard B) \<and> fenBoard B \<noteq> []
    \<and> CHR '' '' \<notin> set (fenBoard B)"
proof -
  have "list_all (\<lambda>x. x \<noteq> CHR '' '' \<and> \<not> isSpace x) (fenRow cs 0 @ (if k < 7 then ''/'' else []))"
    for cs and k :: int
    using fenRow_fenChar[of cs 0]
    by (auto simp: list_all_iff fenChar_def isSpace_def)
  then have a: "list_all (\<lambda>x. x \<noteq> CHR '' '' \<and> \<not> isSpace x) (fenBoard B)"
    unfolding fenBoard_rows by (auto simp: list_all_iff)
  have "fenBoard B \<noteq> []"
    unfolding fenBoard_rows by (simp add: upto_rec1)
  with a show ?thesis by (auto simp: list_all_iff)
qed

section \<open>Loading an exported position\<close>

lemma toFEN_parts:
  "splitWs (toFEN s) =
     [fenBoard (board s), [colorChar (turn s)], fenCastling (castlingRights s),
      fenEp (enPassantTarget s), showInt (halfMoveClock s), showInt (fullMoveNumber s)]"
proof -
  let ?B = "fenBoard (board s)" and ?T = "[colorChar (turn s)]"
  let ?C = "fenCastling (castlingRights s)" and ?E = "fenEp (enPassantTarget s)"
  let ?H = "showInt (halfMoveClock s)" and ?F = "showInt (fullMoveNumber s)"
  note f = fenChar_D[THEN conjunct2, THEN conjunct2]
  have b: "?B \<noteq> []" "list_all (\<lambda>x. \<not> isSpace x) ?B"
    using fenBoard_fenField[of "board s"] by simp_all
  have t: "?T \<noteq> []" "list_all (\<lambda>x. \<not> isSpace x) ?T"
    by (simp_all add: colorChar_def isSpace_def)
  have c: "?C \<noteq> []" "list_all (\<lambda>x. \<not> isSpace x) ?C"
    using fenCastling_fenChar[of "castlingRights s"] f by blast+
  have e: "?E \<noteq> []" "list_all (\<lambda>x. \<not> isSpace x) ?E"
    using fenEp_fenChar[of "enPassantTarget s"] f by blast+
  have h: "?H \<noteq> []" "list_all (\<lambda>x. \<not> isSpace x) ?H"
    using showInt_nonempty showInt_fenChar f by blast+
  have g: "?F \<noteq> []" "list_all (\<lambda>x. \<not> isSpace x) ?F"
    using showInt_nonempty showInt_fenChar f by blast+
  have "toFEN s = ?B @ CHR '' '' # (?T @ CHR '' '' # (?C @ CHR '' '' # (?E @ CHR '' '' #
                    (?H @ CHR '' '' # ?F))))"
    by (simp add: toFEN_def)
  then show ?thesis
    by (simp only: splitWs_field(1)[OF b] splitWs_field(1)[OF t] splitWs_field(1)[OF c]
        splitWs_field(1)[OF e] splitWs_field(1)[OF h] splitWs_field(2)[OF g])
qed

lemma file_code: "n < 8 \<Longrightarrow> int (of_char (''abcdefgh'' ! n)) = 97 + int n"
proof -
  assume "n < 8"
  then have "n \<in> {0, 1, 2, 3, 4, 5, 6, 7}" by auto
  then show ?thesis by auto
qed

lemma algToSq_sqToAlg:
  assumes "0 \<le> q" "q < 64"
  shows "algToSq (sqToAlg q) = Some q" "sqToAlg q \<noteq> ''-''"
proof -
  have c: "0 \<le> col q \<and> col q < 8" using assms by (simp add: col_def jsmod_def)
  have r: "0 < 8 - row q \<and> 8 - row q < 10" using assms by (simp add: row_def) arith
  have f: "fileStr (col q) = [''abcdefgh'' ! nat (col q)]" using c by (simp add: fileStr_def)
  have d: "showInt (8 - row q) = [digitChar (nat (8 - row q))]"
    using r by (simp add: showInt_digit)
  have "nat (8 - row q) < 10" using r by arith
  from digitVal_digitChar[OF this] r
  have v: "digitVal (digitChar (nat (8 - row q))) = 8 - row q" by simp
  have "nat (col q) < 8" using c by arith
  from file_code[OF this] c
  have fc: "int (of_char (''abcdefgh'' ! nat (col q))) = 97 + col q" by simp
  have "idx (row q) (col q) = q"
    using assms by (simp add: idx_def row_def col_def jsmod_def)
  then show "algToSq (sqToAlg q) = Some q"
    unfolding sqToAlg_def f d
    by (simp add: algToSq_def isDigit_digitChar v fc del: of_char_of)
  show "sqToAlg q \<noteq> ''-''"
    unfolding sqToAlg_def f d by simp
qed

lemma castling_roundtrip:
  "\<lparr>wK = CHR ''K'' \<in> set (fenCastling cr), wQ = CHR ''Q'' \<in> set (fenCastling cr),
    bK = CHR ''k'' \<in> set (fenCastling cr), bQ = CHR ''q'' \<in> set (fenCastling cr)\<rparr> = cr"
  by (cases cr) (auto simp: fenCastling_def Let_def)

lemma turn_roundtrip: "(if colorChar t = CHR ''b'' then Black else White) = t"
  by (cases t) (simp_all add: colorChar_def)

lemma loadFEN_toFEN:
  assumes "wfPosition s"
  shows "loadFEN s0 (toFEN s) =
     Inr (recordPosition
            (s0\<lparr>board := board s, turn := turn s, castlingRights := castlingRights s,
                enPassantTarget := enPassantTarget s, halfMoveClock := halfMoveClock s,
                fullMoveNumber := fullMoveNumber s, positionMap := [], moveHistory := [],
                gameOver := False, gameResult := None\<rparr>))"
proof -
  have l: "length (board s) = 64" using assms by (simp add: wfPosition_def)
  have rows: "loadRows (replicate 64 None) 0 (splitOn CHR ''/'' (fenBoard (board s)))
              = Inr (board s)"
    unfolding splitOn_fenBoard by (rule loadRows_board[OF l])
  have len: "length (splitOn CHR ''/'' (fenBoard (board s))) = 8"
    unfolding splitOn_fenBoard by simp
  have ep: "parseEp (fenEp (enPassantTarget s)) = Some (enPassantTarget s)"
  proof (cases "enPassantTarget s")
    case None
    then show ?thesis by (simp add: fenEp_def parseEp_def)
  next
    case (Some q)
    then have "0 \<le> q" "q < 64" using assms by (simp_all add: wfPosition_def)
    from algToSq_sqToAlg[OF this] Some show ?thesis by (simp add: fenEp_def parseEp_def)
  qed
  show ?thesis
    unfolding loadFEN_def toFEN_parts Let_def
    by (simp add: rows len ep parseInt_showInt castling_roundtrip turn_roundtrip
        del: replicate.simps)
qed

section \<open>Generated moves stay on the board\<close>

lemma idx_inBoard: "isValid r f \<Longrightarrow> inBoard (idx r f)"
  by (auto simp: isValid_def inBoard_def idx_def)

lemma row_col_valid: "inBoard i \<Longrightarrow> isValid (row i) (col i)"
  by (auto simp: isValid_def inBoard_def row_def col_def jsmod_def)

lemma moveOK_mk:
  "inBoard f \<Longrightarrow> inBoard t \<Longrightarrow> ty \<noteq> doublePush \<Longrightarrow> moveOK b c (mk f t ty)"
  "inBoard f \<Longrightarrow> inBoard t \<Longrightarrow> ty \<noteq> doublePush \<Longrightarrow> moveOK b c (mkPromo f t ty p)"
  "inBoard f \<Longrightarrow> inBoard t \<Longrightarrow> inBoard cs \<Longrightarrow> moveOK b c (mkEp f t cs)"
  "inBoard f \<Longrightarrow> inBoard t \<Longrightarrow> inBoard rf \<Longrightarrow> inBoard rt \<Longrightarrow> ty \<noteq> doublePush \<Longrightarrow>
     moveOK b c (mkCastle f t ty rf rt)"
  by (simp_all add: moveOK_def mk_def mkPromo_def mkEp_def mkCastle_def optInBoard_def)

lemma addSlide_OK:
  "inBoard f \<Longrightarrow> list_all (moveOK b c) (addSlide b f c' dr df nr nf)"
proof (induction b f c' dr df nr nf rule: addSlide.induct)
  case (1 b f c' dr df nr nf)
  show ?case
  proof (cases "isValid nr nf \<and> (dr \<noteq> 0 \<or> df \<noteq> 0)")
    case True
    then show ?thesis
      using 1
      by (subst addSlide.simps) (auto simp: moveOK_mk idx_inBoard split: option.splits)
  next
    case False
    then show ?thesis by (subst addSlide.simps) auto
  qed
qed

lemma addStep_OK: "inBoard f \<Longrightarrow> list_all (moveOK b c) (addStep b f c' nr nf)"
  by (auto simp: addStep_def moveOK_mk idx_inBoard split: option.splits)

lemma list_all_concat_map:
  "(\<And>x. x \<in> set xs \<Longrightarrow> list_all P (g x)) \<Longrightarrow> list_all P (concat (map g xs))"
  by (induction xs) auto

lemma kingCastling_OK: "inBoard f \<Longrightarrow> list_all (moveOK b c) (kingCastling b f cr c')"
  by (auto simp: kingCastling_def moveOK_mk inBoard_def)

lemma getCastlingMoves_OK: "list_all (moveOK b c) (getCastlingMoves b c' cr)"
  by (auto simp: getCastlingMoves_def moveOK_mk inBoard_def)

lemma pawnForward_OK:
  assumes f: "inBoard f" and p: "cell b f = Some (c, k)"
  shows "list_all (moveOK b c) (pawnForward b f c)"
proof -
  have v: "isValid (row f) (col f)" using f by (rule row_col_valid)
  have dp: "moveOK b c (mk f (idx (row f + 2 * (if c = White then - 1 else 1)) (col f)) doublePush)"
    if "row f = (if c = White then 6 else 1)"
    using that v f p
    by (cases c) (simp_all add: moveOK_def mk_def optInBoard_def color_def isValid_def idx_def
                    inBoard_def)
  show ?thesis
    unfolding pawnForward_def Let_def
    using f dp by (simp add: moveOK_mk idx_inBoard promoKinds_def)
qed

lemma pawnCapture_OK:
  assumes f: "inBoard f"
  shows "list_all (moveOK b c) (pawnCapture b f ep c df)"
proof -
  have v: "isValid (row f) (col f)" using f by (rule row_col_valid)
  have e: "inBoard (idx (row f) (col f + df))" if "isValid (row f + d) (col f + df)" for d
    using v that by (simp add: isValid_def inBoard_def idx_def)
  show ?thesis
    unfolding pawnCapture_def Let_def
    using f e
    by (simp add: moveOK_mk idx_inBoard promoKinds_def split: option.splits)
qed

lemma pawnMoves_OK:
  assumes f: "inBoard f" and p: "cell b f = Some (c, k)"
  shows "list_all (moveOK b c) (pawnMoves b f ep c)"
  unfolding pawnMoves_def
  using pawnForward_OK[OF f p] pawnCapture_OK[OF f]
  by simp

lemma steps_OK:
  "inBoard f \<Longrightarrow>
   list_all (moveOK b c) (concat (map (\<lambda>(dr, df). addStep b f c' (r + dr) (fl + df)) ds))"
  by (rule list_all_concat_map) (auto simp: addStep_OK)

lemma slides_OK:
  "inBoard f \<Longrightarrow>
   list_all (moveOK b c)
     (concat (map (\<lambda>(dr, df). addSlide b f c' dr df (r + dr) (fl + df)) ds))"
  by (rule list_all_concat_map) (auto simp: addSlide_OK)

lemma getPseudoMoves_OK:
  assumes f: "inBoard f"
  shows "list_all (moveOK b c) (getPseudoMoves b f cr ep c)"
proof (cases "cell b f")
  case None
  then show ?thesis by (simp add: getPseudoMoves_def)
next
  case (Some pc)
  obtain c' k where pc: "pc = (c', k)" by (cases pc)
  show ?thesis
  proof (cases "c' = c")
    case False
    then show ?thesis using Some pc by (simp add: getPseudoMoves_def)
  next
    case True
    have "list_all (moveOK b c) (pawnMoves b f ep c)"
      using pawnMoves_OK[OF f] Some pc True by simp
    then show ?thesis
      using Some pc True f
      by (cases k)
         (simp_all add: getPseudoMoves_def Let_def steps_OK slides_OK kingCastling_OK)
  qed
qed

lemma getAllPseudoMoves_OK: "list_all (moveOK b c) (getAllPseudoMoves b c cr ep)"
proof -
  have "list_all (moveOK b c)
          (case cell b i of None \<Rightarrow> []
           | Some p \<Rightarrow> if fst p = c then getPseudoMoves b i cr ep c else [])"
    if "i \<in> set [0 .. 63]" for i
    using that getPseudoMoves_OK[of i b c cr ep]
    by (simp add: inBoard_def split: option.splits)
  then show ?thesis
    unfolding getAllPseudoMoves_def
    by (simp add: getCastlingMoves_OK list_all_concat_map del: set_upto)
qed

lemma legal_OK: "m \<in> set (getAllLegalMoves s) \<Longrightarrow> moveOK (board s) (turn s) m"
  using getAllPseudoMoves_OK[of "board s" "turn s" "castlingRights s" "enPassantTarget s"]
  by (auto simp: getAllLegalMoves_def list_all_iff)

section \<open>Invariants of the reachable engine states\<close>

lemma movedState_fields:
  "board (movedState s mv found) = applyMoveToBoard (board s) found"
  "enPassantTarget (movedState s mv found) = newEnPassant (cell (board s) (mfrom mv)) found"
  "castlingRights (movedState s mv found)
     = updateRights (cell (board s) (mfrom mv)) (mfrom found) (castlingRights s)"
  "turn (movedState s mv found) = turn s"
  "moveHistory (movedState s mv found) = moveHistory s"
  "positionMap (movedState s mv found) = positionMap s"
  "gameOver (movedState s mv found) = gameOver s"
  "gameResult (movedState s mv found) = gameResult s"
  by (simp_all add: movedState_def Let_def)

lemma commitMove_state:
  assumes "commitMove s mv found = (r, s')"
  shows "s' = checkGameEnd r (committed s mv found r)"
    and "fen r = toFEN (movedState s mv found)"
    and "move.truncate r = found"
  using assms
  by (auto simp: commitMove_def committed_def Let_def movedState_fields
      move.truncate_def move.extend_def moveRecord.fields_def)

lemma committed_fields:
  "board (committed s mv found r) = applyMoveToBoard (board s) found"
  "enPassantTarget (committed s mv found r) = newEnPassant (cell (board s) (mfrom mv)) found"
  "castlingRights (committed s mv found r)
     = updateRights (cell (board s) (mfrom mv)) (mfrom found) (castlingRights s)"
  "turn (committed s mv found r) = opp (color (cell (board s) (mfrom mv)))"
  "moveHistory (committed s mv found r) = moveHistory s @ [r]"
  "halfMoveClock (committed s mv found r) = halfMoveClock (movedState s mv found)"
  "fullMoveNumber (committed s mv found r) = fullMoveNumber (movedState s mv found)"
  "gameOver (committed s mv found r) = gameOver s"
  "gameResult (committed s mv found r) = gameResult s"
  "positionMap (committed s mv found r)
     = bump (fenCore (committed s mv found r)) (positionMap s)"
  by (simp_all add: committed_def recordPosition_def movedState_fields fenCore_def toFEN_def)

lemma length_applyMove:
  assumes "moveOK b c m" and that: "length b = 64"
  shows "length (applyMoveToBoard b m) = length b"
proof -
  have p: "inBoard i \<Longrightarrow> length x = 64 \<Longrightarrow> length (put x i v) = 64" for i x v
    by (simp add: inBoard_def length_put)
  show ?thesis
    using assms that
    by (auto simp: applyMoveToBoard_def Let_def moveOK_def optInBoard_def p
        split: option.splits)
qed

lemma newEnPassant_inBoard:
  assumes "moveOK b c m"
  shows "optInBoard (newEnPassant (cell b (mfrom m)) m)"
  using assms
  by (cases c) (auto simp: newEnPassant_def moveOK_def optInBoard_def inBoard_def
                  split: if_splits)

lemma wfPosition_movedState:
  assumes w: "wfPosition s" and ok: "moveOK (board s) (turn s) found"
    and f: "mfrom found = mfrom mv"
  shows "wfPosition (movedState s mv found)"
  using w length_applyMove[OF ok] newEnPassant_inBoard[OF ok] f
  by (auto simp: wfPosition_def movedState_fields optInBoard_def inBoard_def
      split: option.splits)

lemma checkGameEnd_flags:
  assumes "\<not> gameOver y" "gameResult y = None"
  shows "(gameResult (checkGameEnd x y) \<noteq> None \<longrightarrow> gameOver (checkGameEnd x y))"
    and "\<not> gameOver (checkGameEnd x y) \<longrightarrow> \<not> isThreefoldRepetition y"
  using assms by (auto simp: checkGameEnd_def setGameOver_def)

lemma engineInv_makeMove:
  assumes inv: "engineInv s" and mm: "makeMove s mv = Some (r, s')"
  shows "engineInv s'"
proof -
  from mm obtain found where g: "\<not> gameOver s"
    and c: "commitMove s mv found = (r, s')"
    and fm: "mfrom found = mfrom mv" and l: "found \<in> set (getAllLegalMoves s)"
    by (rule makeMove_SomeD)
  note st = commitMove_state[OF c]
  let ?y = "committed s mv found r"
  have ok: "moveOK (board s) (turn s) found" using l by (rule legal_OK)
  have w1: "wfPosition (movedState s mv found)"
    using inv ok fm by (simp add: engineInv_def wfPosition_movedState)
  have w: "wfPosition s'"
    using w1 unfolding st(1)
    by (simp add: wfPosition_def checkGameEnd_frame committed_fields movedState_fields)
  have "fenOK r" unfolding fenOK_def using st(2) w1 by blast
  then have h: "list_all fenOK (moveHistory s')"
    using inv unfolding st(1)
    by (simp add: engineInv_def checkGameEnd_frame committed_fields)
  have y: "\<not> gameOver ?y" "gameResult ?y = None"
    using g inv by (auto simp: committed_fields engineInv_def)
  have three: "\<not> isThreefoldRepetition ?y \<Longrightarrow> list_all (\<lambda>kc. snd kc < 3) (positionMap ?y)"
    by (auto simp: isThreefoldRepetition_def list_all_iff list_ex_iff)
  show ?thesis
    unfolding engineInv_def
    using w h checkGameEnd_flags[OF y, of r] three
    by (auto simp: st(1) checkGameEnd_frame)
qed

lemma startBoard_length: "length startBoard = 64"
  by (simp add: startBoard_def)

lemma engineInv_reset: "engineInv reset"
  by (simp add: engineInv_def reset_def recordPosition_def wfPosition_def startBoard_length)

lemma engineInv_loaded:
  assumes "wfPosition t"
  shows "engineInv ((recordPosition
            (s0\<lparr>board := board t, turn := turn t, castlingRights := castlingRights t,
                enPassantTarget := enPassantTarget t, halfMoveClock := halfMoveClock t,
                fullMoveNumber := fullMoveNumber t, positionMap := [], moveHistory := [],
                gameOver := False, gameResult := None\<rparr>))
            \<lparr>turn := c, gameOver := False, gameResult := None\<rparr>)"
  using assms by (simp add: engineInv_def wfPosition_def recordPosition_def)

lemma engineInv_undoMove:
  assumes inv: "engineInv s"
  shows "case undoMove s of Inl e \<Rightarrow> False | Inr (x, s') \<Rightarrow> engineInv s'"
proof (cases "moveHistory s = []")
  case True
  then show ?thesis using inv by (simp add: undoMove_def)
next
  case False
  show ?thesis
  proof (cases "butlast (moveHistory s) = []")
    case True
    have "engineInv (reset\<lparr>moveHistory := [], gameOver := False, gameResult := None\<rparr>)"
      by (simp add: engineInv_def reset_def recordPosition_def wfPosition_def
          startBoard_length)
    then show ?thesis using False True by (simp add: undoMove_def Let_def)
  next
    case nonempty: False
    let ?p = "last (butlast (moveHistory s))"
    have "?p \<in> set (moveHistory s)"
      using nonempty by (meson in_set_butlastD last_in_set)
    then have "fenOK ?p" using inv by (simp add: engineInv_def list_all_iff)
    then obtain t where t: "wfPosition t" "fen ?p = toFEN t" by (auto simp: fenOK_def)
    show ?thesis
      using False nonempty engineInv_loaded[OF t(1)]
      by (simp add: undoMove_def Let_def t(2) loadFEN_toFEN[OF t(1)])
  qed
qed

lemma reachable_inv: "reachable s \<Longrightarrow> engineInv s"
proof (induction rule: reachable.induct)
  case start
  show ?case by (rule engineInv_reset)
next
  case (move s mv r s')
  then show ?case by (simp add: engineInv_makeMove)
next
  case (undo s x s')
  then show ?case using engineInv_undoMove[of s] by simp
qed

section \<open>FEN round trip and threefold repetition\<close>

text \<open>
  Claim C6. For every reachable engine state, \<open>loadFEN(toFEN())\<close> succeeds and gives
  back the same board, turn, castling rights, en-passant target, half-move clock and
  full-move number.
\<close>

theorem fen_roundtrip:
  "reachable s \<Longrightarrow>
   (case loadFEN s (toFEN s) of
      Inl e \<Rightarrow> False
    | Inr s' \<Rightarrow>
        board s' = board s \<and> turn s' = turn s \<and> castlingRights s' = castlingRights s
        \<and> enPassantTarget s' = enPassantTarget s \<and> halfMoveClock s' = halfMoveClock s
        \<and> fullMoveNumber s' = fullMoveNumber s)"
proof -
  assume "reachable s"
  then have "wfPosition s" using reachable_inv by (simp add: engineInv_def)
  then show ?thesis by (simp add: loadFEN_toFEN recordPosition_def)
qed

theorem fen_roundtrip_witness:
  "reachable reset \<and>
   (case loadFEN reset (toFEN reset) of
      Inl e \<Rightarrow> False
    | Inr s' \<Rightarrow>
        board s' = board reset \<and> turn s' = turn reset
        \<and> castlingRights s' = castlingRights reset
        \<and> enPassantTarget s' = enPassantTarget reset
        \<and> halfMoveClock s' = halfMoveClock reset
        \<and> fullMoveNumber s' = fullMoveNumber reset)"
  using fen_roundtrip[OF reachable.start] reachable.start by simp

lemma fenCore_fields:
  "fenCore s = fenBoard (board s) @ '' '' @ [colorChar (turn s)] @ '' ''
               @ fenCastling (castlingRights s) @ '' '' @ fenEp (enPassantTarget s)"
proof -
  let ?B = "fenBoard (board s)" and ?T = "[colorChar (turn s)]"
  let ?C = "fenCastling (castlingRights s)" and ?E = "fenEp (enPassantTarget s)"
  let ?H = "showInt (halfMoveClock s)" and ?F = "showInt (fullMoveNumber s)"
  note f = fenChar_D[THEN conjunct2, THEN conjunct1]
  have b: "CHR '' '' \<notin> set ?B" using fenBoard_fenField[of "board s"] by simp
  have t: "CHR '' '' \<notin> set ?T" by (simp add: colorChar_def)
  have c: "CHR '' '' \<notin> set ?C" using fenCastling_fenChar[of "castlingRights s"] f by blast
  have e: "CHR '' '' \<notin> set ?E" using fenEp_fenChar[of "enPassantTarget s"] f by blast
  have h: "CHR '' '' \<notin> set ?H" using showInt_fenChar f by blast
  have g: "CHR '' '' \<notin> set ?F" using showInt_fenChar f by blast
  have "toFEN s = ?B @ CHR '' '' # (?T @ CHR '' '' # (?C @ CHR '' '' # (?E @ CHR '' '' #
                    (?H @ CHR '' '' # ?F))))"
    by (simp add: toFEN_def)
  then have "splitOn CHR '' '' (toFEN s) = [?B, ?T, ?C, ?E, ?H, ?F]"
    by (simp only: splitOn_field(1)[OF b] splitOn_field(1)[OF t] splitOn_field(1)[OF c]
        splitOn_field(1)[OF e] splitOn_field(1)[OF h] splitOn_field(2)[OF g])
  then show ?thesis by (simp add: fenCore_def)
qed

lemma small_counts: "list_all (\<lambda>kc. snd kc < 3) pm \<Longrightarrow> \<not> list_ex (\<lambda>kc. (3 :: int) \<le> snd kc) pm"
  by (induction pm) auto

lemma bump_lookup: "lookupCount (bump k pm) k = lookupCount pm k + 1"
  by (induction pm) (auto simp: lookupCount_def)

lemma bump_three:
  "list_all (\<lambda>kc. snd kc < 3) pm \<Longrightarrow>
   list_ex (\<lambda>kc. 3 \<le> snd kc) (bump k pm) = (lookupCount pm k = 2)"
proof (induction pm)
  case Nil
  then show ?case by (simp add: lookupCount_def)
next
  case (Cons x pm)
  obtain k' c where x: "x = (k', c)" by (cases x)
  show ?case
  proof (cases "k = k'")
    case True
    then show ?thesis
      using Cons.prems small_counts[of pm] x by (auto simp: lookupCount_def)
  next
    case False
    then show ?thesis
      using Cons x by (auto simp: lookupCount_def)
  qed
qed

lemma bump_counts:
  assumes "list_all (\<lambda>kc. snd kc < 3) pm"
  shows "list_ex (\<lambda>kc. 3 \<le> snd kc) (bump k pm) = (lookupCount pm k = 2)"
    and "lookupCount (bump k pm) k = lookupCount pm k + 1"
  using assms by (simp_all add: bump_three bump_lookup)

text \<open>
  The counts that the position history holds decide the draw. After a move committed
  from a reachable state, when the side to move is neither mated nor stalemated and the
  half-move clock is below 100, the game is declared drawn by threefold repetition if
  and only if some key of the history has a count of at least three. The key just
  recorded is made of board, turn, castling rights and en-passant target only, its
  count goes up by one, and the draw is declared exactly when that count reaches three.
\<close>

lemma count_decides_threefold:
  assumes "reachable s" and "makeMove s mv = Some (r, s')"
    and "\<not> isMate r" and "\<not> isStalemate r" and "halfMoveClock s' < 100"
  shows "((gameOver s' \<and> gameResult s' = Some \<lparr>winner = None, reason = ''threefold repetition''\<rparr>)
            = list_ex (\<lambda>kc. 3 \<le> snd kc) (positionMap s'))
       \<and> positionMap s' = bump (fenCore s') (positionMap s)
       \<and> fenCore s' = fenBoard (board s') @ '' '' @ [colorChar (turn s')] @ '' ''
               @ fenCastling (castlingRights s') @ '' '' @ fenEp (enPassantTarget s')
       \<and> list_ex (\<lambda>kc. 3 \<le> snd kc) (positionMap s')
            = (lookupCount (positionMap s') (fenCore s') = 3)
       \<and> lookupCount (positionMap s') (fenCore s') = lookupCount (positionMap s) (fenCore s') + 1
       \<and> (lookupCount (positionMap s') (fenCore s') = 3)
            = (lookupCount (positionMap s) (fenCore s') = 2)"
proof -
  from assms(2) obtain found where g: "\<not> gameOver s"
    and c: "commitMove s mv found = (r, s')"
    by (rule makeMove_SomeD)
  note st = commitMove_state[OF c]
  let ?y = "committed s mv found r"
  have inv: "engineInv s" using assms(1) by (rule reachable_inv)
  have y: "\<not> gameOver ?y" "gameResult ?y = None"
    using g inv by (auto simp: committed_fields engineInv_def)
  have core: "fenCore s' = fenCore ?y"
    unfolding st(1) by (simp add: fenCore_def toFEN_def checkGameEnd_frame)
  have pm: "positionMap s' = bump (fenCore s') (positionMap s)"
    unfolding core unfolding st(1) by (simp add: checkGameEnd_frame committed_fields)
  have small: "list_all (\<lambda>kc. snd kc < 3) (positionMap s)"
    using inv g by (simp add: engineInv_def)
  have hm: "halfMoveClock ?y < 100"
    using assms(5) unfolding st(1) by (simp add: checkGameEnd_frame)
  have three: "isThreefoldRepetition ?y = list_ex (\<lambda>kc. 3 \<le> snd kc) (positionMap s')"
    unfolding st(1) by (simp add: isThreefoldRepetition_def checkGameEnd_frame)
  have decl: "(gameOver s' \<and> gameResult s' = Some \<lparr>winner = None, reason = ''threefold repetition''\<rparr>)
              = isThreefoldRepetition ?y"
    unfolding st(1) using y assms(3,4) hm
    by (auto simp: checkGameEnd_def setGameOver_def)
  show ?thesis
    using decl three pm fenCore_fields[of s'] bump_counts[OF small, of "fenCore s'"]
    by simp
qed

subsection \<open>Captures start from an occupied square\<close>

text \<open>
  Every generated move starts from the square it was generated for, which holds a piece;
  the separately generated castling moves land on an empty square.  So the read of
  \<open>engine.board[move.from][1]\<close> in \<open>_moveOrderScore\<close> never meets an empty origin.
\<close>

lemma from_mk:
  "mfrom (mk f t ty) = f" "mfrom (mkPromo f t ty p) = f" "mfrom (mkEp f t cs) = f"
  "mfrom (mkCastle f t ty rf rt) = f"
  by (simp_all add: mk_def mkPromo_def mkEp_def mkCastle_def)

lemma addSlide_from: "list_all (\<lambda>m. mfrom m = f) (addSlide b f c dr df nr nf)"
proof (induction b f c dr df nr nf rule: addSlide.induct)
  case (1 b f c dr df nr nf)
  show ?case
  proof (cases "isValid nr nf \<and> (dr \<noteq> 0 \<or> df \<noteq> 0)")
    case True
    then show ?thesis
      using 1 by (subst addSlide.simps) (auto simp: from_mk split: option.splits)
  next
    case False
    then show ?thesis by (subst addSlide.simps) auto
  qed
qed

lemma addStep_from: "list_all (\<lambda>m. mfrom m = f) (addStep b f c nr nf)"
  by (auto simp: addStep_def from_mk split: option.splits)

lemma pawnMoves_from: "list_all (\<lambda>m. mfrom m = f) (pawnMoves b f ep c)"
proof -
  have "list_all (\<lambda>m. mfrom m = f) (pawnForward b f c)"
    by (simp add: pawnForward_def Let_def from_mk promoKinds_def)
  moreover have "list_all (\<lambda>m. mfrom m = f) (pawnCapture b f ep c df)" for df
    by (simp add: pawnCapture_def Let_def from_mk promoKinds_def split: option.splits)
  ultimately show ?thesis by (simp add: pawnMoves_def)
qed

lemma kingCastling_from: "list_all (\<lambda>m. mfrom m = f) (kingCastling b f cr c)"
  by (simp add: kingCastling_def from_mk)

lemma getPseudoMoves_from: "list_all (\<lambda>m. mfrom m = f) (getPseudoMoves b f cr ep c)"
proof (cases "cell b f")
  case None
  then show ?thesis by (simp add: getPseudoMoves_def)
next
  case (Some pc)
  have st: "list_all (\<lambda>m. mfrom m = f)
              (concat (map (\<lambda>(dr, df). addStep b f c (r + dr) (fl + df)) ds))" for r fl ds
    by (rule list_all_concat_map) (auto simp: addStep_from)
  have sl: "list_all (\<lambda>m. mfrom m = f)
              (concat (map (\<lambda>(dr, df). addSlide b f c dr df (r + dr) (fl + df)) ds))"
    for r fl ds
    by (rule list_all_concat_map) (auto simp: addSlide_from)
  show ?thesis
    using Some
    by (cases "snd pc")
       (simp_all add: getPseudoMoves_def Let_def pawnMoves_from st sl kingCastling_from)
qed

lemma getPseudoMoves_origin:
  "list_all (\<lambda>m. cell b (mfrom m) \<noteq> None) (getPseudoMoves b f cr ep c)"
proof (cases "cell b f")
  case None
  then show ?thesis by (simp add: getPseudoMoves_def)
next
  case (Some pc)
  then show ?thesis
    using getPseudoMoves_from[of f b cr ep c] by (auto simp: list_all_iff)
qed

lemma to_mkCastle: "mto (mkCastle f t ty rf rt) = t"
  by (simp add: mkCastle_def mk_def)

lemma getCastlingMoves_target:
  "list_all (\<lambda>m. cell b (mto m) = None) (getCastlingMoves b c cr)"
  by (simp add: getCastlingMoves_def to_mkCastle)

lemma legal_capture_has_origin:
  assumes "m \<in> set (getAllLegalMoves e)" and "cell (board e) (mto m) \<noteq> None"
  shows "cell (board e) (mfrom m) \<noteq> None"
proof -
  let ?b = "board e"
  have "list_all (\<lambda>m. cell ?b (mfrom m) \<noteq> None \<or> cell ?b (mto m) = None)
          (getAllPseudoMoves ?b (turn e) (castlingRights e) (enPassantTarget e))"
    unfolding getAllPseudoMoves_def
    using getCastlingMoves_target[of ?b "turn e" "castlingRights e"]
      getPseudoMoves_origin[of ?b _ "castlingRights e" "enPassantTarget e" "turn e"]
    by (auto simp: list_all_iff split: option.splits)
  then show ?thesis
    using assms by (auto simp: getAllLegalMoves_def list_all_iff)
qed

section \<open>The engine on concrete positions\<close>

lemma castleState_legal:
  "getAllLegalMoves castleState =
     [mk 56 48 normal, mk 56 40 normal, mk 56 32 normal, mk 56 24 normal, mk 56 16 normal,
      mk 56 8 normal, mk 56 0 normal, mk 56 57 normal, mk 56 58 normal, mk 56 59 normal,
      mk 60 52 normal, mk 60 53 normal, mk 60 61 normal, mkCastle 60 58 castleKing 56 57,
      mk 63 55 normal, mk 63 47 normal, mk 63 39 normal, mk 63 31 normal, mk 63 23 normal,
      mk 63 15 normal, mk 63 7 normal, mk 63 62 normal, mk 63 61 normal,
      mkCastle 60 62 castleKing 63 61]"
  by (simp add: castleState_def castleBoard_def getAllLegalMoves_eval eval_defs board_eval)

text \<open>
  Claim C2 fails on the code. On \<open>3rk3/8/8/8/8/8/8/R3K2R w KQ - 0 1\<close> the legal moves
  contain the castling candidate of the king branch of \<open>getPseudoMoves\<close> that puts the
  king on c1 (58) and the a1 rook on b1 (57). The king is not in check, but d1 (59),
  the square it crosses, is attacked by the rook on d8, on the board as it stands and
  with the king placed on d1. \<open>_isLegal\<close> tested f1 and g1 instead, the squares
  \<open>from + 1\<close> and \<open>from + 2\<close> of a move of type \<open>castleKing\<close>.
\<close>

theorem castling_crosses_attacked_square:
  "mkCastle 60 58 castleKing 56 57 \<in> set (getAllLegalMoves castleState)
   \<and> \<not> isInCheck (board castleState) (turn castleState)
   \<and> isAttacked (board castleState) 59 Black
   \<and> isAttacked (applyMoveToBoard (board castleState) (mk 60 59 normal)) 59 Black"
proof -
  have m: "mkCastle 60 58 castleKing 56 57 \<in> set (getAllLegalMoves castleState)"
    unfolding castleState_legal by simp
  have c: "\<not> isInCheck (board castleState) (turn castleState)"
    by (simp add: castleState_def castleBoard_def eval_defs board_eval)
  have a: "isAttacked (board castleState) 59 Black"
    by (simp add: castleState_def castleBoard_def eval_defs board_eval)
  have t: "isAttacked (applyMoveToBoard (board castleState) (mk 60 59 normal)) 59 Black"
    by (simp add: castleState_def castleBoard_def eval_defs board_eval)
  from m c a t show ?thesis by simp
qed

lemma knightState_legal:
  "getAllLegalMoves knightState =
     [mk 43 35 normal, mk 45 28 normal, mk 45 30 normal, mk 45 35 normal, mk 45 39 normal,
      mk 45 51 normal, mk 45 62 normal, mk 48 40 normal, mk 48 32 doublePush,
      mk 49 41 normal, mk 49 33 doublePush, mk 50 42 normal, mk 50 34 doublePush,
      mk 52 44 normal, mk 52 36 doublePush, mk 54 46 normal, mk 54 38 doublePush,
      mk 55 47 normal, mk 55 39 doublePush, mk 57 40 normal, mk 57 42 normal,
      mk 57 51 normal, mk 58 51 normal, mk 58 44 normal, mk 58 37 normal, mk 58 30 normal,
      mk 58 23 normal, mk 59 51 normal, mk 60 51 normal, mk 63 62 normal]"
  by (simp add: knightState_def knightBoard_def getAllLegalMoves_eval eval_defs board_eval)

lemma commitMove_san:
  "san (fst (commitMove s mv found)) =
     (if isInCheck (board (movedState s mv found)) (opp (color (cell (board s) (mfrom mv))))
      then toSAN (movedState s mv found) found (cell (board s) (mfrom mv))
             (cell (board s) (mto mv))
           @ (if getAllLegalMoves
                   ((movedState s mv found)\<lparr>turn := opp (color (cell (board s) (mfrom mv)))\<rparr>)
                 = []
              then ''#'' else ''+'')
      else toSAN (movedState s mv found) found (cell (board s) (mfrom mv))
             (cell (board s) (mto mv)))"
  by (simp add: commitMove_def Let_def moveRecord.fields_def move.extend_def)

lemma makeMove_found:
  assumes "\<not> gameOver s"
    and "getAllLegalMoves s = lm"
    and "find (candidateMatches mv) (filter (\<lambda>m. mfrom m = mfrom mv) lm) = Some found"
  shows "makeMove s mv = Some (commitMove s mv found)"
  using assms
  by (simp add: makeMove_def getLegalMoves_filter candidateMatches_def[abs_def])

text \<open>
  Claim C7 fails on the code. After 1. Nf3 a6 2. d3 a5 the knights on b1 (57) and f3 (45)
  can both go to d2 (51). \<open>makeMove\<close> replaces the board before it builds the notation,
  so \<open>_getAmbiguous\<close> looks for rivals on a board where d2 already holds the knight
  that moved, finds none, and the move b1-d2 is written \<open>Nd2\<close>, without the file \<open>b\<close>.
\<close>

theorem san_without_disambiguation:
  "cell (board knightState) 57 = Some (White, Knight)
   \<and> cell (board knightState) 45 = Some (White, Knight)
   \<and> mk 57 51 normal \<in> set (getAllLegalMoves knightState)
   \<and> mk 45 51 normal \<in> set (getAllLegalMoves knightState)
   \<and> map_option (\<lambda>rs. san (fst rs)) (makeMove knightState (candidate 57 51)) = Some ''Nd2''"
proof -
  have c: "cell (board knightState) 57 = Some (White, Knight)"
          "cell (board knightState) 45 = Some (White, Knight)"
          "cell (board knightState) 51 = None"
    by (simp_all add: knightState_def knightBoard_def board_eval)
  have l: "mk 57 51 normal \<in> set (getAllLegalMoves knightState)"
          "mk 45 51 normal \<in> set (getAllLegalMoves knightState)"
    unfolding knightState_legal by simp_all
  have f: "find (candidateMatches (candidate 57 51))
             (filter (\<lambda>m. mfrom m = mfrom (candidate 57 51)) (getAllLegalMoves knightState))
           = Some (mk 57 51 normal)"
    unfolding knightState_legal
    by (simp add: candidateMatches_def candidate_def board_eval)
  have g: "\<not> gameOver knightState" by (simp add: knightState_def board_eval)
  have mm: "makeMove knightState (candidate 57 51)
            = Some (commitMove knightState (candidate 57 51) (mk 57 51 normal))"
    by (rule makeMove_found[OF g refl f])
  have fr: "mfrom (candidate 57 51) = 57" "mto (candidate 57 51) = 51"
    by (simp_all add: candidate_def board_eval)
  define b1 where "b1 = applyMoveToBoard knightBoard (mk 57 51 normal)"
  have b1: "b1 =
     [Some (Black, Rook), Some (Black, Knight), Some (Black, Bishop), Some (Black, Queen),
      Some (Black, King), Some (Black, Bishop), Some (Black, Knight), Some (Black, Rook),
      None, Some (Black, Pawn), Some (Black, Pawn), Some (Black, Pawn),
      Some (Black, Pawn), Some (Black, Pawn), Some (Black, Pawn), Some (Black, Pawn),
      None, None, None, None, None, None, None, None,
      Some (Black, Pawn), None, None, None, None, None, None, None,
      None, None, None, None, None, None, None, None,
      None, None, None, Some (White, Pawn), None, Some (White, Knight), None, None,
      Some (White, Pawn), Some (White, Pawn), Some (White, Pawn), Some (White, Knight),
      Some (White, Pawn), Some (White, Pawn), Some (White, Pawn), Some (White, Pawn),
      Some (White, Rook), None, Some (White, Bishop), Some (White, Queen),
      Some (White, King), Some (White, Bishop), None, Some (White, Rook)]"
    unfolding b1_def by (simp add: knightBoard_def board_eval)
  have bs: "board (movedState knightState (candidate 57 51) (mk 57 51 normal)) = b1"
    by (simp add: movedState_fields b1_def knightState_def board_eval)
  have kb: "cell knightBoard 57 = Some (White, Knight)"
    by (simp add: knightBoard_def board_eval)
  have cr: "castlingRights (movedState knightState (candidate 57 51) (mk 57 51 normal)) = allRights"
    by (simp add: movedState_fields fr kb updateRights_def ptype_def color_def Let_def
        knightState_def board_eval)
  have ep: "enPassantTarget (movedState knightState (candidate 57 51) (mk 57 51 normal)) = None"
    by (simp add: movedState_fields newEnPassant_def board_eval)
  have chk: "\<not> isInCheck b1 Black"
    unfolding b1 by (simp add: eval_defs board_eval)
  have amb: "getAmbiguous (movedState knightState (candidate 57 51) (mk 57 51 normal))
               (mk 57 51 normal) (Some (White, Knight)) = []"
    unfolding getAmbiguous_def bs cr ep unfolding b1
    by (simp add: color_def eval_defs board_eval)
  have sq: "sqToAlg 51 = ''d2''"
    by (simp add: sqToAlg_def fileStr_def showInt_def showNat.simps digitChar_def board_eval)
  have "san (fst (commitMove knightState (candidate 57 51) (mk 57 51 normal))) = ''Nd2''"
    unfolding commitMove_san fr c bs
    using chk
    by (simp add: toSAN_def board_eval amb sq ptype_def color_def kindStr_def kindChar_def
        opp_def)
  with c l mm show ?thesis by simp
qed

lemma startBoard_lit:
  "startBoard =
     [Some (Black, Rook), Some (Black, Knight), Some (Black, Bishop), Some (Black, Queen),
      Some (Black, King), Some (Black, Bishop), Some (Black, Knight), Some (Black, Rook),
      Some (Black, Pawn), Some (Black, Pawn), Some (Black, Pawn), Some (Black, Pawn),
      Some (Black, Pawn), Some (Black, Pawn), Some (Black, Pawn), Some (Black, Pawn),
      None, None, None, None, None, None, None, None,
      None, None, None, None, None, None, None, None,
      None, None, None, None, None, None, None, None,
      None, None, None, None, None, None, None, None,
      Some (White, Pawn), Some (White, Pawn), Some (White, Pawn), Some (White, Pawn),
      Some (White, Pawn), Some (White, Pawn), Some (White, Pawn), Some (White, Pawn),
      Some (White, Rook), Some (White, Knight), Some (White, Bishop), Some (White, Queen),
      Some (White, King), Some (White, Bishop), Some (White, Knight), Some (White, Rook)]"
  by (simp add: startBoard_def eval_nat_numeral)

lemma reset_position: "reset = position startBoard White allRights None 0 1"
  by (simp add: reset_def position_def allRights_def)

lemma reset_legal:
  "getAllLegalMoves reset =
     [mk 48 40 normal, mk 48 32 doublePush, mk 49 41 normal, mk 49 33 doublePush,
      mk 50 42 normal, mk 50 34 doublePush, mk 51 43 normal, mk 51 35 doublePush,
      mk 52 44 normal, mk 52 36 doublePush, mk 53 45 normal, mk 53 37 doublePush,
      mk 54 46 normal, mk 54 38 doublePush, mk 55 47 normal, mk 55 39 doublePush,
      mk 57 40 normal, mk 57 42 normal, mk 62 45 normal, mk 62 47 normal]"
  by (simp add: reset_position startBoard_lit getAllLegalMoves_eval eval_defs board_eval)

lemma commitMove_flags:
  assumes "commitMove s mv found = (r, s')"
  shows "isMate r = (isInCheck (board s') (turn s') \<and> getAllLegalMoves s' = [])"
    and "isStalemate r = (\<not> isInCheck (board s') (turn s') \<and> getAllLegalMoves s' = [])"
    and "piece r = cell (board s) (mfrom mv)"
proof -
  note st = commitMove_state[OF assms]
  have l: "getAllLegalMoves s' = getAllLegalMoves
             ((movedState s mv found)\<lparr>turn := opp (color (cell (board s) (mfrom mv)))\<rparr>)"
    unfolding st(1)
    by (simp add: getAllLegalMoves_eval checkGameEnd_frame committed_fields movedState_fields)
  have b: "board s' = board (movedState s mv found)"
          "turn s' = opp (color (cell (board s) (mfrom mv)))"
    unfolding st(1) by (simp_all add: checkGameEnd_frame committed_fields movedState_fields)
  from assms show "isMate r = (isInCheck (board s') (turn s') \<and> getAllLegalMoves s' = [])"
    unfolding l b
    by (auto simp: commitMove_def Let_def moveRecord.fields_def move.extend_def)
  from assms show "isStalemate r = (\<not> isInCheck (board s') (turn s') \<and> getAllLegalMoves s' = [])"
    unfolding l b
    by (auto simp: commitMove_def Let_def moveRecord.fields_def move.extend_def)
  from assms show "piece r = cell (board s) (mfrom mv)"
    by (auto simp: commitMove_def Let_def moveRecord.fields_def move.extend_def)
qed

lemma insufficient_board:
  "board a = board b \<Longrightarrow> isInsufficientMaterial a = isInsufficientMaterial b"
  by (simp add: isInsufficientMaterial_def)

lemma below_two_three:
  "list_all (\<lambda>kc. snd kc < 2) pm \<Longrightarrow> list_all (\<lambda>kc. snd kc < (3 :: int)) pm"
  by (induction pm) auto

lemma bump_below_three:
  "list_all (\<lambda>kc. snd kc < 2) pm \<Longrightarrow> list_all (\<lambda>kc. snd kc < 3) (bump k pm)"
  by (induction pm) (auto simp: below_two_three)

lemma commit_goes_on:
  assumes c: "commitMove s mv found = (r, s')"
    and g: "\<not> gameOver s" "gameResult s = None"
    and l: "getAllLegalMoves s' \<noteq> []"
    and h: "halfMoveClock s' < 100"
    and t: "list_all (\<lambda>kc. snd kc < 2) (positionMap s)"
    and i: "\<not> isInsufficientMaterial s'"
  shows "\<not> gameOver s'" "gameResult s' = None"
proof -
  note st = commitMove_state[OF c]
  note fl = commitMove_flags[OF c]
  let ?y = "committed s mv found r"
  have m: "\<not> isMate r" "\<not> isStalemate r" using fl l by simp_all
  have hy: "\<not> 100 \<le> halfMoveClock ?y"
    using h unfolding st(1) by (simp add: checkGameEnd_frame)
  have ty: "\<not> isThreefoldRepetition ?y"
    using bump_below_three[OF t]
    by (simp add: isThreefoldRepetition_def committed_fields small_counts)
  have iy: "\<not> isInsufficientMaterial ?y"
    using i insufficient_board[of s' ?y] unfolding st(1) by (simp add: checkGameEnd_frame)
  have "checkGameEnd r ?y = ?y"
    using m hy ty iy by (simp add: checkGameEnd_def)
  then show "\<not> gameOver s'" "gameResult s' = None"
    unfolding st(1) using g by (simp_all add: committed_fields)
qed

lemma commit_fields:
  assumes c: "commitMove s mv found = (r, s')"
  shows "board s' = applyMoveToBoard (board s) found"
    "turn s' = opp (color (cell (board s) (mfrom mv)))"
    "castlingRights s' = updateRights (cell (board s) (mfrom mv)) (mfrom found) (castlingRights s)"
    "enPassantTarget s' = newEnPassant (cell (board s) (mfrom mv)) found"
    "halfMoveClock s' = halfMoveClock (movedState s mv found)"
    "moveHistory s' = moveHistory s @ [r]"
    "positionMap s' = bump (fenCore s') (positionMap s)"
proof -
  note st = commitMove_state[OF c]
  have core: "fenCore s' = fenCore (committed s mv found r)"
    unfolding st(1) by (simp add: fenCore_def toFEN_def checkGameEnd_frame)
  show "board s' = applyMoveToBoard (board s) found"
    "turn s' = opp (color (cell (board s) (mfrom mv)))"
    "castlingRights s' = updateRights (cell (board s) (mfrom mv)) (mfrom found) (castlingRights s)"
    "enPassantTarget s' = newEnPassant (cell (board s) (mfrom mv)) found"
    "halfMoveClock s' = halfMoveClock (movedState s mv found)"
    "moveHistory s' = moveHistory s @ [r]"
    unfolding st(1) by (simp_all add: checkGameEnd_frame committed_fields)
  show "positionMap s' = bump (fenCore s') (positionMap s)"
    unfolding core unfolding st(1) by (simp add: checkGameEnd_frame committed_fields)
qed

lemma reset_fields:
  "board reset = startBoard" "turn reset = White" "castlingRights reset = allRights"
  "enPassantTarget reset = None" "moveHistory reset = []" "\<not> gameOver reset"
  "gameResult reset = None" "halfMoveClock reset = 0"
  "list_all (\<lambda>kc. snd kc < 2) (positionMap reset)"
  by (simp_all add: reset_position board_eval) (simp add: position_def recordPosition_def)

lemma e2e4_pair: "commitMove reset (candidate 52 36) (mk 52 36 doublePush) = (fst e2e4, snd e2e4)"
  by (simp add: e2e4_def)

lemma cand_fields [simp]: "mfrom (candidate f t) = f" "mto (candidate f t) = t"
  "promoteTo (candidate f t) = None"
  by (simp_all add: candidate_def board_eval)

lemma e2e4_board:
  "board (snd e2e4) =
     [Some (Black, Rook), Some (Black, Knight), Some (Black, Bishop), Some (Black, Queen),
      Some (Black, King), Some (Black, Bishop), Some (Black, Knight), Some (Black, Rook),
      Some (Black, Pawn), Some (Black, Pawn), Some (Black, Pawn), Some (Black, Pawn),
      Some (Black, Pawn), Some (Black, Pawn), Some (Black, Pawn), Some (Black, Pawn),
      None, None, None, None, None, None, None, None,
      None, None, None, None, None, None, None, None,
      None, None, None, None, Some (White, Pawn), None, None, None,
      None, None, None, None, None, None, None, None,
      Some (White, Pawn), Some (White, Pawn), Some (White, Pawn), Some (White, Pawn),
      None, Some (White, Pawn), Some (White, Pawn), Some (White, Pawn),
      Some (White, Rook), Some (White, Knight), Some (White, Bishop), Some (White, Queen),
      Some (White, King), Some (White, Bishop), Some (White, Knight), Some (White, Rook)]"
  unfolding commit_fields(1)[OF e2e4_pair] reset_fields startBoard_lit
  by (simp add: board_eval)

lemma e2e4_fields:
  "turn (snd e2e4) = Black" "castlingRights (snd e2e4) = allRights"
  "enPassantTarget (snd e2e4) = Some 44" "halfMoveClock (snd e2e4) = 0"
  "moveHistory (snd e2e4) = [fst e2e4]"
  unfolding commit_fields[OF e2e4_pair] reset_fields
  by (simp_all add: reset_fields startBoard_lit board_eval opp_def color_def ptype_def
      updateRights_def newEnPassant_def movedState_def Let_def)

lemma e2e4_legal:
  "getAllLegalMoves (snd e2e4) =
     [mk 1 16 normal, mk 1 18 normal, mk 6 21 normal, mk 6 23 normal, mk 8 16 normal,
      mk 8 24 doublePush, mk 9 17 normal, mk 9 25 doublePush, mk 10 18 normal,
      mk 10 26 doublePush, mk 11 19 normal, mk 11 27 doublePush, mk 12 20 normal,
      mk 12 28 doublePush, mk 13 21 normal, mk 13 29 doublePush, mk 14 22 normal,
      mk 14 30 doublePush, mk 15 23 normal, mk 15 31 doublePush]"
  unfolding getAllLegalMoves_eval e2e4_board e2e4_fields
  by (simp add: eval_defs board_eval)

lemma e2e4_goes_on: "\<not> gameOver (snd e2e4)" "gameResult (snd e2e4) = None"
proof -
  have l: "getAllLegalMoves (snd e2e4) \<noteq> []" unfolding e2e4_legal by simp
  have h: "halfMoveClock (snd e2e4) < 100" by (simp add: e2e4_fields)
  have i: "\<not> isInsufficientMaterial (snd e2e4)"
    unfolding isInsufficientMaterial_def e2e4_board
    by (simp add: insufficientBoard_def List.map_filter_simps)
  show "\<not> gameOver (snd e2e4)" "gameResult (snd e2e4) = None"
    by (rule commit_goes_on[OF e2e4_pair reset_fields(6,7) l h reset_fields(9) i])+
qed

lemma makeMove_e2e4: "makeMove reset (candidate 52 36) = Some e2e4"
proof -
  have f: "find (candidateMatches (candidate 52 36))
             (filter (\<lambda>m. mfrom m = mfrom (candidate 52 36)) (getAllLegalMoves reset))
           = Some (mk 52 36 doublePush)"
    unfolding reset_legal by (simp add: candidateMatches_def board_eval)
  show ?thesis
    unfolding e2e4_def by (rule makeMove_found[OF reset_fields(6) refl f])
qed

lemma e7e5_pair:
  "commitMove (snd e2e4) (candidate 12 28) (mk 12 28 doublePush) = (fst e7e5, snd e7e5)"
  by (simp add: e7e5_def)

lemma makeMove_e7e5: "makeMove (snd e2e4) (candidate 12 28) = Some e7e5"
proof -
  have f: "find (candidateMatches (candidate 12 28))
             (filter (\<lambda>m. mfrom m = mfrom (candidate 12 28)) (getAllLegalMoves (snd e2e4)))
           = Some (mk 12 28 doublePush)"
    unfolding e2e4_legal by (simp add: candidateMatches_def board_eval)
  show ?thesis
    unfolding e7e5_def by (rule makeMove_found[OF e2e4_goes_on(1) refl f])
qed

lemma reachable_e7e5: "reachable (snd e2e4)" "reachable (snd e7e5)"
proof -
  show 1: "reachable (snd e2e4)"
    by (rule reachable.move[OF reachable.start, of "candidate 52 36" "fst e2e4"])
       (simp add: makeMove_e2e4)
  show "reachable (snd e7e5)"
    by (rule reachable.move[OF 1, of "candidate 12 28" "fst e7e5"]) (simp add: makeMove_e7e5)
qed

text \<open>
  Claim C5 fails on the code. After 1. e4 e5 from the start position, \<open>undoMove\<close>
  returns the record of e7-e5 and restores the board that stood before that move, but
  it leaves White to move where Black was to move (the turn is set to the opponent of
  the piece that moved), it empties the move list instead of dropping one record
  (\<open>loadFEN\<close> resets it), and the position history is a single fresh entry.
\<close>

theorem undo_after_two_moves:
  "makeMove reset (candidate 52 36) = Some e2e4
   \<and> makeMove (snd e2e4) (candidate 12 28) = Some e7e5
   \<and> turn (snd e2e4) = Black
   \<and> moveHistory (snd e7e5) = [fst e2e4, fst e7e5]
   \<and> (case undoMove (snd e7e5) of
         Inl e \<Rightarrow> False
       | Inr (r, s') \<Rightarrow>
           r = Some (fst e7e5) \<and> board s' = board (snd e2e4)
           \<and> castlingRights s' = castlingRights (snd e2e4)
           \<and> enPassantTarget s' = enPassantTarget (snd e2e4)
           \<and> turn s' = White \<and> moveHistory s' = []
           \<and> map snd (positionMap s') = [1])"
proof -
  let ?t = "movedState reset (candidate 52 36) (mk 52 36 doublePush)"
  have h: "moveHistory (snd e7e5) = [fst e2e4, fst e7e5]"
    by (simp add: commit_fields(6)[OF e7e5_pair] e2e4_fields)
  have fen: "fen (fst e2e4) = toFEN ?t"
    by (rule commitMove_state(2)[OF e2e4_pair])
  have ok: "moveOK (board reset) (turn reset) (mk 52 36 doublePush)"
    by (rule legal_OK) (simp add: reset_legal)
  have re: "wfPosition reset" using engineInv_reset by (simp add: engineInv_def)
  have wf: "wfPosition ?t"
    by (rule wfPosition_movedState[OF re ok]) (simp add: board_eval)
  have ld: "loadFEN s0 (fen (fst e2e4)) =
     Inr (recordPosition
            (s0\<lparr>board := board ?t, turn := turn ?t, castlingRights := castlingRights ?t,
                enPassantTarget := enPassantTarget ?t, halfMoveClock := halfMoveClock ?t,
                fullMoveNumber := fullMoveNumber ?t, positionMap := [], moveHistory := [],
                gameOver := False, gameResult := None\<rparr>))" for s0
    unfolding fen by (rule loadFEN_toFEN[OF wf])
  have pc: "piece (fst e7e5) = Some (Black, Pawn)"
    unfolding commitMove_flags(3)[OF e7e5_pair] e2e4_board by (simp add: board_eval)
  have t: "board ?t = board (snd e2e4)" "castlingRights ?t = castlingRights (snd e2e4)"
    "enPassantTarget ?t = enPassantTarget (snd e2e4)" "turn ?t = White"
    by (simp_all add: commit_fields[OF e2e4_pair] movedState_fields reset_fields)
  have u: "case undoMove (snd e7e5) of
         Inl e \<Rightarrow> False
       | Inr (r, s') \<Rightarrow>
           r = Some (fst e7e5) \<and> board s' = board (snd e2e4)
           \<and> castlingRights s' = castlingRights (snd e2e4)
           \<and> enPassantTarget s' = enPassantTarget (snd e2e4)
           \<and> turn s' = White \<and> moveHistory s' = []
           \<and> map snd (positionMap s') = [1]"
    unfolding undoMove_def Let_def h
    by (simp add: ld pc t recordPosition_def opp_def color_def)
  from makeMove_e2e4 makeMove_e7e5 e2e4_fields(1) h u show ?thesis by simp
qed

section \<open>Threefold repetition across an undo\<close>

text \<open>
  One committed move from a position that is known field by field, and one undo from a
  history of at least two records: the two steps the game below is made of.
\<close>

lemmas repBoards = repBoard0_def repBoard1_def repBoard2_def repBoard3_def repBoard4_def
  repBoard5_def repBoard6_def repBoard7_def repBoard8_def

lemma cand_sel:
  "mfrom (candidate f t) = f" "mto (candidate f t) = t" "promoteTo (candidate f t) = None"
  by (simp_all add: candidate_def move_sel)

lemma commit_stands:
  assumes st: "stands s b t cr ep hm pm"
    and lm: "legalMovesB b t cr ep = lm"
    and fd: "find (candidateMatches (candidate f t')) (filter (\<lambda>m. mfrom m = f) lm) = Some found"
    and b': "applyMoveToBoard b found = b'"
    and tn: "opp (color (cell b f)) = tn"
    and cr': "updateRights (cell b f) (mfrom found) cr = cr'"
    and ep': "newEnPassant (cell b f) found = ep'"
    and hm': "(if ptype (cell b f) = Some Pawn \<or> cell b t' \<noteq> None \<or> mtype found = enPassant
               then 0 else hm + 1) = hm'"
    and nx: "legalMovesB b' tn cr' ep' \<noteq> []"
    and h: "hm' < 100"
    and key: "fenBoard b' @ '' '' @ [colorChar tn] @ '' '' @ fenCastling cr' @ '' '' @ fenEp ep'
              = k"
    and pm': "bump k pm = pm'"
    and small: "\<not> list_ex (\<lambda>kc. 3 \<le> snd kc) pm'"
    and ins: "\<not> insufficientBoard b'"
  shows "makeMove s (candidate f t') = Some (last (moveHistory (playMove s (f, t'))),
                                              playMove s (f, t'))"
    and "stands (playMove s (f, t')) b' tn cr' ep' hm' pm'"
    and "fenCore (playMove s (f, t')) = k"
    and "moveHistory (playMove s (f, t'))
           = moveHistory s @ [last (moveHistory (playMove s (f, t')))]"
    and "piece (last (moveHistory (playMove s (f, t')))) = cell b f"
    and "\<exists>x. fen (last (moveHistory (playMove s (f, t')))) = toFEN x \<and> board x = b'
             \<and> turn x = t \<and> castlingRights x = cr' \<and> enPassantTarget x = ep'
             \<and> halfMoveClock x = hm'"
    and "\<not> isMate (last (moveHistory (playMove s (f, t'))))"
    and "\<not> isStalemate (last (moveHistory (playMove s (f, t'))))"
proof -
  let ?c = "candidate f t'"
  obtain r s' where c: "commitMove s ?c found = (r, s')" by (cases "commitMove s ?c found")
  from st have f: "board s = b" "turn s = t" "castlingRights s = cr" "enPassantTarget s = ep"
    "halfMoveClock s = hm" "positionMap s = pm" "\<not> gameOver s" "gameResult s = None"
    by (simp_all add: stands_def)
  have al: "getAllLegalMoves s = lm"
    unfolding getAllLegalMoves_eval f by (rule lm)
  have mm: "makeMove s ?c = Some (r, s')"
    using makeMove_found[OF f(7) al, of ?c found] fd c by (simp add: cand_sel)
  then have pl: "playMove s (f, t') = s'" by (simp add: playMove_def)
  note cf = commit_fields[OF c]
  note fl = commitMove_flags[OF c]
  note cs = commitMove_state[OF c]
  have la: "last (moveHistory s') = r" unfolding cf(6) by simp
  have bd: "board s' = b'" unfolding cf(1) f by (rule b')
  have tu: "turn s' = tn" unfolding cf(2) f by (simp add: cand_sel tn)
  have cr2: "castlingRights s' = cr'" unfolding cf(3) f by (simp add: cand_sel cr')
  have ep2: "enPassantTarget s' = ep'" unfolding cf(4) f by (simp add: cand_sel ep')
  have hm2: "halfMoveClock s' = hm'"
    unfolding cf(5) hm'[symmetric] by (simp add: movedState_def Let_def f cand_sel)
  have k2: "fenCore s' = k" unfolding fenCore_fields bd tu cr2 ep2 by (rule key)
  have pm2: "positionMap s' = pm'" unfolding cf(7) k2 f by (rule pm')
  have nl: "getAllLegalMoves s' \<noteq> []"
    unfolding getAllLegalMoves_eval bd tu cr2 ep2 by (rule nx)
  have m: "\<not> isMate r" "\<not> isStalemate r" using fl nl by simp_all
  let ?y = "committed s ?c found r"
  have y1: "positionMap ?y = pm'" "halfMoveClock ?y = hm'" "board ?y = b'"
    using pm2 hm2 bd unfolding cs(1) by (simp_all add: checkGameEnd_frame)
  have "checkGameEnd r ?y = ?y"
    using m h small ins
    by (simp add: checkGameEnd_def isThreefoldRepetition_def isInsufficientMaterial_def y1)
  then have go: "\<not> gameOver s'" "gameResult s' = None"
    unfolding cs(1) using f by (simp_all add: committed_fields)
  let ?x = "movedState s ?c found"
  have x: "fen r = toFEN ?x \<and> board ?x = b' \<and> turn ?x = t \<and> castlingRights ?x = cr'
           \<and> enPassantTarget ?x = ep' \<and> halfMoveClock ?x = hm'"
    using cs(2) bd cr2 ep2 hm2 f(2) unfolding cf by (simp add: movedState_fields)
  show "makeMove s (candidate f t') = Some (last (moveHistory (playMove s (f, t'))),
                                              playMove s (f, t'))"
    unfolding pl la by (rule mm)
  show "stands (playMove s (f, t')) b' tn cr' ep' hm' pm'"
    unfolding pl using bd tu cr2 ep2 hm2 pm2 go by (simp add: stands_def)
  show "fenCore (playMove s (f, t')) = k" unfolding pl by (rule k2)
  show "moveHistory (playMove s (f, t'))
           = moveHistory s @ [last (moveHistory (playMove s (f, t')))]"
    unfolding pl la by (rule cf(6))
  show "piece (last (moveHistory (playMove s (f, t')))) = cell b f"
    unfolding pl la fl(3) f by (simp add: cand_sel)
  show "\<exists>x. fen (last (moveHistory (playMove s (f, t')))) = toFEN x \<and> board x = b'
             \<and> turn x = t \<and> castlingRights x = cr' \<and> enPassantTarget x = ep'
             \<and> halfMoveClock x = hm'"
    unfolding pl la using x by blast
  show "\<not> isMate (last (moveHistory (playMove s (f, t'))))"
    "\<not> isStalemate (last (moveHistory (playMove s (f, t'))))"
    unfolding pl la by (rule m)+
qed

lemma undo_stands:
  assumes h: "moveHistory s = hs @ [r5, r6]"
    and x: "fen r5 = toFEN x \<and> board x = b \<and> turn x = t \<and> castlingRights x = cr
            \<and> enPassantTarget x = ep \<and> halfMoveClock x = hm"
    and l: "length b = 64"
    and e: "case ep of None \<Rightarrow> True | Some q \<Rightarrow> 0 \<le> q \<and> q < 64"
    and p: "opp (color (piece r6)) = tn"
    and key: "fenBoard b @ '' '' @ [colorChar t] @ '' '' @ fenCastling cr @ '' '' @ fenEp ep = k"
  shows "undoMove s = Inr (Some r6, undone s)"
    and "stands (undone s) b tn cr ep hm [(k, 1)]"
    and "moveHistory (undone s) = []"
proof -
  from x have fx: "fen r5 = toFEN x" "board x = b" "turn x = t" "castlingRights x = cr"
    "enPassantTarget x = ep" "halfMoveClock x = hm" by simp_all
  have wf: "wfPosition x" using l e by (simp add: wfPosition_def fx)
  have ld: "loadFEN s0 (fen r5) =
     Inr (recordPosition
            (s0\<lparr>board := board x, turn := turn x, castlingRights := castlingRights x,
                enPassantTarget := enPassantTarget x, halfMoveClock := halfMoveClock x,
                fullMoveNumber := fullMoveNumber x, positionMap := [], moveHistory := [],
                gameOver := False, gameResult := None\<rparr>))" for s0
    unfolding fx(1) by (rule loadFEN_toFEN[OF wf])
  let ?s1 = "s\<lparr>moveHistory := butlast (moveHistory s),
              positionMap := dropLastKey (positionMap s)\<rparr>"
  let ?l = "?s1\<lparr>board := board x, turn := turn x, castlingRights := castlingRights x,
                enPassantTarget := enPassantTarget x, halfMoveClock := halfMoveClock x,
                fullMoveNumber := fullMoveNumber x, positionMap := [], moveHistory := [],
                gameOver := False, gameResult := None\<rparr>"
  let ?u = "(recordPosition ?l)\<lparr>turn := tn, gameOver := False, gameResult := None\<rparr>"
  have u: "undoMove s = Inr (Some r6, ?u)"
    unfolding undoMove_def Let_def h by (simp add: ld p butlast_append)
  then have un: "undone s = ?u" by (simp add: undone_def)
  have kl: "fenCore ?l = k"
    unfolding fenCore_fields key[symmetric] by (simp add: fx)
  show "undoMove s = Inr (Some r6, undone s)" unfolding un by (rule u)
  show "stands (undone s) b tn cr ep hm [(k, 1)]"
    unfolding un stands_def using kl by (simp add: recordPosition_def fx)
  show "moveHistory (undone s) = []"
    unfolding un by (simp add: recordPosition_def)
qed

lemmas key_eval = fenBoard_def fenLetter_def kindChar_def kindCharLower_def colorChar_def
  fenCastling_def fenEp_def sqToAlg_def fileStr_def showInt_def showNat.simps digitChar_def
  idx_def allRights_def Let_def

lemma rep_reset_legal:
  "legalMovesB
     repBoard0
     White allRights None =
     [mk 48 40 normal, mk 48 32 doublePush, mk 49 41 normal, mk 49 33 doublePush, mk 50 42
       normal, mk 50 34 doublePush, mk 51 43 normal, mk 51 35 doublePush, mk 52 44 normal, mk
       52 36 doublePush, mk 53 45 normal, mk 53 37 doublePush, mk 54 46 normal, mk 54 38
       doublePush, mk 55 47 normal, mk 55 39 doublePush, mk 57 40 normal, mk 57 42 normal, mk
       62 45 normal, mk 62 47 normal]"
  by (simp add: repBoards eval_defs board_eval)

lemma rep_reset_key:
  "fenBoard
     repBoard0
   @ '' '' @ [colorChar White] @ '' '' @ fenCastling allRights @ '' '' @ fenEp None
   = ''rnbqkbnr/pppppppp/8/8/8/8/PPPPPPPP/RNBQKBNR w KQkq -''"
  by (simp add: repBoards key_eval board_eval)

lemma rep_reset_step:
  "True"
  "stands reset
     repBoard0
     White allRights None 0
     [(''rnbqkbnr/pppppppp/8/8/8/8/PPPPPPPP/RNBQKBNR w KQkq -'', 1 :: int)]"
proof -
  show "True" by simp
  show "stands reset
     repBoard0
     White allRights None 0
     [(''rnbqkbnr/pppppppp/8/8/8/8/PPPPPPPP/RNBQKBNR w KQkq -'', 1 :: int)]"
    unfolding stands_def
    using rep_reset_key
    by (simp add: reset_position position_def recordPosition_def fenCore_fields startBoard_lit
        repBoards)
qed

lemma shuffle1_legal:
  "legalMovesB
     repBoard1
     Black allRights None =
     [mk 1 16 normal, mk 1 18 normal, mk 6 21 normal, mk 6 23 normal, mk 8 16 normal, mk 8 24
       doublePush, mk 9 17 normal, mk 9 25 doublePush, mk 10 18 normal, mk 10 26 doublePush, mk
       11 19 normal, mk 11 27 doublePush, mk 12 20 normal, mk 12 28 doublePush, mk 13 21
       normal, mk 13 29 doublePush, mk 14 22 normal, mk 14 30 doublePush, mk 15 23 normal, mk
       15 31 doublePush]"
  by (simp add: repBoards eval_defs board_eval)

lemma shuffle1_key:
  "fenBoard
     repBoard1
   @ '' '' @ [colorChar Black] @ '' '' @ fenCastling allRights @ '' '' @ fenEp None
   = ''rnbqkbnr/pppppppp/8/8/8/4P3/PPPP1PPP/RNBQKBNR b KQkq -''"
  by (simp add: repBoards key_eval board_eval)

lemma shuffle1_step:
  "makeMove reset (candidate 52 44) = Some (last (moveHistory shuffle1), shuffle1)"
  "stands shuffle1
     repBoard1
     Black allRights None 0
     [(''rnbqkbnr/pppppppp/8/8/8/8/PPPPPPPP/RNBQKBNR w KQkq -'', 1 :: int),
       (''rnbqkbnr/pppppppp/8/8/8/4P3/PPPP1PPP/RNBQKBNR b KQkq -'', 1)]"
  "fenCore shuffle1 = ''rnbqkbnr/pppppppp/8/8/8/4P3/PPPP1PPP/RNBQKBNR b KQkq -''"
  "moveHistory shuffle1 = moveHistory reset @ [last (moveHistory shuffle1)]"
  "piece (last (moveHistory shuffle1)) = Some (White, Pawn)"
  "\<exists>x. fen (last (moveHistory shuffle1)) = toFEN x
     \<and> board x =
     repBoard1
     \<and> turn x = White \<and> castlingRights x = allRights \<and> enPassantTarget x = None
     \<and> halfMoveClock x = 0"
  "\<not> isMate (last (moveHistory shuffle1))"
  "\<not> isStalemate (last (moveHistory shuffle1))"
proof -
  have fd: "find (candidateMatches (candidate 52 44))
              (filter (\<lambda>m. mfrom m = 52)
                 [mk 48 40 normal, mk 48 32 doublePush, mk 49 41 normal, mk 49 33 doublePush,
                   mk 50 42 normal, mk 50 34 doublePush, mk 51 43 normal, mk 51 35 doublePush,
                   mk 52 44 normal, mk 52 36 doublePush, mk 53 45 normal, mk 53 37 doublePush,
                   mk 54 46 normal, mk 54 38 doublePush, mk 55 47 normal, mk 55 39 doublePush,
                   mk 57 40 normal, mk 57 42 normal, mk 62 45 normal, mk 62 47 normal])
            = Some (mk 52 44 normal)"
    by (simp add: candidateMatches_def cand_sel board_eval)
  have b: "applyMoveToBoard
     repBoard0
     (mk 52 44 normal) =
     repBoard1"
    by (simp add: repBoards board_eval)
  have tn: "opp (color (cell
     repBoard0
     52)) = Black"
    by (simp add: repBoards board_eval opp_def color_def)
  have cr: "updateRights (cell
     repBoard0
     52) (mfrom (mk 52 44 normal)) allRights = allRights"
    by (simp add: repBoards board_eval updateRights_def ptype_def color_def Let_def)
  have ep: "newEnPassant (cell
     repBoard0
     52) (mk 52 44 normal) = None"
    by (simp add: repBoards board_eval newEnPassant_def color_def)
  have hm: "(if ptype (cell
     repBoard0
     52) = Some Pawn \<or> cell
     repBoard0
     44 \<noteq> None \<or> mtype (mk 52 44 normal) = enPassant
               then 0 else 0 + 1) = (0 :: int)"
    by (simp add: repBoards board_eval ptype_def)
  have nx: "legalMovesB
     repBoard1
     Black allRights None \<noteq> []"
    unfolding shuffle1_legal by simp
  have h: "(0 :: int) < 100" by simp
  have pm: "bump ''rnbqkbnr/pppppppp/8/8/8/4P3/PPPP1PPP/RNBQKBNR b KQkq -''
       [(''rnbqkbnr/pppppppp/8/8/8/8/PPPPPPPP/RNBQKBNR w KQkq -'', 1 :: int)]
    =        [(''rnbqkbnr/pppppppp/8/8/8/8/PPPPPPPP/RNBQKBNR w KQkq -'', 1 :: int),
         (''rnbqkbnr/pppppppp/8/8/8/4P3/PPPP1PPP/RNBQKBNR b KQkq -'', 1)]"
    by simp
  have small: "\<not> list_ex (\<lambda>kc. 3 \<le> snd kc)
       [(''rnbqkbnr/pppppppp/8/8/8/8/PPPPPPPP/RNBQKBNR w KQkq -'', 1 :: int),
         (''rnbqkbnr/pppppppp/8/8/8/4P3/PPPP1PPP/RNBQKBNR b KQkq -'', 1)]"
    by simp
  have ins: "\<not> insufficientBoard
     repBoard1"
    by (simp add: repBoards insufficientBoard_def List.map_filter_simps)
  note r = commit_stands[OF rep_reset_step(2) rep_reset_legal fd b tn cr ep hm nx h shuffle1_key
      pm small ins, folded shuffle1_def]
  show "makeMove reset (candidate 52 44) = Some (last (moveHistory shuffle1), shuffle1)"
    by (rule r(1))
  show "stands shuffle1
     repBoard1
     Black allRights None 0
     [(''rnbqkbnr/pppppppp/8/8/8/8/PPPPPPPP/RNBQKBNR w KQkq -'', 1 :: int),
       (''rnbqkbnr/pppppppp/8/8/8/4P3/PPPP1PPP/RNBQKBNR b KQkq -'', 1)]"
    by (rule r(2))
  show "fenCore shuffle1 = ''rnbqkbnr/pppppppp/8/8/8/4P3/PPPP1PPP/RNBQKBNR b KQkq -''" by (rule r(3))
  show "moveHistory shuffle1 = moveHistory reset @ [last (moveHistory shuffle1)]"
    by (rule r(4))
  show "piece (last (moveHistory shuffle1)) = Some (White, Pawn)"
    using r(5) by (simp add: repBoards board_eval)
  show "\<exists>x. fen (last (moveHistory shuffle1)) = toFEN x
     \<and> board x =
     repBoard1
     \<and> turn x = White \<and> castlingRights x = allRights \<and> enPassantTarget x = None
     \<and> halfMoveClock x = 0"
    by (rule r(6))
  show "\<not> isMate (last (moveHistory shuffle1))"
    "\<not> isStalemate (last (moveHistory shuffle1))"
    by (rule r(7) r(8))+
qed

lemma shuffle2_legal:
  "legalMovesB
     repBoard2
     White allRights None =
     [mk 44 36 normal, mk 48 40 normal, mk 48 32 doublePush, mk 49 41 normal, mk 49 33
       doublePush, mk 50 42 normal, mk 50 34 doublePush, mk 51 43 normal, mk 51 35 doublePush,
       mk 53 45 normal, mk 53 37 doublePush, mk 54 46 normal, mk 54 38 doublePush, mk 55 47
       normal, mk 55 39 doublePush, mk 57 40 normal, mk 57 42 normal, mk 59 52 normal, mk 59 45
       normal, mk 59 38 normal, mk 59 31 normal, mk 60 52 normal, mk 61 52 normal, mk 61 43
       normal, mk 61 34 normal, mk 61 25 normal, mk 61 16 normal, mk 62 45 normal, mk 62 47
       normal, mk 62 52 normal]"
  by (simp add: repBoards eval_defs board_eval)

lemma shuffle2_key:
  "fenBoard
     repBoard2
   @ '' '' @ [colorChar White] @ '' '' @ fenCastling allRights @ '' '' @ fenEp None
   = ''rnbqkb1r/pppppppp/5n2/8/8/4P3/PPPP1PPP/RNBQKBNR w KQkq -''"
  by (simp add: repBoards key_eval board_eval)

lemma shuffle2_step:
  "makeMove shuffle1 (candidate 6 21) = Some (last (moveHistory shuffle2), shuffle2)"
  "stands shuffle2
     repBoard2
     White allRights None 1
     [(''rnbqkbnr/pppppppp/8/8/8/8/PPPPPPPP/RNBQKBNR w KQkq -'', 1 :: int),
       (''rnbqkbnr/pppppppp/8/8/8/4P3/PPPP1PPP/RNBQKBNR b KQkq -'', 1),
       (''rnbqkb1r/pppppppp/5n2/8/8/4P3/PPPP1PPP/RNBQKBNR w KQkq -'', 1)]"
  "fenCore shuffle2 = ''rnbqkb1r/pppppppp/5n2/8/8/4P3/PPPP1PPP/RNBQKBNR w KQkq -''"
  "moveHistory shuffle2 = moveHistory shuffle1 @ [last (moveHistory shuffle2)]"
  "piece (last (moveHistory shuffle2)) = Some (Black, Knight)"
  "\<exists>x. fen (last (moveHistory shuffle2)) = toFEN x
     \<and> board x =
     repBoard2
     \<and> turn x = Black \<and> castlingRights x = allRights \<and> enPassantTarget x = None
     \<and> halfMoveClock x = 1"
  "\<not> isMate (last (moveHistory shuffle2))"
  "\<not> isStalemate (last (moveHistory shuffle2))"
proof -
  have fd: "find (candidateMatches (candidate 6 21))
              (filter (\<lambda>m. mfrom m = 6)
                 [mk 1 16 normal, mk 1 18 normal, mk 6 21 normal, mk 6 23 normal, mk 8 16
                   normal, mk 8 24 doublePush, mk 9 17 normal, mk 9 25 doublePush, mk 10 18
                   normal, mk 10 26 doublePush, mk 11 19 normal, mk 11 27 doublePush, mk 12 20
                   normal, mk 12 28 doublePush, mk 13 21 normal, mk 13 29 doublePush, mk 14 22
                   normal, mk 14 30 doublePush, mk 15 23 normal, mk 15 31 doublePush])
            = Some (mk 6 21 normal)"
    by (simp add: candidateMatches_def cand_sel board_eval)
  have b: "applyMoveToBoard
     repBoard1
     (mk 6 21 normal) =
     repBoard2"
    by (simp add: repBoards board_eval)
  have tn: "opp (color (cell
     repBoard1
     6)) = White"
    by (simp add: repBoards board_eval opp_def color_def)
  have cr: "updateRights (cell
     repBoard1
     6) (mfrom (mk 6 21 normal)) allRights = allRights"
    by (simp add: repBoards board_eval updateRights_def ptype_def color_def Let_def)
  have ep: "newEnPassant (cell
     repBoard1
     6) (mk 6 21 normal) = None"
    by (simp add: repBoards board_eval newEnPassant_def color_def)
  have hm: "(if ptype (cell
     repBoard1
     6) = Some Pawn \<or> cell
     repBoard1
     21 \<noteq> None \<or> mtype (mk 6 21 normal) = enPassant
               then 0 else 0 + 1) = (1 :: int)"
    by (simp add: repBoards board_eval ptype_def)
  have nx: "legalMovesB
     repBoard2
     White allRights None \<noteq> []"
    unfolding shuffle2_legal by simp
  have h: "(1 :: int) < 100" by simp
  have pm: "bump ''rnbqkb1r/pppppppp/5n2/8/8/4P3/PPPP1PPP/RNBQKBNR w KQkq -''
       [(''rnbqkbnr/pppppppp/8/8/8/8/PPPPPPPP/RNBQKBNR w KQkq -'', 1 :: int),
         (''rnbqkbnr/pppppppp/8/8/8/4P3/PPPP1PPP/RNBQKBNR b KQkq -'', 1)]
    =        [(''rnbqkbnr/pppppppp/8/8/8/8/PPPPPPPP/RNBQKBNR w KQkq -'', 1 :: int),
         (''rnbqkbnr/pppppppp/8/8/8/4P3/PPPP1PPP/RNBQKBNR b KQkq -'', 1),
         (''rnbqkb1r/pppppppp/5n2/8/8/4P3/PPPP1PPP/RNBQKBNR w KQkq -'', 1)]"
    by simp
  have small: "\<not> list_ex (\<lambda>kc. 3 \<le> snd kc)
       [(''rnbqkbnr/pppppppp/8/8/8/8/PPPPPPPP/RNBQKBNR w KQkq -'', 1 :: int),
         (''rnbqkbnr/pppppppp/8/8/8/4P3/PPPP1PPP/RNBQKBNR b KQkq -'', 1),
         (''rnbqkb1r/pppppppp/5n2/8/8/4P3/PPPP1PPP/RNBQKBNR w KQkq -'', 1)]"
    by simp
  have ins: "\<not> insufficientBoard
     repBoard2"
    by (simp add: repBoards insufficientBoard_def List.map_filter_simps)
  note r = commit_stands[OF shuffle1_step(2) shuffle1_legal fd b tn cr ep hm nx h shuffle2_key
      pm small ins, folded shuffle2_def]
  show "makeMove shuffle1 (candidate 6 21) = Some (last (moveHistory shuffle2), shuffle2)"
    by (rule r(1))
  show "stands shuffle2
     repBoard2
     White allRights None 1
     [(''rnbqkbnr/pppppppp/8/8/8/8/PPPPPPPP/RNBQKBNR w KQkq -'', 1 :: int),
       (''rnbqkbnr/pppppppp/8/8/8/4P3/PPPP1PPP/RNBQKBNR b KQkq -'', 1),
       (''rnbqkb1r/pppppppp/5n2/8/8/4P3/PPPP1PPP/RNBQKBNR w KQkq -'', 1)]"
    by (rule r(2))
  show "fenCore shuffle2 = ''rnbqkb1r/pppppppp/5n2/8/8/4P3/PPPP1PPP/RNBQKBNR w KQkq -''" by (rule r(3))
  show "moveHistory shuffle2 = moveHistory shuffle1 @ [last (moveHistory shuffle2)]"
    by (rule r(4))
  show "piece (last (moveHistory shuffle2)) = Some (Black, Knight)"
    using r(5) by (simp add: repBoards board_eval)
  show "\<exists>x. fen (last (moveHistory shuffle2)) = toFEN x
     \<and> board x =
     repBoard2
     \<and> turn x = Black \<and> castlingRights x = allRights \<and> enPassantTarget x = None
     \<and> halfMoveClock x = 1"
    by (rule r(6))
  show "\<not> isMate (last (moveHistory shuffle2))"
    "\<not> isStalemate (last (moveHistory shuffle2))"
    by (rule r(7) r(8))+
qed

lemma shuffle3_legal:
  "legalMovesB
     repBoard3
     Black allRights None =
     [mk 1 16 normal, mk 1 18 normal, mk 7 6 normal, mk 8 16 normal, mk 8 24 doublePush, mk 9
       17 normal, mk 9 25 doublePush, mk 10 18 normal, mk 10 26 doublePush, mk 11 19 normal, mk
       11 27 doublePush, mk 12 20 normal, mk 12 28 doublePush, mk 14 22 normal, mk 14 30
       doublePush, mk 15 23 normal, mk 15 31 doublePush, mk 21 6 normal, mk 21 27 normal, mk 21
       31 normal, mk 21 36 normal, mk 21 38 normal]"
  by (simp add: repBoards eval_defs board_eval)

lemma shuffle3_key:
  "fenBoard
     repBoard3
   @ '' '' @ [colorChar Black] @ '' '' @ fenCastling allRights @ '' '' @ fenEp None
   = ''rnbqkb1r/pppppppp/5n2/8/8/4PN2/PPPP1PPP/RNBQKB1R b KQkq -''"
  by (simp add: repBoards key_eval board_eval)

lemma shuffle3_step:
  "makeMove shuffle2 (candidate 62 45) = Some (last (moveHistory shuffle3), shuffle3)"
  "stands shuffle3
     repBoard3
     Black allRights None 2
     [(''rnbqkbnr/pppppppp/8/8/8/8/PPPPPPPP/RNBQKBNR w KQkq -'', 1 :: int),
       (''rnbqkbnr/pppppppp/8/8/8/4P3/PPPP1PPP/RNBQKBNR b KQkq -'', 1),
       (''rnbqkb1r/pppppppp/5n2/8/8/4P3/PPPP1PPP/RNBQKBNR w KQkq -'', 1),
       (''rnbqkb1r/pppppppp/5n2/8/8/4PN2/PPPP1PPP/RNBQKB1R b KQkq -'', 1)]"
  "fenCore shuffle3 = ''rnbqkb1r/pppppppp/5n2/8/8/4PN2/PPPP1PPP/RNBQKB1R b KQkq -''"
  "moveHistory shuffle3 = moveHistory shuffle2 @ [last (moveHistory shuffle3)]"
  "piece (last (moveHistory shuffle3)) = Some (White, Knight)"
  "\<exists>x. fen (last (moveHistory shuffle3)) = toFEN x
     \<and> board x =
     repBoard3
     \<and> turn x = White \<and> castlingRights x = allRights \<and> enPassantTarget x = None
     \<and> halfMoveClock x = 2"
  "\<not> isMate (last (moveHistory shuffle3))"
  "\<not> isStalemate (last (moveHistory shuffle3))"
proof -
  have fd: "find (candidateMatches (candidate 62 45))
              (filter (\<lambda>m. mfrom m = 62)
                 [mk 44 36 normal, mk 48 40 normal, mk 48 32 doublePush, mk 49 41 normal, mk 49
                   33 doublePush, mk 50 42 normal, mk 50 34 doublePush, mk 51 43 normal, mk 51
                   35 doublePush, mk 53 45 normal, mk 53 37 doublePush, mk 54 46 normal, mk 54
                   38 doublePush, mk 55 47 normal, mk 55 39 doublePush, mk 57 40 normal, mk 57
                   42 normal, mk 59 52 normal, mk 59 45 normal, mk 59 38 normal, mk 59 31
                   normal, mk 60 52 normal, mk 61 52 normal, mk 61 43 normal, mk 61 34 normal,
                   mk 61 25 normal, mk 61 16 normal, mk 62 45 normal, mk 62 47 normal, mk 62 52
                   normal])
            = Some (mk 62 45 normal)"
    by (simp add: candidateMatches_def cand_sel board_eval)
  have b: "applyMoveToBoard
     repBoard2
     (mk 62 45 normal) =
     repBoard3"
    by (simp add: repBoards board_eval)
  have tn: "opp (color (cell
     repBoard2
     62)) = Black"
    by (simp add: repBoards board_eval opp_def color_def)
  have cr: "updateRights (cell
     repBoard2
     62) (mfrom (mk 62 45 normal)) allRights = allRights"
    by (simp add: repBoards board_eval updateRights_def ptype_def color_def Let_def)
  have ep: "newEnPassant (cell
     repBoard2
     62) (mk 62 45 normal) = None"
    by (simp add: repBoards board_eval newEnPassant_def color_def)
  have hm: "(if ptype (cell
     repBoard2
     62) = Some Pawn \<or> cell
     repBoard2
     45 \<noteq> None \<or> mtype (mk 62 45 normal) = enPassant
               then 0 else 1 + 1) = (2 :: int)"
    by (simp add: repBoards board_eval ptype_def)
  have nx: "legalMovesB
     repBoard3
     Black allRights None \<noteq> []"
    unfolding shuffle3_legal by simp
  have h: "(2 :: int) < 100" by simp
  have pm: "bump ''rnbqkb1r/pppppppp/5n2/8/8/4PN2/PPPP1PPP/RNBQKB1R b KQkq -''
       [(''rnbqkbnr/pppppppp/8/8/8/8/PPPPPPPP/RNBQKBNR w KQkq -'', 1 :: int),
         (''rnbqkbnr/pppppppp/8/8/8/4P3/PPPP1PPP/RNBQKBNR b KQkq -'', 1),
         (''rnbqkb1r/pppppppp/5n2/8/8/4P3/PPPP1PPP/RNBQKBNR w KQkq -'', 1)]
    =        [(''rnbqkbnr/pppppppp/8/8/8/8/PPPPPPPP/RNBQKBNR w KQkq -'', 1 :: int),
         (''rnbqkbnr/pppppppp/8/8/8/4P3/PPPP1PPP/RNBQKBNR b KQkq -'', 1),
         (''rnbqkb1r/pppppppp/5n2/8/8/4P3/PPPP1PPP/RNBQKBNR w KQkq -'', 1),
         (''rnbqkb1r/pppppppp/5n2/8/8/4PN2/PPPP1PPP/RNBQKB1R b KQkq -'', 1)]"
    by simp
  have small: "\<not> list_ex (\<lambda>kc. 3 \<le> snd kc)
       [(''rnbqkbnr/pppppppp/8/8/8/8/PPPPPPPP/RNBQKBNR w KQkq -'', 1 :: int),
         (''rnbqkbnr/pppppppp/8/8/8/4P3/PPPP1PPP/RNBQKBNR b KQkq -'', 1),
         (''rnbqkb1r/pppppppp/5n2/8/8/4P3/PPPP1PPP/RNBQKBNR w KQkq -'', 1),
         (''rnbqkb1r/pppppppp/5n2/8/8/4PN2/PPPP1PPP/RNBQKB1R b KQkq -'', 1)]"
    by simp
  have ins: "\<not> insufficientBoard
     repBoard3"
    by (simp add: repBoards insufficientBoard_def List.map_filter_simps)
  note r = commit_stands[OF shuffle2_step(2) shuffle2_legal fd b tn cr ep hm nx h shuffle3_key
      pm small ins, folded shuffle3_def]
  show "makeMove shuffle2 (candidate 62 45) = Some (last (moveHistory shuffle3), shuffle3)"
    by (rule r(1))
  show "stands shuffle3
     repBoard3
     Black allRights None 2
     [(''rnbqkbnr/pppppppp/8/8/8/8/PPPPPPPP/RNBQKBNR w KQkq -'', 1 :: int),
       (''rnbqkbnr/pppppppp/8/8/8/4P3/PPPP1PPP/RNBQKBNR b KQkq -'', 1),
       (''rnbqkb1r/pppppppp/5n2/8/8/4P3/PPPP1PPP/RNBQKBNR w KQkq -'', 1),
       (''rnbqkb1r/pppppppp/5n2/8/8/4PN2/PPPP1PPP/RNBQKB1R b KQkq -'', 1)]"
    by (rule r(2))
  show "fenCore shuffle3 = ''rnbqkb1r/pppppppp/5n2/8/8/4PN2/PPPP1PPP/RNBQKB1R b KQkq -''" by (rule r(3))
  show "moveHistory shuffle3 = moveHistory shuffle2 @ [last (moveHistory shuffle3)]"
    by (rule r(4))
  show "piece (last (moveHistory shuffle3)) = Some (White, Knight)"
    using r(5) by (simp add: repBoards board_eval)
  show "\<exists>x. fen (last (moveHistory shuffle3)) = toFEN x
     \<and> board x =
     repBoard3
     \<and> turn x = White \<and> castlingRights x = allRights \<and> enPassantTarget x = None
     \<and> halfMoveClock x = 2"
    by (rule r(6))
  show "\<not> isMate (last (moveHistory shuffle3))"
    "\<not> isStalemate (last (moveHistory shuffle3))"
    by (rule r(7) r(8))+
qed

lemma shuffle4_legal:
  "legalMovesB
     repBoard4
     White allRights None =
     [mk 44 36 normal, mk 45 28 normal, mk 45 30 normal, mk 45 35 normal, mk 45 39 normal, mk
       45 62 normal, mk 48 40 normal, mk 48 32 doublePush, mk 49 41 normal, mk 49 33
       doublePush, mk 50 42 normal, mk 50 34 doublePush, mk 51 43 normal, mk 51 35 doublePush,
       mk 54 46 normal, mk 54 38 doublePush, mk 55 47 normal, mk 55 39 doublePush, mk 57 40
       normal, mk 57 42 normal, mk 59 52 normal, mk 60 52 normal, mk 61 52 normal, mk 61 43
       normal, mk 61 34 normal, mk 61 25 normal, mk 61 16 normal, mk 63 62 normal]"
  by (simp add: repBoards eval_defs board_eval)

lemma shuffle4_key:
  "fenBoard
     repBoard4
   @ '' '' @ [colorChar White] @ '' '' @ fenCastling allRights @ '' '' @ fenEp None
   = ''rnbqkbnr/pppppppp/8/8/8/4PN2/PPPP1PPP/RNBQKB1R w KQkq -''"
  by (simp add: repBoards key_eval board_eval)

lemma shuffle4_step:
  "makeMove shuffle3 (candidate 21 6) = Some (last (moveHistory shuffle4), shuffle4)"
  "stands shuffle4
     repBoard4
     White allRights None 3
     [(''rnbqkbnr/pppppppp/8/8/8/8/PPPPPPPP/RNBQKBNR w KQkq -'', 1 :: int),
       (''rnbqkbnr/pppppppp/8/8/8/4P3/PPPP1PPP/RNBQKBNR b KQkq -'', 1),
       (''rnbqkb1r/pppppppp/5n2/8/8/4P3/PPPP1PPP/RNBQKBNR w KQkq -'', 1),
       (''rnbqkb1r/pppppppp/5n2/8/8/4PN2/PPPP1PPP/RNBQKB1R b KQkq -'', 1),
       (''rnbqkbnr/pppppppp/8/8/8/4PN2/PPPP1PPP/RNBQKB1R w KQkq -'', 1)]"
  "fenCore shuffle4 = ''rnbqkbnr/pppppppp/8/8/8/4PN2/PPPP1PPP/RNBQKB1R w KQkq -''"
  "moveHistory shuffle4 = moveHistory shuffle3 @ [last (moveHistory shuffle4)]"
  "piece (last (moveHistory shuffle4)) = Some (Black, Knight)"
  "\<exists>x. fen (last (moveHistory shuffle4)) = toFEN x
     \<and> board x =
     repBoard4
     \<and> turn x = Black \<and> castlingRights x = allRights \<and> enPassantTarget x = None
     \<and> halfMoveClock x = 3"
  "\<not> isMate (last (moveHistory shuffle4))"
  "\<not> isStalemate (last (moveHistory shuffle4))"
proof -
  have fd: "find (candidateMatches (candidate 21 6))
              (filter (\<lambda>m. mfrom m = 21)
                 [mk 1 16 normal, mk 1 18 normal, mk 7 6 normal, mk 8 16 normal, mk 8 24
                   doublePush, mk 9 17 normal, mk 9 25 doublePush, mk 10 18 normal, mk 10 26
                   doublePush, mk 11 19 normal, mk 11 27 doublePush, mk 12 20 normal, mk 12 28
                   doublePush, mk 14 22 normal, mk 14 30 doublePush, mk 15 23 normal, mk 15 31
                   doublePush, mk 21 6 normal, mk 21 27 normal, mk 21 31 normal, mk 21 36
                   normal, mk 21 38 normal])
            = Some (mk 21 6 normal)"
    by (simp add: candidateMatches_def cand_sel board_eval)
  have b: "applyMoveToBoard
     repBoard3
     (mk 21 6 normal) =
     repBoard4"
    by (simp add: repBoards board_eval)
  have tn: "opp (color (cell
     repBoard3
     21)) = White"
    by (simp add: repBoards board_eval opp_def color_def)
  have cr: "updateRights (cell
     repBoard3
     21) (mfrom (mk 21 6 normal)) allRights = allRights"
    by (simp add: repBoards board_eval updateRights_def ptype_def color_def Let_def)
  have ep: "newEnPassant (cell
     repBoard3
     21) (mk 21 6 normal) = None"
    by (simp add: repBoards board_eval newEnPassant_def color_def)
  have hm: "(if ptype (cell
     repBoard3
     21) = Some Pawn \<or> cell
     repBoard3
     6 \<noteq> None \<or> mtype (mk 21 6 normal) = enPassant
               then 0 else 2 + 1) = (3 :: int)"
    by (simp add: repBoards board_eval ptype_def)
  have nx: "legalMovesB
     repBoard4
     White allRights None \<noteq> []"
    unfolding shuffle4_legal by simp
  have h: "(3 :: int) < 100" by simp
  have pm: "bump ''rnbqkbnr/pppppppp/8/8/8/4PN2/PPPP1PPP/RNBQKB1R w KQkq -''
       [(''rnbqkbnr/pppppppp/8/8/8/8/PPPPPPPP/RNBQKBNR w KQkq -'', 1 :: int),
         (''rnbqkbnr/pppppppp/8/8/8/4P3/PPPP1PPP/RNBQKBNR b KQkq -'', 1),
         (''rnbqkb1r/pppppppp/5n2/8/8/4P3/PPPP1PPP/RNBQKBNR w KQkq -'', 1),
         (''rnbqkb1r/pppppppp/5n2/8/8/4PN2/PPPP1PPP/RNBQKB1R b KQkq -'', 1)]
    =        [(''rnbqkbnr/pppppppp/8/8/8/8/PPPPPPPP/RNBQKBNR w KQkq -'', 1 :: int),
         (''rnbqkbnr/pppppppp/8/8/8/4P3/PPPP1PPP/RNBQKBNR b KQkq -'', 1),
         (''rnbqkb1r/pppppppp/5n2/8/8/4P3/PPPP1PPP/RNBQKBNR w KQkq -'', 1),
         (''rnbqkb1r/pppppppp/5n2/8/8/4PN2/PPPP1PPP/RNBQKB1R b KQkq -'', 1),
         (''rnbqkbnr/pppppppp/8/8/8/4PN2/PPPP1PPP/RNBQKB1R w KQkq -'', 1)]"
    by simp
  have small: "\<not> list_ex (\<lambda>kc. 3 \<le> snd kc)
       [(''rnbqkbnr/pppppppp/8/8/8/8/PPPPPPPP/RNBQKBNR w KQkq -'', 1 :: int),
         (''rnbqkbnr/pppppppp/8/8/8/4P3/PPPP1PPP/RNBQKBNR b KQkq -'', 1),
         (''rnbqkb1r/pppppppp/5n2/8/8/4P3/PPPP1PPP/RNBQKBNR w KQkq -'', 1),
         (''rnbqkb1r/pppppppp/5n2/8/8/4PN2/PPPP1PPP/RNBQKB1R b KQkq -'', 1),
         (''rnbqkbnr/pppppppp/8/8/8/4PN2/PPPP1PPP/RNBQKB1R w KQkq -'', 1)]"
    by simp
  have ins: "\<not> insufficientBoard
     repBoard4"
    by (simp add: repBoards insufficientBoard_def List.map_filter_simps)
  note r = commit_stands[OF shuffle3_step(2) shuffle3_legal fd b tn cr ep hm nx h shuffle4_key
      pm small ins, folded shuffle4_def]
  show "makeMove shuffle3 (candidate 21 6) = Some (last (moveHistory shuffle4), shuffle4)"
    by (rule r(1))
  show "stands shuffle4
     repBoard4
     White allRights None 3
     [(''rnbqkbnr/pppppppp/8/8/8/8/PPPPPPPP/RNBQKBNR w KQkq -'', 1 :: int),
       (''rnbqkbnr/pppppppp/8/8/8/4P3/PPPP1PPP/RNBQKBNR b KQkq -'', 1),
       (''rnbqkb1r/pppppppp/5n2/8/8/4P3/PPPP1PPP/RNBQKBNR w KQkq -'', 1),
       (''rnbqkb1r/pppppppp/5n2/8/8/4PN2/PPPP1PPP/RNBQKB1R b KQkq -'', 1),
       (''rnbqkbnr/pppppppp/8/8/8/4PN2/PPPP1PPP/RNBQKB1R w KQkq -'', 1)]"
    by (rule r(2))
  show "fenCore shuffle4 = ''rnbqkbnr/pppppppp/8/8/8/4PN2/PPPP1PPP/RNBQKB1R w KQkq -''" by (rule r(3))
  show "moveHistory shuffle4 = moveHistory shuffle3 @ [last (moveHistory shuffle4)]"
    by (rule r(4))
  show "piece (last (moveHistory shuffle4)) = Some (Black, Knight)"
    using r(5) by (simp add: repBoards board_eval)
  show "\<exists>x. fen (last (moveHistory shuffle4)) = toFEN x
     \<and> board x =
     repBoard4
     \<and> turn x = Black \<and> castlingRights x = allRights \<and> enPassantTarget x = None
     \<and> halfMoveClock x = 3"
    by (rule r(6))
  show "\<not> isMate (last (moveHistory shuffle4))"
    "\<not> isStalemate (last (moveHistory shuffle4))"
    by (rule r(7) r(8))+
qed

lemma shuffle5_legal:
  "legalMovesB
     repBoard1
     Black allRights None =
     [mk 1 16 normal, mk 1 18 normal, mk 6 21 normal, mk 6 23 normal, mk 8 16 normal, mk 8 24
       doublePush, mk 9 17 normal, mk 9 25 doublePush, mk 10 18 normal, mk 10 26 doublePush, mk
       11 19 normal, mk 11 27 doublePush, mk 12 20 normal, mk 12 28 doublePush, mk 13 21
       normal, mk 13 29 doublePush, mk 14 22 normal, mk 14 30 doublePush, mk 15 23 normal, mk
       15 31 doublePush]"
  by (simp add: repBoards eval_defs board_eval)

lemma shuffle5_key:
  "fenBoard
     repBoard1
   @ '' '' @ [colorChar Black] @ '' '' @ fenCastling allRights @ '' '' @ fenEp None
   = ''rnbqkbnr/pppppppp/8/8/8/4P3/PPPP1PPP/RNBQKBNR b KQkq -''"
  by (simp add: repBoards key_eval board_eval)

lemma shuffle5_step:
  "makeMove shuffle4 (candidate 45 62) = Some (last (moveHistory shuffle5), shuffle5)"
  "stands shuffle5
     repBoard1
     Black allRights None 4
     [(''rnbqkbnr/pppppppp/8/8/8/8/PPPPPPPP/RNBQKBNR w KQkq -'', 1 :: int),
       (''rnbqkbnr/pppppppp/8/8/8/4P3/PPPP1PPP/RNBQKBNR b KQkq -'', 2),
       (''rnbqkb1r/pppppppp/5n2/8/8/4P3/PPPP1PPP/RNBQKBNR w KQkq -'', 1),
       (''rnbqkb1r/pppppppp/5n2/8/8/4PN2/PPPP1PPP/RNBQKB1R b KQkq -'', 1),
       (''rnbqkbnr/pppppppp/8/8/8/4PN2/PPPP1PPP/RNBQKB1R w KQkq -'', 1)]"
  "fenCore shuffle5 = ''rnbqkbnr/pppppppp/8/8/8/4P3/PPPP1PPP/RNBQKBNR b KQkq -''"
  "moveHistory shuffle5 = moveHistory shuffle4 @ [last (moveHistory shuffle5)]"
  "piece (last (moveHistory shuffle5)) = Some (White, Knight)"
  "\<exists>x. fen (last (moveHistory shuffle5)) = toFEN x
     \<and> board x =
     repBoard1
     \<and> turn x = White \<and> castlingRights x = allRights \<and> enPassantTarget x = None
     \<and> halfMoveClock x = 4"
  "\<not> isMate (last (moveHistory shuffle5))"
  "\<not> isStalemate (last (moveHistory shuffle5))"
proof -
  have fd: "find (candidateMatches (candidate 45 62))
              (filter (\<lambda>m. mfrom m = 45)
                 [mk 44 36 normal, mk 45 28 normal, mk 45 30 normal, mk 45 35 normal, mk 45 39
                   normal, mk 45 62 normal, mk 48 40 normal, mk 48 32 doublePush, mk 49 41
                   normal, mk 49 33 doublePush, mk 50 42 normal, mk 50 34 doublePush, mk 51 43
                   normal, mk 51 35 doublePush, mk 54 46 normal, mk 54 38 doublePush, mk 55 47
                   normal, mk 55 39 doublePush, mk 57 40 normal, mk 57 42 normal, mk 59 52
                   normal, mk 60 52 normal, mk 61 52 normal, mk 61 43 normal, mk 61 34 normal,
                   mk 61 25 normal, mk 61 16 normal, mk 63 62 normal])
            = Some (mk 45 62 normal)"
    by (simp add: candidateMatches_def cand_sel board_eval)
  have b: "applyMoveToBoard
     repBoard4
     (mk 45 62 normal) =
     repBoard1"
    by (simp add: repBoards board_eval)
  have tn: "opp (color (cell
     repBoard4
     45)) = Black"
    by (simp add: repBoards board_eval opp_def color_def)
  have cr: "updateRights (cell
     repBoard4
     45) (mfrom (mk 45 62 normal)) allRights = allRights"
    by (simp add: repBoards board_eval updateRights_def ptype_def color_def Let_def)
  have ep: "newEnPassant (cell
     repBoard4
     45) (mk 45 62 normal) = None"
    by (simp add: repBoards board_eval newEnPassant_def color_def)
  have hm: "(if ptype (cell
     repBoard4
     45) = Some Pawn \<or> cell
     repBoard4
     62 \<noteq> None \<or> mtype (mk 45 62 normal) = enPassant
               then 0 else 3 + 1) = (4 :: int)"
    by (simp add: repBoards board_eval ptype_def)
  have nx: "legalMovesB
     repBoard1
     Black allRights None \<noteq> []"
    unfolding shuffle5_legal by simp
  have h: "(4 :: int) < 100" by simp
  have pm: "bump ''rnbqkbnr/pppppppp/8/8/8/4P3/PPPP1PPP/RNBQKBNR b KQkq -''
       [(''rnbqkbnr/pppppppp/8/8/8/8/PPPPPPPP/RNBQKBNR w KQkq -'', 1 :: int),
         (''rnbqkbnr/pppppppp/8/8/8/4P3/PPPP1PPP/RNBQKBNR b KQkq -'', 1),
         (''rnbqkb1r/pppppppp/5n2/8/8/4P3/PPPP1PPP/RNBQKBNR w KQkq -'', 1),
         (''rnbqkb1r/pppppppp/5n2/8/8/4PN2/PPPP1PPP/RNBQKB1R b KQkq -'', 1),
         (''rnbqkbnr/pppppppp/8/8/8/4PN2/PPPP1PPP/RNBQKB1R w KQkq -'', 1)]
    =        [(''rnbqkbnr/pppppppp/8/8/8/8/PPPPPPPP/RNBQKBNR w KQkq -'', 1 :: int),
         (''rnbqkbnr/pppppppp/8/8/8/4P3/PPPP1PPP/RNBQKBNR b KQkq -'', 2),
         (''rnbqkb1r/pppppppp/5n2/8/8/4P3/PPPP1PPP/RNBQKBNR w KQkq -'', 1),
         (''rnbqkb1r/pppppppp/5n2/8/8/4PN2/PPPP1PPP/RNBQKB1R b KQkq -'', 1),
         (''rnbqkbnr/pppppppp/8/8/8/4PN2/PPPP1PPP/RNBQKB1R w KQkq -'', 1)]"
    by simp
  have small: "\<not> list_ex (\<lambda>kc. 3 \<le> snd kc)
       [(''rnbqkbnr/pppppppp/8/8/8/8/PPPPPPPP/RNBQKBNR w KQkq -'', 1 :: int),
         (''rnbqkbnr/pppppppp/8/8/8/4P3/PPPP1PPP/RNBQKBNR b KQkq -'', 2),
         (''rnbqkb1r/pppppppp/5n2/8/8/4P3/PPPP1PPP/RNBQKBNR w KQkq -'', 1),
         (''rnbqkb1r/pppppppp/5n2/8/8/4PN2/PPPP1PPP/RNBQKB1R b KQkq -'', 1),
         (''rnbqkbnr/pppppppp/8/8/8/4PN2/PPPP1PPP/RNBQKB1R w KQkq -'', 1)]"
    by simp
  have ins: "\<not> insufficientBoard
     repBoard1"
    by (simp add: repBoards insufficientBoard_def List.map_filter_simps)
  note r = commit_stands[OF shuffle4_step(2) shuffle4_legal fd b tn cr ep hm nx h shuffle5_key
      pm small ins, folded shuffle5_def]
  show "makeMove shuffle4 (candidate 45 62) = Some (last (moveHistory shuffle5), shuffle5)"
    by (rule r(1))
  show "stands shuffle5
     repBoard1
     Black allRights None 4
     [(''rnbqkbnr/pppppppp/8/8/8/8/PPPPPPPP/RNBQKBNR w KQkq -'', 1 :: int),
       (''rnbqkbnr/pppppppp/8/8/8/4P3/PPPP1PPP/RNBQKBNR b KQkq -'', 2),
       (''rnbqkb1r/pppppppp/5n2/8/8/4P3/PPPP1PPP/RNBQKBNR w KQkq -'', 1),
       (''rnbqkb1r/pppppppp/5n2/8/8/4PN2/PPPP1PPP/RNBQKB1R b KQkq -'', 1),
       (''rnbqkbnr/pppppppp/8/8/8/4PN2/PPPP1PPP/RNBQKB1R w KQkq -'', 1)]"
    by (rule r(2))
  show "fenCore shuffle5 = ''rnbqkbnr/pppppppp/8/8/8/4P3/PPPP1PPP/RNBQKBNR b KQkq -''" by (rule r(3))
  show "moveHistory shuffle5 = moveHistory shuffle4 @ [last (moveHistory shuffle5)]"
    by (rule r(4))
  show "piece (last (moveHistory shuffle5)) = Some (White, Knight)"
    using r(5) by (simp add: repBoards board_eval)
  show "\<exists>x. fen (last (moveHistory shuffle5)) = toFEN x
     \<and> board x =
     repBoard1
     \<and> turn x = White \<and> castlingRights x = allRights \<and> enPassantTarget x = None
     \<and> halfMoveClock x = 4"
    by (rule r(6))
  show "\<not> isMate (last (moveHistory shuffle5))"
    "\<not> isStalemate (last (moveHistory shuffle5))"
    by (rule r(7) r(8))+
qed

lemma shuffle6_legal:
  "legalMovesB
     repBoard2
     White allRights None =
     [mk 44 36 normal, mk 48 40 normal, mk 48 32 doublePush, mk 49 41 normal, mk 49 33
       doublePush, mk 50 42 normal, mk 50 34 doublePush, mk 51 43 normal, mk 51 35 doublePush,
       mk 53 45 normal, mk 53 37 doublePush, mk 54 46 normal, mk 54 38 doublePush, mk 55 47
       normal, mk 55 39 doublePush, mk 57 40 normal, mk 57 42 normal, mk 59 52 normal, mk 59 45
       normal, mk 59 38 normal, mk 59 31 normal, mk 60 52 normal, mk 61 52 normal, mk 61 43
       normal, mk 61 34 normal, mk 61 25 normal, mk 61 16 normal, mk 62 45 normal, mk 62 47
       normal, mk 62 52 normal]"
  by (simp add: repBoards eval_defs board_eval)

lemma shuffle6_key:
  "fenBoard
     repBoard2
   @ '' '' @ [colorChar White] @ '' '' @ fenCastling allRights @ '' '' @ fenEp None
   = ''rnbqkb1r/pppppppp/5n2/8/8/4P3/PPPP1PPP/RNBQKBNR w KQkq -''"
  by (simp add: repBoards key_eval board_eval)

lemma shuffle6_step:
  "makeMove shuffle5 (candidate 6 21) = Some (last (moveHistory shuffle6), shuffle6)"
  "stands shuffle6
     repBoard2
     White allRights None 5
     [(''rnbqkbnr/pppppppp/8/8/8/8/PPPPPPPP/RNBQKBNR w KQkq -'', 1 :: int),
       (''rnbqkbnr/pppppppp/8/8/8/4P3/PPPP1PPP/RNBQKBNR b KQkq -'', 2),
       (''rnbqkb1r/pppppppp/5n2/8/8/4P3/PPPP1PPP/RNBQKBNR w KQkq -'', 2),
       (''rnbqkb1r/pppppppp/5n2/8/8/4PN2/PPPP1PPP/RNBQKB1R b KQkq -'', 1),
       (''rnbqkbnr/pppppppp/8/8/8/4PN2/PPPP1PPP/RNBQKB1R w KQkq -'', 1)]"
  "fenCore shuffle6 = ''rnbqkb1r/pppppppp/5n2/8/8/4P3/PPPP1PPP/RNBQKBNR w KQkq -''"
  "moveHistory shuffle6 = moveHistory shuffle5 @ [last (moveHistory shuffle6)]"
  "piece (last (moveHistory shuffle6)) = Some (Black, Knight)"
  "\<exists>x. fen (last (moveHistory shuffle6)) = toFEN x
     \<and> board x =
     repBoard2
     \<and> turn x = Black \<and> castlingRights x = allRights \<and> enPassantTarget x = None
     \<and> halfMoveClock x = 5"
  "\<not> isMate (last (moveHistory shuffle6))"
  "\<not> isStalemate (last (moveHistory shuffle6))"
proof -
  have fd: "find (candidateMatches (candidate 6 21))
              (filter (\<lambda>m. mfrom m = 6)
                 [mk 1 16 normal, mk 1 18 normal, mk 6 21 normal, mk 6 23 normal, mk 8 16
                   normal, mk 8 24 doublePush, mk 9 17 normal, mk 9 25 doublePush, mk 10 18
                   normal, mk 10 26 doublePush, mk 11 19 normal, mk 11 27 doublePush, mk 12 20
                   normal, mk 12 28 doublePush, mk 13 21 normal, mk 13 29 doublePush, mk 14 22
                   normal, mk 14 30 doublePush, mk 15 23 normal, mk 15 31 doublePush])
            = Some (mk 6 21 normal)"
    by (simp add: candidateMatches_def cand_sel board_eval)
  have b: "applyMoveToBoard
     repBoard1
     (mk 6 21 normal) =
     repBoard2"
    by (simp add: repBoards board_eval)
  have tn: "opp (color (cell
     repBoard1
     6)) = White"
    by (simp add: repBoards board_eval opp_def color_def)
  have cr: "updateRights (cell
     repBoard1
     6) (mfrom (mk 6 21 normal)) allRights = allRights"
    by (simp add: repBoards board_eval updateRights_def ptype_def color_def Let_def)
  have ep: "newEnPassant (cell
     repBoard1
     6) (mk 6 21 normal) = None"
    by (simp add: repBoards board_eval newEnPassant_def color_def)
  have hm: "(if ptype (cell
     repBoard1
     6) = Some Pawn \<or> cell
     repBoard1
     21 \<noteq> None \<or> mtype (mk 6 21 normal) = enPassant
               then 0 else 4 + 1) = (5 :: int)"
    by (simp add: repBoards board_eval ptype_def)
  have nx: "legalMovesB
     repBoard2
     White allRights None \<noteq> []"
    unfolding shuffle6_legal by simp
  have h: "(5 :: int) < 100" by simp
  have pm: "bump ''rnbqkb1r/pppppppp/5n2/8/8/4P3/PPPP1PPP/RNBQKBNR w KQkq -''
       [(''rnbqkbnr/pppppppp/8/8/8/8/PPPPPPPP/RNBQKBNR w KQkq -'', 1 :: int),
         (''rnbqkbnr/pppppppp/8/8/8/4P3/PPPP1PPP/RNBQKBNR b KQkq -'', 2),
         (''rnbqkb1r/pppppppp/5n2/8/8/4P3/PPPP1PPP/RNBQKBNR w KQkq -'', 1),
         (''rnbqkb1r/pppppppp/5n2/8/8/4PN2/PPPP1PPP/RNBQKB1R b KQkq -'', 1),
         (''rnbqkbnr/pppppppp/8/8/8/4PN2/PPPP1PPP/RNBQKB1R w KQkq -'', 1)]
    =        [(''rnbqkbnr/pppppppp/8/8/8/8/PPPPPPPP/RNBQKBNR w KQkq -'', 1 :: int),
         (''rnbqkbnr/pppppppp/8/8/8/4P3/PPPP1PPP/RNBQKBNR b KQkq -'', 2),
         (''rnbqkb1r/pppppppp/5n2/8/8/4P3/PPPP1PPP/RNBQKBNR w KQkq -'', 2),
         (''rnbqkb1r/pppppppp/5n2/8/8/4PN2/PPPP1PPP/RNBQKB1R b KQkq -'', 1),
         (''rnbqkbnr/pppppppp/8/8/8/4PN2/PPPP1PPP/RNBQKB1R w KQkq -'', 1)]"
    by simp
  have small: "\<not> list_ex (\<lambda>kc. 3 \<le> snd kc)
       [(''rnbqkbnr/pppppppp/8/8/8/8/PPPPPPPP/RNBQKBNR w KQkq -'', 1 :: int),
         (''rnbqkbnr/pppppppp/8/8/8/4P3/PPPP1PPP/RNBQKBNR b KQkq -'', 2),
         (''rnbqkb1r/pppppppp/5n2/8/8/4P3/PPPP1PPP/RNBQKBNR w KQkq -'', 2),
         (''rnbqkb1r/pppppppp/5n2/8/8/4PN2/PPPP1PPP/RNBQKB1R b KQkq -'', 1),
         (''rnbqkbnr/pppppppp/8/8/8/4PN2/PPPP1PPP/RNBQKB1R w KQkq -'', 1)]"
    by simp
  have ins: "\<not> insufficientBoard
     repBoard2"
    by (simp add: repBoards insufficientBoard_def List.map_filter_simps)
  note r = commit_stands[OF shuffle5_step(2) shuffle5_legal fd b tn cr ep hm nx h shuffle6_key
      pm small ins, folded shuffle6_def]
  show "makeMove shuffle5 (candidate 6 21) = Some (last (moveHistory shuffle6), shuffle6)"
    by (rule r(1))
  show "stands shuffle6
     repBoard2
     White allRights None 5
     [(''rnbqkbnr/pppppppp/8/8/8/8/PPPPPPPP/RNBQKBNR w KQkq -'', 1 :: int),
       (''rnbqkbnr/pppppppp/8/8/8/4P3/PPPP1PPP/RNBQKBNR b KQkq -'', 2),
       (''rnbqkb1r/pppppppp/5n2/8/8/4P3/PPPP1PPP/RNBQKBNR w KQkq -'', 2),
       (''rnbqkb1r/pppppppp/5n2/8/8/4PN2/PPPP1PPP/RNBQKB1R b KQkq -'', 1),
       (''rnbqkbnr/pppppppp/8/8/8/4PN2/PPPP1PPP/RNBQKB1R w KQkq -'', 1)]"
    by (rule r(2))
  show "fenCore shuffle6 = ''rnbqkb1r/pppppppp/5n2/8/8/4P3/PPPP1PPP/RNBQKBNR w KQkq -''" by (rule r(3))
  show "moveHistory shuffle6 = moveHistory shuffle5 @ [last (moveHistory shuffle6)]"
    by (rule r(4))
  show "piece (last (moveHistory shuffle6)) = Some (Black, Knight)"
    using r(5) by (simp add: repBoards board_eval)
  show "\<exists>x. fen (last (moveHistory shuffle6)) = toFEN x
     \<and> board x =
     repBoard2
     \<and> turn x = Black \<and> castlingRights x = allRights \<and> enPassantTarget x = None
     \<and> halfMoveClock x = 5"
    by (rule r(6))
  show "\<not> isMate (last (moveHistory shuffle6))"
    "\<not> isStalemate (last (moveHistory shuffle6))"
    by (rule r(7) r(8))+
qed

lemma shuffleU_legal:
  "legalMovesB
     repBoard1
     White allRights None =
     [mk 44 36 normal, mk 48 40 normal, mk 48 32 doublePush, mk 49 41 normal, mk 49 33
       doublePush, mk 50 42 normal, mk 50 34 doublePush, mk 51 43 normal, mk 51 35 doublePush,
       mk 53 45 normal, mk 53 37 doublePush, mk 54 46 normal, mk 54 38 doublePush, mk 55 47
       normal, mk 55 39 doublePush, mk 57 40 normal, mk 57 42 normal, mk 59 52 normal, mk 59 45
       normal, mk 59 38 normal, mk 59 31 normal, mk 60 52 normal, mk 61 52 normal, mk 61 43
       normal, mk 61 34 normal, mk 61 25 normal, mk 61 16 normal, mk 62 45 normal, mk 62 47
       normal, mk 62 52 normal]"
  by (simp add: repBoards eval_defs board_eval)

lemma shuffleU_key:
  "fenBoard
     repBoard1
   @ '' '' @ [colorChar White] @ '' '' @ fenCastling allRights @ '' '' @ fenEp None
   = ''rnbqkbnr/pppppppp/8/8/8/4P3/PPPP1PPP/RNBQKBNR w KQkq -''"
  by (simp add: repBoards key_eval board_eval)

lemma shuffleU_fenkey:
  "fenBoard
     repBoard1
   @ '' '' @ [colorChar White] @ '' '' @ fenCastling allRights @ '' '' @ fenEp None
   = ''rnbqkbnr/pppppppp/8/8/8/4P3/PPPP1PPP/RNBQKBNR w KQkq -''"
  by (simp add: repBoards key_eval board_eval)

lemma shuffleU_step:
  "undoMove shuffle6 = Inr (Some (last (moveHistory shuffle6)), shuffleU)"
  "stands shuffleU
     repBoard1
     White allRights None 4
     [(''rnbqkbnr/pppppppp/8/8/8/4P3/PPPP1PPP/RNBQKBNR w KQkq -'', 1 :: int)]"
  "moveHistory shuffleU = []"
proof -
  obtain x where x: "fen (last (moveHistory shuffle5)) = toFEN x
     \<and> board x =
     repBoard1
     \<and> turn x = White \<and> castlingRights x = allRights \<and> enPassantTarget x = None
     \<and> halfMoveClock x = 4"
    using shuffle5_step(6) by blast
  have h: "moveHistory shuffle6
           = moveHistory shuffle4 @ [last (moveHistory shuffle5), last (moveHistory shuffle6)]"
    by (subst shuffle6_step(4), subst shuffle5_step(4)) simp
  have l: "length
     repBoard1 = 64"
    by (simp add: repBoards)
  have e: "case None :: int option of None \<Rightarrow> True | Some q \<Rightarrow> 0 \<le> q \<and> q < 64"
    by simp
  have p: "opp (color (piece (last (moveHistory shuffle6)))) = White"
    unfolding shuffle6_step(5) by (simp add: opp_def color_def)
  note r = undo_stands[OF h x l e p shuffleU_fenkey, folded shuffleU_def]
  show "undoMove shuffle6 = Inr (Some (last (moveHistory shuffle6)), shuffleU)" by (rule r(1))
  show "stands shuffleU
     repBoard1
     White allRights None 4
     [(''rnbqkbnr/pppppppp/8/8/8/4P3/PPPP1PPP/RNBQKBNR w KQkq -'', 1 :: int)]"
    by (rule r(2))
  show "moveHistory shuffleU = []" by (rule r(3))
qed

lemma replay1_legal:
  "legalMovesB
     repBoard5
     Black allRights None =
     [mk 1 16 normal, mk 1 18 normal, mk 6 21 normal, mk 6 23 normal, mk 8 16 normal, mk 8 24
       doublePush, mk 9 17 normal, mk 9 25 doublePush, mk 10 18 normal, mk 10 26 doublePush, mk
       11 19 normal, mk 11 27 doublePush, mk 12 20 normal, mk 12 28 doublePush, mk 13 21
       normal, mk 13 29 doublePush, mk 14 22 normal, mk 14 30 doublePush, mk 15 23 normal, mk
       15 31 doublePush]"
  by (simp add: repBoards eval_defs board_eval)

lemma replay1_key:
  "fenBoard
     repBoard5
   @ '' '' @ [colorChar Black] @ '' '' @ fenCastling allRights @ '' '' @ fenEp None
   = ''rnbqkbnr/pppppppp/8/8/8/3BP3/PPPP1PPP/RNBQK1NR b KQkq -''"
  by (simp add: repBoards key_eval board_eval)

lemma replay1_step:
  "makeMove shuffleU (candidate 61 43) = Some (last (moveHistory replay1), replay1)"
  "stands replay1
     repBoard5
     Black allRights None 5
     [(''rnbqkbnr/pppppppp/8/8/8/4P3/PPPP1PPP/RNBQKBNR w KQkq -'', 1 :: int),
       (''rnbqkbnr/pppppppp/8/8/8/3BP3/PPPP1PPP/RNBQK1NR b KQkq -'', 1)]"
  "fenCore replay1 = ''rnbqkbnr/pppppppp/8/8/8/3BP3/PPPP1PPP/RNBQK1NR b KQkq -''"
  "moveHistory replay1 = moveHistory shuffleU @ [last (moveHistory replay1)]"
  "piece (last (moveHistory replay1)) = Some (White, Bishop)"
  "\<exists>x. fen (last (moveHistory replay1)) = toFEN x
     \<and> board x =
     repBoard5
     \<and> turn x = White \<and> castlingRights x = allRights \<and> enPassantTarget x = None
     \<and> halfMoveClock x = 5"
  "\<not> isMate (last (moveHistory replay1))"
  "\<not> isStalemate (last (moveHistory replay1))"
proof -
  have fd: "find (candidateMatches (candidate 61 43))
              (filter (\<lambda>m. mfrom m = 61)
                 [mk 44 36 normal, mk 48 40 normal, mk 48 32 doublePush, mk 49 41 normal, mk 49
                   33 doublePush, mk 50 42 normal, mk 50 34 doublePush, mk 51 43 normal, mk 51
                   35 doublePush, mk 53 45 normal, mk 53 37 doublePush, mk 54 46 normal, mk 54
                   38 doublePush, mk 55 47 normal, mk 55 39 doublePush, mk 57 40 normal, mk 57
                   42 normal, mk 59 52 normal, mk 59 45 normal, mk 59 38 normal, mk 59 31
                   normal, mk 60 52 normal, mk 61 52 normal, mk 61 43 normal, mk 61 34 normal,
                   mk 61 25 normal, mk 61 16 normal, mk 62 45 normal, mk 62 47 normal, mk 62 52
                   normal])
            = Some (mk 61 43 normal)"
    by (simp add: candidateMatches_def cand_sel board_eval)
  have b: "applyMoveToBoard
     repBoard1
     (mk 61 43 normal) =
     repBoard5"
    by (simp add: repBoards board_eval)
  have tn: "opp (color (cell
     repBoard1
     61)) = Black"
    by (simp add: repBoards board_eval opp_def color_def)
  have cr: "updateRights (cell
     repBoard1
     61) (mfrom (mk 61 43 normal)) allRights = allRights"
    by (simp add: repBoards board_eval updateRights_def ptype_def color_def Let_def)
  have ep: "newEnPassant (cell
     repBoard1
     61) (mk 61 43 normal) = None"
    by (simp add: repBoards board_eval newEnPassant_def color_def)
  have hm: "(if ptype (cell
     repBoard1
     61) = Some Pawn \<or> cell
     repBoard1
     43 \<noteq> None \<or> mtype (mk 61 43 normal) = enPassant
               then 0 else 4 + 1) = (5 :: int)"
    by (simp add: repBoards board_eval ptype_def)
  have nx: "legalMovesB
     repBoard5
     Black allRights None \<noteq> []"
    unfolding replay1_legal by simp
  have h: "(5 :: int) < 100" by simp
  have pm: "bump ''rnbqkbnr/pppppppp/8/8/8/3BP3/PPPP1PPP/RNBQK1NR b KQkq -''
       [(''rnbqkbnr/pppppppp/8/8/8/4P3/PPPP1PPP/RNBQKBNR w KQkq -'', 1 :: int)]
    =        [(''rnbqkbnr/pppppppp/8/8/8/4P3/PPPP1PPP/RNBQKBNR w KQkq -'', 1 :: int),
         (''rnbqkbnr/pppppppp/8/8/8/3BP3/PPPP1PPP/RNBQK1NR b KQkq -'', 1)]"
    by simp
  have small: "\<not> list_ex (\<lambda>kc. 3 \<le> snd kc)
       [(''rnbqkbnr/pppppppp/8/8/8/4P3/PPPP1PPP/RNBQKBNR w KQkq -'', 1 :: int),
         (''rnbqkbnr/pppppppp/8/8/8/3BP3/PPPP1PPP/RNBQK1NR b KQkq -'', 1)]"
    by simp
  have ins: "\<not> insufficientBoard
     repBoard5"
    by (simp add: repBoards insufficientBoard_def List.map_filter_simps)
  note r = commit_stands[OF shuffleU_step(2) shuffleU_legal fd b tn cr ep hm nx h replay1_key
      pm small ins, folded replay1_def]
  show "makeMove shuffleU (candidate 61 43) = Some (last (moveHistory replay1), replay1)"
    by (rule r(1))
  show "stands replay1
     repBoard5
     Black allRights None 5
     [(''rnbqkbnr/pppppppp/8/8/8/4P3/PPPP1PPP/RNBQKBNR w KQkq -'', 1 :: int),
       (''rnbqkbnr/pppppppp/8/8/8/3BP3/PPPP1PPP/RNBQK1NR b KQkq -'', 1)]"
    by (rule r(2))
  show "fenCore replay1 = ''rnbqkbnr/pppppppp/8/8/8/3BP3/PPPP1PPP/RNBQK1NR b KQkq -''" by (rule r(3))
  show "moveHistory replay1 = moveHistory shuffleU @ [last (moveHistory replay1)]"
    by (rule r(4))
  show "piece (last (moveHistory replay1)) = Some (White, Bishop)"
    using r(5) by (simp add: repBoards board_eval)
  show "\<exists>x. fen (last (moveHistory replay1)) = toFEN x
     \<and> board x =
     repBoard5
     \<and> turn x = White \<and> castlingRights x = allRights \<and> enPassantTarget x = None
     \<and> halfMoveClock x = 5"
    by (rule r(6))
  show "\<not> isMate (last (moveHistory replay1))"
    "\<not> isStalemate (last (moveHistory replay1))"
    by (rule r(7) r(8))+
qed

lemma replay2_legal:
  "legalMovesB
     repBoard6
     White allRights None =
     [mk 43 34 normal, mk 43 25 normal, mk 43 16 normal, mk 43 36 normal, mk 43 29 normal, mk
       43 22 normal, mk 43 15 capture, mk 43 52 normal, mk 43 61 normal, mk 44 36 normal, mk 48
       40 normal, mk 48 32 doublePush, mk 49 41 normal, mk 49 33 doublePush, mk 50 42 normal,
       mk 50 34 doublePush, mk 53 45 normal, mk 53 37 doublePush, mk 54 46 normal, mk 54 38
       doublePush, mk 55 47 normal, mk 55 39 doublePush, mk 57 40 normal, mk 57 42 normal, mk
       59 52 normal, mk 59 45 normal, mk 59 38 normal, mk 59 31 normal, mk 60 52 normal, mk 60
       61 normal, mk 62 45 normal, mk 62 47 normal, mk 62 52 normal]"
  by (simp add: repBoards eval_defs board_eval)

lemma replay2_key:
  "fenBoard
     repBoard6
   @ '' '' @ [colorChar White] @ '' '' @ fenCastling allRights @ '' '' @ fenEp None
   = ''rnbqkb1r/pppppppp/5n2/8/8/3BP3/PPPP1PPP/RNBQK1NR w KQkq -''"
  by (simp add: repBoards key_eval board_eval)

lemma replay2_step:
  "makeMove replay1 (candidate 6 21) = Some (last (moveHistory replay2), replay2)"
  "stands replay2
     repBoard6
     White allRights None 6
     [(''rnbqkbnr/pppppppp/8/8/8/4P3/PPPP1PPP/RNBQKBNR w KQkq -'', 1 :: int),
       (''rnbqkbnr/pppppppp/8/8/8/3BP3/PPPP1PPP/RNBQK1NR b KQkq -'', 1),
       (''rnbqkb1r/pppppppp/5n2/8/8/3BP3/PPPP1PPP/RNBQK1NR w KQkq -'', 1)]"
  "fenCore replay2 = ''rnbqkb1r/pppppppp/5n2/8/8/3BP3/PPPP1PPP/RNBQK1NR w KQkq -''"
  "moveHistory replay2 = moveHistory replay1 @ [last (moveHistory replay2)]"
  "piece (last (moveHistory replay2)) = Some (Black, Knight)"
  "\<exists>x. fen (last (moveHistory replay2)) = toFEN x
     \<and> board x =
     repBoard6
     \<and> turn x = Black \<and> castlingRights x = allRights \<and> enPassantTarget x = None
     \<and> halfMoveClock x = 6"
  "\<not> isMate (last (moveHistory replay2))"
  "\<not> isStalemate (last (moveHistory replay2))"
proof -
  have fd: "find (candidateMatches (candidate 6 21))
              (filter (\<lambda>m. mfrom m = 6)
                 [mk 1 16 normal, mk 1 18 normal, mk 6 21 normal, mk 6 23 normal, mk 8 16
                   normal, mk 8 24 doublePush, mk 9 17 normal, mk 9 25 doublePush, mk 10 18
                   normal, mk 10 26 doublePush, mk 11 19 normal, mk 11 27 doublePush, mk 12 20
                   normal, mk 12 28 doublePush, mk 13 21 normal, mk 13 29 doublePush, mk 14 22
                   normal, mk 14 30 doublePush, mk 15 23 normal, mk 15 31 doublePush])
            = Some (mk 6 21 normal)"
    by (simp add: candidateMatches_def cand_sel board_eval)
  have b: "applyMoveToBoard
     repBoard5
     (mk 6 21 normal) =
     repBoard6"
    by (simp add: repBoards board_eval)
  have tn: "opp (color (cell
     repBoard5
     6)) = White"
    by (simp add: repBoards board_eval opp_def color_def)
  have cr: "updateRights (cell
     repBoard5
     6) (mfrom (mk 6 21 normal)) allRights = allRights"
    by (simp add: repBoards board_eval updateRights_def ptype_def color_def Let_def)
  have ep: "newEnPassant (cell
     repBoard5
     6) (mk 6 21 normal) = None"
    by (simp add: repBoards board_eval newEnPassant_def color_def)
  have hm: "(if ptype (cell
     repBoard5
     6) = Some Pawn \<or> cell
     repBoard5
     21 \<noteq> None \<or> mtype (mk 6 21 normal) = enPassant
               then 0 else 5 + 1) = (6 :: int)"
    by (simp add: repBoards board_eval ptype_def)
  have nx: "legalMovesB
     repBoard6
     White allRights None \<noteq> []"
    unfolding replay2_legal by simp
  have h: "(6 :: int) < 100" by simp
  have pm: "bump ''rnbqkb1r/pppppppp/5n2/8/8/3BP3/PPPP1PPP/RNBQK1NR w KQkq -''
       [(''rnbqkbnr/pppppppp/8/8/8/4P3/PPPP1PPP/RNBQKBNR w KQkq -'', 1 :: int),
         (''rnbqkbnr/pppppppp/8/8/8/3BP3/PPPP1PPP/RNBQK1NR b KQkq -'', 1)]
    =        [(''rnbqkbnr/pppppppp/8/8/8/4P3/PPPP1PPP/RNBQKBNR w KQkq -'', 1 :: int),
         (''rnbqkbnr/pppppppp/8/8/8/3BP3/PPPP1PPP/RNBQK1NR b KQkq -'', 1),
         (''rnbqkb1r/pppppppp/5n2/8/8/3BP3/PPPP1PPP/RNBQK1NR w KQkq -'', 1)]"
    by simp
  have small: "\<not> list_ex (\<lambda>kc. 3 \<le> snd kc)
       [(''rnbqkbnr/pppppppp/8/8/8/4P3/PPPP1PPP/RNBQKBNR w KQkq -'', 1 :: int),
         (''rnbqkbnr/pppppppp/8/8/8/3BP3/PPPP1PPP/RNBQK1NR b KQkq -'', 1),
         (''rnbqkb1r/pppppppp/5n2/8/8/3BP3/PPPP1PPP/RNBQK1NR w KQkq -'', 1)]"
    by simp
  have ins: "\<not> insufficientBoard
     repBoard6"
    by (simp add: repBoards insufficientBoard_def List.map_filter_simps)
  note r = commit_stands[OF replay1_step(2) replay1_legal fd b tn cr ep hm nx h replay2_key
      pm small ins, folded replay2_def]
  show "makeMove replay1 (candidate 6 21) = Some (last (moveHistory replay2), replay2)"
    by (rule r(1))
  show "stands replay2
     repBoard6
     White allRights None 6
     [(''rnbqkbnr/pppppppp/8/8/8/4P3/PPPP1PPP/RNBQKBNR w KQkq -'', 1 :: int),
       (''rnbqkbnr/pppppppp/8/8/8/3BP3/PPPP1PPP/RNBQK1NR b KQkq -'', 1),
       (''rnbqkb1r/pppppppp/5n2/8/8/3BP3/PPPP1PPP/RNBQK1NR w KQkq -'', 1)]"
    by (rule r(2))
  show "fenCore replay2 = ''rnbqkb1r/pppppppp/5n2/8/8/3BP3/PPPP1PPP/RNBQK1NR w KQkq -''" by (rule r(3))
  show "moveHistory replay2 = moveHistory replay1 @ [last (moveHistory replay2)]"
    by (rule r(4))
  show "piece (last (moveHistory replay2)) = Some (Black, Knight)"
    using r(5) by (simp add: repBoards board_eval)
  show "\<exists>x. fen (last (moveHistory replay2)) = toFEN x
     \<and> board x =
     repBoard6
     \<and> turn x = Black \<and> castlingRights x = allRights \<and> enPassantTarget x = None
     \<and> halfMoveClock x = 6"
    by (rule r(6))
  show "\<not> isMate (last (moveHistory replay2))"
    "\<not> isStalemate (last (moveHistory replay2))"
    by (rule r(7) r(8))+
qed

lemma replay3_legal:
  "legalMovesB
     repBoard7
     Black allRights None =
     [mk 1 16 normal, mk 1 18 normal, mk 7 6 normal, mk 8 16 normal, mk 8 24 doublePush, mk 9
       17 normal, mk 9 25 doublePush, mk 10 18 normal, mk 10 26 doublePush, mk 11 19 normal, mk
       11 27 doublePush, mk 12 20 normal, mk 12 28 doublePush, mk 14 22 normal, mk 14 30
       doublePush, mk 15 23 normal, mk 15 31 doublePush, mk 21 6 normal, mk 21 27 normal, mk 21
       31 normal, mk 21 36 normal, mk 21 38 normal]"
  by (simp add: repBoards eval_defs board_eval)

lemma replay3_key:
  "fenBoard
     repBoard7
   @ '' '' @ [colorChar Black] @ '' '' @ fenCastling allRights @ '' '' @ fenEp None
   = ''rnbqkb1r/pppppppp/5n2/8/8/4P3/PPPPBPPP/RNBQK1NR b KQkq -''"
  by (simp add: repBoards key_eval board_eval)

lemma replay3_step:
  "makeMove replay2 (candidate 43 52) = Some (last (moveHistory replay3), replay3)"
  "stands replay3
     repBoard7
     Black allRights None 7
     [(''rnbqkbnr/pppppppp/8/8/8/4P3/PPPP1PPP/RNBQKBNR w KQkq -'', 1 :: int),
       (''rnbqkbnr/pppppppp/8/8/8/3BP3/PPPP1PPP/RNBQK1NR b KQkq -'', 1),
       (''rnbqkb1r/pppppppp/5n2/8/8/3BP3/PPPP1PPP/RNBQK1NR w KQkq -'', 1),
       (''rnbqkb1r/pppppppp/5n2/8/8/4P3/PPPPBPPP/RNBQK1NR b KQkq -'', 1)]"
  "fenCore replay3 = ''rnbqkb1r/pppppppp/5n2/8/8/4P3/PPPPBPPP/RNBQK1NR b KQkq -''"
  "moveHistory replay3 = moveHistory replay2 @ [last (moveHistory replay3)]"
  "piece (last (moveHistory replay3)) = Some (White, Bishop)"
  "\<exists>x. fen (last (moveHistory replay3)) = toFEN x
     \<and> board x =
     repBoard7
     \<and> turn x = White \<and> castlingRights x = allRights \<and> enPassantTarget x = None
     \<and> halfMoveClock x = 7"
  "\<not> isMate (last (moveHistory replay3))"
  "\<not> isStalemate (last (moveHistory replay3))"
proof -
  have fd: "find (candidateMatches (candidate 43 52))
              (filter (\<lambda>m. mfrom m = 43)
                 [mk 43 34 normal, mk 43 25 normal, mk 43 16 normal, mk 43 36 normal, mk 43 29
                   normal, mk 43 22 normal, mk 43 15 capture, mk 43 52 normal, mk 43 61 normal,
                   mk 44 36 normal, mk 48 40 normal, mk 48 32 doublePush, mk 49 41 normal, mk
                   49 33 doublePush, mk 50 42 normal, mk 50 34 doublePush, mk 53 45 normal, mk
                   53 37 doublePush, mk 54 46 normal, mk 54 38 doublePush, mk 55 47 normal, mk
                   55 39 doublePush, mk 57 40 normal, mk 57 42 normal, mk 59 52 normal, mk 59
                   45 normal, mk 59 38 normal, mk 59 31 normal, mk 60 52 normal, mk 60 61
                   normal, mk 62 45 normal, mk 62 47 normal, mk 62 52 normal])
            = Some (mk 43 52 normal)"
    by (simp add: candidateMatches_def cand_sel board_eval)
  have b: "applyMoveToBoard
     repBoard6
     (mk 43 52 normal) =
     repBoard7"
    by (simp add: repBoards board_eval)
  have tn: "opp (color (cell
     repBoard6
     43)) = Black"
    by (simp add: repBoards board_eval opp_def color_def)
  have cr: "updateRights (cell
     repBoard6
     43) (mfrom (mk 43 52 normal)) allRights = allRights"
    by (simp add: repBoards board_eval updateRights_def ptype_def color_def Let_def)
  have ep: "newEnPassant (cell
     repBoard6
     43) (mk 43 52 normal) = None"
    by (simp add: repBoards board_eval newEnPassant_def color_def)
  have hm: "(if ptype (cell
     repBoard6
     43) = Some Pawn \<or> cell
     repBoard6
     52 \<noteq> None \<or> mtype (mk 43 52 normal) = enPassant
               then 0 else 6 + 1) = (7 :: int)"
    by (simp add: repBoards board_eval ptype_def)
  have nx: "legalMovesB
     repBoard7
     Black allRights None \<noteq> []"
    unfolding replay3_legal by simp
  have h: "(7 :: int) < 100" by simp
  have pm: "bump ''rnbqkb1r/pppppppp/5n2/8/8/4P3/PPPPBPPP/RNBQK1NR b KQkq -''
       [(''rnbqkbnr/pppppppp/8/8/8/4P3/PPPP1PPP/RNBQKBNR w KQkq -'', 1 :: int),
         (''rnbqkbnr/pppppppp/8/8/8/3BP3/PPPP1PPP/RNBQK1NR b KQkq -'', 1),
         (''rnbqkb1r/pppppppp/5n2/8/8/3BP3/PPPP1PPP/RNBQK1NR w KQkq -'', 1)]
    =        [(''rnbqkbnr/pppppppp/8/8/8/4P3/PPPP1PPP/RNBQKBNR w KQkq -'', 1 :: int),
         (''rnbqkbnr/pppppppp/8/8/8/3BP3/PPPP1PPP/RNBQK1NR b KQkq -'', 1),
         (''rnbqkb1r/pppppppp/5n2/8/8/3BP3/PPPP1PPP/RNBQK1NR w KQkq -'', 1),
         (''rnbqkb1r/pppppppp/5n2/8/8/4P3/PPPPBPPP/RNBQK1NR b KQkq -'', 1)]"
    by simp
  have small: "\<not> list_ex (\<lambda>kc. 3 \<le> snd kc)
       [(''rnbqkbnr/pppppppp/8/8/8/4P3/PPPP1PPP/RNBQKBNR w KQkq -'', 1 :: int),
         (''rnbqkbnr/pppppppp/8/8/8/3BP3/PPPP1PPP/RNBQK1NR b KQkq -'', 1),
         (''rnbqkb1r/pppppppp/5n2/8/8/3BP3/PPPP1PPP/RNBQK1NR w KQkq -'', 1),
         (''rnbqkb1r/pppppppp/5n2/8/8/4P3/PPPPBPPP/RNBQK1NR b KQkq -'', 1)]"
    by simp
  have ins: "\<not> insufficientBoard
     repBoard7"
    by (simp add: repBoards insufficientBoard_def List.map_filter_simps)
  note r = commit_stands[OF replay2_step(2) replay2_legal fd b tn cr ep hm nx h replay3_key
      pm small ins, folded replay3_def]
  show "makeMove replay2 (candidate 43 52) = Some (last (moveHistory replay3), replay3)"
    by (rule r(1))
  show "stands replay3
     repBoard7
     Black allRights None 7
     [(''rnbqkbnr/pppppppp/8/8/8/4P3/PPPP1PPP/RNBQKBNR w KQkq -'', 1 :: int),
       (''rnbqkbnr/pppppppp/8/8/8/3BP3/PPPP1PPP/RNBQK1NR b KQkq -'', 1),
       (''rnbqkb1r/pppppppp/5n2/8/8/3BP3/PPPP1PPP/RNBQK1NR w KQkq -'', 1),
       (''rnbqkb1r/pppppppp/5n2/8/8/4P3/PPPPBPPP/RNBQK1NR b KQkq -'', 1)]"
    by (rule r(2))
  show "fenCore replay3 = ''rnbqkb1r/pppppppp/5n2/8/8/4P3/PPPPBPPP/RNBQK1NR b KQkq -''" by (rule r(3))
  show "moveHistory replay3 = moveHistory replay2 @ [last (moveHistory replay3)]"
    by (rule r(4))
  show "piece (last (moveHistory replay3)) = Some (White, Bishop)"
    using r(5) by (simp add: repBoards board_eval)
  show "\<exists>x. fen (last (moveHistory replay3)) = toFEN x
     \<and> board x =
     repBoard7
     \<and> turn x = White \<and> castlingRights x = allRights \<and> enPassantTarget x = None
     \<and> halfMoveClock x = 7"
    by (rule r(6))
  show "\<not> isMate (last (moveHistory replay3))"
    "\<not> isStalemate (last (moveHistory replay3))"
    by (rule r(7) r(8))+
qed

lemma replay4_legal:
  "legalMovesB
     repBoard8
     White allRights None =
     [mk 44 36 normal, mk 48 40 normal, mk 48 32 doublePush, mk 49 41 normal, mk 49 33
       doublePush, mk 50 42 normal, mk 50 34 doublePush, mk 51 43 normal, mk 51 35 doublePush,
       mk 52 43 normal, mk 52 34 normal, mk 52 25 normal, mk 52 16 normal, mk 52 45 normal, mk
       52 38 normal, mk 52 31 normal, mk 52 61 normal, mk 53 45 normal, mk 53 37 doublePush, mk
       54 46 normal, mk 54 38 doublePush, mk 55 47 normal, mk 55 39 doublePush, mk 57 40
       normal, mk 57 42 normal, mk 60 61 normal, mk 62 45 normal, mk 62 47 normal]"
  by (simp add: repBoards eval_defs board_eval)

lemma replay4_key:
  "fenBoard
     repBoard8
   @ '' '' @ [colorChar White] @ '' '' @ fenCastling allRights @ '' '' @ fenEp None
   = ''rnbqkbnr/pppppppp/8/8/8/4P3/PPPPBPPP/RNBQK1NR w KQkq -''"
  by (simp add: repBoards key_eval board_eval)

lemma replay4_step:
  "makeMove replay3 (candidate 21 6) = Some (last (moveHistory replay4), replay4)"
  "stands replay4
     repBoard8
     White allRights None 8
     [(''rnbqkbnr/pppppppp/8/8/8/4P3/PPPP1PPP/RNBQKBNR w KQkq -'', 1 :: int),
       (''rnbqkbnr/pppppppp/8/8/8/3BP3/PPPP1PPP/RNBQK1NR b KQkq -'', 1),
       (''rnbqkb1r/pppppppp/5n2/8/8/3BP3/PPPP1PPP/RNBQK1NR w KQkq -'', 1),
       (''rnbqkb1r/pppppppp/5n2/8/8/4P3/PPPPBPPP/RNBQK1NR b KQkq -'', 1),
       (''rnbqkbnr/pppppppp/8/8/8/4P3/PPPPBPPP/RNBQK1NR w KQkq -'', 1)]"
  "fenCore replay4 = ''rnbqkbnr/pppppppp/8/8/8/4P3/PPPPBPPP/RNBQK1NR w KQkq -''"
  "moveHistory replay4 = moveHistory replay3 @ [last (moveHistory replay4)]"
  "piece (last (moveHistory replay4)) = Some (Black, Knight)"
  "\<exists>x. fen (last (moveHistory replay4)) = toFEN x
     \<and> board x =
     repBoard8
     \<and> turn x = Black \<and> castlingRights x = allRights \<and> enPassantTarget x = None
     \<and> halfMoveClock x = 8"
  "\<not> isMate (last (moveHistory replay4))"
  "\<not> isStalemate (last (moveHistory replay4))"
proof -
  have fd: "find (candidateMatches (candidate 21 6))
              (filter (\<lambda>m. mfrom m = 21)
                 [mk 1 16 normal, mk 1 18 normal, mk 7 6 normal, mk 8 16 normal, mk 8 24
                   doublePush, mk 9 17 normal, mk 9 25 doublePush, mk 10 18 normal, mk 10 26
                   doublePush, mk 11 19 normal, mk 11 27 doublePush, mk 12 20 normal, mk 12 28
                   doublePush, mk 14 22 normal, mk 14 30 doublePush, mk 15 23 normal, mk 15 31
                   doublePush, mk 21 6 normal, mk 21 27 normal, mk 21 31 normal, mk 21 36
                   normal, mk 21 38 normal])
            = Some (mk 21 6 normal)"
    by (simp add: candidateMatches_def cand_sel board_eval)
  have b: "applyMoveToBoard
     repBoard7
     (mk 21 6 normal) =
     repBoard8"
    by (simp add: repBoards board_eval)
  have tn: "opp (color (cell
     repBoard7
     21)) = White"
    by (simp add: repBoards board_eval opp_def color_def)
  have cr: "updateRights (cell
     repBoard7
     21) (mfrom (mk 21 6 normal)) allRights = allRights"
    by (simp add: repBoards board_eval updateRights_def ptype_def color_def Let_def)
  have ep: "newEnPassant (cell
     repBoard7
     21) (mk 21 6 normal) = None"
    by (simp add: repBoards board_eval newEnPassant_def color_def)
  have hm: "(if ptype (cell
     repBoard7
     21) = Some Pawn \<or> cell
     repBoard7
     6 \<noteq> None \<or> mtype (mk 21 6 normal) = enPassant
               then 0 else 7 + 1) = (8 :: int)"
    by (simp add: repBoards board_eval ptype_def)
  have nx: "legalMovesB
     repBoard8
     White allRights None \<noteq> []"
    unfolding replay4_legal by simp
  have h: "(8 :: int) < 100" by simp
  have pm: "bump ''rnbqkbnr/pppppppp/8/8/8/4P3/PPPPBPPP/RNBQK1NR w KQkq -''
       [(''rnbqkbnr/pppppppp/8/8/8/4P3/PPPP1PPP/RNBQKBNR w KQkq -'', 1 :: int),
         (''rnbqkbnr/pppppppp/8/8/8/3BP3/PPPP1PPP/RNBQK1NR b KQkq -'', 1),
         (''rnbqkb1r/pppppppp/5n2/8/8/3BP3/PPPP1PPP/RNBQK1NR w KQkq -'', 1),
         (''rnbqkb1r/pppppppp/5n2/8/8/4P3/PPPPBPPP/RNBQK1NR b KQkq -'', 1)]
    =        [(''rnbqkbnr/pppppppp/8/8/8/4P3/PPPP1PPP/RNBQKBNR w KQkq -'', 1 :: int),
         (''rnbqkbnr/pppppppp/8/8/8/3BP3/PPPP1PPP/RNBQK1NR b KQkq -'', 1),
         (''rnbqkb1r/pppppppp/5n2/8/8/3BP3/PPPP1PPP/RNBQK1NR w KQkq -'', 1),
         (''rnbqkb1r/pppppppp/5n2/8/8/4P3/PPPPBPPP/RNBQK1NR b KQkq -'', 1),
         (''rnbqkbnr/pppppppp/8/8/8/4P3/PPPPBPPP/RNBQK1NR w KQkq -'', 1)]"
    by simp
  have small: "\<not> list_ex (\<lambda>kc. 3 \<le> snd kc)
       [(''rnbqkbnr/pppppppp/8/8/8/4P3/PPPP1PPP/RNBQKBNR w KQkq -'', 1 :: int),
         (''rnbqkbnr/pppppppp/8/8/8/3BP3/PPPP1PPP/RNBQK1NR b KQkq -'', 1),
         (''rnbqkb1r/pppppppp/5n2/8/8/3BP3/PPPP1PPP/RNBQK1NR w KQkq -'', 1),
         (''rnbqkb1r/pppppppp/5n2/8/8/4P3/PPPPBPPP/RNBQK1NR b KQkq -'', 1),
         (''rnbqkbnr/pppppppp/8/8/8/4P3/PPPPBPPP/RNBQK1NR w KQkq -'', 1)]"
    by simp
  have ins: "\<not> insufficientBoard
     repBoard8"
    by (simp add: repBoards insufficientBoard_def List.map_filter_simps)
  note r = commit_stands[OF replay3_step(2) replay3_legal fd b tn cr ep hm nx h replay4_key
      pm small ins, folded replay4_def]
  show "makeMove replay3 (candidate 21 6) = Some (last (moveHistory replay4), replay4)"
    by (rule r(1))
  show "stands replay4
     repBoard8
     White allRights None 8
     [(''rnbqkbnr/pppppppp/8/8/8/4P3/PPPP1PPP/RNBQKBNR w KQkq -'', 1 :: int),
       (''rnbqkbnr/pppppppp/8/8/8/3BP3/PPPP1PPP/RNBQK1NR b KQkq -'', 1),
       (''rnbqkb1r/pppppppp/5n2/8/8/3BP3/PPPP1PPP/RNBQK1NR w KQkq -'', 1),
       (''rnbqkb1r/pppppppp/5n2/8/8/4P3/PPPPBPPP/RNBQK1NR b KQkq -'', 1),
       (''rnbqkbnr/pppppppp/8/8/8/4P3/PPPPBPPP/RNBQK1NR w KQkq -'', 1)]"
    by (rule r(2))
  show "fenCore replay4 = ''rnbqkbnr/pppppppp/8/8/8/4P3/PPPPBPPP/RNBQK1NR w KQkq -''" by (rule r(3))
  show "moveHistory replay4 = moveHistory replay3 @ [last (moveHistory replay4)]"
    by (rule r(4))
  show "piece (last (moveHistory replay4)) = Some (Black, Knight)"
    using r(5) by (simp add: repBoards board_eval)
  show "\<exists>x. fen (last (moveHistory replay4)) = toFEN x
     \<and> board x =
     repBoard8
     \<and> turn x = Black \<and> castlingRights x = allRights \<and> enPassantTarget x = None
     \<and> halfMoveClock x = 8"
    by (rule r(6))
  show "\<not> isMate (last (moveHistory replay4))"
    "\<not> isStalemate (last (moveHistory replay4))"
    by (rule r(7) r(8))+
qed

lemma replay5_legal:
  "legalMovesB
     repBoard1
     Black allRights None =
     [mk 1 16 normal, mk 1 18 normal, mk 6 21 normal, mk 6 23 normal, mk 8 16 normal, mk 8 24
       doublePush, mk 9 17 normal, mk 9 25 doublePush, mk 10 18 normal, mk 10 26 doublePush, mk
       11 19 normal, mk 11 27 doublePush, mk 12 20 normal, mk 12 28 doublePush, mk 13 21
       normal, mk 13 29 doublePush, mk 14 22 normal, mk 14 30 doublePush, mk 15 23 normal, mk
       15 31 doublePush]"
  by (simp add: repBoards eval_defs board_eval)

lemma replay5_key:
  "fenBoard
     repBoard1
   @ '' '' @ [colorChar Black] @ '' '' @ fenCastling allRights @ '' '' @ fenEp None
   = ''rnbqkbnr/pppppppp/8/8/8/4P3/PPPP1PPP/RNBQKBNR b KQkq -''"
  by (simp add: repBoards key_eval board_eval)

lemma replay5_step:
  "makeMove replay4 (candidate 52 61) = Some (last (moveHistory replay5), replay5)"
  "stands replay5
     repBoard1
     Black allRights None 9
     [(''rnbqkbnr/pppppppp/8/8/8/4P3/PPPP1PPP/RNBQKBNR w KQkq -'', 1 :: int),
       (''rnbqkbnr/pppppppp/8/8/8/3BP3/PPPP1PPP/RNBQK1NR b KQkq -'', 1),
       (''rnbqkb1r/pppppppp/5n2/8/8/3BP3/PPPP1PPP/RNBQK1NR w KQkq -'', 1),
       (''rnbqkb1r/pppppppp/5n2/8/8/4P3/PPPPBPPP/RNBQK1NR b KQkq -'', 1),
       (''rnbqkbnr/pppppppp/8/8/8/4P3/PPPPBPPP/RNBQK1NR w KQkq -'', 1),
       (''rnbqkbnr/pppppppp/8/8/8/4P3/PPPP1PPP/RNBQKBNR b KQkq -'', 1)]"
  "fenCore replay5 = ''rnbqkbnr/pppppppp/8/8/8/4P3/PPPP1PPP/RNBQKBNR b KQkq -''"
  "moveHistory replay5 = moveHistory replay4 @ [last (moveHistory replay5)]"
  "piece (last (moveHistory replay5)) = Some (White, Bishop)"
  "\<exists>x. fen (last (moveHistory replay5)) = toFEN x
     \<and> board x =
     repBoard1
     \<and> turn x = White \<and> castlingRights x = allRights \<and> enPassantTarget x = None
     \<and> halfMoveClock x = 9"
  "\<not> isMate (last (moveHistory replay5))"
  "\<not> isStalemate (last (moveHistory replay5))"
proof -
  have fd: "find (candidateMatches (candidate 52 61))
              (filter (\<lambda>m. mfrom m = 52)
                 [mk 44 36 normal, mk 48 40 normal, mk 48 32 doublePush, mk 49 41 normal, mk 49
                   33 doublePush, mk 50 42 normal, mk 50 34 doublePush, mk 51 43 normal, mk 51
                   35 doublePush, mk 52 43 normal, mk 52 34 normal, mk 52 25 normal, mk 52 16
                   normal, mk 52 45 normal, mk 52 38 normal, mk 52 31 normal, mk 52 61 normal,
                   mk 53 45 normal, mk 53 37 doublePush, mk 54 46 normal, mk 54 38 doublePush,
                   mk 55 47 normal, mk 55 39 doublePush, mk 57 40 normal, mk 57 42 normal, mk
                   60 61 normal, mk 62 45 normal, mk 62 47 normal])
            = Some (mk 52 61 normal)"
    by (simp add: candidateMatches_def cand_sel board_eval)
  have b: "applyMoveToBoard
     repBoard8
     (mk 52 61 normal) =
     repBoard1"
    by (simp add: repBoards board_eval)
  have tn: "opp (color (cell
     repBoard8
     52)) = Black"
    by (simp add: repBoards board_eval opp_def color_def)
  have cr: "updateRights (cell
     repBoard8
     52) (mfrom (mk 52 61 normal)) allRights = allRights"
    by (simp add: repBoards board_eval updateRights_def ptype_def color_def Let_def)
  have ep: "newEnPassant (cell
     repBoard8
     52) (mk 52 61 normal) = None"
    by (simp add: repBoards board_eval newEnPassant_def color_def)
  have hm: "(if ptype (cell
     repBoard8
     52) = Some Pawn \<or> cell
     repBoard8
     61 \<noteq> None \<or> mtype (mk 52 61 normal) = enPassant
               then 0 else 8 + 1) = (9 :: int)"
    by (simp add: repBoards board_eval ptype_def)
  have nx: "legalMovesB
     repBoard1
     Black allRights None \<noteq> []"
    unfolding replay5_legal by simp
  have h: "(9 :: int) < 100" by simp
  have pm: "bump ''rnbqkbnr/pppppppp/8/8/8/4P3/PPPP1PPP/RNBQKBNR b KQkq -''
       [(''rnbqkbnr/pppppppp/8/8/8/4P3/PPPP1PPP/RNBQKBNR w KQkq -'', 1 :: int),
         (''rnbqkbnr/pppppppp/8/8/8/3BP3/PPPP1PPP/RNBQK1NR b KQkq -'', 1),
         (''rnbqkb1r/pppppppp/5n2/8/8/3BP3/PPPP1PPP/RNBQK1NR w KQkq -'', 1),
         (''rnbqkb1r/pppppppp/5n2/8/8/4P3/PPPPBPPP/RNBQK1NR b KQkq -'', 1),
         (''rnbqkbnr/pppppppp/8/8/8/4P3/PPPPBPPP/RNBQK1NR w KQkq -'', 1)]
    =        [(''rnbqkbnr/pppppppp/8/8/8/4P3/PPPP1PPP/RNBQKBNR w KQkq -'', 1 :: int),
         (''rnbqkbnr/pppppppp/8/8/8/3BP3/PPPP1PPP/RNBQK1NR b KQkq -'', 1),
         (''rnbqkb1r/pppppppp/5n2/8/8/3BP3/PPPP1PPP/RNBQK1NR w KQkq -'', 1),
         (''rnbqkb1r/pppppppp/5n2/8/8/4P3/PPPPBPPP/RNBQK1NR b KQkq -'', 1),
         (''rnbqkbnr/pppppppp/8/8/8/4P3/PPPPBPPP/RNBQK1NR w KQkq -'', 1),
         (''rnbqkbnr/pppppppp/8/8/8/4P3/PPPP1PPP/RNBQKBNR b KQkq -'', 1)]"
    by simp
  have small: "\<not> list_ex (\<lambda>kc. 3 \<le> snd kc)
       [(''rnbqkbnr/pppppppp/8/8/8/4P3/PPPP1PPP/RNBQKBNR w KQkq -'', 1 :: int),
         (''rnbqkbnr/pppppppp/8/8/8/3BP3/PPPP1PPP/RNBQK1NR b KQkq -'', 1),
         (''rnbqkb1r/pppppppp/5n2/8/8/3BP3/PPPP1PPP/RNBQK1NR w KQkq -'', 1),
         (''rnbqkb1r/pppppppp/5n2/8/8/4P3/PPPPBPPP/RNBQK1NR b KQkq -'', 1),
         (''rnbqkbnr/pppppppp/8/8/8/4P3/PPPPBPPP/RNBQK1NR w KQkq -'', 1),
         (''rnbqkbnr/pppppppp/8/8/8/4P3/PPPP1PPP/RNBQKBNR b KQkq -'', 1)]"
    by simp
  have ins: "\<not> insufficientBoard
     repBoard1"
    by (simp add: repBoards insufficientBoard_def List.map_filter_simps)
  note r = commit_stands[OF replay4_step(2) replay4_legal fd b tn cr ep hm nx h replay5_key
      pm small ins, folded replay5_def]
  show "makeMove replay4 (candidate 52 61) = Some (last (moveHistory replay5), replay5)"
    by (rule r(1))
  show "stands replay5
     repBoard1
     Black allRights None 9
     [(''rnbqkbnr/pppppppp/8/8/8/4P3/PPPP1PPP/RNBQKBNR w KQkq -'', 1 :: int),
       (''rnbqkbnr/pppppppp/8/8/8/3BP3/PPPP1PPP/RNBQK1NR b KQkq -'', 1),
       (''rnbqkb1r/pppppppp/5n2/8/8/3BP3/PPPP1PPP/RNBQK1NR w KQkq -'', 1),
       (''rnbqkb1r/pppppppp/5n2/8/8/4P3/PPPPBPPP/RNBQK1NR b KQkq -'', 1),
       (''rnbqkbnr/pppppppp/8/8/8/4P3/PPPPBPPP/RNBQK1NR w KQkq -'', 1),
       (''rnbqkbnr/pppppppp/8/8/8/4P3/PPPP1PPP/RNBQKBNR b KQkq -'', 1)]"
    by (rule r(2))
  show "fenCore replay5 = ''rnbqkbnr/pppppppp/8/8/8/4P3/PPPP1PPP/RNBQKBNR b KQkq -''" by (rule r(3))
  show "moveHistory replay5 = moveHistory replay4 @ [last (moveHistory replay5)]"
    by (rule r(4))
  show "piece (last (moveHistory replay5)) = Some (White, Bishop)"
    using r(5) by (simp add: repBoards board_eval)
  show "\<exists>x. fen (last (moveHistory replay5)) = toFEN x
     \<and> board x =
     repBoard1
     \<and> turn x = White \<and> castlingRights x = allRights \<and> enPassantTarget x = None
     \<and> halfMoveClock x = 9"
    by (rule r(6))
  show "\<not> isMate (last (moveHistory replay5))"
    "\<not> isStalemate (last (moveHistory replay5))"
    by (rule r(7) r(8))+
qed

lemma lookup_eval:
  "lookupCount [] k = 0"
  "lookupCount ((k', c) # pm) k = (if k = k' then c else lookupCount pm k)"
  by (simp_all add: lookupCount_def)

text \<open>
  Claim C4 fails on the code once a move has been undone. From the start position the
  moves 1. e3 Nf6 2. Nf3 Ng8 3. Ng1 bring the position after 1. e3 (Black to move) back
  a second time, and the position history counts it twice. After 3... Nf6 and an
  \<open>undoMove\<close>, which rebuilds the engine through \<open>loadFEN\<close> and so empties the position
  history (and leaves White to move), the moves Bd3 Nf6 Be2 Ng8 Bf1 are all committed
  and record that same key a third time. The side to move is neither mated nor
  stalemated and the half-move clock is below 100, yet the game goes on: the history
  holds the key with a count of one.
\<close>

theorem threefold_missed_after_undo:
  "makeMove reset (candidate 52 44) = Some (last (moveHistory shuffle1), shuffle1)
   \<and> makeMove shuffle1 (candidate 6 21) = Some (last (moveHistory shuffle2), shuffle2)
   \<and> makeMove shuffle2 (candidate 62 45) = Some (last (moveHistory shuffle3), shuffle3)
   \<and> makeMove shuffle3 (candidate 21 6) = Some (last (moveHistory shuffle4), shuffle4)
   \<and> makeMove shuffle4 (candidate 45 62) = Some (last (moveHistory shuffle5), shuffle5)
   \<and> makeMove shuffle5 (candidate 6 21) = Some (last (moveHistory shuffle6), shuffle6)
   \<and> undoMove shuffle6 = Inr (Some (last (moveHistory shuffle6)), shuffleU)
   \<and> makeMove shuffleU (candidate 61 43) = Some (last (moveHistory replay1), replay1)
   \<and> makeMove replay1 (candidate 6 21) = Some (last (moveHistory replay2), replay2)
   \<and> makeMove replay2 (candidate 43 52) = Some (last (moveHistory replay3), replay3)
   \<and> makeMove replay3 (candidate 21 6) = Some (last (moveHistory replay4), replay4)
   \<and> makeMove replay4 (candidate 52 61) = Some (last (moveHistory replay5), replay5)
   \<and> fenCore shuffle1 = ''rnbqkbnr/pppppppp/8/8/8/4P3/PPPP1PPP/RNBQKBNR b KQkq -''
   \<and> fenCore shuffle5 = fenCore shuffle1
   \<and> lookupCount (positionMap shuffle5) (fenCore shuffle5) = 2
   \<and> fenCore replay5 = fenCore shuffle1
   \<and> \<not> isMate (last (moveHistory replay5)) \<and> \<not> isStalemate (last (moveHistory replay5))
   \<and> halfMoveClock replay5 < 100
   \<and> \<not> gameOver replay5 \<and> gameResult replay5 = None
   \<and> lookupCount (positionMap replay5) (fenCore replay5) = 1"
proof -
  have a: "lookupCount (positionMap shuffle5) (fenCore shuffle5) = 2"
    using shuffle5_step(2) unfolding shuffle5_step(3) by (simp add: stands_def lookup_eval)
  have b: "lookupCount (positionMap replay5) (fenCore replay5) = 1"
    using replay5_step(2) unfolding replay5_step(3) by (simp add: stands_def lookup_eval)
  have c: "halfMoveClock replay5 < 100" "\<not> gameOver replay5" "gameResult replay5 = None"
    using replay5_step(2) by (simp_all add: stands_def)
  have k: "fenCore shuffle5 = fenCore shuffle1" "fenCore replay5 = fenCore shuffle1"
    unfolding shuffle1_step(3) shuffle5_step(3) replay5_step(3) by simp_all
  show ?thesis
    by (intro conjI shuffle1_step(1) shuffle2_step(1) shuffle3_step(1) shuffle4_step(1)
        shuffle5_step(1) shuffle6_step(1) shuffleU_step(1) replay1_step(1) replay2_step(1)
        replay3_step(1) replay4_step(1) replay5_step(1) shuffle1_step(3) k a b c
        replay5_step(7) replay5_step(8))
qed

section \<open>The evaluator and the endgame table\<close>

lemma pieceValue_nonneg: "0 \<le> pieceValue k"
  by (cases k) (simp_all add: pieceValue_def)

lemma totalMat_ge_member:
  "Some p \<in> set b \<Longrightarrow> pieceValue (snd p) \<le> totalMat b"
proof (induction b)
  case Nil
  then show ?case by simp
next
  case (Cons x xs)
  have nn: "0 \<le> totalMat ys" for ys
    unfolding totalMat_def
    by (rule sum_list_nonneg) (auto simp: pieceValue_nonneg split: option.splits)
  show ?case
  proof (cases "x = Some p")
    case True
    then show ?thesis using nn[of xs] by (simp add: totalMat_def)
  next
    case False
    with Cons have "pieceValue (snd p) \<le> totalMat xs" by simp
    moreover have "0 \<le> (case x of None \<Rightarrow> 0 | Some q \<Rightarrow> pieceValue (snd q))"
      by (simp add: pieceValue_nonneg split: option.splits)
    ultimately show ?thesis by (simp add: totalMat_def)
  qed
qed

text \<open>
  Claim C9. On a board that holds at least one king, \<open>evaluate\<close> never selects the
  endgame king table: the total material counts the 20000 of each king, so it is
  never below the threshold 1500, the endgame flag is false, and every piece (every
  king too) is scored with the table of its own kind.
\<close>

theorem evaluate_never_endgame_table:
  "Some (c, King) \<in> set (board s) \<Longrightarrow>
     20000 \<le> totalMat (board s) \<and> \<not> isEndgame (board s)
     \<and> tableKeyOf k (isEndgame (board s)) = Table k
     \<and> pieceScore (board s) i =
         (case cell (board s) i of
            None \<Rightarrow> 0
          | Some p \<Rightarrow>
              (if fst p = White then 1 else - 1)
              * (pieceValue (snd p)
                 + tableAt (PST (Table (snd p)))
                     (min (if fst p = White then i else 56 - row i * 8 + col i) 63)))"
proof -
  assume k: "Some (c, King) \<in> set (board s)"
  have "pieceValue King \<le> totalMat (board s)"
    using totalMat_ge_member[OF k] by simp
  then have t: "20000 \<le> totalMat (board s)" by (simp add: pieceValue_def)
  then have e: "\<not> isEndgame (board s)" by (simp add: isEndgame_def)
  show ?thesis using t e
    by (simp add: tableKeyOf_def pieceScore_def Let_def split: option.splits)
qed

lemma board_reset: "board reset = startBoard"
  by (simp add: reset_def recordPosition_def)

theorem evaluate_never_endgame_table_witness:
  "Some (White, King) \<in> set (board reset) \<and> \<not> isEndgame (board reset)
   \<and> tableKeyOf King (isEndgame (board reset)) = Table King"
proof -
  have k: "Some (White, King) \<in> set (board reset)"
    by (simp add: board_reset startBoard_def)
  show ?thesis using k evaluate_never_endgame_table[OF k, of King 60] by blast
qed

section \<open>The search restores the engine\<close>

lemma restore_apply: "restoreState (applyMoveFull e m) (saveState e) = e"
  by (simp add: restoreState_def applyMoveFull_def saveState_def Let_def)

lemma loopMax_frame:
  "(\<And>e' a b. snd (rec e' a b) = e') \<Longrightarrow> snd (loopMax rec ms e alpha beta best) = e"
  by (induction ms arbitrary: alpha best) (simp_all add: Let_def restore_apply)

lemma loopMin_frame:
  "(\<And>e' a b. snd (rec e' a b) = e') \<Longrightarrow> snd (loopMin rec ms e alpha beta best) = e"
  by (induction ms arbitrary: beta best) (simp_all add: Let_def restore_apply)

lemma minimax_frame: "snd (minimax e d alpha beta isMax) = e"
proof (induction d arbitrary: e alpha beta isMax)
  case 0
  then show ?case by simp
next
  case (Suc d)
  show ?case
    by (simp add: Let_def loopMax_frame[where rec="\<lambda>e' a b. minimax e' d a b False", OF Suc]
        loopMin_frame[where rec="\<lambda>e' a b. minimax e' d a b True", OF Suc])
qed

lemma rootLoop_frame: "snd (rootLoop maxDepth isMax ms e bm bs) = e"
  by (induction ms arbitrary: bm bs) (simp_all add: Let_def minimax_frame restore_apply)

text \<open>
  Claim C10. \<open>getBestMove\<close> leaves the engine as it found it: board, turn, castling
  rights, en-passant target, both clocks, \<open>gameOver\<close> and \<open>gameResult\<close> (and the two
  fields the search never writes) have their values from before the call, for every
  engine state, every search depth and every outcome of the shuffle.
\<close>

theorem getBestMove_frame:
  "snd (getBestMove rnd maxDepth e) = e
   \<and> board (snd (getBestMove rnd maxDepth e)) = board e
   \<and> turn (snd (getBestMove rnd maxDepth e)) = turn e
   \<and> castlingRights (snd (getBestMove rnd maxDepth e)) = castlingRights e
   \<and> enPassantTarget (snd (getBestMove rnd maxDepth e)) = enPassantTarget e
   \<and> halfMoveClock (snd (getBestMove rnd maxDepth e)) = halfMoveClock e
   \<and> fullMoveNumber (snd (getBestMove rnd maxDepth e)) = fullMoveNumber e
   \<and> gameOver (snd (getBestMove rnd maxDepth e)) = gameOver e
   \<and> gameResult (snd (getBestMove rnd maxDepth e)) = gameResult e"
proof -
  have "snd (getBestMove rnd maxDepth e) = e"
    by (simp add: getBestMove_def Let_def rootLoop_frame)
  then show ?thesis by simp
qed

section \<open>Alpha-beta search against full minimax\<close>

lemma foldl_max_shift: "foldl max (max a b) vs = max b (foldl max a (vs :: score list))"
  by (induction vs arbitrary: a b) (simp_all add: max.assoc max.left_commute max.commute)

lemma foldl_max_ge: "a \<le> foldl max a (vs :: score list)"
  by (induction vs arbitrary: a) (simp_all add: foldl_max_shift max.coboundedI2)

lemma foldl_min_shift: "foldl min (min a b) vs = min b (foldl min a (vs :: score list))"
  by (induction vs arbitrary: a b) (simp_all add: min.assoc min.left_commute min.commute)

lemma foldl_min_le: "foldl min a (vs :: score list) \<le> a"
  by (induction vs arbitrary: a) (simp_all add: foldl_min_shift min.coboundedI2)

lemma loopMax_ge:
  "best \<le> fst (loopMax rec ms e alpha beta best)"
proof (induction ms arbitrary: e alpha best)
  case Nil
  then show ?case by simp
next
  case (Cons m ms)
  show ?case
    using Cons.IH
    by (simp add: Let_def) (meson max.cobounded1 order_trans)
qed

lemma step_cut:
  fixes r1 v1 W a b best :: score
  assumes "(r1 \<le> a \<longrightarrow> v1 \<le> r1) \<and> (b \<le> r1 \<longrightarrow> r1 \<le> v1) \<and> (a < r1 \<and> r1 < b \<longrightarrow> r1 = v1)"
    and "a < b" "best \<le> a" "best \<le> W" "b \<le> max a (max best r1)"
  shows "(max best r1 \<le> a \<longrightarrow> max v1 W \<le> max best r1)
       \<and> (b \<le> max best r1 \<longrightarrow> max best r1 \<le> max v1 W)
       \<and> (a < max best r1 \<and> max best r1 < b \<longrightarrow> max best r1 = max v1 W)"
  using assms by (auto simp: max_def split: if_splits)

lemma step_go:
  fixes r1 v1 W a b best res :: score
  assumes "(r1 \<le> a \<longrightarrow> v1 \<le> r1) \<and> (b \<le> r1 \<longrightarrow> r1 \<le> v1) \<and> (a < r1 \<and> r1 < b \<longrightarrow> r1 = v1)"
    and "a < b" "best \<le> a" "best \<le> W" "\<not> b \<le> max a (max best r1)"
    and "max best r1 \<le> res"
    and "(res \<le> max a (max best r1) \<longrightarrow> max r1 W \<le> res)
       \<and> (b \<le> res \<longrightarrow> res \<le> max r1 W)
       \<and> (max a (max best r1) < res \<and> res < b \<longrightarrow> res = max r1 W)"
  shows "(res \<le> a \<longrightarrow> max v1 W \<le> res)
       \<and> (b \<le> res \<longrightarrow> res \<le> max v1 W)
       \<and> (a < res \<and> res < b \<longrightarrow> res = max v1 W)"
  using assms by (auto simp: max_def split: if_splits)

lemma loopMin_le:
  "fst (loopMin rec ms e alpha beta best) \<le> best"
proof (induction ms arbitrary: e beta best)
  case Nil
  then show ?case by simp
next
  case (Cons m ms)
  show ?case
    using Cons.IH
    by (simp add: Let_def) (meson min.cobounded1 order_trans)
qed

lemma step_cut_min:
  fixes r1 v1 W a b best :: score
  assumes "(r1 \<le> a \<longrightarrow> v1 \<le> r1) \<and> (b \<le> r1 \<longrightarrow> r1 \<le> v1) \<and> (a < r1 \<and> r1 < b \<longrightarrow> r1 = v1)"
    and "a < b" "b \<le> best" "W \<le> best" "min b (min best r1) \<le> a"
  shows "(min best r1 \<le> a \<longrightarrow> min v1 W \<le> min best r1)
       \<and> (b \<le> min best r1 \<longrightarrow> min best r1 \<le> min v1 W)
       \<and> (a < min best r1 \<and> min best r1 < b \<longrightarrow> min best r1 = min v1 W)"
  using assms by (auto simp: min_def split: if_splits)

lemma step_go_min:
  fixes r1 v1 W a b best res :: score
  assumes "(r1 \<le> a \<longrightarrow> v1 \<le> r1) \<and> (b \<le> r1 \<longrightarrow> r1 \<le> v1) \<and> (a < r1 \<and> r1 < b \<longrightarrow> r1 = v1)"
    and "a < b" "b \<le> best" "W \<le> best" "\<not> min b (min best r1) \<le> a"
    and "res \<le> min best r1"
    and "(res \<le> a \<longrightarrow> min r1 W \<le> res)
       \<and> (min b (min best r1) \<le> res \<longrightarrow> res \<le> min r1 W)
       \<and> (a < res \<and> res < min b (min best r1) \<longrightarrow> res = min r1 W)"
  shows "(res \<le> a \<longrightarrow> min v1 W \<le> res)
       \<and> (b \<le> res \<longrightarrow> res \<le> min v1 W)
       \<and> (a < res \<and> res < b \<longrightarrow> res = min v1 W)"
  using assms by (auto simp: min_def split: if_splits)

lemma loopMax_window:
  assumes frame: "\<And>e' a b. snd (rec e' a b) = e'"
    and child: "\<And>m a b. a < b \<Longrightarrow>
           (fst (rec (applyMoveFull e m) a b) \<le> a \<longrightarrow> v m \<le> fst (rec (applyMoveFull e m) a b))
         \<and> (b \<le> fst (rec (applyMoveFull e m) a b) \<longrightarrow> fst (rec (applyMoveFull e m) a b) \<le> v m)
         \<and> (a < fst (rec (applyMoveFull e m) a b) \<and> fst (rec (applyMoveFull e m) a b) < b
              \<longrightarrow> fst (rec (applyMoveFull e m) a b) = v m)"
    and "alpha < beta" "best \<le> alpha"
  shows "(fst (loopMax rec ms e alpha beta best) \<le> alpha
            \<longrightarrow> foldl max best (map v ms) \<le> fst (loopMax rec ms e alpha beta best))
       \<and> (beta \<le> fst (loopMax rec ms e alpha beta best)
            \<longrightarrow> fst (loopMax rec ms e alpha beta best) \<le> foldl max best (map v ms))
       \<and> (alpha < fst (loopMax rec ms e alpha beta best)
            \<and> fst (loopMax rec ms e alpha beta best) < beta
            \<longrightarrow> fst (loopMax rec ms e alpha beta best) = foldl max best (map v ms))"
  using assms(3,4)
proof (induction ms arbitrary: alpha best)
  case Nil
  then show ?case by simp
next
  case (Cons m ms)
  let ?r1 = "fst (rec (applyMoveFull e m) alpha beta)"
  let ?W = "foldl max best (map v ms)"
  let ?bestN = "max best ?r1"
  let ?alphaN = "max alpha ?bestN"
  have restored: "restoreState (snd (rec (applyMoveFull e m) alpha beta)) (saveState e) = e"
    by (simp add: frame restore_apply)
  have c1: "(?r1 \<le> alpha \<longrightarrow> v m \<le> ?r1) \<and> (beta \<le> ?r1 \<longrightarrow> ?r1 \<le> v m)
            \<and> (alpha < ?r1 \<and> ?r1 < beta \<longrightarrow> ?r1 = v m)"
    using child[OF Cons.prems(1)] .
  have W: "best \<le> ?W" by (rule foldl_max_ge)
  have tgt: "foldl max best (map v (m # ms)) = max (v m) ?W"
    by (simp add: foldl_max_shift)
  show ?case
  proof (cases "beta \<le> ?alphaN")
    case True
    then have res: "fst (loopMax rec (m # ms) e alpha beta best) = ?bestN"
      by (simp add: Let_def)
    show ?thesis
      unfolding res tgt
      by (rule step_cut[OF c1 Cons.prems(1) Cons.prems(2) W True])
  next
    case False
    let ?res = "fst (loopMax rec ms e ?alphaN beta ?bestN)"
    from False have res: "fst (loopMax rec (m # ms) e alpha beta best) = ?res"
      by (simp add: Let_def restored)
    have lt: "?alphaN < beta" using False by (simp only: not_le)
    have le: "?bestN \<le> ?alphaN" by simp
    have ih: "(?res \<le> ?alphaN \<longrightarrow> foldl max ?bestN (map v ms) \<le> ?res)
       \<and> (beta \<le> ?res \<longrightarrow> ?res \<le> foldl max ?bestN (map v ms))
       \<and> (?alphaN < ?res \<and> ?res < beta \<longrightarrow> ?res = foldl max ?bestN (map v ms))"
      by (rule Cons.IH[OF lt le])
    have sh: "foldl max ?bestN (map v ms) = max ?r1 ?W"
      by (simp add: foldl_max_shift)
    have ge: "?bestN \<le> ?res" by (rule loopMax_ge)
    show ?thesis
      unfolding res tgt
      by (rule step_go[OF c1 Cons.prems(1) Cons.prems(2) W False ge ih[unfolded sh]])
  qed
qed

lemma loopMin_window:
  assumes frame: "\<And>e' a b. snd (rec e' a b) = e'"
    and child: "\<And>m a b. a < b \<Longrightarrow>
           (fst (rec (applyMoveFull e m) a b) \<le> a \<longrightarrow> v m \<le> fst (rec (applyMoveFull e m) a b))
         \<and> (b \<le> fst (rec (applyMoveFull e m) a b) \<longrightarrow> fst (rec (applyMoveFull e m) a b) \<le> v m)
         \<and> (a < fst (rec (applyMoveFull e m) a b) \<and> fst (rec (applyMoveFull e m) a b) < b
              \<longrightarrow> fst (rec (applyMoveFull e m) a b) = v m)"
    and "alpha < beta" "beta \<le> best"
  shows "(fst (loopMin rec ms e alpha beta best) \<le> alpha
            \<longrightarrow> foldl min best (map v ms) \<le> fst (loopMin rec ms e alpha beta best))
       \<and> (beta \<le> fst (loopMin rec ms e alpha beta best)
            \<longrightarrow> fst (loopMin rec ms e alpha beta best) \<le> foldl min best (map v ms))
       \<and> (alpha < fst (loopMin rec ms e alpha beta best)
            \<and> fst (loopMin rec ms e alpha beta best) < beta
            \<longrightarrow> fst (loopMin rec ms e alpha beta best) = foldl min best (map v ms))"
  using assms(3,4)
proof (induction ms arbitrary: beta best)
  case Nil
  then show ?case by simp
next
  case (Cons m ms)
  let ?r1 = "fst (rec (applyMoveFull e m) alpha beta)"
  let ?W = "foldl min best (map v ms)"
  let ?bestN = "min best ?r1"
  let ?betaN = "min beta ?bestN"
  have restored: "restoreState (snd (rec (applyMoveFull e m) alpha beta)) (saveState e) = e"
    by (simp add: frame restore_apply)
  have c1: "(?r1 \<le> alpha \<longrightarrow> v m \<le> ?r1) \<and> (beta \<le> ?r1 \<longrightarrow> ?r1 \<le> v m)
            \<and> (alpha < ?r1 \<and> ?r1 < beta \<longrightarrow> ?r1 = v m)"
    using child[OF Cons.prems(1)] .
  have W: "?W \<le> best" by (rule foldl_min_le)
  have tgt: "foldl min best (map v (m # ms)) = min (v m) ?W"
    by (simp add: foldl_min_shift)
  show ?case
  proof (cases "?betaN \<le> alpha")
    case True
    then have res: "fst (loopMin rec (m # ms) e alpha beta best) = ?bestN"
      by (simp add: Let_def)
    show ?thesis
      unfolding res tgt
      by (rule step_cut_min[OF c1 Cons.prems(1) Cons.prems(2) W True])
  next
    case False
    let ?res = "fst (loopMin rec ms e alpha ?betaN ?bestN)"
    from False have res: "fst (loopMin rec (m # ms) e alpha beta best) = ?res"
      by (simp add: Let_def restored)
    have lt: "alpha < ?betaN" using False by (simp only: not_le)
    have le: "?betaN \<le> ?bestN" by (rule min.cobounded2)
    have ih: "(?res \<le> alpha \<longrightarrow> foldl min ?bestN (map v ms) \<le> ?res)
       \<and> (?betaN \<le> ?res \<longrightarrow> ?res \<le> foldl min ?bestN (map v ms))
       \<and> (alpha < ?res \<and> ?res < ?betaN \<longrightarrow> ?res = foldl min ?bestN (map v ms))"
      by (rule Cons.IH[OF lt le])
    have sh: "foldl min ?bestN (map v ms) = min ?r1 ?W"
      by (simp add: foldl_min_shift)
    have ge: "?res \<le> ?bestN" by (rule loopMin_le)
    show ?thesis
      unfolding res tgt
      by (rule step_go_min[OF c1 Cons.prems(1) Cons.prems(2) W False ge ih[unfolded sh]])
  qed
qed

lemma NegInf_least: "NegInf \<le> (x :: score)"
  by simp

lemma PosInf_greatest: "(x :: score) \<le> PosInf"
  by (cases x) simp_all

lemma minimax_window:
  "alpha < beta \<Longrightarrow>
     (fst (minimax e d alpha beta isMax) \<le> alpha
        \<longrightarrow> fullMinimax e d isMax \<le> fst (minimax e d alpha beta isMax))
   \<and> (beta \<le> fst (minimax e d alpha beta isMax)
        \<longrightarrow> fst (minimax e d alpha beta isMax) \<le> fullMinimax e d isMax)
   \<and> (alpha < fst (minimax e d alpha beta isMax) \<and> fst (minimax e d alpha beta isMax) < beta
        \<longrightarrow> fst (minimax e d alpha beta isMax) = fullMinimax e d isMax)"
proof (induction d arbitrary: e alpha beta isMax)
  case 0
  then show ?case by simp
next
  case (Suc d)
  let ?ms = "sortDesc (moveOrderScore e) (getAllLegalMoves e)"
  show ?case
  proof (cases "gameOver e \<or> getAllLegalMoves e = []")
    case True
    then show ?thesis by (auto simp: Let_def)
  next
    case False
    show ?thesis
    proof (cases isMax)
      case True
      have r: "minimax e (Suc d) alpha beta isMax =
               loopMax (\<lambda>e' a b. minimax e' d a b False) ?ms e alpha beta NegInf"
        using False True by (simp add: Let_def)
      have v: "fullMinimax e (Suc d) isMax =
               foldl max NegInf (map (\<lambda>m. fullMinimax (applyMoveFull e m) d False) ?ms)"
        using False True by (simp add: Let_def)
      show ?thesis
        unfolding r v
        by (rule loopMax_window[where rec = "\<lambda>e' a b. minimax e' d a b False",
              OF minimax_frame Suc.IH Suc.prems NegInf_least])
    next
      case isMin: False
      have r: "minimax e (Suc d) alpha beta isMax =
               loopMin (\<lambda>e' a b. minimax e' d a b True) ?ms e alpha beta PosInf"
        using False isMin by (simp add: Let_def)
      have v: "fullMinimax e (Suc d) isMax =
               foldl min PosInf (map (\<lambda>m. fullMinimax (applyMoveFull e m) d True) ?ms)"
        using False isMin by (simp add: Let_def)
      show ?thesis
        unfolding r v
        by (rule loopMin_window[where rec = "\<lambda>e' a b. minimax e' d a b True",
              OF minimax_frame Suc.IH Suc.prems PosInf_greatest])
    qed
  qed
qed

lemma NegInf_less_PosInf: "NegInf < PosInf"
  by (simp add: less_score_def)

text \<open>
  Claim C8. For every position, every depth and either side, the score of the
  alpha-beta search entered with the full window \<open>-Infinity .. Infinity\<close> is the score
  of the unpruned minimax traversal of the same tree.
\<close>

theorem alphabeta_equals_full_minimax:
  "fst (minimax e d NegInf PosInf isMax) = fullMinimax e d isMax"
proof -
  let ?r = "fst (minimax e d NegInf PosInf isMax)"
  let ?v = "fullMinimax e d isMax"
  have w: "(?r \<le> NegInf \<longrightarrow> ?v \<le> ?r) \<and> (PosInf \<le> ?r \<longrightarrow> ?r \<le> ?v)
           \<and> (NegInf < ?r \<and> ?r < PosInf \<longrightarrow> ?r = ?v)"
    by (rule minimax_window[OF NegInf_less_PosInf])
  show ?thesis
  proof (cases ?r)
    case NegInf
    with w have "?v \<le> NegInf" by simp
    then have "?v = NegInf" by (cases ?v) simp_all
    with NegInf show ?thesis by simp
  next
    case (Fin x)
    then have "NegInf < ?r \<and> ?r < PosInf" by (simp add: less_score_def)
    with w show ?thesis by blast
  next
    case PosInf
    with w have "PosInf \<le> ?v" by simp
    then have "?v = PosInf" by (cases ?v) simp_all
    with PosInf show ?thesis by simp
  qed
qed

section \<open>Evaluation rules of the table-driven generator\<close>

lemma slide_eval:
  "slideL b c f (t # ts) = slideC c f t (cell b t) b ts"
  "slideC c f t None b ts = mk f t normal # slideL b c f ts"
  "slideC c f t (Some (c', k)) b ts = (if c' = c then [] else [mk f t capture])"
  by (simp_all add: slideC_def)

lemma hit_eval:
  "hitL b p1 p2 (s # ss) = hitC (cell b s) b p1 p2 ss"
  "hitC None b p1 p2 ss = hitL b p1 p2 ss"
  "hitC (Some p) b p1 p2 ss = (p = p1 \<or> p = p2)"
  by (simp_all add: hitC_def)

lemma pin_eval:
  "pinScan b p1 p2 (s # ss) = pinC s (cell b s) b p1 p2 ss"
  "pinC s None b p1 p2 ss = pinScan b p1 p2 ss"
  "pinC s (Some p) b p1 p2 ss = (if hitL (put b s None) p1 p2 ss then [s] else [])"
  by (simp_all add: pinC_def)

lemma oppc_eval: "oppc White = Black" "oppc Black = White"
  by (simp_all add: oppc_def opp_def)

lemma pieceOK_mk:
  "pieceOK b c k (mk f t normal) = (\<not> isAttacked (put (put b t (cell b f)) f None) k (oppc c))"
  "pieceOK b c k (mk f t capture) = (\<not> isAttacked (put (put b t (cell b f)) f None) k (oppc c))"
  "pieceOK b c k (mk f t doublePush) = (\<not> isAttacked (put (put b t (cell b f)) f None) k (oppc c))"
  by (simp_all add: pieceOK_def special_def move_sel apply_mk)

lemma kingOK_mk:
  "kingOK b c (mk f t normal) = (\<not> isAttacked (put (put b t (cell b f)) f None) t (oppc c))"
  "kingOK b c (mk f t capture) = (\<not> isAttacked (put (put b t (cell b f)) f None) t (oppc c))"
  by (simp_all add: kingOK_def special_def move_sel apply_mk)

lemma epOK_mk:
  "epOK b c (mk f t normal) = True"
  "epOK b c (mk f t capture) = True"
  "epOK b c (mk f t doublePush) = True"
  by (simp_all add: epOK_def move_sel)

lemma pawnForward_E:
  "isValid (row f + (if c = White then - 1 else 1)) (col f) \<Longrightarrow>
   pawnForward b f c =
     pawnFwd c f (idx (row f + (if c = White then - 1 else 1)) (col f))
       (row f + (if c = White then - 1 else 1) = (if c = White then 0 else 7))
       (if row f = (if c = White then 6 else 1)
        then Some (idx (row f + 2 * (if c = White then - 1 else 1)) (col f)) else None)
       b (cell b (idx (row f + (if c = White then - 1 else 1)) (col f)))"
  by (cases c) (auto simp: pawnForward_def Let_def split: option.splits)

lemma pawnCapture_E:
  "pawnCapture b f ep c df =
     (if isValid (row f + (if c = White then - 1 else 1)) (col f + df)
      then capC c f (idx (row f + (if c = White then - 1 else 1)) (col f + df))
             (row f + (if c = White then - 1 else 1) = (if c = White then 0 else 7))
             (cell b (idx (row f + (if c = White then - 1 else 1)) (col f + df)))
           @ epC f (idx (row f + (if c = White then - 1 else 1)) (col f + df))
               (idx (row f) (col f + df)) ep
      else [])"
proof -
  have ep: "(if ep = Some t then [mkEp f t cs] else []) = epC f t cs ep" for t cs
    by (cases ep) auto
  have cap: "(case x of None \<Rightarrow> []
              | Some p \<Rightarrow> if fst p \<noteq> c
                  then (if pr then map (\<lambda>pp. mkPromo f t promotionCapture (c, pp)) promoKinds
                        else [mk f t capture])
                  else []) = capC c f t pr x" for x t pr
    by (cases x) auto
  show ?thesis
    unfolding pawnCapture_def Let_def ep cap by simp
qed

lemma pawnCaps_E:
  "concat (map (pawnCapture b f ep c) dfs) =
     pawnCaps b c f ep (row f + (if c = White then - 1 else 1) = (if c = White then 0 else 7))
       (map (\<lambda>df. (idx (row f + (if c = White then - 1 else 1)) (col f + df),
                    idx (row f) (col f + df)))
          (filter (\<lambda>df. isValid (row f + (if c = White then - 1 else 1)) (col f + df)) dfs))"
  by (induction dfs) (simp_all add: pawnCapture_E)

lemma pawnMoves_E:
  "isValid (row f + (if c = White then - 1 else 1)) (col f) \<Longrightarrow>
   pawnMoves b f ep c =
     pawnE b c f ep (idx (row f + (if c = White then - 1 else 1)) (col f))
       (row f + (if c = White then - 1 else 1) = (if c = White then 0 else 7))
       (if row f = (if c = White then 6 else 1)
        then Some (idx (row f + 2 * (if c = White then - 1 else 1)) (col f)) else None)
       (map (\<lambda>df. (idx (row f + (if c = White then - 1 else 1)) (col f + df),
                    idx (row f) (col f + df)))
          (filter (\<lambda>df. isValid (row f + (if c = White then - 1 else 1)) (col f + df))
             [- 1, 1]))"
  unfolding pawnMoves_def pawnE_def pawnCaps_E
  by (simp only: pawnForward_E)

text \<open>The tables, square by square.\<close>

lemma knightT_tab:
  "knightT 0 = [10, 17]" "knightT 1 = [11, 16, 18]" "knightT 2 = [8, 12, 17, 19]" "knightT 3 =
    [9, 13, 18, 20]" "knightT 4 = [10, 14, 19, 21]" "knightT 5 = [11, 15, 20, 22]" "knightT 6 =
    [12, 21, 23]" "knightT 7 = [13, 22]" "knightT 8 = [2, 18, 25]" "knightT 9 = [3, 19, 24,
    26]" "knightT 10 = [0, 4, 16, 20, 25, 27]" "knightT 11 = [1, 5, 17, 21, 26, 28]" "knightT
    12 = [2, 6, 18, 22, 27, 29]" "knightT 13 = [3, 7, 19, 23, 28, 30]" "knightT 14 = [4, 20,
    29, 31]" "knightT 15 = [5, 21, 30]" "knightT 16 = [1, 10, 26, 33]" "knightT 17 = [0, 2, 11,
    27, 32, 34]" "knightT 18 = [1, 3, 8, 12, 24, 28, 33, 35]" "knightT 19 = [2, 4, 9, 13, 25,
    29, 34, 36]" "knightT 20 = [3, 5, 10, 14, 26, 30, 35, 37]" "knightT 21 = [4, 6, 11, 15, 27,
    31, 36, 38]" "knightT 22 = [5, 7, 12, 28, 37, 39]" "knightT 23 = [6, 13, 29, 38]" "knightT
    24 = [9, 18, 34, 41]" "knightT 25 = [8, 10, 19, 35, 40, 42]" "knightT 26 = [9, 11, 16, 20,
    32, 36, 41, 43]" "knightT 27 = [10, 12, 17, 21, 33, 37, 42, 44]" "knightT 28 = [11, 13, 18,
    22, 34, 38, 43, 45]" "knightT 29 = [12, 14, 19, 23, 35, 39, 44, 46]" "knightT 30 = [13, 15,
    20, 36, 45, 47]" "knightT 31 = [14, 21, 37, 46]" "knightT 32 = [17, 26, 42, 49]" "knightT
    33 = [16, 18, 27, 43, 48, 50]" "knightT 34 = [17, 19, 24, 28, 40, 44, 49, 51]" "knightT 35
    = [18, 20, 25, 29, 41, 45, 50, 52]" "knightT 36 = [19, 21, 26, 30, 42, 46, 51, 53]"
    "knightT 37 = [20, 22, 27, 31, 43, 47, 52, 54]" "knightT 38 = [21, 23, 28, 44, 53, 55]"
    "knightT 39 = [22, 29, 45, 54]" "knightT 40 = [25, 34, 50, 57]" "knightT 41 = [24, 26, 35,
    51, 56, 58]" "knightT 42 = [25, 27, 32, 36, 48, 52, 57, 59]" "knightT 43 = [26, 28, 33, 37,
    49, 53, 58, 60]" "knightT 44 = [27, 29, 34, 38, 50, 54, 59, 61]" "knightT 45 = [28, 30, 35,
    39, 51, 55, 60, 62]" "knightT 46 = [29, 31, 36, 52, 61, 63]" "knightT 47 = [30, 37, 53,
    62]" "knightT 48 = [33, 42, 58]" "knightT 49 = [32, 34, 43, 59]" "knightT 50 = [33, 35, 40,
    44, 56, 60]" "knightT 51 = [34, 36, 41, 45, 57, 61]" "knightT 52 = [35, 37, 42, 46, 58,
    62]" "knightT 53 = [36, 38, 43, 47, 59, 63]" "knightT 54 = [37, 39, 44, 60]" "knightT 55 =
    [38, 45, 61]" "knightT 56 = [41, 50]" "knightT 57 = [40, 42, 51]" "knightT 58 = [41, 43,
    48, 52]" "knightT 59 = [42, 44, 49, 53]" "knightT 60 = [43, 45, 50, 54]" "knightT 61 = [44,
    46, 51, 55]" "knightT 62 = [45, 47, 52]" "knightT 63 = [46, 53]"
  by (simp_all add: knightT_def geom_eval row_tab col_tab)

lemma kingT_tab:
  "kingT 0 = [1, 8, 9]" "kingT 1 = [0, 2, 8, 9, 10]" "kingT 2 = [1, 3, 9, 10, 11]" "kingT 3 =
    [2, 4, 10, 11, 12]" "kingT 4 = [3, 5, 11, 12, 13]" "kingT 5 = [4, 6, 12, 13, 14]" "kingT 6
    = [5, 7, 13, 14, 15]" "kingT 7 = [6, 14, 15]" "kingT 8 = [0, 1, 9, 16, 17]" "kingT 9 = [0,
    1, 2, 8, 10, 16, 17, 18]" "kingT 10 = [1, 2, 3, 9, 11, 17, 18, 19]" "kingT 11 = [2, 3, 4,
    10, 12, 18, 19, 20]" "kingT 12 = [3, 4, 5, 11, 13, 19, 20, 21]" "kingT 13 = [4, 5, 6, 12,
    14, 20, 21, 22]" "kingT 14 = [5, 6, 7, 13, 15, 21, 22, 23]" "kingT 15 = [6, 7, 14, 22, 23]"
    "kingT 16 = [8, 9, 17, 24, 25]" "kingT 17 = [8, 9, 10, 16, 18, 24, 25, 26]" "kingT 18 = [9,
    10, 11, 17, 19, 25, 26, 27]" "kingT 19 = [10, 11, 12, 18, 20, 26, 27, 28]" "kingT 20 = [11,
    12, 13, 19, 21, 27, 28, 29]" "kingT 21 = [12, 13, 14, 20, 22, 28, 29, 30]" "kingT 22 = [13,
    14, 15, 21, 23, 29, 30, 31]" "kingT 23 = [14, 15, 22, 30, 31]" "kingT 24 = [16, 17, 25, 32,
    33]" "kingT 25 = [16, 17, 18, 24, 26, 32, 33, 34]" "kingT 26 = [17, 18, 19, 25, 27, 33, 34,
    35]" "kingT 27 = [18, 19, 20, 26, 28, 34, 35, 36]" "kingT 28 = [19, 20, 21, 27, 29, 35, 36,
    37]" "kingT 29 = [20, 21, 22, 28, 30, 36, 37, 38]" "kingT 30 = [21, 22, 23, 29, 31, 37, 38,
    39]" "kingT 31 = [22, 23, 30, 38, 39]" "kingT 32 = [24, 25, 33, 40, 41]" "kingT 33 = [24,
    25, 26, 32, 34, 40, 41, 42]" "kingT 34 = [25, 26, 27, 33, 35, 41, 42, 43]" "kingT 35 = [26,
    27, 28, 34, 36, 42, 43, 44]" "kingT 36 = [27, 28, 29, 35, 37, 43, 44, 45]" "kingT 37 = [28,
    29, 30, 36, 38, 44, 45, 46]" "kingT 38 = [29, 30, 31, 37, 39, 45, 46, 47]" "kingT 39 = [30,
    31, 38, 46, 47]" "kingT 40 = [32, 33, 41, 48, 49]" "kingT 41 = [32, 33, 34, 40, 42, 48, 49,
    50]" "kingT 42 = [33, 34, 35, 41, 43, 49, 50, 51]" "kingT 43 = [34, 35, 36, 42, 44, 50, 51,
    52]" "kingT 44 = [35, 36, 37, 43, 45, 51, 52, 53]" "kingT 45 = [36, 37, 38, 44, 46, 52, 53,
    54]" "kingT 46 = [37, 38, 39, 45, 47, 53, 54, 55]" "kingT 47 = [38, 39, 46, 54, 55]" "kingT
    48 = [40, 41, 49, 56, 57]" "kingT 49 = [40, 41, 42, 48, 50, 56, 57, 58]" "kingT 50 = [41,
    42, 43, 49, 51, 57, 58, 59]" "kingT 51 = [42, 43, 44, 50, 52, 58, 59, 60]" "kingT 52 = [43,
    44, 45, 51, 53, 59, 60, 61]" "kingT 53 = [44, 45, 46, 52, 54, 60, 61, 62]" "kingT 54 = [45,
    46, 47, 53, 55, 61, 62, 63]" "kingT 55 = [46, 47, 54, 62, 63]" "kingT 56 = [48, 49, 57]"
    "kingT 57 = [48, 49, 50, 56, 58]" "kingT 58 = [49, 50, 51, 57, 59]" "kingT 59 = [50, 51,
    52, 58, 60]" "kingT 60 = [51, 52, 53, 59, 61]" "kingT 61 = [52, 53, 54, 60, 62]" "kingT 62
    = [53, 54, 55, 61, 63]" "kingT 63 = [54, 55, 62]"
  by (simp_all add: kingT_def geom_eval row_tab col_tab)

lemma raysT_diagDirs:
  "raysT diagDirs 0 = [[], [], [], [9, 18, 27, 36, 45, 54, 63]]" "raysT diagDirs 1 = [[], [],
    [8], [10, 19, 28, 37, 46, 55]]" "raysT diagDirs 2 = [[], [], [9, 16], [11, 20, 29, 38,
    47]]" "raysT diagDirs 3 = [[], [], [10, 17, 24], [12, 21, 30, 39]]" "raysT diagDirs 4 =
    [[], [], [11, 18, 25, 32], [13, 22, 31]]" "raysT diagDirs 5 = [[], [], [12, 19, 26, 33,
    40], [14, 23]]" "raysT diagDirs 6 = [[], [], [13, 20, 27, 34, 41, 48], [15]]" "raysT
    diagDirs 7 = [[], [], [14, 21, 28, 35, 42, 49, 56], []]" "raysT diagDirs 8 = [[], [1], [],
    [17, 26, 35, 44, 53, 62]]" "raysT diagDirs 9 = [[0], [2], [16], [18, 27, 36, 45, 54, 63]]"
    "raysT diagDirs 10 = [[1], [3], [17, 24], [19, 28, 37, 46, 55]]" "raysT diagDirs 11 = [[2],
    [4], [18, 25, 32], [20, 29, 38, 47]]" "raysT diagDirs 12 = [[3], [5], [19, 26, 33, 40],
    [21, 30, 39]]" "raysT diagDirs 13 = [[4], [6], [20, 27, 34, 41, 48], [22, 31]]" "raysT
    diagDirs 14 = [[5], [7], [21, 28, 35, 42, 49, 56], [23]]" "raysT diagDirs 15 = [[6], [],
    [22, 29, 36, 43, 50, 57], []]" "raysT diagDirs 16 = [[], [9, 2], [], [25, 34, 43, 52, 61]]"
    "raysT diagDirs 17 = [[8], [10, 3], [24], [26, 35, 44, 53, 62]]" "raysT diagDirs 18 = [[9,
    0], [11, 4], [25, 32], [27, 36, 45, 54, 63]]" "raysT diagDirs 19 = [[10, 1], [12, 5], [26,
    33, 40], [28, 37, 46, 55]]" "raysT diagDirs 20 = [[11, 2], [13, 6], [27, 34, 41, 48], [29,
    38, 47]]" "raysT diagDirs 21 = [[12, 3], [14, 7], [28, 35, 42, 49, 56], [30, 39]]" "raysT
    diagDirs 22 = [[13, 4], [15], [29, 36, 43, 50, 57], [31]]" "raysT diagDirs 23 = [[14, 5],
    [], [30, 37, 44, 51, 58], []]" "raysT diagDirs 24 = [[], [17, 10, 3], [], [33, 42, 51,
    60]]" "raysT diagDirs 25 = [[16], [18, 11, 4], [32], [34, 43, 52, 61]]" "raysT diagDirs 26
    = [[17, 8], [19, 12, 5], [33, 40], [35, 44, 53, 62]]" "raysT diagDirs 27 = [[18, 9, 0],
    [20, 13, 6], [34, 41, 48], [36, 45, 54, 63]]" "raysT diagDirs 28 = [[19, 10, 1], [21, 14,
    7], [35, 42, 49, 56], [37, 46, 55]]" "raysT diagDirs 29 = [[20, 11, 2], [22, 15], [36, 43,
    50, 57], [38, 47]]" "raysT diagDirs 30 = [[21, 12, 3], [23], [37, 44, 51, 58], [39]]"
    "raysT diagDirs 31 = [[22, 13, 4], [], [38, 45, 52, 59], []]" "raysT diagDirs 32 = [[],
    [25, 18, 11, 4], [], [41, 50, 59]]" "raysT diagDirs 33 = [[24], [26, 19, 12, 5], [40], [42,
    51, 60]]" "raysT diagDirs 34 = [[25, 16], [27, 20, 13, 6], [41, 48], [43, 52, 61]]" "raysT
    diagDirs 35 = [[26, 17, 8], [28, 21, 14, 7], [42, 49, 56], [44, 53, 62]]" "raysT diagDirs
    36 = [[27, 18, 9, 0], [29, 22, 15], [43, 50, 57], [45, 54, 63]]" "raysT diagDirs 37 = [[28,
    19, 10, 1], [30, 23], [44, 51, 58], [46, 55]]" "raysT diagDirs 38 = [[29, 20, 11, 2], [31],
    [45, 52, 59], [47]]" "raysT diagDirs 39 = [[30, 21, 12, 3], [], [46, 53, 60], []]" "raysT
    diagDirs 40 = [[], [33, 26, 19, 12, 5], [], [49, 58]]" "raysT diagDirs 41 = [[32], [34, 27,
    20, 13, 6], [48], [50, 59]]" "raysT diagDirs 42 = [[33, 24], [35, 28, 21, 14, 7], [49, 56],
    [51, 60]]" "raysT diagDirs 43 = [[34, 25, 16], [36, 29, 22, 15], [50, 57], [52, 61]]"
    "raysT diagDirs 44 = [[35, 26, 17, 8], [37, 30, 23], [51, 58], [53, 62]]" "raysT diagDirs
    45 = [[36, 27, 18, 9, 0], [38, 31], [52, 59], [54, 63]]" "raysT diagDirs 46 = [[37, 28, 19,
    10, 1], [39], [53, 60], [55]]" "raysT diagDirs 47 = [[38, 29, 20, 11, 2], [], [54, 61],
    []]" "raysT diagDirs 48 = [[], [41, 34, 27, 20, 13, 6], [], [57]]" "raysT diagDirs 49 =
    [[40], [42, 35, 28, 21, 14, 7], [56], [58]]" "raysT diagDirs 50 = [[41, 32], [43, 36, 29,
    22, 15], [57], [59]]" "raysT diagDirs 51 = [[42, 33, 24], [44, 37, 30, 23], [58], [60]]"
    "raysT diagDirs 52 = [[43, 34, 25, 16], [45, 38, 31], [59], [61]]" "raysT diagDirs 53 =
    [[44, 35, 26, 17, 8], [46, 39], [60], [62]]" "raysT diagDirs 54 = [[45, 36, 27, 18, 9, 0],
    [47], [61], [63]]" "raysT diagDirs 55 = [[46, 37, 28, 19, 10, 1], [], [62], []]" "raysT
    diagDirs 56 = [[], [49, 42, 35, 28, 21, 14, 7], [], []]" "raysT diagDirs 57 = [[48], [50,
    43, 36, 29, 22, 15], [], []]" "raysT diagDirs 58 = [[49, 40], [51, 44, 37, 30, 23], [],
    []]" "raysT diagDirs 59 = [[50, 41, 32], [52, 45, 38, 31], [], []]" "raysT diagDirs 60 =
    [[51, 42, 33, 24], [53, 46, 39], [], []]" "raysT diagDirs 61 = [[52, 43, 34, 25, 16], [54,
    47], [], []]" "raysT diagDirs 62 = [[53, 44, 35, 26, 17, 8], [55], [], []]" "raysT diagDirs
    63 = [[54, 45, 36, 27, 18, 9, 0], [], [], []]"
  by (simp_all add: raysT_def geom_eval row_tab col_tab)

lemma raysT_straightDirs:
  "raysT straightDirs 0 = [[], [8, 16, 24, 32, 40, 48, 56], [], [1, 2, 3, 4, 5, 6, 7]]" "raysT
    straightDirs 1 = [[], [9, 17, 25, 33, 41, 49, 57], [0], [2, 3, 4, 5, 6, 7]]" "raysT
    straightDirs 2 = [[], [10, 18, 26, 34, 42, 50, 58], [1, 0], [3, 4, 5, 6, 7]]" "raysT
    straightDirs 3 = [[], [11, 19, 27, 35, 43, 51, 59], [2, 1, 0], [4, 5, 6, 7]]" "raysT
    straightDirs 4 = [[], [12, 20, 28, 36, 44, 52, 60], [3, 2, 1, 0], [5, 6, 7]]" "raysT
    straightDirs 5 = [[], [13, 21, 29, 37, 45, 53, 61], [4, 3, 2, 1, 0], [6, 7]]" "raysT
    straightDirs 6 = [[], [14, 22, 30, 38, 46, 54, 62], [5, 4, 3, 2, 1, 0], [7]]" "raysT
    straightDirs 7 = [[], [15, 23, 31, 39, 47, 55, 63], [6, 5, 4, 3, 2, 1, 0], []]" "raysT
    straightDirs 8 = [[0], [16, 24, 32, 40, 48, 56], [], [9, 10, 11, 12, 13, 14, 15]]" "raysT
    straightDirs 9 = [[1], [17, 25, 33, 41, 49, 57], [8], [10, 11, 12, 13, 14, 15]]" "raysT
    straightDirs 10 = [[2], [18, 26, 34, 42, 50, 58], [9, 8], [11, 12, 13, 14, 15]]" "raysT
    straightDirs 11 = [[3], [19, 27, 35, 43, 51, 59], [10, 9, 8], [12, 13, 14, 15]]" "raysT
    straightDirs 12 = [[4], [20, 28, 36, 44, 52, 60], [11, 10, 9, 8], [13, 14, 15]]" "raysT
    straightDirs 13 = [[5], [21, 29, 37, 45, 53, 61], [12, 11, 10, 9, 8], [14, 15]]" "raysT
    straightDirs 14 = [[6], [22, 30, 38, 46, 54, 62], [13, 12, 11, 10, 9, 8], [15]]" "raysT
    straightDirs 15 = [[7], [23, 31, 39, 47, 55, 63], [14, 13, 12, 11, 10, 9, 8], []]" "raysT
    straightDirs 16 = [[8, 0], [24, 32, 40, 48, 56], [], [17, 18, 19, 20, 21, 22, 23]]" "raysT
    straightDirs 17 = [[9, 1], [25, 33, 41, 49, 57], [16], [18, 19, 20, 21, 22, 23]]" "raysT
    straightDirs 18 = [[10, 2], [26, 34, 42, 50, 58], [17, 16], [19, 20, 21, 22, 23]]" "raysT
    straightDirs 19 = [[11, 3], [27, 35, 43, 51, 59], [18, 17, 16], [20, 21, 22, 23]]" "raysT
    straightDirs 20 = [[12, 4], [28, 36, 44, 52, 60], [19, 18, 17, 16], [21, 22, 23]]" "raysT
    straightDirs 21 = [[13, 5], [29, 37, 45, 53, 61], [20, 19, 18, 17, 16], [22, 23]]" "raysT
    straightDirs 22 = [[14, 6], [30, 38, 46, 54, 62], [21, 20, 19, 18, 17, 16], [23]]" "raysT
    straightDirs 23 = [[15, 7], [31, 39, 47, 55, 63], [22, 21, 20, 19, 18, 17, 16], []]" "raysT
    straightDirs 24 = [[16, 8, 0], [32, 40, 48, 56], [], [25, 26, 27, 28, 29, 30, 31]]" "raysT
    straightDirs 25 = [[17, 9, 1], [33, 41, 49, 57], [24], [26, 27, 28, 29, 30, 31]]" "raysT
    straightDirs 26 = [[18, 10, 2], [34, 42, 50, 58], [25, 24], [27, 28, 29, 30, 31]]" "raysT
    straightDirs 27 = [[19, 11, 3], [35, 43, 51, 59], [26, 25, 24], [28, 29, 30, 31]]" "raysT
    straightDirs 28 = [[20, 12, 4], [36, 44, 52, 60], [27, 26, 25, 24], [29, 30, 31]]" "raysT
    straightDirs 29 = [[21, 13, 5], [37, 45, 53, 61], [28, 27, 26, 25, 24], [30, 31]]" "raysT
    straightDirs 30 = [[22, 14, 6], [38, 46, 54, 62], [29, 28, 27, 26, 25, 24], [31]]" "raysT
    straightDirs 31 = [[23, 15, 7], [39, 47, 55, 63], [30, 29, 28, 27, 26, 25, 24], []]" "raysT
    straightDirs 32 = [[24, 16, 8, 0], [40, 48, 56], [], [33, 34, 35, 36, 37, 38, 39]]" "raysT
    straightDirs 33 = [[25, 17, 9, 1], [41, 49, 57], [32], [34, 35, 36, 37, 38, 39]]" "raysT
    straightDirs 34 = [[26, 18, 10, 2], [42, 50, 58], [33, 32], [35, 36, 37, 38, 39]]" "raysT
    straightDirs 35 = [[27, 19, 11, 3], [43, 51, 59], [34, 33, 32], [36, 37, 38, 39]]" "raysT
    straightDirs 36 = [[28, 20, 12, 4], [44, 52, 60], [35, 34, 33, 32], [37, 38, 39]]" "raysT
    straightDirs 37 = [[29, 21, 13, 5], [45, 53, 61], [36, 35, 34, 33, 32], [38, 39]]" "raysT
    straightDirs 38 = [[30, 22, 14, 6], [46, 54, 62], [37, 36, 35, 34, 33, 32], [39]]" "raysT
    straightDirs 39 = [[31, 23, 15, 7], [47, 55, 63], [38, 37, 36, 35, 34, 33, 32], []]" "raysT
    straightDirs 40 = [[32, 24, 16, 8, 0], [48, 56], [], [41, 42, 43, 44, 45, 46, 47]]" "raysT
    straightDirs 41 = [[33, 25, 17, 9, 1], [49, 57], [40], [42, 43, 44, 45, 46, 47]]" "raysT
    straightDirs 42 = [[34, 26, 18, 10, 2], [50, 58], [41, 40], [43, 44, 45, 46, 47]]" "raysT
    straightDirs 43 = [[35, 27, 19, 11, 3], [51, 59], [42, 41, 40], [44, 45, 46, 47]]" "raysT
    straightDirs 44 = [[36, 28, 20, 12, 4], [52, 60], [43, 42, 41, 40], [45, 46, 47]]" "raysT
    straightDirs 45 = [[37, 29, 21, 13, 5], [53, 61], [44, 43, 42, 41, 40], [46, 47]]" "raysT
    straightDirs 46 = [[38, 30, 22, 14, 6], [54, 62], [45, 44, 43, 42, 41, 40], [47]]" "raysT
    straightDirs 47 = [[39, 31, 23, 15, 7], [55, 63], [46, 45, 44, 43, 42, 41, 40], []]" "raysT
    straightDirs 48 = [[40, 32, 24, 16, 8, 0], [56], [], [49, 50, 51, 52, 53, 54, 55]]" "raysT
    straightDirs 49 = [[41, 33, 25, 17, 9, 1], [57], [48], [50, 51, 52, 53, 54, 55]]" "raysT
    straightDirs 50 = [[42, 34, 26, 18, 10, 2], [58], [49, 48], [51, 52, 53, 54, 55]]" "raysT
    straightDirs 51 = [[43, 35, 27, 19, 11, 3], [59], [50, 49, 48], [52, 53, 54, 55]]" "raysT
    straightDirs 52 = [[44, 36, 28, 20, 12, 4], [60], [51, 50, 49, 48], [53, 54, 55]]" "raysT
    straightDirs 53 = [[45, 37, 29, 21, 13, 5], [61], [52, 51, 50, 49, 48], [54, 55]]" "raysT
    straightDirs 54 = [[46, 38, 30, 22, 14, 6], [62], [53, 52, 51, 50, 49, 48], [55]]" "raysT
    straightDirs 55 = [[47, 39, 31, 23, 15, 7], [63], [54, 53, 52, 51, 50, 49, 48], []]" "raysT
    straightDirs 56 = [[48, 40, 32, 24, 16, 8, 0], [], [], [57, 58, 59, 60, 61, 62, 63]]"
    "raysT straightDirs 57 = [[49, 41, 33, 25, 17, 9, 1], [], [56], [58, 59, 60, 61, 62, 63]]"
    "raysT straightDirs 58 = [[50, 42, 34, 26, 18, 10, 2], [], [57, 56], [59, 60, 61, 62, 63]]"
    "raysT straightDirs 59 = [[51, 43, 35, 27, 19, 11, 3], [], [58, 57, 56], [60, 61, 62, 63]]"
    "raysT straightDirs 60 = [[52, 44, 36, 28, 20, 12, 4], [], [59, 58, 57, 56], [61, 62, 63]]"
    "raysT straightDirs 61 = [[53, 45, 37, 29, 21, 13, 5], [], [60, 59, 58, 57, 56], [62, 63]]"
    "raysT straightDirs 62 = [[54, 46, 38, 30, 22, 14, 6], [], [61, 60, 59, 58, 57, 56], [63]]"
    "raysT straightDirs 63 = [[55, 47, 39, 31, 23, 15, 7], [], [62, 61, 60, 59, 58, 57, 56],
    []]"
  by (simp_all add: raysT_def geom_eval row_tab col_tab)

lemma raysT_allDirs:
  "raysT allDirs 0 = [[], [], [], [], [1, 2, 3, 4, 5, 6, 7], [], [8, 16, 24, 32, 40, 48, 56],
    [9, 18, 27, 36, 45, 54, 63]]" "raysT allDirs 1 = [[], [], [], [0], [2, 3, 4, 5, 6, 7], [8],
    [9, 17, 25, 33, 41, 49, 57], [10, 19, 28, 37, 46, 55]]" "raysT allDirs 2 = [[], [], [], [1,
    0], [3, 4, 5, 6, 7], [9, 16], [10, 18, 26, 34, 42, 50, 58], [11, 20, 29, 38, 47]]" "raysT
    allDirs 3 = [[], [], [], [2, 1, 0], [4, 5, 6, 7], [10, 17, 24], [11, 19, 27, 35, 43, 51,
    59], [12, 21, 30, 39]]" "raysT allDirs 4 = [[], [], [], [3, 2, 1, 0], [5, 6, 7], [11, 18,
    25, 32], [12, 20, 28, 36, 44, 52, 60], [13, 22, 31]]" "raysT allDirs 5 = [[], [], [], [4,
    3, 2, 1, 0], [6, 7], [12, 19, 26, 33, 40], [13, 21, 29, 37, 45, 53, 61], [14, 23]]" "raysT
    allDirs 6 = [[], [], [], [5, 4, 3, 2, 1, 0], [7], [13, 20, 27, 34, 41, 48], [14, 22, 30,
    38, 46, 54, 62], [15]]" "raysT allDirs 7 = [[], [], [], [6, 5, 4, 3, 2, 1, 0], [], [14, 21,
    28, 35, 42, 49, 56], [15, 23, 31, 39, 47, 55, 63], []]" "raysT allDirs 8 = [[], [0], [1],
    [], [9, 10, 11, 12, 13, 14, 15], [], [16, 24, 32, 40, 48, 56], [17, 26, 35, 44, 53, 62]]"
    "raysT allDirs 9 = [[0], [1], [2], [8], [10, 11, 12, 13, 14, 15], [16], [17, 25, 33, 41,
    49, 57], [18, 27, 36, 45, 54, 63]]" "raysT allDirs 10 = [[1], [2], [3], [9, 8], [11, 12,
    13, 14, 15], [17, 24], [18, 26, 34, 42, 50, 58], [19, 28, 37, 46, 55]]" "raysT allDirs 11 =
    [[2], [3], [4], [10, 9, 8], [12, 13, 14, 15], [18, 25, 32], [19, 27, 35, 43, 51, 59], [20,
    29, 38, 47]]" "raysT allDirs 12 = [[3], [4], [5], [11, 10, 9, 8], [13, 14, 15], [19, 26,
    33, 40], [20, 28, 36, 44, 52, 60], [21, 30, 39]]" "raysT allDirs 13 = [[4], [5], [6], [12,
    11, 10, 9, 8], [14, 15], [20, 27, 34, 41, 48], [21, 29, 37, 45, 53, 61], [22, 31]]" "raysT
    allDirs 14 = [[5], [6], [7], [13, 12, 11, 10, 9, 8], [15], [21, 28, 35, 42, 49, 56], [22,
    30, 38, 46, 54, 62], [23]]" "raysT allDirs 15 = [[6], [7], [], [14, 13, 12, 11, 10, 9, 8],
    [], [22, 29, 36, 43, 50, 57], [23, 31, 39, 47, 55, 63], []]" "raysT allDirs 16 = [[], [8,
    0], [9, 2], [], [17, 18, 19, 20, 21, 22, 23], [], [24, 32, 40, 48, 56], [25, 34, 43, 52,
    61]]" "raysT allDirs 17 = [[8], [9, 1], [10, 3], [16], [18, 19, 20, 21, 22, 23], [24], [25,
    33, 41, 49, 57], [26, 35, 44, 53, 62]]" "raysT allDirs 18 = [[9, 0], [10, 2], [11, 4], [17,
    16], [19, 20, 21, 22, 23], [25, 32], [26, 34, 42, 50, 58], [27, 36, 45, 54, 63]]" "raysT
    allDirs 19 = [[10, 1], [11, 3], [12, 5], [18, 17, 16], [20, 21, 22, 23], [26, 33, 40], [27,
    35, 43, 51, 59], [28, 37, 46, 55]]" "raysT allDirs 20 = [[11, 2], [12, 4], [13, 6], [19,
    18, 17, 16], [21, 22, 23], [27, 34, 41, 48], [28, 36, 44, 52, 60], [29, 38, 47]]" "raysT
    allDirs 21 = [[12, 3], [13, 5], [14, 7], [20, 19, 18, 17, 16], [22, 23], [28, 35, 42, 49,
    56], [29, 37, 45, 53, 61], [30, 39]]" "raysT allDirs 22 = [[13, 4], [14, 6], [15], [21, 20,
    19, 18, 17, 16], [23], [29, 36, 43, 50, 57], [30, 38, 46, 54, 62], [31]]" "raysT allDirs 23
    = [[14, 5], [15, 7], [], [22, 21, 20, 19, 18, 17, 16], [], [30, 37, 44, 51, 58], [31, 39,
    47, 55, 63], []]" "raysT allDirs 24 = [[], [16, 8, 0], [17, 10, 3], [], [25, 26, 27, 28,
    29, 30, 31], [], [32, 40, 48, 56], [33, 42, 51, 60]]" "raysT allDirs 25 = [[16], [17, 9,
    1], [18, 11, 4], [24], [26, 27, 28, 29, 30, 31], [32], [33, 41, 49, 57], [34, 43, 52, 61]]"
    "raysT allDirs 26 = [[17, 8], [18, 10, 2], [19, 12, 5], [25, 24], [27, 28, 29, 30, 31],
    [33, 40], [34, 42, 50, 58], [35, 44, 53, 62]]" "raysT allDirs 27 = [[18, 9, 0], [19, 11,
    3], [20, 13, 6], [26, 25, 24], [28, 29, 30, 31], [34, 41, 48], [35, 43, 51, 59], [36, 45,
    54, 63]]" "raysT allDirs 28 = [[19, 10, 1], [20, 12, 4], [21, 14, 7], [27, 26, 25, 24],
    [29, 30, 31], [35, 42, 49, 56], [36, 44, 52, 60], [37, 46, 55]]" "raysT allDirs 29 = [[20,
    11, 2], [21, 13, 5], [22, 15], [28, 27, 26, 25, 24], [30, 31], [36, 43, 50, 57], [37, 45,
    53, 61], [38, 47]]" "raysT allDirs 30 = [[21, 12, 3], [22, 14, 6], [23], [29, 28, 27, 26,
    25, 24], [31], [37, 44, 51, 58], [38, 46, 54, 62], [39]]" "raysT allDirs 31 = [[22, 13, 4],
    [23, 15, 7], [], [30, 29, 28, 27, 26, 25, 24], [], [38, 45, 52, 59], [39, 47, 55, 63], []]"
    "raysT allDirs 32 = [[], [24, 16, 8, 0], [25, 18, 11, 4], [], [33, 34, 35, 36, 37, 38, 39],
    [], [40, 48, 56], [41, 50, 59]]" "raysT allDirs 33 = [[24], [25, 17, 9, 1], [26, 19, 12,
    5], [32], [34, 35, 36, 37, 38, 39], [40], [41, 49, 57], [42, 51, 60]]" "raysT allDirs 34 =
    [[25, 16], [26, 18, 10, 2], [27, 20, 13, 6], [33, 32], [35, 36, 37, 38, 39], [41, 48], [42,
    50, 58], [43, 52, 61]]" "raysT allDirs 35 = [[26, 17, 8], [27, 19, 11, 3], [28, 21, 14, 7],
    [34, 33, 32], [36, 37, 38, 39], [42, 49, 56], [43, 51, 59], [44, 53, 62]]" "raysT allDirs
    36 = [[27, 18, 9, 0], [28, 20, 12, 4], [29, 22, 15], [35, 34, 33, 32], [37, 38, 39], [43,
    50, 57], [44, 52, 60], [45, 54, 63]]" "raysT allDirs 37 = [[28, 19, 10, 1], [29, 21, 13,
    5], [30, 23], [36, 35, 34, 33, 32], [38, 39], [44, 51, 58], [45, 53, 61], [46, 55]]" "raysT
    allDirs 38 = [[29, 20, 11, 2], [30, 22, 14, 6], [31], [37, 36, 35, 34, 33, 32], [39], [45,
    52, 59], [46, 54, 62], [47]]" "raysT allDirs 39 = [[30, 21, 12, 3], [31, 23, 15, 7], [],
    [38, 37, 36, 35, 34, 33, 32], [], [46, 53, 60], [47, 55, 63], []]" "raysT allDirs 40 = [[],
    [32, 24, 16, 8, 0], [33, 26, 19, 12, 5], [], [41, 42, 43, 44, 45, 46, 47], [], [48, 56],
    [49, 58]]" "raysT allDirs 41 = [[32], [33, 25, 17, 9, 1], [34, 27, 20, 13, 6], [40], [42,
    43, 44, 45, 46, 47], [48], [49, 57], [50, 59]]" "raysT allDirs 42 = [[33, 24], [34, 26, 18,
    10, 2], [35, 28, 21, 14, 7], [41, 40], [43, 44, 45, 46, 47], [49, 56], [50, 58], [51, 60]]"
    "raysT allDirs 43 = [[34, 25, 16], [35, 27, 19, 11, 3], [36, 29, 22, 15], [42, 41, 40],
    [44, 45, 46, 47], [50, 57], [51, 59], [52, 61]]" "raysT allDirs 44 = [[35, 26, 17, 8], [36,
    28, 20, 12, 4], [37, 30, 23], [43, 42, 41, 40], [45, 46, 47], [51, 58], [52, 60], [53,
    62]]" "raysT allDirs 45 = [[36, 27, 18, 9, 0], [37, 29, 21, 13, 5], [38, 31], [44, 43, 42,
    41, 40], [46, 47], [52, 59], [53, 61], [54, 63]]" "raysT allDirs 46 = [[37, 28, 19, 10, 1],
    [38, 30, 22, 14, 6], [39], [45, 44, 43, 42, 41, 40], [47], [53, 60], [54, 62], [55]]"
    "raysT allDirs 47 = [[38, 29, 20, 11, 2], [39, 31, 23, 15, 7], [], [46, 45, 44, 43, 42, 41,
    40], [], [54, 61], [55, 63], []]" "raysT allDirs 48 = [[], [40, 32, 24, 16, 8, 0], [41, 34,
    27, 20, 13, 6], [], [49, 50, 51, 52, 53, 54, 55], [], [56], [57]]" "raysT allDirs 49 =
    [[40], [41, 33, 25, 17, 9, 1], [42, 35, 28, 21, 14, 7], [48], [50, 51, 52, 53, 54, 55],
    [56], [57], [58]]" "raysT allDirs 50 = [[41, 32], [42, 34, 26, 18, 10, 2], [43, 36, 29, 22,
    15], [49, 48], [51, 52, 53, 54, 55], [57], [58], [59]]" "raysT allDirs 51 = [[42, 33, 24],
    [43, 35, 27, 19, 11, 3], [44, 37, 30, 23], [50, 49, 48], [52, 53, 54, 55], [58], [59],
    [60]]" "raysT allDirs 52 = [[43, 34, 25, 16], [44, 36, 28, 20, 12, 4], [45, 38, 31], [51,
    50, 49, 48], [53, 54, 55], [59], [60], [61]]" "raysT allDirs 53 = [[44, 35, 26, 17, 8],
    [45, 37, 29, 21, 13, 5], [46, 39], [52, 51, 50, 49, 48], [54, 55], [60], [61], [62]]"
    "raysT allDirs 54 = [[45, 36, 27, 18, 9, 0], [46, 38, 30, 22, 14, 6], [47], [53, 52, 51,
    50, 49, 48], [55], [61], [62], [63]]" "raysT allDirs 55 = [[46, 37, 28, 19, 10, 1], [47,
    39, 31, 23, 15, 7], [], [54, 53, 52, 51, 50, 49, 48], [], [62], [63], []]" "raysT allDirs
    56 = [[], [48, 40, 32, 24, 16, 8, 0], [49, 42, 35, 28, 21, 14, 7], [], [57, 58, 59, 60, 61,
    62, 63], [], [], []]" "raysT allDirs 57 = [[48], [49, 41, 33, 25, 17, 9, 1], [50, 43, 36,
    29, 22, 15], [56], [58, 59, 60, 61, 62, 63], [], [], []]" "raysT allDirs 58 = [[49, 40],
    [50, 42, 34, 26, 18, 10, 2], [51, 44, 37, 30, 23], [57, 56], [59, 60, 61, 62, 63], [], [],
    []]" "raysT allDirs 59 = [[50, 41, 32], [51, 43, 35, 27, 19, 11, 3], [52, 45, 38, 31], [58,
    57, 56], [60, 61, 62, 63], [], [], []]" "raysT allDirs 60 = [[51, 42, 33, 24], [52, 44, 36,
    28, 20, 12, 4], [53, 46, 39], [59, 58, 57, 56], [61, 62, 63], [], [], []]" "raysT allDirs
    61 = [[52, 43, 34, 25, 16], [53, 45, 37, 29, 21, 13, 5], [54, 47], [60, 59, 58, 57, 56],
    [62, 63], [], [], []]" "raysT allDirs 62 = [[53, 44, 35, 26, 17, 8], [54, 46, 38, 30, 22,
    14, 6], [55], [61, 60, 59, 58, 57, 56], [63], [], [], []]" "raysT allDirs 63 = [[54, 45,
    36, 27, 18, 9, 0], [55, 47, 39, 31, 23, 15, 7], [], [62, 61, 60, 59, 58, 57, 56], [], [],
    [], []]"
  by (simp_all add: raysT_def geom_eval row_tab col_tab)

lemma pawnMoves_White:
  "pawnMoves b 8 ep White = pawnE b White 8 ep 0 True (None) [(1, 9)]" "pawnMoves b 9 ep White
    = pawnE b White 9 ep 1 True (None) [(0, 8), (2, 10)]" "pawnMoves b 10 ep White = pawnE b
    White 10 ep 2 True (None) [(1, 9), (3, 11)]" "pawnMoves b 11 ep White = pawnE b White 11 ep
    3 True (None) [(2, 10), (4, 12)]" "pawnMoves b 12 ep White = pawnE b White 12 ep 4 True
    (None) [(3, 11), (5, 13)]" "pawnMoves b 13 ep White = pawnE b White 13 ep 5 True (None)
    [(4, 12), (6, 14)]" "pawnMoves b 14 ep White = pawnE b White 14 ep 6 True (None) [(5, 13),
    (7, 15)]" "pawnMoves b 15 ep White = pawnE b White 15 ep 7 True (None) [(6, 14)]"
    "pawnMoves b 16 ep White = pawnE b White 16 ep 8 False (None) [(9, 17)]" "pawnMoves b 17 ep
    White = pawnE b White 17 ep 9 False (None) [(8, 16), (10, 18)]" "pawnMoves b 18 ep White =
    pawnE b White 18 ep 10 False (None) [(9, 17), (11, 19)]" "pawnMoves b 19 ep White = pawnE b
    White 19 ep 11 False (None) [(10, 18), (12, 20)]" "pawnMoves b 20 ep White = pawnE b White
    20 ep 12 False (None) [(11, 19), (13, 21)]" "pawnMoves b 21 ep White = pawnE b White 21 ep
    13 False (None) [(12, 20), (14, 22)]" "pawnMoves b 22 ep White = pawnE b White 22 ep 14
    False (None) [(13, 21), (15, 23)]" "pawnMoves b 23 ep White = pawnE b White 23 ep 15 False
    (None) [(14, 22)]" "pawnMoves b 24 ep White = pawnE b White 24 ep 16 False (None) [(17,
    25)]" "pawnMoves b 25 ep White = pawnE b White 25 ep 17 False (None) [(16, 24), (18, 26)]"
    "pawnMoves b 26 ep White = pawnE b White 26 ep 18 False (None) [(17, 25), (19, 27)]"
    "pawnMoves b 27 ep White = pawnE b White 27 ep 19 False (None) [(18, 26), (20, 28)]"
    "pawnMoves b 28 ep White = pawnE b White 28 ep 20 False (None) [(19, 27), (21, 29)]"
    "pawnMoves b 29 ep White = pawnE b White 29 ep 21 False (None) [(20, 28), (22, 30)]"
    "pawnMoves b 30 ep White = pawnE b White 30 ep 22 False (None) [(21, 29), (23, 31)]"
    "pawnMoves b 31 ep White = pawnE b White 31 ep 23 False (None) [(22, 30)]" "pawnMoves b 32
    ep White = pawnE b White 32 ep 24 False (None) [(25, 33)]" "pawnMoves b 33 ep White = pawnE
    b White 33 ep 25 False (None) [(24, 32), (26, 34)]" "pawnMoves b 34 ep White = pawnE b
    White 34 ep 26 False (None) [(25, 33), (27, 35)]" "pawnMoves b 35 ep White = pawnE b White
    35 ep 27 False (None) [(26, 34), (28, 36)]" "pawnMoves b 36 ep White = pawnE b White 36 ep
    28 False (None) [(27, 35), (29, 37)]" "pawnMoves b 37 ep White = pawnE b White 37 ep 29
    False (None) [(28, 36), (30, 38)]" "pawnMoves b 38 ep White = pawnE b White 38 ep 30 False
    (None) [(29, 37), (31, 39)]" "pawnMoves b 39 ep White = pawnE b White 39 ep 31 False (None)
    [(30, 38)]" "pawnMoves b 40 ep White = pawnE b White 40 ep 32 False (None) [(33, 41)]"
    "pawnMoves b 41 ep White = pawnE b White 41 ep 33 False (None) [(32, 40), (34, 42)]"
    "pawnMoves b 42 ep White = pawnE b White 42 ep 34 False (None) [(33, 41), (35, 43)]"
    "pawnMoves b 43 ep White = pawnE b White 43 ep 35 False (None) [(34, 42), (36, 44)]"
    "pawnMoves b 44 ep White = pawnE b White 44 ep 36 False (None) [(35, 43), (37, 45)]"
    "pawnMoves b 45 ep White = pawnE b White 45 ep 37 False (None) [(36, 44), (38, 46)]"
    "pawnMoves b 46 ep White = pawnE b White 46 ep 38 False (None) [(37, 45), (39, 47)]"
    "pawnMoves b 47 ep White = pawnE b White 47 ep 39 False (None) [(38, 46)]" "pawnMoves b 48
    ep White = pawnE b White 48 ep 40 False (Some 32) [(41, 49)]" "pawnMoves b 49 ep White =
    pawnE b White 49 ep 41 False (Some 33) [(40, 48), (42, 50)]" "pawnMoves b 50 ep White =
    pawnE b White 50 ep 42 False (Some 34) [(41, 49), (43, 51)]" "pawnMoves b 51 ep White =
    pawnE b White 51 ep 43 False (Some 35) [(42, 50), (44, 52)]" "pawnMoves b 52 ep White =
    pawnE b White 52 ep 44 False (Some 36) [(43, 51), (45, 53)]" "pawnMoves b 53 ep White =
    pawnE b White 53 ep 45 False (Some 37) [(44, 52), (46, 54)]" "pawnMoves b 54 ep White =
    pawnE b White 54 ep 46 False (Some 38) [(45, 53), (47, 55)]" "pawnMoves b 55 ep White =
    pawnE b White 55 ep 47 False (Some 39) [(46, 54)]" "pawnMoves b 56 ep White = pawnE b White
    56 ep 48 False (None) [(49, 57)]" "pawnMoves b 57 ep White = pawnE b White 57 ep 49 False
    (None) [(48, 56), (50, 58)]" "pawnMoves b 58 ep White = pawnE b White 58 ep 50 False (None)
    [(49, 57), (51, 59)]" "pawnMoves b 59 ep White = pawnE b White 59 ep 51 False (None) [(50,
    58), (52, 60)]" "pawnMoves b 60 ep White = pawnE b White 60 ep 52 False (None) [(51, 59),
    (53, 61)]" "pawnMoves b 61 ep White = pawnE b White 61 ep 53 False (None) [(52, 60), (54,
    62)]" "pawnMoves b 62 ep White = pawnE b White 62 ep 54 False (None) [(53, 61), (55, 63)]"
    "pawnMoves b 63 ep White = pawnE b White 63 ep 55 False (None) [(54, 62)]"
  by (simp_all add: pawnMoves_E geom_eval row_tab col_tab)

lemma pawnMoves_Black:
  "pawnMoves b 0 ep Black = pawnE b Black 0 ep 8 False (None) [(9, 1)]" "pawnMoves b 1 ep Black
    = pawnE b Black 1 ep 9 False (None) [(8, 0), (10, 2)]" "pawnMoves b 2 ep Black = pawnE b
    Black 2 ep 10 False (None) [(9, 1), (11, 3)]" "pawnMoves b 3 ep Black = pawnE b Black 3 ep
    11 False (None) [(10, 2), (12, 4)]" "pawnMoves b 4 ep Black = pawnE b Black 4 ep 12 False
    (None) [(11, 3), (13, 5)]" "pawnMoves b 5 ep Black = pawnE b Black 5 ep 13 False (None)
    [(12, 4), (14, 6)]" "pawnMoves b 6 ep Black = pawnE b Black 6 ep 14 False (None) [(13, 5),
    (15, 7)]" "pawnMoves b 7 ep Black = pawnE b Black 7 ep 15 False (None) [(14, 6)]"
    "pawnMoves b 8 ep Black = pawnE b Black 8 ep 16 False (Some 24) [(17, 9)]" "pawnMoves b 9
    ep Black = pawnE b Black 9 ep 17 False (Some 25) [(16, 8), (18, 10)]" "pawnMoves b 10 ep
    Black = pawnE b Black 10 ep 18 False (Some 26) [(17, 9), (19, 11)]" "pawnMoves b 11 ep
    Black = pawnE b Black 11 ep 19 False (Some 27) [(18, 10), (20, 12)]" "pawnMoves b 12 ep
    Black = pawnE b Black 12 ep 20 False (Some 28) [(19, 11), (21, 13)]" "pawnMoves b 13 ep
    Black = pawnE b Black 13 ep 21 False (Some 29) [(20, 12), (22, 14)]" "pawnMoves b 14 ep
    Black = pawnE b Black 14 ep 22 False (Some 30) [(21, 13), (23, 15)]" "pawnMoves b 15 ep
    Black = pawnE b Black 15 ep 23 False (Some 31) [(22, 14)]" "pawnMoves b 16 ep Black = pawnE
    b Black 16 ep 24 False (None) [(25, 17)]" "pawnMoves b 17 ep Black = pawnE b Black 17 ep 25
    False (None) [(24, 16), (26, 18)]" "pawnMoves b 18 ep Black = pawnE b Black 18 ep 26 False
    (None) [(25, 17), (27, 19)]" "pawnMoves b 19 ep Black = pawnE b Black 19 ep 27 False (None)
    [(26, 18), (28, 20)]" "pawnMoves b 20 ep Black = pawnE b Black 20 ep 28 False (None) [(27,
    19), (29, 21)]" "pawnMoves b 21 ep Black = pawnE b Black 21 ep 29 False (None) [(28, 20),
    (30, 22)]" "pawnMoves b 22 ep Black = pawnE b Black 22 ep 30 False (None) [(29, 21), (31,
    23)]" "pawnMoves b 23 ep Black = pawnE b Black 23 ep 31 False (None) [(30, 22)]" "pawnMoves
    b 24 ep Black = pawnE b Black 24 ep 32 False (None) [(33, 25)]" "pawnMoves b 25 ep Black =
    pawnE b Black 25 ep 33 False (None) [(32, 24), (34, 26)]" "pawnMoves b 26 ep Black = pawnE
    b Black 26 ep 34 False (None) [(33, 25), (35, 27)]" "pawnMoves b 27 ep Black = pawnE b
    Black 27 ep 35 False (None) [(34, 26), (36, 28)]" "pawnMoves b 28 ep Black = pawnE b Black
    28 ep 36 False (None) [(35, 27), (37, 29)]" "pawnMoves b 29 ep Black = pawnE b Black 29 ep
    37 False (None) [(36, 28), (38, 30)]" "pawnMoves b 30 ep Black = pawnE b Black 30 ep 38
    False (None) [(37, 29), (39, 31)]" "pawnMoves b 31 ep Black = pawnE b Black 31 ep 39 False
    (None) [(38, 30)]" "pawnMoves b 32 ep Black = pawnE b Black 32 ep 40 False (None) [(41,
    33)]" "pawnMoves b 33 ep Black = pawnE b Black 33 ep 41 False (None) [(40, 32), (42, 34)]"
    "pawnMoves b 34 ep Black = pawnE b Black 34 ep 42 False (None) [(41, 33), (43, 35)]"
    "pawnMoves b 35 ep Black = pawnE b Black 35 ep 43 False (None) [(42, 34), (44, 36)]"
    "pawnMoves b 36 ep Black = pawnE b Black 36 ep 44 False (None) [(43, 35), (45, 37)]"
    "pawnMoves b 37 ep Black = pawnE b Black 37 ep 45 False (None) [(44, 36), (46, 38)]"
    "pawnMoves b 38 ep Black = pawnE b Black 38 ep 46 False (None) [(45, 37), (47, 39)]"
    "pawnMoves b 39 ep Black = pawnE b Black 39 ep 47 False (None) [(46, 38)]" "pawnMoves b 40
    ep Black = pawnE b Black 40 ep 48 False (None) [(49, 41)]" "pawnMoves b 41 ep Black = pawnE
    b Black 41 ep 49 False (None) [(48, 40), (50, 42)]" "pawnMoves b 42 ep Black = pawnE b
    Black 42 ep 50 False (None) [(49, 41), (51, 43)]" "pawnMoves b 43 ep Black = pawnE b Black
    43 ep 51 False (None) [(50, 42), (52, 44)]" "pawnMoves b 44 ep Black = pawnE b Black 44 ep
    52 False (None) [(51, 43), (53, 45)]" "pawnMoves b 45 ep Black = pawnE b Black 45 ep 53
    False (None) [(52, 44), (54, 46)]" "pawnMoves b 46 ep Black = pawnE b Black 46 ep 54 False
    (None) [(53, 45), (55, 47)]" "pawnMoves b 47 ep Black = pawnE b Black 47 ep 55 False (None)
    [(54, 46)]" "pawnMoves b 48 ep Black = pawnE b Black 48 ep 56 True (None) [(57, 49)]"
    "pawnMoves b 49 ep Black = pawnE b Black 49 ep 57 True (None) [(56, 48), (58, 50)]"
    "pawnMoves b 50 ep Black = pawnE b Black 50 ep 58 True (None) [(57, 49), (59, 51)]"
    "pawnMoves b 51 ep Black = pawnE b Black 51 ep 59 True (None) [(58, 50), (60, 52)]"
    "pawnMoves b 52 ep Black = pawnE b Black 52 ep 60 True (None) [(59, 51), (61, 53)]"
    "pawnMoves b 53 ep Black = pawnE b Black 53 ep 61 True (None) [(60, 52), (62, 54)]"
    "pawnMoves b 54 ep Black = pawnE b Black 54 ep 62 True (None) [(61, 53), (63, 55)]"
    "pawnMoves b 55 ep Black = pawnE b Black 55 ep 63 True (None) [(62, 54)]"
  by (simp_all add: pawnMoves_E geom_eval row_tab col_tab)

section \<open>The table-driven generator agrees with the engine\<close>

lemma stepsL_steps:
  "concat (map (\<lambda>(dr, df). addStep b f c (r + dr) (fl + df)) jumps)
   = stepsL b c f (stepSquares jumps r fl)"
proof (induction jumps)
  case Nil
  then show ?case by (simp add: stepSquares_def)
next
  case (Cons j jumps)
  obtain dr df where j: "j = (dr, df)" by (cases j)
  have s: "addStep b f c nr nf
           = (if isValid nr nf then stepC c f (idx nr nf) (cell b (idx nr nf)) else [])" for nr nf
    by (cases "cell b (idx nr nf)") (auto simp: addStep_def)
  show ?case
    using Cons by (simp add: j s stepSquares_def)
qed

lemma slideL_addSlide:
  "addSlide b f c dr df nr nf = slideL b c f (raySquares dr df nr nf)"
proof (induction dr df nr nf rule: raySquares.induct)
  case (1 dr df ar af)
  show ?case
  proof (cases "isValid ar af \<and> (dr \<noteq> 0 \<or> df \<noteq> 0)")
    case True
    then show ?thesis
      using 1
      by (subst addSlide.simps, subst raySquares.simps) (auto split: option.splits)
  next
    case False
    then show ?thesis
      by (subst addSlide.simps, subst raySquares.simps) auto
  qed
qed

lemma raysL_slides:
  "concat (map (\<lambda>(dr, df). addSlide b f c dr df (row f + dr) (col f + df)) dirs)
   = raysL b c f (raysT dirs f)"
  by (induction dirs) (auto simp: raysT_def slideL_addSlide)

lemma pseudoK_getPseudoMoves:
  "cell b i = Some (c, kd) \<Longrightarrow> getPseudoMoves b i cr ep c = pseudoK kd b c cr ep i"
  by (cases kd)
     (simp_all add: getPseudoMoves_def Let_def stepsL_steps raysL_slides knightT_def kingT_def)

section \<open>What the generated moves look like\<close>

lemma moveFine_mk:
  "inBoard t \<Longrightarrow> color (cell b t) \<noteq> Some c \<Longrightarrow> ty \<noteq> enPassant \<Longrightarrow> ty \<noteq> castleKing
     \<Longrightarrow> ty \<noteq> castleQueen \<Longrightarrow> moveFine b c f (mk f t ty)"
  "inBoard t \<Longrightarrow> color (cell b t) \<noteq> Some c \<Longrightarrow> ty \<noteq> enPassant \<Longrightarrow> ty \<noteq> castleKing
     \<Longrightarrow> ty \<noteq> castleQueen \<Longrightarrow> pp \<noteq> King \<Longrightarrow> moveFine b c f (mkPromo f t ty (c, pp))"
  by (simp_all add: moveFine_def special_def move_sel)

lemma addStep_fine: "list_all (moveFine b c f) (addStep b f c nr nf)"
  by (auto simp: addStep_def moveFine_mk idx_inBoard color_def split: option.splits)

lemma addSlide_fine: "list_all (moveFine b c f) (addSlide b f c dr df nr nf)"
proof (induction b f c dr df nr nf rule: addSlide.induct)
  case (1 b f c dr df nr nf)
  show ?case
  proof (cases "isValid nr nf \<and> (dr \<noteq> 0 \<or> df \<noteq> 0)")
    case True
    then show ?thesis
      using 1
      by (subst addSlide.simps)
         (auto simp: moveFine_mk idx_inBoard color_def split: option.splits)
  next
    case False
    then show ?thesis by (subst addSlide.simps) auto
  qed
qed

lemma steps_fine:
  "list_all (moveFine b c f) (concat (map (\<lambda>(dr, df). addStep b f c (r + dr) (fl + df)) ds))"
  by (rule list_all_concat_map) (auto simp: addStep_fine)

lemma slides_fine:
  "list_all (moveFine b c f)
     (concat (map (\<lambda>(dr, df). addSlide b f c dr df (r + dr) (fl + df)) ds))"
  by (rule list_all_concat_map) (auto simp: addSlide_fine)

lemma color_cell:
  "cell b t = None \<Longrightarrow> color (cell b t) \<noteq> Some c"
  "cell b t = Some p \<Longrightarrow> fst p \<noteq> c \<Longrightarrow> color (cell b t) \<noteq> Some c"
  by (simp_all add: color_def)

lemma pawnForward_fine: "list_all (moveFine b c f) (pawnForward b f c)"
proof -
  define d :: int where "d = (if c = White then - 1 else 1)"
  define fwd where "fwd = idx (row f + d) (col f)"
  define dbl where "dbl = idx (row f + 2 * d) (col f)"
  have v: "inBoard dbl" if "isValid (row f + d) (col f)" "row f = (if c = White then 6 else 1)"
    unfolding dbl_def using that by (intro idx_inBoard) (auto simp: isValid_def d_def)
  have one: "list_all (moveFine b c f)
               (if row f + d = (if c = White then 0 else 7)
                then map (\<lambda>pp. mkPromo f fwd promotion (c, pp)) promoKinds
                else [mk f fwd normal])"
    if a: "isValid (row f + d) (col f)" and e: "cell b fwd = None"
  proof -
    have i: "inBoard fwd" unfolding fwd_def by (rule idx_inBoard[OF a])
    have k: "color (cell b fwd) \<noteq> Some c" by (rule color_cell(1)[OF e])
    have "moveFine b c f (mk f fwd normal)" by (rule moveFine_mk(1)[OF i k]) simp_all
    moreover have "moveFine b c f (mkPromo f fwd promotion (c, pp))" if "pp \<in> set promoKinds"
      for pp
      using that by (intro moveFine_mk(2)[OF i k]) (auto simp: promoKinds_def)
    ultimately show ?thesis by (simp add: list_all_iff)
  qed
  have two: "list_all (moveFine b c f)
               (if row f = (if c = White then 6 else 1) \<and> cell b dbl = None
                then [mk f dbl doublePush] else [])"
    if a: "isValid (row f + d) (col f)"
  proof (cases "row f = (if c = White then 6 else 1) \<and> cell b dbl = None")
    case True
    have "moveFine b c f (mk f dbl doublePush)"
      by (rule moveFine_mk(1)[OF v[OF a] color_cell(1)]) (use True in simp_all)
    then show ?thesis by (simp only: True if_True list_all_Nil_iff list_all_Cons_iff simp_thms)
  next
    case False
    show ?thesis by (simp only: False if_False list_all_Nil_iff list_all_Cons_iff)
  qed
  show ?thesis
  proof (cases "isValid (row f + d) (col f) \<and> cell b fwd = None")
    case True
    then have a: "isValid (row f + d) (col f)" and e: "cell b fwd = None" by simp_all
    show ?thesis
      unfolding pawnForward_def Let_def d_def[symmetric] fwd_def[symmetric] dbl_def[symmetric]
      using one[OF a e] two[OF a] by (simp only: True if_True list_all_append simp_thms)
  next
    case False
    show ?thesis
      unfolding pawnForward_def Let_def d_def[symmetric] fwd_def[symmetric] dbl_def[symmetric]
      by (simp only: False if_False list_all_Nil_iff)
  qed
qed

lemma capC_fine: "inBoard t \<Longrightarrow> list_all (moveFine b c f) (capC c f t promo (cell b t))"
proof (cases "cell b t")
  case None
  then show ?thesis by simp
next
  case (Some p)
  assume t: "inBoard t"
  obtain c' k where p: "p = (c', k)" by (cases p)
  have "c' \<noteq> c \<Longrightarrow> color (cell b t) \<noteq> Some c" using Some p by (simp add: color_def)
  then show ?thesis
    using Some p t by (auto simp: moveFine_mk promoKinds_def)
qed

lemma epC_special: "list_all (\<lambda>m. mtype m = enPassant) (epC f t cs ep)"
  by (cases ep) (simp_all add: move_sel)

lemma pawnCapture_fine:
  "list_all (\<lambda>m. mtype m = enPassant \<or> moveFine b c f m) (pawnCapture b f ep c df)"
proof (cases "isValid (row f + (if c = White then - 1 else 1)) (col f + df)")
  case True
  note t = idx_inBoard[OF True]
  show ?thesis
    unfolding pawnCapture_E using True capC_fine[OF t, of b c f] epC_special
    by (auto simp: list_all_iff)
next
  case False
  then show ?thesis unfolding pawnCapture_E by simp
qed

lemma pawnMoves_fine:
  "list_all (\<lambda>m. mtype m = enPassant \<or> moveFine b c f m) (pawnMoves b f ep c)"
  using pawnForward_fine[of b c f] pawnCapture_fine[of b c f ep]
  by (auto simp: pawnMoves_def list_all_iff)

lemma kingCastling_special: "list_all special (kingCastling b f cr c)"
  by (simp add: kingCastling_def special_def move_sel)

lemma pseudoK_fine:
  "kd \<noteq> Pawn \<Longrightarrow> kd \<noteq> King \<Longrightarrow> list_all (moveFine b c i) (pseudoK kd b c cr ep i)"
  "list_all (\<lambda>m. mtype m = enPassant \<or> moveFine b c i m) (pseudoK Pawn b c cr ep i)"
  "list_all (\<lambda>m. special m \<or> moveFine b c i m) (pseudoK King b c cr ep i)"
proof -
  show "kd \<noteq> Pawn \<Longrightarrow> kd \<noteq> King \<Longrightarrow> list_all (moveFine b c i) (pseudoK kd b c cr ep i)"
    using steps_fine[of b c i "row i" "col i" knightJumps]
      slides_fine[of b c i "row i" "col i"]
    by (cases kd)
       (simp_all add: stepsL_steps[symmetric] raysL_slides[symmetric] knightT_def)
  show "list_all (\<lambda>m. mtype m = enPassant \<or> moveFine b c i m) (pseudoK Pawn b c cr ep i)"
    by (simp add: pawnMoves_fine)
  show "list_all (\<lambda>m. special m \<or> moveFine b c i m) (pseudoK King b c cr ep i)"
    using steps_fine[of b c i "row i" "col i" allDirs] kingCastling_special[of b i cr c]
    by (auto simp: stepsL_steps[symmetric] kingT_def list_all_iff)
qed

section \<open>Attacks on a square when one cell changes\<close>

lemma hitL_firstHit: "hitL b p1 p2 ss = firstHit (map (cell b) ss) p1 p2"
  by (induction ss) (auto split: option.splits)

lemma firstHit_cover:
  assumes "\<And>s. cell b' s = cell b s \<or> (\<exists>p. cell b' s = Some p \<and> p \<noteq> p1 \<and> p \<noteq> p2)"
    and "firstHit (map (cell b') rs) p1 p2"
  shows "firstHit (map (cell b) rs) p1 p2"
  using assms(2)
proof (induction rs)
  case Nil
  then show ?case by simp
next
  case (Cons s rs)
  from assms(1)[of s] show ?case
  proof
    assume e: "cell b' s = cell b s"
    show ?thesis
      using Cons unfolding list.map e by (cases "cell b s") auto
  next
    assume "\<exists>p. cell b' s = Some p \<and> p \<noteq> p1 \<and> p \<noteq> p2"
    then show ?thesis using Cons.prems by auto
  qed
qed

lemma step_cover:
  assumes "\<And>s. cell b' s = cell b s \<or> cell b' s \<noteq> Some p"
    and "list_ex (\<lambda>x. x = Some p) (map (cell b') sqs)"
  shows "list_ex (\<lambda>x. x = Some p) (map (cell b) sqs)"
  using assms(2)
proof (induction sqs)
  case Nil
  then show ?case by simp
next
  case (Cons s sqs)
  from assms(1)[of s] Cons show ?case by auto
qed

lemma rays_cover:
  assumes "\<And>s. cell b' s = cell b s \<or> (\<exists>p. cell b' s = Some p \<and> p \<noteq> p1 \<and> p \<noteq> p2)"
    and "list_ex (\<lambda>r. firstHit r p1 p2) (map (\<lambda>(dr, df). map (cell b') (g dr df)) ds)"
  shows "list_ex (\<lambda>r. firstHit r p1 p2) (map (\<lambda>(dr, df). map (cell b) (g dr df)) ds)"
  using assms(2)
proof (induction ds)
  case Nil
  then show ?case by simp
next
  case (Cons d ds)
  obtain dr df where d: "d = (dr, df)" by (cases d)
  from Cons firstHit_cover[of b' b p1 p2 "g dr df", OF assms(1)] show ?case
    unfolding d by auto
qed

lemma attack_cover:
  assumes c: "\<And>s. cell b' s = cell b s \<or> (\<exists>p. cell b' s = Some p \<and> fst p \<noteq> oc)"
    and a: "isAttacked b' k oc"
  shows "isAttacked b k oc"
proof -
  have st: "cell b' s = cell b s \<or> cell b' s \<noteq> Some (oc, kd)" for s kd
    using c[of s] by auto
  have ry: "cell b' s = cell b s \<or> (\<exists>p. cell b' s = Some p \<and> p \<noteq> (oc, k1) \<and> p \<noteq> (oc, k2))"
    for s k1 k2
    using c[of s] by auto
  note s1 = step_cover[of b' b "(oc, Pawn)", OF st]
  note s2 = step_cover[of b' b "(oc, Knight)", OF st]
  note s3 = step_cover[of b' b "(oc, King)", OF st]
  note r1 = rays_cover[of b' b "(oc, Bishop)" "(oc, Queen)"
      "\<lambda>dr df. raySquares dr df (row k + dr) (col k + df)" diagDirs, OF ry]
  note r2 = rays_cover[of b' b "(oc, Rook)" "(oc, Queen)"
      "\<lambda>dr df. raySquares dr df (row k + dr) (col k + df)" straightDirs, OF ry]
  from a have "list_ex (\<lambda>x. x = Some (oc, Pawn))
       (map (cell b') (stepSquares [(0, - 1), (0, 1)]
          (row k + (if oc = White then 1 else - 1)) (col k)))
     \<or> list_ex (\<lambda>x. x = Some (oc, Knight)) (map (cell b') (stepSquares knightJumps (row k) (col k)))
     \<or> list_ex (\<lambda>r. firstHit r (oc, Bishop) (oc, Queen))
          (map (\<lambda>(dr, df). map (cell b') (raySquares dr df (row k + dr) (col k + df))) diagDirs)
     \<or> list_ex (\<lambda>r. firstHit r (oc, Rook) (oc, Queen))
          (map (\<lambda>(dr, df). map (cell b') (raySquares dr df (row k + dr) (col k + df)))
             straightDirs)
     \<or> list_ex (\<lambda>x. x = Some (oc, King)) (map (cell b') (stepSquares allDirs (row k) (col k)))"
    unfolding isAttacked_cells attackedL_def .
  then show ?thesis
    unfolding isAttacked_cells attackedL_def
    using s1 s2 s3 r1 r2 by (elim disjE) simp_all
qed

lemma ray_remove:
  assumes i: "0 \<le> f" "f < int (length b)"
    and h: "firstHit (map (cell (put b f None)) r) p1 p2"
  shows "firstHit (map (cell b) r) p1 p2 \<or> f \<in> set (pinScan b p1 p2 r)"
  using h
proof (induction r)
  case Nil
  then show ?case by simp
next
  case (Cons s ss)
  show ?case
  proof (cases "cell b s")
    case None
    then have "cell (put b f None) s = None" by (simp add: cell_put[OF i])
    with Cons None show ?thesis by simp
  next
    case (Some p)
    show ?thesis
    proof (cases "s = f")
      case True
      have "cell (put b f None) s = None" using True by (simp add: cell_put[OF i])
      with Cons.prems have "hitL (put b f None) p1 p2 ss" by (simp add: hitL_firstHit)
      then show ?thesis using Some True by simp
    next
      case False
      then have "cell (put b f None) s = Some p" using Some by (simp add: cell_put[OF i])
      with Cons.prems Some show ?thesis by simp
    qed
  qed
qed

lemma rays_remove:
  assumes i: "0 \<le> f" "f < int (length b)"
    and h: "list_ex (\<lambda>r. firstHit r p1 p2) (map (map (cell (put b f None))) rs)"
  shows "list_ex (\<lambda>r. firstHit r p1 p2) (map (map (cell b)) rs) \<or> f \<in> set (pinsL b p1 p2 rs)"
  using h
proof (induction rs)
  case Nil
  then show ?case by simp
next
  case (Cons r rs)
  then show ?case using ray_remove[OF i, of r p1 p2] by auto
qed

lemma attack_remove:
  assumes i: "0 \<le> f" "f < int (length b)"
    and a: "isAttacked (put b f None) k oc"
  shows "isAttacked b k oc \<or> f \<in> set (pins b oc k)"
proof -
  let ?b = "put b f None"
  have st: "cell ?b s = cell b s \<or> cell ?b s \<noteq> Some p" for s p
    by (simp add: cell_put[OF i])
  have m: "map (\<lambda>(dr, df). map (cell x) (raySquares dr df (row k + dr) (col k + df))) ds
           = map (map (cell x)) (raysT ds k)" for x ds
    by (simp add: raysT_def split_beta)
  from a show ?thesis
    unfolding isAttacked_cells attackedL_def pins_def m
    using step_cover[of ?b b "(oc, Pawn)", OF st] step_cover[of ?b b "(oc, Knight)", OF st]
      step_cover[of ?b b "(oc, King)", OF st]
      rays_remove[OF i, of "(oc, Bishop)" "(oc, Queen)" "raysT diagDirs k"]
      rays_remove[OF i, of "(oc, Rook)" "(oc, Queen)" "raysT straightDirs k"]
    by auto
qed

lemma put_swap:
  "0 \<le> f \<Longrightarrow> f < int (length b) \<Longrightarrow> 0 \<le> t \<Longrightarrow> t < int (length b) \<Longrightarrow> f \<noteq> t \<Longrightarrow>
   put (put b t v) f w = put (put b f w) t v"
  by (simp add: put_def list_update_swap nat_eq_iff)

lemma safe_move:
  assumes f: "0 \<le> f" "f < int (length b)" and t: "0 \<le> t" "t < int (length b)"
    and ft: "f \<noteq> t"
    and na: "\<not> isAttacked b k oc" and np: "f \<notin> set (pins b oc k)" and x: "fst x \<noteq> oc"
  shows "\<not> isAttacked (put (put b t (Some x)) f None) k oc"
proof
  assume a: "isAttacked (put (put b t (Some x)) f None) k oc"
  let ?b1 = "put b f None"
  have t1: "0 \<le> t" "t < int (length ?b1)" using t by (simp_all add: length_put[OF f])
  have "cell (put ?b1 t (Some x)) s = cell ?b1 s
        \<or> (\<exists>p. cell (put ?b1 t (Some x)) s = Some p \<and> fst p \<noteq> oc)" for s
    unfolding cell_put[OF t1] using x by (cases "s = t") simp_all
  then have "isAttacked ?b1 k oc"
    using a unfolding put_swap[OF f t ft] by (rule attack_cover)
  with attack_remove[OF f] na np show False by blast
qed

section \<open>Where the kings stand\<close>

lemma findIndexFrom_first:
  assumes "j < length xs" "P (xs ! j)"
  shows "\<exists>i \<le> j. findIndexFrom P xs n = n + int i \<and> P (xs ! i)"
  using assms
proof (induction xs arbitrary: j n)
  case Nil
  then show ?case by simp
next
  case (Cons x xs)
  show ?case
  proof (cases "P x")
    case True
    then show ?thesis by (intro exI[of _ 0]) simp
  next
    case False
    then obtain j' where j: "j = Suc j'" using Cons.prems by (cases j) auto
    from Cons.IH[of j' "n + 1"] Cons.prems j
    obtain i where "i \<le> j'" "findIndexFrom P xs (n + 1) = n + 1 + int i" "P (xs ! i)"
      by auto
    then show ?thesis using False j by (intro exI[of _ "Suc i"]) simp
  qed
qed

lemma findKing_kingAt:
  assumes "kingAt b c k"
  shows "findKing b c = k"
proof -
  have ck: "cell b k = Some (c, King)" using assms by (simp add: kingAt_def)
  then have r: "0 \<le> k" "nat k < length b" "b ! nat k = Some (c, King)"
    by (auto simp: cell_def split: if_splits)
  from findIndexFrom_first[of "nat k" b "\<lambda>p. p = Some (c, King)" 0, OF r(2,3)]
  obtain i where i: "i \<le> nat k" "findKing b c = int i" "b ! i = Some (c, King)"
    by (auto simp: findKing_def findIndex_def)
  then have "cell b (int i) = Some (c, King)" using r(2) by (simp add: cell_def)
  then have "int i = k" using assms by (simp add: kingAt_def)
  with i show ?thesis by simp
qed

lemma kingAt_move:
  assumes k: "kingAt b c k"
    and f: "0 \<le> f" "f < int (length b)" and t: "0 \<le> t" "t < int (length b)"
    and ft: "f \<noteq> t" and tk: "t \<noteq> k"
    and p: "f \<noteq> k \<Longrightarrow> x \<noteq> Some (c, King)" "f = k \<Longrightarrow> x = Some (c, King)"
  shows "kingAt (put (put b t x) f None) c (if f = k then t else k)"
proof -
  have t1: "0 \<le> f" "f < int (length (put b t x))" using f by (simp_all add: length_put[OF t])
  have c: "cell (put (put b t x) f None) i
           = (if i = f then None else if i = t then x else cell b i)" for i
    by (simp add: cell_put[OF t1] cell_put[OF t])
  show ?thesis
    unfolding kingAt_def c using k ft tk p by (auto simp: kingAt_def)
qed

section \<open>The quick legality tests\<close>

lemma apply_plain:
  "\<not> special m \<Longrightarrow>
   applyMoveToBoard b m
   = put (put b (mto m) (case promoteTo m of Some q \<Rightarrow> Some q | None \<Rightarrow> cell b (mfrom m)))
       (mfrom m) None"
  by (simp add: applyMoveToBoard_def special_def Let_def)

lemma isLegalB_plain:
  "\<not> special m \<Longrightarrow> kingAt (applyMoveToBoard b m) c k \<Longrightarrow>
   isLegalB b m c = (\<not> isAttacked (applyMoveToBoard b m) k (oppc c))"
proof -
  assume s: "\<not> special m" and k: "kingAt (applyMoveToBoard b m) c k"
  have "cell (applyMoveToBoard b m) k = Some (c, King)" using k by (simp add: kingAt_def)
  then have "0 \<le> k" by (auto simp: cell_def split: if_splits)
  then show ?thesis
    using s findKing_kingAt[OF k]
    by (simp add: isLegalB_def special_def isInCheck_def Let_def oppc_def)
qed

lemma fine_facts:
  assumes c: "cell b i = Some (c, kd)" and m: "moveFine b c i m"
  shows "0 \<le> mfrom m" "mfrom m < int (length b)" "mfrom m \<noteq> mto m" "mfrom m = i"
    and "\<not> special m"
    and "fst (the (case promoteTo m of Some q \<Rightarrow> Some q | None \<Rightarrow> cell b (mfrom m))) = c"
    and "(case promoteTo m of Some q \<Rightarrow> Some q | None \<Rightarrow> cell b (mfrom m)) \<noteq> None"
    and "kd \<noteq> King \<Longrightarrow>
         (case promoteTo m of Some q \<Rightarrow> Some q | None \<Rightarrow> cell b (mfrom m)) \<noteq> Some (c, King)"
    and "promoteTo m = None \<Longrightarrow>
         (case promoteTo m of Some q \<Rightarrow> Some q | None \<Rightarrow> cell b (mfrom m)) = Some (c, kd)"
proof -
  from m have f: "mfrom m = i" and s: "\<not> special m"
    and t: "color (cell b (mto m)) \<noteq> Some c"
    and p: "case promoteTo m of None \<Rightarrow> True | Some q \<Rightarrow> fst q = c \<and> snd q \<noteq> King"
    by (simp_all add: moveFine_def)
  from c show "0 \<le> mfrom m" "mfrom m < int (length b)"
    unfolding f by (auto simp: cell_def split: if_splits)
  show "mfrom m \<noteq> mto m" using t c f by (auto simp: color_def)
  show "mfrom m = i" by (rule f)
  show "\<not> special m" by (rule s)
  show "fst (the (case promoteTo m of Some q \<Rightarrow> Some q | None \<Rightarrow> cell b (mfrom m))) = c"
    using p c f by (cases "promoteTo m") auto
  show "(case promoteTo m of Some q \<Rightarrow> Some q | None \<Rightarrow> cell b (mfrom m)) \<noteq> None"
    using c f by (cases "promoteTo m") auto
  show "kd \<noteq> King \<Longrightarrow>
         (case promoteTo m of Some q \<Rightarrow> Some q | None \<Rightarrow> cell b (mfrom m)) \<noteq> Some (c, King)"
    using p c f by (cases "promoteTo m") auto
  show "promoteTo m = None \<Longrightarrow>
         (case promoteTo m of Some q \<Rightarrow> Some q | None \<Rightarrow> cell b (mfrom m)) = Some (c, kd)"
    using c f by simp
qed

lemma target_facts:
  assumes l: "length b = 64" and m: "moveFine b c i m"
  shows "0 \<le> mto m" "mto m < int (length b)"
    and "cell b k = Some (c, kd') \<Longrightarrow> mto m \<noteq> k"
proof -
  from m have t: "inBoard (mto m)" "color (cell b (mto m)) \<noteq> Some c"
    by (simp_all add: moveFine_def)
  show "0 \<le> mto m" "mto m < int (length b)" using t(1) l by (simp_all add: inBoard_def)
  show "cell b k = Some (c, kd') \<Longrightarrow> mto m \<noteq> k" using t(2) by (auto simp: color_def)
qed

lemma legal_nonking:
  assumes l: "length b = 64" and k: "kingAt b c k"
    and c: "cell b i = Some (c, kd)" and nk: "kd \<noteq> King" and m: "moveFine b c i m"
  shows "isLegalB b m c = (\<not> isAttacked (applyMoveToBoard b m) k (oppc c))"
proof -
  note f = fine_facts[OF c m] and t = target_facts[OF l m]
  have ck: "cell b k = Some (c, King)" using k by (simp add: kingAt_def)
  have ik: "mfrom m \<noteq> k" using c ck nk f(4) by auto
  have "kingAt (applyMoveToBoard b m) c (if mfrom m = k then mto m else k)"
    unfolding apply_plain[OF f(5)]
    by (rule kingAt_move[OF k f(1,2) t(1,2) f(3) t(3)[OF ck]]) (use ik f(8)[OF nk] in simp_all)
  then have "kingAt (applyMoveToBoard b m) c k" using ik by simp
  then show ?thesis by (rule isLegalB_plain[OF f(5)])
qed

lemma legal_king:
  assumes l: "length b = 64" and k: "kingAt b c k" and m: "moveFine b c k m"
    and p: "promoteTo m = None"
  shows "isLegalB b m c = (\<not> isAttacked (applyMoveToBoard b m) (mto m) (oppc c))"
proof -
  have ck: "cell b k = Some (c, King)" using k by (simp add: kingAt_def)
  note f = fine_facts[OF ck m] and t = target_facts[OF l m]
  have "kingAt (applyMoveToBoard b m) c (if mfrom m = k then mto m else k)"
    unfolding apply_plain[OF f(5)]
    by (rule kingAt_move[OF k f(1,2) t(1,2) f(3) t(3)[OF ck]]) (use f(4) f(9)[OF p] in simp_all)
  then have "kingAt (applyMoveToBoard b m) c (mto m)" using f(4) by simp
  then show ?thesis by (rule isLegalB_plain[OF f(5)])
qed

lemma legal_free:
  assumes l: "length b = 64" and k: "kingAt b c k"
    and c: "cell b i = Some (c, kd)" and nk: "kd \<noteq> King" and m: "moveFine b c i m"
    and na: "\<not> isAttacked b k (oppc c)" and np: "i \<notin> set (pins b (oppc c) k)"
  shows "isLegalB b m c"
proof -
  note f = fine_facts[OF c m] and t = target_facts[OF l m]
  obtain x where x: "(case promoteTo m of Some q \<Rightarrow> Some q | None \<Rightarrow> cell b (mfrom m)) = Some x"
    using f(7) by auto
  have fx: "fst x \<noteq> oppc c" using f(6) unfolding x by (cases c) (simp_all add: oppc_def opp_def)
  have "\<not> isAttacked (applyMoveToBoard b m) k (oppc c)"
    unfolding apply_plain[OF f(5)] x
    by (rule safe_move[OF f(1,2) t(1,2) f(3) na _ fx]) (use np f(4) in simp)
  then show ?thesis by (simp add: legal_nonking[OF l k c nk m])
qed

lemma isFree_iff: "isFree chk ps i = (\<not> chk \<and> i \<notin> set ps)"
  by (induction chk ps i rule: isFree.induct) auto

lemma king_steps_plain: "list_all (\<lambda>m. special m \<or> promoteTo m = None) (pseudoK King b c cr ep i)"
proof -
  have "list_all (\<lambda>m. promoteTo m = None) (stepsL b c i ts)" for ts
  proof (induction ts)
    case Nil
    then show ?case by simp
  next
    case (Cons t ts)
    then show ?case by (cases "cell b t") (auto simp: move_sel)
  qed
  then show ?thesis
    using kingCastling_special[of b i cr c] by (auto simp: list_all_iff)
qed

lemma own_legal:
  assumes l: "length b = 64" and k: "kingAt b c k" and c: "cell b i = Some (c, kd)"
  shows "filter (\<lambda>m. isLegalB b m c) (getPseudoMoves b i cr ep c)
         = ownMoves kd b c cr ep k (isFree (isAttacked b k (oppc c)) (pins b (oppc c) k) i) i"
proof -
  let ?ms = "pseudoK kd b c cr ep i"
  let ?free = "isFree (isAttacked b k (oppc c)) (pins b (oppc c) k) i"
  note fine = pseudoK_fine[where b=b and c=c and i=i and cr=cr and ep=ep, unfolded list_all_iff]
  have g: "getPseudoMoves b i cr ep c = ?ms" by (rule pseudoK_getPseudoMoves[OF c])
  show ?thesis
  proof (cases "kd = King")
    case True
    have ik: "i = k" using k c True by (simp add: kingAt_def)
    have "isLegalB b m c = kingOK b c m" if "m \<in> set ?ms" for m
    proof (cases "special m")
      case True
      then show ?thesis by (simp add: kingOK_def)
    next
      case False
      with that fine(3) king_steps_plain[of b c cr ep i] \<open>kd = King\<close>
      have "moveFine b c k m" "promoteTo m = None" by (auto simp: ik list_all_iff)
      then show ?thesis using False by (simp add: legal_king[OF l k] kingOK_def)
    qed
    then have "filter (\<lambda>m. isLegalB b m c) ?ms = filter (kingOK b c) ?ms"
      by (intro filter_cong refl)
    then show ?thesis unfolding g True ownMoves.simps(1) .
  next
    case nk: False
    have pk: "isLegalB b m c = pieceOK b c k m" if "m \<in> set ?ms" for m
    proof (cases "special m")
      case True
      then show ?thesis by (simp add: pieceOK_def)
    next
      case False
      have "moveFine b c i m"
      proof (cases "kd = Pawn")
        case True
        then have "mtype m = enPassant \<or> moveFine b c i m" using that fine(2) by blast
        then show ?thesis using False by (auto simp: special_def)
      next
        case False
        then show ?thesis using that fine(1)[of kd] nk by blast
      qed
      then show ?thesis using False by (simp add: legal_nonking[OF l k c nk] pieceOK_def)
    qed
    show ?thesis
    proof (cases ?free)
      case False
      have "filter (\<lambda>m. isLegalB b m c) ?ms = filter (pieceOK b c k) ?ms"
        using pk by (intro filter_cong refl)
      then show ?thesis unfolding g using False nk by (cases kd) simp_all
    next
      case True
      then have na: "\<not> isAttacked b k (oppc c)" and np: "i \<notin> set (pins b (oppc c) k)"
        by (simp_all add: isFree_iff)
      have ok: "isLegalB b m c" if "moveFine b c i m" for m
        by (rule legal_free[OF l k c nk that na np])
      show ?thesis
      proof (cases "kd = Pawn")
        case True
        have "isLegalB b m c = epOK b c m" if "m \<in> set ?ms" for m
        proof -
          from that True have "mtype m = enPassant \<or> moveFine b c i m" using fine(2) by blast
          then show ?thesis using ok by (auto simp: epOK_def)
        qed
        then have "filter (\<lambda>m. isLegalB b m c) ?ms = filter (epOK b c) ?ms"
          by (intro filter_cong refl)
        then show ?thesis unfolding g using \<open>?free\<close> True by simp
      next
        case False
        have "isLegalB b m c" if "m \<in> set ?ms" for m
          using that fine(1)[of kd] False nk ok by blast
        then have "filter (\<lambda>m. isLegalB b m c) ?ms = ?ms" by (simp add: filter_id_conv)
        then show ?thesis unfolding g using \<open>?free\<close> False nk by (cases kd) simp_all
      qed
    qed
  qed
qed

lemma sq_legal:
  assumes l: "length b = 64" and k: "kingAt b c k"
  shows "filter (\<lambda>m. isLegalB b m c)
           (case cell b i of None \<Rightarrow> []
            | Some p \<Rightarrow> if fst p = c then getPseudoMoves b i cr ep c else [])
         = sqMoves b c cr ep k (isAttacked b k (oppc c)) (pins b (oppc c) k) i (cell b i)"
proof (cases "cell b i")
  case None
  then show ?thesis by simp
next
  case (Some p)
  obtain c' kd where p: "p = (c', kd)" by (cases p)
  show ?thesis
  proof (cases "c' = c")
    case True
    then show ?thesis using own_legal[OF l k, of i kd cr ep] Some p by simp
  next
    case False
    then show ?thesis using Some p by simp
  qed
qed

lemma goSq_zip:
  "goSq b c cr ep k chk ps is xs
   = concat (map (\<lambda>ix. sqMoves b c cr ep k chk ps (fst ix) (snd ix)) (zip is xs))"
  by (induction b c cr ep k chk ps "is" xs rule: goSq.induct) simp_all

lemma zip_board:
  assumes "length b = 64"
  shows "zip [0 .. 63] b = map (\<lambda>i. (i, cell b i)) [0 .. 63]"
proof (rule nth_equalityI)
  show "length (zip [0 .. 63] b) = length (map (\<lambda>i. (i, cell b i)) [0 .. 63])"
    using assms by simp
next
  fix n assume "n < length (zip [0 .. 63] b)"
  then have n: "n < 64" using assms by simp
  then have "[0 .. 63] ! n = int n" by simp
  then show "zip [0 .. 63] b ! n = map (\<lambda>i. (i, cell b i)) [0 .. 63] ! n"
    using n assms by (simp add: cell_def)
qed

lemma legalF_legal:
  assumes l: "length b = 64" and k: "kingAt b c k"
  shows "legalF b c cr ep k = legalMovesB b c cr ep"
proof -
  have c: "castleOK b c = (\<lambda>m. isLegalB b m c)" by (rule ext) (simp add: castleOK_def)
  have "filter (\<lambda>m. isLegalB b m c)
          (concat (map (\<lambda>i. case cell b i of None \<Rightarrow> []
                         | Some p \<Rightarrow> if fst p = c then getPseudoMoves b i cr ep c else [])
                    is))
        = concat (map (\<lambda>i. sqMoves b c cr ep k (isAttacked b k (oppc c)) (pins b (oppc c) k) i
                             (cell b i)) is)" for "is"
    by (induction "is") (simp_all add: sq_legal[OF l k])
  then show ?thesis
    by (simp add: legalF_def legalF2_def legalMovesB_def getAllPseudoMoves_def goSq_zip
        zip_board[OF l] c comp_def)
qed

lemma perftF_sum:
  "perftF (Suc (Suc n)) b c cr ep wk bk
   = sumF (Suc n) b c cr ep wk bk (legalF b c cr ep (ownKing c wk bk))"
proof -
  have "sumF n b c cr ep wk bk ms = sum_list (map (childF n b c cr ep wk bk) ms)" for ms n
    by (induction ms) simp_all
  then show ?thesis by (simp add: childF_def[abs_def])
qed

lemma count_length: "count xs n = length xs + n"
  by (induction xs arbitrary: n) simp_all

lemma perftF_one: "perftF (Suc 0) b c cr ep wk bk = count (legalF b c cr ep (ownKing c wk bk)) 0"
proof -
  have "sum_list (map (\<lambda>m. 1 :: nat) ms) = length ms" for ms :: "move list"
    by (induction ms) simp_all
  then show ?thesis
    unfolding perftF.simps perft.simps count_length by simp
qed

lemma child2_plain:
  "child2 n b cr wk bk (mfrom m) (mto m) (mtype m) (cell b (mfrom m))
   = perftF n (put (put b (mto m) (cell b (mfrom m))) (mfrom m) None)
       (opp (color (cell b (mfrom m)))) (updateRights (cell b (mfrom m)) (mfrom m) cr)
       (newEnPassant (cell b (mfrom m)) m) (kingTo wk m) (kingTo bk m)"
proof (cases "cell b (mfrom m)")
  case None
  then show ?thesis
    by (simp add: opp_def color_def updateRights_def ptype_def newEnPassant_def kingTo_def)
next
  case (Some p)
  obtain c kd where p: "p = (c, kd)" by (cases p)
  show ?thesis
    unfolding Some p child2.simps
    by (cases c) (simp_all add: oppc_def opp_def color_def newEnPassant_def kingTo_def)
qed

lemma childF_plain:
  assumes "\<not> special m" "promoteTo m = None"
  shows "childF n b c cr ep wk bk m =
     (if mto m = wk \<or> mto m = bk \<or> mfrom m = mto m
      then perft n (applyMoveFull (position b c cr ep 0 1) m)
      else child2 n b cr wk bk (mfrom m) (mto m) (mtype m) (cell b (mfrom m)))"
  unfolding child2_plain childF_def plain_def using assms apply_plain[OF assms(1), of b]
  by simp

lemma childF_mk:
  "childF n b c cr ep wk bk (mk f t normal) =
     (if t = wk \<or> t = bk \<or> f = t
      then perft n (applyMoveFull (position b c cr ep 0 1) (mk f t normal))
      else child2 n b cr wk bk f t normal (cell b f))"
  "childF n b c cr ep wk bk (mk f t capture) =
     (if t = wk \<or> t = bk \<or> f = t
      then perft n (applyMoveFull (position b c cr ep 0 1) (mk f t capture))
      else child2 n b cr wk bk f t capture (cell b f))"
  "childF n b c cr ep wk bk (mk f t doublePush) =
     (if t = wk \<or> t = bk \<or> f = t
      then perft n (applyMoveFull (position b c cr ep 0 1) (mk f t doublePush))
      else child2 n b cr wk bk f t doublePush (cell b f))"
  using childF_plain[of "mk f t normal" n b c cr ep wk bk]
    childF_plain[of "mk f t capture" n b c cr ep wk bk]
    childF_plain[of "mk f t doublePush" n b c cr ep wk bk]
  by (simp_all add: special_def move_sel)

lemma rights_eval:
  "updateRights (Some (c, Pawn)) f cr = cr"
  "updateRights (Some (c, Knight)) f cr = cr"
  "updateRights (Some (c, Bishop)) f cr = cr"
  "updateRights (Some (c, Queen)) f cr = cr"
  "updateRights (Some (White, King)) f cr = cr\<lparr>wK := False, wQ := False\<rparr>"
  "updateRights (Some (Black, King)) f cr = cr\<lparr>bK := False, bQ := False\<rparr>"
  "updateRights (Some (c, Rook)) f cr =
     (if f = 56 then cr\<lparr>wQ := False\<rparr> else if f = 63 then cr\<lparr>wK := False\<rparr>
      else if f = 0 then cr\<lparr>bQ := False\<rparr> else if f = 7 then cr\<lparr>bK := False\<rparr> else cr)"
  by (simp_all add: updateRights_def ptype_def color_def Let_def)

section \<open>The quick count agrees with the count on the engine\<close>

lemma applyMoveFull_fields:
  "board (applyMoveFull s m) = applyMoveToBoard (board s) m"
  "turn (applyMoveFull s m) = opp (color (cell (board s) (mfrom m)))"
  "castlingRights (applyMoveFull s m)
     = updateRights (cell (board s) (mfrom m)) (mfrom m) (castlingRights s)"
  "enPassantTarget (applyMoveFull s m) = newEnPassant (cell (board s) (mfrom m)) m"
  by (simp_all add: applyMoveFull_def Let_def)

lemma perft_core:
  "board s = board s' \<Longrightarrow> turn s = turn s' \<Longrightarrow> castlingRights s = castlingRights s' \<Longrightarrow>
   enPassantTarget s = enPassantTarget s' \<Longrightarrow> perft n s = perft n s'"
proof (induction n arbitrary: s s')
  case 0
  then show ?case by simp
next
  case (Suc n)
  have l: "getAllLegalMoves s = getAllLegalMoves s'"
    using Suc.prems by (simp add: getAllLegalMoves_eval)
  have "perft n (applyMoveFull s m) = perft n (applyMoveFull s' m)" for m
    by (rule Suc.IH) (simp_all add: applyMoveFull_fields Suc.prems)
  then show ?case by (simp add: l)
qed

lemma kingsAt_plain:
  assumes k: "kingsAt b wk bk" and m: "m \<in> set (legalMovesB b c cr ep)" and p: "plain wk bk m"
  shows "kingsAt (applyMoveToBoard b m) (kingTo wk m) (kingTo bk m)"
proof -
  from k have l: "length b = 64" and w: "kingAt b White wk" and bl: "kingAt b Black bk"
    by (simp_all add: kingsAt_def)
  from p have s: "\<not> special m" and pr: "promoteTo m = None"
    and t: "mto m \<noteq> wk" "mto m \<noteq> bk" and ft: "mfrom m \<noteq> mto m"
    by (simp_all add: plain_def)
  have "moveOK b c m"
    using m getAllPseudoMoves_OK[of b c cr ep] by (auto simp: legalMovesB_def list_all_iff)
  then have f: "0 \<le> mfrom m" "mfrom m < int (length b)"
    and tt: "0 \<le> mto m" "mto m < int (length b)"
    using l by (simp_all add: moveOK_def inBoard_def)
  have a: "applyMoveToBoard b m = put (put b (mto m) (cell b (mfrom m))) (mfrom m) None"
    using apply_plain[OF s] pr by simp
  have "kingAt (applyMoveToBoard b m) White (kingTo wk m)"
    unfolding a kingTo_def
    by (rule kingAt_move[OF w f tt ft t(1)]) (use w in \<open>simp_all add: kingAt_def\<close>)
  moreover have "kingAt (applyMoveToBoard b m) Black (kingTo bk m)"
    unfolding a kingTo_def
    by (rule kingAt_move[OF bl f tt ft t(2)]) (use bl in \<open>simp_all add: kingAt_def\<close>)
  moreover have "length (applyMoveToBoard b m) = 64"
    unfolding a using l f tt by (simp add: length_put)
  ultimately show ?thesis by (simp add: kingsAt_def)
qed

lemma ownKing_at: "kingsAt b wk bk \<Longrightarrow> kingAt b c (ownKing c wk bk)"
  by (cases c) (simp_all add: kingsAt_def)

lemma perft_fast:
  "kingsAt (board s) wk bk \<Longrightarrow>
   perft n s = perftF n (board s) (turn s) (castlingRights s) (enPassantTarget s) wk bk"
proof (induction n arbitrary: s wk bk)
  case 0
  then show ?case by simp
next
  case (Suc n)
  let ?b = "board s" and ?c = "turn s" and ?cr = "castlingRights s"
  let ?ep = "enPassantTarget s"
  have l: "length ?b = 64" using Suc.prems by (simp add: kingsAt_def)
  have lg: "getAllLegalMoves s = legalF ?b ?c ?cr ?ep (ownKing ?c wk bk)"
    unfolding getAllLegalMoves_eval
    by (rule legalF_legal[OF l ownKing_at[OF Suc.prems], symmetric])
  have "perft n (applyMoveFull s m)
        = (if plain wk bk m
           then perftF n (applyMoveToBoard ?b m) (opp (color (cell ?b (mfrom m))))
                  (updateRights (cell ?b (mfrom m)) (mfrom m) ?cr)
                  (newEnPassant (cell ?b (mfrom m)) m) (kingTo wk m) (kingTo bk m)
           else perft n (applyMoveFull (position ?b ?c ?cr ?ep 0 1) m))"
    if m: "m \<in> set (getAllLegalMoves s)" for m
  proof (cases "plain wk bk m")
    case True
    have "kingsAt (board (applyMoveFull s m)) (kingTo wk m) (kingTo bk m)"
      unfolding applyMoveFull_fields
      by (rule kingsAt_plain[OF Suc.prems _ True, of ?c ?cr ?ep])
         (use m in \<open>simp add: getAllLegalMoves_eval\<close>)
    from Suc.IH[OF this] True show ?thesis by (simp add: applyMoveFull_fields)
  next
    case False
    have "perft n (applyMoveFull s m) = perft n (applyMoveFull (position ?b ?c ?cr ?ep 0 1) m)"
      by (rule perft_core) (simp_all add: applyMoveFull_fields position_fields)
    then show ?thesis using False by simp
  qed
  then have "map (\<lambda>m. perft n (applyMoveFull s m)) (getAllLegalMoves s)
        = map (\<lambda>m. if plain wk bk m
           then perftF n (applyMoveToBoard ?b m) (opp (color (cell ?b (mfrom m))))
                  (updateRights (cell ?b (mfrom m)) (mfrom m) ?cr)
                  (newEnPassant (cell ?b (mfrom m)) m) (kingTo wk m) (kingTo bk m)
           else perft n (applyMoveFull (position ?b ?c ?cr ?ep 0 1) m))
            (getAllLegalMoves s)"
    by (intro map_cong refl)
  then show ?case
    unfolding perft.simps perftF.simps lg[symmetric] by (rule arg_cong[where f = sum_list])
qed

section \<open>Counting from the start position\<close>

lemma kingAt_cells:
  assumes "length b = 64"
  shows "kingAt b c k
         = (list_all (\<lambda>i. (cell b i = Some (c, King)) = (i = k)) [0 .. 63] \<and> 0 \<le> k \<and> k < 64)"
proof -
  have out: "cell b i = None" if "i < 0 \<or> 64 \<le> i" for i
    using that assms by (auto simp: cell_def)
  show ?thesis
  proof
    assume a: "kingAt b c k"
    then have "cell b k = Some (c, King)" by (simp add: kingAt_def)
    with out[of k] have "0 \<le> k \<and> k < 64" by (cases "k < 0 \<or> 64 \<le> k") auto
    with a show "list_all (\<lambda>i. (cell b i = Some (c, King)) = (i = k)) [0 .. 63] \<and> 0 \<le> k \<and> k < 64"
      by (simp add: kingAt_def list_all_iff)
  next
    assume a: "list_all (\<lambda>i. (cell b i = Some (c, King)) = (i = k)) [0 .. 63] \<and> 0 \<le> k \<and> k < 64"
    show "kingAt b c k"
      unfolding kingAt_def
    proof
      fix i
      show "(cell b i = Some (c, King)) = (i = k)"
      proof (cases "i < 0 \<or> 64 \<le> i")
        case True
        then show ?thesis using out[of i] a by auto
      next
        case False
        then have "i \<in> set [0 .. 63]" by simp
        with a show ?thesis by (simp add: list_all_iff)
      qed
    qed
  qed
qed

lemma start_kings: "kingsAt startBoard 60 4"
  unfolding kingsAt_def kingAt_cells[OF startBoard_length]
  by (simp add: startBoard_length) (simp add: startBoard_lit board_eval)

lemma perft_start: "perft n reset = perftF n startBoard White allRights None 60 4"
  using perft_fast[of reset 60 4 n] start_kings by (simp add: reset_fields)

text \<open>
  The rewrite rules of the evaluation, and the counts below each of the twenty first
  moves.
\<close>

lemmas num_eq = numeral_eq_iff num.inject num.distinct zero_neq_numeral numeral_neq_zero
  one_eq_numeral_iff numeral_eq_one_iff zero_neq_one one_neq_zero

lemmas att_lits = isAttacked_lit_0 isAttacked_lit_1 isAttacked_lit_2 isAttacked_lit_3
  isAttacked_lit_4 isAttacked_lit_5 isAttacked_lit_6 isAttacked_lit_7 isAttacked_lit_8
  isAttacked_lit_9 isAttacked_lit_10 isAttacked_lit_11 isAttacked_lit_12 isAttacked_lit_13
  isAttacked_lit_14 isAttacked_lit_15 isAttacked_lit_16 isAttacked_lit_17 isAttacked_lit_18
  isAttacked_lit_19 isAttacked_lit_20 isAttacked_lit_21 isAttacked_lit_22 isAttacked_lit_23
  isAttacked_lit_24 isAttacked_lit_25 isAttacked_lit_26 isAttacked_lit_27 isAttacked_lit_28
  isAttacked_lit_29 isAttacked_lit_30 isAttacked_lit_31 isAttacked_lit_32 isAttacked_lit_33
  isAttacked_lit_34 isAttacked_lit_35 isAttacked_lit_36 isAttacked_lit_37 isAttacked_lit_38
  isAttacked_lit_39 isAttacked_lit_40 isAttacked_lit_41 isAttacked_lit_42 isAttacked_lit_43
  isAttacked_lit_44 isAttacked_lit_45 isAttacked_lit_46 isAttacked_lit_47 isAttacked_lit_48
  isAttacked_lit_49 isAttacked_lit_50 isAttacked_lit_51 isAttacked_lit_52 isAttacked_lit_53
  isAttacked_lit_54 isAttacked_lit_55 isAttacked_lit_56 isAttacked_lit_57 isAttacked_lit_58
  isAttacked_lit_59 isAttacked_lit_60 isAttacked_lit_61 isAttacked_lit_62 isAttacked_lit_63

lemmas fast_eval = stepC.simps stepsL.simps slide_eval slideL.simps(1) raysL.simps dblC.simps
  pawnDbl.simps pawnFwd.simps capC.simps epC.simps pawnCaps.simps pawnE_def hit_eval
  hitL.simps(1) pin_eval pinScan.simps(1) pinsL.simps pins_def isFree.simps pseudoK.simps
  freeK.simps ownMoves.simps sqMoves.simps goSq.simps legalF2_def legalF_def pieceOK_mk
  kingOK_mk epOK_mk oppc_eval
  knightT_tab kingT_tab raysT_diagDirs raysT_straightDirs raysT_allDirs pawnMoves_White
  pawnMoves_Black
  cell_lit put_lit upto_0_63 att_lits attackedL_def firstHit.simps list_ex_Nil_iff list_ex_Cons_iff
  kingCastling_def getCastlingMoves_def allRights_def castling.simps
  if_True if_False simp_thms append.simps filter.simps
  option.inject option.distinct prod.inject color.distinct kind.distinct mtype.distinct num_eq

lemmas perft_eval = fast_eval perftF.simps(1) perftF_sum perftF_one sumF.simps childF_mk child2.simps
  ownKing.simps count.simps rights_eval arith_simps rel_simps
  numeral_plus_one one_add_one add_0 add_0_right one_plus_numeral

lemma start_moves:
  "legalF startBoard White allRights None 60 =
     [mk 48 40 normal, mk 48 32 doublePush, mk 49 41 normal, mk 49 33 doublePush, mk 50 42
       normal, mk 50 34 doublePush, mk 51 43 normal, mk 51 35 doublePush, mk 52 44 normal, mk
       52 36 doublePush, mk 53 45 normal, mk 53 37 doublePush, mk 54 46 normal, mk 54 38
       doublePush, mk 55 47 normal, mk 55 39 doublePush, mk 57 40 normal, mk 57 42 normal, mk
       62 45 normal, mk 62 47 normal]"
  by (simp only: startBoard_lit fast_eval cong: if_weak_cong)

lemma perft_after_48_40:
  "childF (Suc (Suc (Suc 0))) startBoard White allRights None 60 4 (mk 48 40 normal) = 8457"
  by (simp only: startBoard_lit perft_eval cong: if_weak_cong)

lemma perft_after_48_32:
  "childF (Suc (Suc (Suc 0))) startBoard White allRights None 60 4 (mk 48 32 doublePush) = 9329"
  by (simp only: startBoard_lit perft_eval cong: if_weak_cong)

lemma perft_after_49_41:
  "childF (Suc (Suc (Suc 0))) startBoard White allRights None 60 4 (mk 49 41 normal) = 9345"
  by (simp only: startBoard_lit perft_eval cong: if_weak_cong)

lemma perft_after_49_33:
  "childF (Suc (Suc (Suc 0))) startBoard White allRights None 60 4 (mk 49 33 doublePush) = 9332"
  by (simp only: startBoard_lit perft_eval cong: if_weak_cong)

lemma perft_after_50_42:
  "childF (Suc (Suc (Suc 0))) startBoard White allRights None 60 4 (mk 50 42 normal) = 9272"
  by (simp only: startBoard_lit perft_eval cong: if_weak_cong)

lemma perft_after_50_34:
  "childF (Suc (Suc (Suc 0))) startBoard White allRights None 60 4 (mk 50 34 doublePush) = 9744"
  by (simp only: startBoard_lit perft_eval cong: if_weak_cong)

lemma perft_after_51_43:
  "childF (Suc (Suc (Suc 0))) startBoard White allRights None 60 4 (mk 51 43 normal) = 11959"
  by (simp only: startBoard_lit perft_eval cong: if_weak_cong)

lemma perft_after_51_35:
  "childF (Suc (Suc (Suc 0))) startBoard White allRights None 60 4 (mk 51 35 doublePush) = 12435"
  by (simp only: startBoard_lit perft_eval cong: if_weak_cong)

lemma perft_after_52_44:
  "childF (Suc (Suc (Suc 0))) startBoard White allRights None 60 4 (mk 52 44 normal) = 13134"
  by (simp only: startBoard_lit perft_eval cong: if_weak_cong)

lemma perft_after_52_36:
  "childF (Suc (Suc (Suc 0))) startBoard White allRights None 60 4 (mk 52 36 doublePush) = 13160"
  by (simp only: startBoard_lit perft_eval cong: if_weak_cong)

lemma perft_after_53_45:
  "childF (Suc (Suc (Suc 0))) startBoard White allRights None 60 4 (mk 53 45 normal) = 8457"
  by (simp only: startBoard_lit perft_eval cong: if_weak_cong)

lemma perft_after_53_37:
  "childF (Suc (Suc (Suc 0))) startBoard White allRights None 60 4 (mk 53 37 doublePush) = 8929"
  by (simp only: startBoard_lit perft_eval cong: if_weak_cong)

lemma perft_after_54_46:
  "childF (Suc (Suc (Suc 0))) startBoard White allRights None 60 4 (mk 54 46 normal) = 9345"
  by (simp only: startBoard_lit perft_eval cong: if_weak_cong)

lemma perft_after_54_38:
  "childF (Suc (Suc (Suc 0))) startBoard White allRights None 60 4 (mk 54 38 doublePush) = 9328"
  by (simp only: startBoard_lit perft_eval cong: if_weak_cong)

lemma perft_after_55_47:
  "childF (Suc (Suc (Suc 0))) startBoard White allRights None 60 4 (mk 55 47 normal) = 8457"
  by (simp only: startBoard_lit perft_eval cong: if_weak_cong)

lemma perft_after_55_39:
  "childF (Suc (Suc (Suc 0))) startBoard White allRights None 60 4 (mk 55 39 doublePush) = 9329"
  by (simp only: startBoard_lit perft_eval cong: if_weak_cong)

lemma perft_after_57_40:
  "childF (Suc (Suc (Suc 0))) startBoard White allRights None 60 4 (mk 57 40 normal) = 8885"
  by (simp only: startBoard_lit perft_eval cong: if_weak_cong)

lemma perft_after_57_42:
  "childF (Suc (Suc (Suc 0))) startBoard White allRights None 60 4 (mk 57 42 normal) = 9755"
  by (simp only: startBoard_lit perft_eval cong: if_weak_cong)

lemma perft_after_62_45:
  "childF (Suc (Suc (Suc 0))) startBoard White allRights None 60 4 (mk 62 45 normal) = 9748"
  by (simp only: startBoard_lit perft_eval cong: if_weak_cong)

lemma perft_after_62_47:
  "childF (Suc (Suc (Suc 0))) startBoard White allRights None 60 4 (mk 62 47 normal) = 8881"
  by (simp only: startBoard_lit perft_eval cong: if_weak_cong)

lemmas perft_after = perft_after_48_40 perft_after_48_32 perft_after_49_41 perft_after_49_33 perft_after_50_42
      perft_after_50_34 perft_after_51_43 perft_after_51_35 perft_after_52_44 perft_after_52_36
      perft_after_53_45 perft_after_53_37 perft_after_54_46 perft_after_54_38 perft_after_55_47
      perft_after_55_39 perft_after_57_40 perft_after_57_42 perft_after_62_45 perft_after_62_47

lemma perftF_start:
  "perftF (Suc 0) startBoard White allRights None 60 4 = 20"
  "perftF (Suc (Suc 0)) startBoard White allRights None 60 4 = 400"
  "perftF (Suc (Suc (Suc 0))) startBoard White allRights None 60 4 = 8902"
  by (simp_all only: startBoard_lit perft_eval cong: if_weak_cong)

lemma perftF_start4:
  "perftF (Suc (Suc (Suc (Suc 0)))) startBoard White allRights None 60 4 = 197281"
  by (simp only: perftF_sum ownKing.simps start_moves sumF.simps perft_after arith_simps
      add_0 add_0_right)

text \<open>
  Claim C1. From the start position, the sequences of legal moves of length 1, 2, 3 and 4,
  each move taken from \<open>getAllLegalMoves\<close> and applied with \<open>applyMoveFull\<close>, number 20,
  400, 8902 and 197281.
\<close>

theorem perft_start_position:
  "perft 1 reset = 20 \<and> perft 2 reset = 400 \<and> perft 3 reset = 8902 \<and> perft 4 reset = 197281"
proof -
  have n: "(1 :: nat) = Suc 0" "(2 :: nat) = Suc (Suc 0)" "(3 :: nat) = Suc (Suc (Suc 0))"
    "(4 :: nat) = Suc (Suc (Suc (Suc 0)))"
    by simp_all
  show ?thesis
    unfolding n perft_start perftF_start perftF_start4 by simp
qed

end
